(* ===== verification/Prelude.thy ===== *)
theory Prelude
  imports Main "HOL-Library.Word" "HOL-Library.Sublist" "HOL-Library.List_Lexorder"
    "HOL-Library.Char_ord" "HOL-Library.Product_Lexorder" "HOL-Library.Multiset"
begin

text \<open>
  Shared vocabulary of the development: Go errors as values, the early-return and the
  duplicate-detecting loop that the validators of the client API are made of, slices whose
  nil-ness is observable, instants and durations. The collection \<open>accepts\<close> gathers, for
  every validator, the equation that says exactly when it returns nil.
\<close>

named_theorems accepts "when a validator returns nil"

section \<open>Errors\<close>

text \<open>
  An \<open>error\<close> value of the Go code. \<open>Errorf m\<close> stands for \<open>errors.New\<close> or
  \<open>fmt.Errorf\<close> with the message \<open>m\<close> as it is written in the source (verbs such as
  \<open>%d\<close> are left in the text, since no code reads the arguments back);
  \<open>Wrap m e\<close> is \<open>fmt.Errorf\<close> with the verb \<open>%w\<close>. The remaining constructors
  are the sentinel values and typed errors that callers tell apart.
\<close>

datatype error =
    Errorf string
  | Wrap string error
  | EOF
  | ErrLineTooLarge
  | ErrMapStreamNoEvent
  | ErrMapStreamResyncRequired
  | ErrMapStreamEventAlreadyApplied
  | ControlPlaneStatusError string string int string string

fun errors_Is :: "error \<Rightarrow> error \<Rightarrow> bool" where
  "errors_Is (Wrap m e) t = (Wrap m e = t \<or> errors_Is e t)"
| "errors_Is e t = (e = t)"

text \<open>A Go function that returns only an \<open>error\<close> returns an \<open>err\<close>; \<open>None\<close> is nil.\<close>

type_synonym err = "error option"

text \<open>A Go function that returns \<open>(T, error)\<close> returns \<open>'a result\<close>.\<close>

type_synonym 'a result = "error + 'a"

text \<open>\<open>if c { return errors.New(m) }\<close>.\<close>

definition guard :: "bool \<Rightarrow> string \<Rightarrow> err" where
  "guard c m = (if c then Some (Errorf m) else None)"

text \<open>\<open>if err := f(); err != nil { return fmt.Errorf("m: %w", err) }\<close>.\<close>

definition wrap :: "string \<Rightarrow> err \<Rightarrow> err" where
  "wrap m e = map_option (Wrap m) e"

text \<open>A sequence of early-return checks: the first error is the result.\<close>

fun first_err :: "err list \<Rightarrow> err" where
  "first_err [] = None"
| "first_err (c # cs) = (case c of Some e \<Rightarrow> Some e | None \<Rightarrow> first_err cs)"

text \<open>\<open>for _, x := range xs { if err := f(x); err != nil { return err } }\<close>.\<close>

definition range_err :: "('a \<Rightarrow> err) \<Rightarrow> 'a list \<Rightarrow> err" where
  "range_err f xs = first_err (map f xs)"

text \<open>
  The loop with a \<open>seen\<close> map: check \<open>pre\<close>, reject a key met before, record the key,
  check \<open>post\<close>.
\<close>

fun range_seen :: "('a \<Rightarrow> 'k) \<Rightarrow> ('a \<Rightarrow> err) \<Rightarrow> string \<Rightarrow> ('a \<Rightarrow> err) \<Rightarrow> 'k list \<Rightarrow> 'a list \<Rightarrow> err" where
  "range_seen key pre dup post seen [] = None"
| "range_seen key pre dup post seen (x # xs) =
     first_err [pre x, guard (key x \<in> set seen) dup, post x,
                range_seen key pre dup post (key x # seen) xs]"

text \<open>\<open>v, err := f(); if err != nil { return err }\<close> for a validator that goes on with \<open>v\<close>.\<close>

definition after :: "'a result \<Rightarrow> ('a \<Rightarrow> err) \<Rightarrow> err" where
  "after r k = (case r of Inl e \<Rightarrow> Some e | Inr v \<Rightarrow> k v)"

definition ok :: "'a result \<Rightarrow> bool" where
  "ok r = (case r of Inl _ \<Rightarrow> False | Inr _ \<Rightarrow> True)"

text \<open>\<open>if err := c; err != nil { return T{}, err }; return f()\<close> for a function with a result.\<close>

definition require :: "err \<Rightarrow> 'a result \<Rightarrow> 'a result" where
  "require c r = (case c of Some e \<Rightarrow> Inl e | None \<Rightarrow> r)"

lemma guard_None [accepts, simp]: "guard c m = None \<longleftrightarrow> \<not> c"
  by (simp add: guard_def)

lemma wrap_None [accepts, simp]: "wrap m e = None \<longleftrightarrow> e = None"
  by (simp add: wrap_def)

lemma first_err_None [accepts, simp]: "first_err cs = None \<longleftrightarrow> (\<forall>c \<in> set cs. c = None)"
  by (induction cs) (auto split: option.splits)

declare first_err.simps [simp del]

lemma range_err_None [accepts, simp]: "range_err f xs = None \<longleftrightarrow> (\<forall>x \<in> set xs. f x = None)"
  by (simp add: range_err_def)

lemma after_None [accepts, simp]: "after r k = None \<longleftrightarrow> (\<exists>v. r = Inr v \<and> k v = None)"
  by (auto simp: after_def split: sum.splits)

lemma require_Inr [simp]: "require c r = Inr v \<longleftrightarrow> c = None \<and> r = Inr v"
  by (auto simp: require_def split: option.splits)

lemma require_None [simp]: "require None r = r"
  by (simp add: require_def)

lemma require_Some [simp]: "require (Some e) r = Inl e"
  by (simp add: require_def)

lemma ok_Inr [simp]: "ok (Inr v)" and ok_Inl [simp]: "\<not> ok (Inl e)"
  by (simp_all add: ok_def)

lemma ok_iff: "ok r \<longleftrightarrow> (\<exists>v. r = Inr v)"
  by (cases r) auto

text \<open>
  The verdict of a sequence of checks does not depend on their order. The source ranges over
  Go maps in several validators, in an order the language leaves open; the model takes the
  order of the map literal, and by this lemma another order accepts the same values.
\<close>

lemma first_err_order: "mset cs = mset ds \<Longrightarrow> first_err cs = None \<longleftrightarrow> first_err ds = None"
  by (metis first_err_None set_mset_mset)

lemma range_seen_None [accepts, simp]:
  "range_seen key pre dup post seen xs = None \<longleftrightarrow>
     (\<forall>x \<in> set xs. pre x = None \<and> post x = None) \<and> distinct (map key xs) \<and>
     key ` set xs \<inter> set seen = {}"
  by (induction xs arbitrary: seen) auto

lemma errors_Is_refl [simp]: "errors_Is e e"
  by (cases e) auto

lemma errors_Is_Wrap [simp]: "errors_Is e t \<Longrightarrow> errors_Is (Wrap m e) t"
  by simp

section \<open>Slices\<close>

text \<open>
  A slice field whose nil-ness can be observed (its JSON tag has no \<open>omitempty\<close>, so nil is
  written \<open>null\<close> and an empty slice \<open>[]\<close>, or it is compared by
  \<open>reflect.DeepEqual\<close>) is an \<open>'a slice\<close>: \<open>None\<close> is nil. Every other slice field is a
  plain list, because \<open>len\<close>, \<open>range\<close> and \<open>omitempty\<close> cannot tell nil from empty.
\<close>

type_synonym 'a slice = "'a list option"

definition elems :: "'a slice \<Rightarrow> 'a list" where
  "elems s = (case s of None \<Rightarrow> [] | Some xs \<Rightarrow> xs)"

text \<open>\<open>append([]T(nil), xs...)\<close> is nil when there is nothing to append.\<close>

definition append_to_nil :: "'a slice \<Rightarrow> 'a slice" where
  "append_to_nil s = (if elems s = [] then None else Some (elems s))"

lemma elems_simps [simp]: "elems None = []" "elems (Some xs) = xs"
  by (simp_all add: elems_def)

lemma elems_append_to_nil [simp]: "elems (append_to_nil s) = elems s"
  by (simp add: append_to_nil_def)

lemma append_to_nil_idem [simp]: "append_to_nil (append_to_nil s) = append_to_nil s"
  by (auto simp: append_to_nil_def)

lemma append_to_nil_id [simp]: "append_to_nil s = s \<longleftrightarrow> s \<noteq> Some []"
  by (cases s) (auto simp: append_to_nil_def)

text \<open>Go's \<open>len\<close>; as an integer it is compared with large bounds quickly.\<close>

definition len :: "'a list \<Rightarrow> int" where
  "len xs = int (length xs)"

lemma len_code [code]: "len [] = 0" "len (x # xs) = len xs + 1"
  by (simp_all add: len_def)

section \<open>Instants and durations\<close>

text \<open>
  \<open>time.Time\<close> is an instant, in nanoseconds since the zero time (year 1, UTC), and the zone
  offset in seconds it is printed with. Comparisons read the instant only.
\<close>

record gotime =
  t_ns :: int
  t_offset :: int

type_synonym duration = int

definition second :: duration where "second = 1000000000"
definition minute :: duration where "minute = 60 * second"
definition hour :: duration where "hour = 60 * minute"

definition IsZero :: "gotime \<Rightarrow> bool" where "IsZero t \<longleftrightarrow> t_ns t = 0"
definition Before :: "gotime \<Rightarrow> gotime \<Rightarrow> bool" where "Before t u \<longleftrightarrow> t_ns t < t_ns u"
definition After :: "gotime \<Rightarrow> gotime \<Rightarrow> bool" where "After t u \<longleftrightarrow> t_ns u < t_ns t"
definition UTC :: "gotime \<Rightarrow> gotime" where "UTC t = t\<lparr>t_offset := 0\<rparr>"
definition Add :: "gotime \<Rightarrow> duration \<Rightarrow> gotime" where "Add t d = t\<lparr>t_ns := t_ns t + d\<rparr>"

text \<open>\<open>Sub\<close> saturates at the ends of the 64-bit duration.\<close>

definition Sub :: "gotime \<Rightarrow> gotime \<Rightarrow> duration" where
  "Sub t u = max (- 0x8000000000000000) (min 0x7FFFFFFFFFFFFFFF (t_ns t - t_ns u))"

text \<open>\<open>Truncate\<close> rounds down to a multiple of \<open>d\<close> since the zero time.\<close>

definition Truncate :: "gotime \<Rightarrow> duration \<Rightarrow> gotime" where
  "Truncate t d = (if d \<le> 0 then t else t\<lparr>t_ns := t_ns t - t_ns t mod d\<rparr>)"

lemmas duration_defs = second_def minute_def hour_def
lemmas time_defs = IsZero_def Before_def After_def UTC_def Add_def Truncate_def

lemma t_ns_UTC [simp]: "t_ns (UTC t) = t_ns t"
  by (simp add: UTC_def)

lemma UTC_idem [simp]: "UTC (UTC t) = UTC t"
  by (simp add: UTC_def)

lemma t_ns_Add [simp]: "t_ns (Add t d) = t_ns t + d"
  by (simp add: Add_def)

section \<open>Lists\<close>

text \<open>Two lists with the same elements and distinct keys sort to the same list.\<close>

lemma sort_key_mset_eq:
  assumes "mset xs = mset ys" and "inj_on f (set xs)"
  shows "sort_key f xs = sort_key f ys"
  using assms by (intro sort_key_inj_key_eq) simp_all

end
