(* ===== verification/Go_Text.thy ===== *)
theory Go_Text
  imports Prelude
begin

text \<open>
  The parts of Go's \<open>unicode/utf8\<close>, \<open>unicode\<close> and \<open>strings\<close> packages the client API
  calls. A Go string is a byte sequence, so it is a \<open>string\<close> (a list of 8-bit characters)
  and \<open>length\<close> is \<open>len\<close>. Runes are integers.
\<close>

section \<open>UTF-8\<close>

definition RuneError :: int where "RuneError = 0xFFFD"

definition cont_byte :: "int \<Rightarrow> bool" where "cont_byte b \<longleftrightarrow> 0x80 \<le> b \<and> b \<le> 0xBF"

text \<open>
  \<open>utf8.DecodeRune\<close>: the first rune and its width; \<open>(RuneError, 1)\<close> on an invalid
  encoding. The bounds of the second byte exclude overlong forms, surrogates and values beyond
  U+10FFFF.
\<close>

fun decode_rune :: "int list \<Rightarrow> int \<times> nat" where
  "decode_rune [] = (RuneError, 0)"
| "decode_rune (b0 # bs) =
     (if b0 < 0x80 then (b0, 1)
      else if 0xC2 \<le> b0 \<and> b0 \<le> 0xDF then
        (case bs of
           b1 # _ \<Rightarrow> if cont_byte b1 then ((b0 - 0xC0) * 64 + (b1 - 0x80), 2) else (RuneError, 1)
         | _ \<Rightarrow> (RuneError, 1))
      else if 0xE0 \<le> b0 \<and> b0 \<le> 0xEF then
        (case bs of
           b1 # b2 # _ \<Rightarrow>
             if cont_byte b1 \<and> (b0 = 0xE0 \<longrightarrow> 0xA0 \<le> b1) \<and> (b0 = 0xED \<longrightarrow> b1 \<le> 0x9F) \<and> cont_byte b2
             then ((b0 - 0xE0) * 4096 + (b1 - 0x80) * 64 + (b2 - 0x80), 3) else (RuneError, 1)
         | _ \<Rightarrow> (RuneError, 1))
      else if 0xF0 \<le> b0 \<and> b0 \<le> 0xF4 then
        (case bs of
           b1 # b2 # b3 # _ \<Rightarrow>
             if cont_byte b1 \<and> (b0 = 0xF0 \<longrightarrow> 0x90 \<le> b1) \<and> (b0 = 0xF4 \<longrightarrow> b1 \<le> 0x8F) \<and>
                cont_byte b2 \<and> cont_byte b3
             then ((b0 - 0xF0) * 262144 + (b1 - 0x80) * 4096 + (b2 - 0x80) * 64 + (b3 - 0x80), 4)
             else (RuneError, 1)
         | _ \<Rightarrow> (RuneError, 1))
      else (RuneError, 1))"

text \<open>What \<open>for _, r := range s\<close> visits, each rune with its width.\<close>

function runes_of :: "int list \<Rightarrow> (int \<times> nat) list" where
  "runes_of [] = []"
| "runes_of (b # bs) =
     decode_rune (b # bs) # runes_of (drop (snd (decode_rune (b # bs)) - 1) bs)"
  by pat_completeness auto
termination
  by (relation "measure length") auto

definition bytes :: "string \<Rightarrow> nat list" where
  "bytes s = map of_char s"

definition runes :: "string \<Rightarrow> int list" where
  "runes s = map fst (runes_of (map of_char s))"

definition ValidString :: "string \<Rightarrow> bool" where
  "ValidString s = list_all (\<lambda>rn. rn \<noteq> (RuneError, 1)) (runes_of (map of_char s))"

text \<open>\<open>unicode.IsControl\<close>: the category Cc.\<close>

definition IsControl :: "int \<Rightarrow> bool" where
  "IsControl r \<longleftrightarrow> (0 \<le> r \<and> r < 0x20) \<or> (0x7F \<le> r \<and> r < 0xA0)"

section \<open>Strings\<close>

text \<open>The UTF-8 encodings of the runes of \<open>unicode.IsSpace\<close>.\<close>

definition space_encodings :: "string list" where
  "space_encodings =
     [[CHR 0x20], [CHR 0x09], [CHR 0x0A], [CHR 0x0B], [CHR 0x0C], [CHR 0x0D],
      [CHR 0xC2, CHR 0x85], [CHR 0xC2, CHR 0xA0], [CHR 0xE1, CHR 0x9A, CHR 0x80],
      [CHR 0xE2, CHR 0x80, CHR 0x80], [CHR 0xE2, CHR 0x80, CHR 0x81], [CHR 0xE2, CHR 0x80, CHR 0x82],
      [CHR 0xE2, CHR 0x80, CHR 0x83], [CHR 0xE2, CHR 0x80, CHR 0x84], [CHR 0xE2, CHR 0x80, CHR 0x85],
      [CHR 0xE2, CHR 0x80, CHR 0x86], [CHR 0xE2, CHR 0x80, CHR 0x87], [CHR 0xE2, CHR 0x80, CHR 0x88],
      [CHR 0xE2, CHR 0x80, CHR 0x89], [CHR 0xE2, CHR 0x80, CHR 0x8A], [CHR 0xE2, CHR 0x80, CHR 0xA8],
      [CHR 0xE2, CHR 0x80, CHR 0xA9], [CHR 0xE2, CHR 0x80, CHR 0xAF], [CHR 0xE2, CHR 0x81, CHR 0x9F],
      [CHR 0xE3, CHR 0x80, CHR 0x80]]"

text \<open>Drop leading occurrences of the given nonempty strings.\<close>

function strip :: "string list \<Rightarrow> string \<Rightarrow> string" where
  "strip es s =
     (case find (\<lambda>e. e \<noteq> [] \<and> prefix e s) es of
        None \<Rightarrow> s
      | Some e \<Rightarrow> strip es (drop (length e) s))"
  by pat_completeness auto
termination
  by (relation "measure (\<lambda>(es, s). length s)")
    (auto simp: find_Some_iff, metis diff_less length_greater_0_conv nth_mem prefix_bot.extremum_uniqueI)

declare strip.simps [simp del]

definition TrimSpace :: "string \<Rightarrow> string" where
  "TrimSpace s = rev (strip (map rev space_encodings) (rev (strip space_encodings s)))"

definition HasPrefix :: "string \<Rightarrow> string \<Rightarrow> bool" where
  "HasPrefix s p = prefix p s"

definition TrimPrefix :: "string \<Rightarrow> string \<Rightarrow> string" where
  "TrimPrefix s p = (if prefix p s then drop (length p) s else s)"

definition TrimSuffix :: "string \<Rightarrow> string \<Rightarrow> string" where
  "TrimSuffix s p = (if suffix p s then take (length s - length p) s else s)"

text \<open>\<open>strings.TrimRight(s, "c")\<close> for one character.\<close>

definition TrimRight :: "string \<Rightarrow> char \<Rightarrow> string" where
  "TrimRight s c = rev (dropWhile (\<lambda>x. x = c) (rev s))"

text \<open>\<open>strings.Split\<close> with a one-character separator: always at least one field.\<close>

fun Split :: "string \<Rightarrow> char \<Rightarrow> string list" where
  "Split [] c = [[]]"
| "Split (x # xs) c =
     (if x = c then [] # Split xs c
      else (case Split xs c of [] \<Rightarrow> [[x]] | f # fs \<Rightarrow> (x # f) # fs))"

fun Join :: "string list \<Rightarrow> string \<Rightarrow> string" where
  "Join [] sep = []"
| "Join [x] sep = x"
| "Join (x # y # ys) sep = x @ sep @ Join (y # ys) sep"

text \<open>\<open>strings.Cut\<close> at the first occurrence of one character.\<close>

definition Cut :: "string \<Rightarrow> char \<Rightarrow> string \<times> string" where
  "Cut s c = (takeWhile (\<lambda>x. x \<noteq> c) s, tl (dropWhile (\<lambda>x. x \<noteq> c) s))"

text \<open>The text before and after the last occurrence of one character, if there is one.\<close>

definition cut_last :: "string \<Rightarrow> char \<Rightarrow> (string \<times> string) option" where
  "cut_last s c =
     (if c \<in> set s
      then Some (rev (tl (dropWhile (\<lambda>x. x \<noteq> c) (rev s))), rev (takeWhile (\<lambda>x. x \<noteq> c) (rev s)))
      else None)"

definition is_lower :: "char \<Rightarrow> bool" where "is_lower c \<longleftrightarrow> CHR ''a'' \<le> c \<and> c \<le> CHR ''z''"
definition is_upper :: "char \<Rightarrow> bool" where "is_upper c \<longleftrightarrow> CHR ''A'' \<le> c \<and> c \<le> CHR ''Z''"
definition is_digit :: "char \<Rightarrow> bool" where "is_digit c \<longleftrightarrow> CHR ''0'' \<le> c \<and> c \<le> CHR ''9''"
definition is_alnum :: "char \<Rightarrow> bool" where "is_alnum c \<longleftrightarrow> is_lower c \<or> is_upper c \<or> is_digit c"

text \<open>
  \<open>strings.ToLower\<close> on the bytes of A-Z; other bytes are kept. Its callers lower text that is
  ASCII already or compare the result with ASCII text no other rune lowers to.
\<close>

definition lower_char :: "char \<Rightarrow> char" where
  "lower_char c = (if is_upper c then char_of ((of_char c :: nat) + 32) else c)"

definition ToLower :: "string \<Rightarrow> string" where
  "ToLower s = map lower_char s"

section \<open>Lemmas\<close>

lemma of_char_nonneg [simp]: "0 \<le> (of_char c :: int)"
  by (metis of_nat_0_le_iff of_nat_of_char)

lemma decode_rune_skips:
  assumes "x \<in> set (take (snd (decode_rune (b # bs)) - 1) bs)"
  shows "cont_byte x"
  using assms by (auto split: if_splits list.splits simp: take_Cons')

text \<open>Every ASCII byte of a string is a rune the range loop visits.\<close>

lemma ascii_in_runes_of: "x \<in> set bs \<Longrightarrow> x < 0x80 \<Longrightarrow> x \<in> fst ` set (runes_of bs)"
proof (induction bs rule: runes_of.induct)
  case (2 b bs)
  let ?n = "snd (decode_rune (b # bs)) - 1"
  consider "x = b" | "x \<in> set (take ?n bs)" | "x \<in> set (drop ?n bs)"
    using "2.prems"(1) by (metis Un_iff append_take_drop_id set_ConsD set_append)
  then show ?case
  proof cases
    case 2
    then have "cont_byte x" by (rule decode_rune_skips)
    with "2.prems"(2) show ?thesis by (simp add: cont_byte_def)
  qed (use 2 in \<open>auto simp del: decode_rune.simps simp: decode_rune.simps(2) [of b bs]\<close>)
qed simp

lemma ascii_in_runes: "c \<in> set s \<Longrightarrow> of_char c < (0x80 :: int) \<Longrightarrow> of_char c \<in> set (runes s)"
  unfolding runes_def set_map by (rule ascii_in_runes_of) auto

text \<open>Conversely, a string whose runes are all ASCII has only ASCII bytes.\<close>

lemma decode_rune_ascii: "fst (decode_rune (b # bs)) < 0x80 \<Longrightarrow> b < 0x80"
  by (auto simp: RuneError_def cont_byte_def split: if_splits list.splits)

lemma runes_of_ascii_bytes: "(\<And>r. r \<in> fst ` set (runes_of bs) \<Longrightarrow> r < 0x80) \<Longrightarrow> x \<in> set bs \<Longrightarrow> x < 0x80"
proof (induction bs rule: runes_of.induct)
  case (2 b bs)
  have "fst (decode_rune (b # bs)) \<in> fst ` set (runes_of (b # bs))"
    unfolding runes_of.simps(2) by (intro imageI) (rule list.set_intros(1))
  then have b: "b < 0x80" using "2.prems"(1) decode_rune_ascii by blast
  then have d: "decode_rune (b # bs) = (b, 1)" by simp
  then have r: "runes_of (b # bs) = (b, 1) # runes_of bs" unfolding runes_of.simps(2) d by simp
  show ?case
  proof (cases "x = b")
    case False
    then have "x \<in> set bs" using "2.prems"(2) by simp
    moreover have "q < 0x80" if "q \<in> fst ` set (runes_of bs)" for q
      using "2.prems"(1) [of q] that unfolding r by auto
    moreover have "drop (snd (decode_rune (b # bs)) - 1) bs = bs" unfolding d by simp
    ultimately show ?thesis using "2.IH" by metis
  qed (use b in simp)
qed simp

lemma runes_ascii_chars: "(\<And>r. r \<in> set (runes s) \<Longrightarrow> r < 0x80) \<Longrightarrow> c \<in> set s \<Longrightarrow> (of_char c :: int) < 0x80"
  using runes_of_ascii_bytes [of "map of_char s" "of_char c"] by (simp add: runes_def)

lemma strip_cases:
  "strip es s = s \<and> (\<forall>e \<in> set es. e \<noteq> [] \<longrightarrow> \<not> prefix e s) \<or>
   (\<exists>e \<in> set es. e \<noteq> [] \<and> prefix e s \<and> strip es s = strip es (drop (length e) s))"
proof (cases "find (\<lambda>e. e \<noteq> [] \<and> prefix e s) es")
  case None
  then have "strip es s = s" by (simp add: strip.simps [of es s])
  with None show ?thesis by (auto simp: find_None_iff)
next
  case (Some e)
  then have "e \<in> set es" "e \<noteq> []" "prefix e s"
    by (auto simp: find_Some_iff)
  with Some show ?thesis by (auto simp: strip.simps [of es s])
qed

lemma strip_no_prefix: "e \<in> set es \<Longrightarrow> e \<noteq> [] \<Longrightarrow> \<not> prefix e (strip es s)"
proof (induction "length s" arbitrary: s rule: less_induct)
  case less
  show ?case using strip_cases [of es s]
  proof
    assume "\<exists>e \<in> set es. e \<noteq> [] \<and> prefix e s \<and> strip es s = strip es (drop (length e) s)"
    then obtain f where f: "f \<noteq> []" "prefix f s" "strip es s = strip es (drop (length f) s)" by blast
    then have "length (drop (length f) s) < length s"
      by (auto simp: prefix_def)
    with less f(3) show ?thesis by simp
  qed (use less in auto)
qed

lemma strip_suffix: "suffix (strip es s) s"
proof (induction "length s" arbitrary: s rule: less_induct)
  case less
  show ?case using strip_cases [of es s]
  proof
    assume "\<exists>e \<in> set es. e \<noteq> [] \<and> prefix e s \<and> strip es s = strip es (drop (length e) s)"
    then obtain f where f: "f \<noteq> []" "prefix f s" "strip es s = strip es (drop (length f) s)" by blast
    then have "length (drop (length f) s) < length s"
      by (auto simp: prefix_def)
    with less f(3) have "suffix (strip es s) (drop (length f) s)" by simp
    then show ?thesis using suffix_drop suffix_order.trans by blast
  qed simp
qed

lemma strip_id: "(\<And>e. e \<in> set es \<Longrightarrow> e \<noteq> [] \<Longrightarrow> \<not> prefix e s) \<Longrightarrow> strip es s = s"
  using strip_cases [of es s] by blast

text \<open>Trimmed text is text with no space rune at either end.\<close>

definition trimmed :: "string \<Rightarrow> bool" where
  "trimmed s \<longleftrightarrow> (\<forall>e \<in> set space_encodings. \<not> prefix e s \<and> \<not> suffix e s)"

lemma space_encodings_nonempty: "e \<in> set space_encodings \<Longrightarrow> e \<noteq> []"
  by (auto simp: space_encodings_def)

lemma trimmed_TrimSpace: "trimmed (TrimSpace s)"
  unfolding trimmed_def
proof (intro ballI conjI)
  fix e assume e: "e \<in> set space_encodings"
  let ?t = "strip space_encodings s"
  let ?r = "strip (map rev space_encodings) (rev ?t)"
  have "\<not> prefix (rev e) ?r"
    using e space_encodings_nonempty by (intro strip_no_prefix) auto
  then show "\<not> suffix e (TrimSpace s)"
    by (simp add: TrimSpace_def suffix_to_prefix)
  have "prefix (rev ?r) ?t"
    using strip_suffix [of "map rev space_encodings" "rev ?t"] by (simp add: suffix_to_prefix)
  moreover have "\<not> prefix e ?t"
    using e space_encodings_nonempty by (intro strip_no_prefix)
  ultimately show "\<not> prefix e (TrimSpace s)"
    unfolding TrimSpace_def using prefix_order.trans by blast
qed

lemma TrimSpace_trimmed: "trimmed s \<Longrightarrow> TrimSpace s = s"
proof -
  assume t: "trimmed s"
  then have "strip space_encodings s = s"
    by (intro strip_id) (simp add: trimmed_def)
  moreover have "strip (map rev space_encodings) (rev s) = rev s"
    using t by (intro strip_id) (auto simp: trimmed_def suffix_to_prefix)
  ultimately show ?thesis by (simp add: TrimSpace_def)
qed

lemma TrimSpace_eq_iff: "TrimSpace s = s \<longleftrightarrow> trimmed s"
  using TrimSpace_trimmed trimmed_TrimSpace by metis

lemma TrimSpace_idem [simp]: "TrimSpace (TrimSpace s) = TrimSpace s"
  by (simp add: TrimSpace_trimmed trimmed_TrimSpace)

lemma trimmed_Nil [simp]: "trimmed []"
  using space_encodings_nonempty by (auto simp: trimmed_def)

lemma TrimSpace_Nil [simp]: "TrimSpace [] = []"
  by (simp add: TrimSpace_trimmed)

text \<open>Printable ASCII other than space.\<close>

definition graphic :: "char \<Rightarrow> bool" where
  "graphic c \<longleftrightarrow> CHR ''!'' \<le> c \<and> c \<le> CHR ''~''"

lemma trimmed_graphic: "list_all graphic s \<Longrightarrow> trimmed s"
proof -
  assume g: "list_all graphic s"
  have "\<exists>c \<in> set e. \<not> graphic c" if "e \<in> set space_encodings" for e
    using that by (auto simp: space_encodings_def graphic_def less_eq_char_def)
  with g show ?thesis
    unfolding trimmed_def list_all_iff by (meson set_mono_prefix set_mono_suffix subsetD)
qed

lemma graphic_alnum: "is_alnum c \<Longrightarrow> graphic c"
  by (auto simp: is_alnum_def is_lower_def is_upper_def is_digit_def graphic_def less_eq_char_def)

lemma Split_nonempty [simp]: "Split s c \<noteq> []"
  by (cases s) (auto split: list.splits)

lemma Split_no_sep: "f \<in> set (Split s c) \<Longrightarrow> c \<notin> set f"
  by (induction s arbitrary: f) (auto split: list.splits if_splits)

lemma Join_Split: "Join (Split s c) [c] = s"
proof (induction s)
  case (Cons x xs)
  obtain f fs where "Split xs c = f # fs"
    by (cases "Split xs c") auto
  with Cons show ?case by (cases fs) auto
qed simp

lemma Split_single: "c \<notin> set s \<Longrightarrow> Split s c = [s]"
  by (induction s) auto

lemma Split_append: "c \<notin> set f \<Longrightarrow> Split (f @ c # s) c = f # Split s c"
  by (induction f) auto

lemma Split_Join: "fs \<noteq> [] \<Longrightarrow> (\<And>f. f \<in> set fs \<Longrightarrow> c \<notin> set f) \<Longrightarrow> Split (Join fs [c]) c = fs"
  by (induction fs "[c]" rule: Join.induct) (auto simp: Split_single Split_append)

lemma cut_last_Some: "cut_last s c = Some (a, b) \<longleftrightarrow> s = a @ c # b \<and> c \<notin> set b"
proof
  assume "cut_last s c = Some (a, b)"
  then have c: "c \<in> set s" and a: "a = rev (tl (dropWhile (\<lambda>x. x \<noteq> c) (rev s)))"
    and b: "b = rev (takeWhile (\<lambda>x. x \<noteq> c) (rev s))"
    by (auto simp: cut_last_def split: if_splits)
  from c have "dropWhile (\<lambda>x. x \<noteq> c) (rev s) \<noteq> []" by auto
  then have "dropWhile (\<lambda>x. x \<noteq> c) (rev s) = c # rev a"
    using hd_dropWhile [of "\<lambda>x. x \<noteq> c" "rev s"] a by (cases "dropWhile (\<lambda>x. x \<noteq> c) (rev s)") auto
  then have "rev s = rev b @ c # rev a"
    using takeWhile_dropWhile_id [of "\<lambda>x. x \<noteq> c" "rev s"] b by simp
  then have "s = a @ c # b"
    by (metis append.assoc append_Cons append_Nil rev.simps(2) rev_append rev_rev_ident)
  moreover have "c \<notin> set b" using b by (auto dest: set_takeWhileD)
  ultimately show "s = a @ c # b \<and> c \<notin> set b" by simp
next
  assume s: "s = a @ c # b \<and> c \<notin> set b"
  then have "takeWhile (\<lambda>x. x \<noteq> c) (rev s) = rev b" "dropWhile (\<lambda>x. x \<noteq> c) (rev s) = c # rev a"
    by (auto simp: takeWhile_tail dropWhile_append3)
  with s show "cut_last s c = Some (a, b)" by (auto simp: cut_last_def)
qed

lemma TrimRight_idem [simp]: "TrimRight (TrimRight s c) c = TrimRight s c"
  by (simp add: TrimRight_def)

end
