(* ===== verification/Encoding.thy ===== *)
theory Encoding
  imports Go_Text
begin

text \<open>
  The binary-to-text encodings of the Go standard library the client API uses:
  \<open>base64.StdEncoding\<close>, \<open>base64.RawURLEncoding\<close> (each also in its \<open>Strict()\<close> form)
  and \<open>encoding/hex\<close>. A byte slice is a \<open>string\<close>. The locale \<open>text_codec\<close> states what
  the validators rely on; every encoding is an interpretation of it.
\<close>

section \<open>Base64\<close>

record base64 =
  alphabet :: string
  padded :: bool

definition base_alnum :: string where
  "base_alnum = ''ABCDEFGHIJKLMNOPQRSTUVWXYZabcdefghijklmnopqrstuvwxyz0123456789''"

definition StdEncoding :: base64 where
  "StdEncoding = \<lparr>alphabet = base_alnum @ ''+/'', padded = True\<rparr>"

definition RawURLEncoding :: base64 where
  "RawURLEncoding = \<lparr>alphabet = base_alnum @ ''-_'', padded = False\<rparr>"

text \<open>Three octets are four sextets; a short last group is filled with zero bits.\<close>

fun sextets :: "nat list \<Rightarrow> nat list" where
  "sextets [] = []"
| "sextets [a] = [a div 4, a mod 4 * 16]"
| "sextets [a, b] = [a div 4, a mod 4 * 16 + b div 16, b mod 16 * 4]"
| "sextets (a # b # c # r) =
     a div 4 # (a mod 4 * 16 + b div 16) # (b mod 16 * 4 + c div 64) # (c mod 64) # sextets r"

text \<open>The inverse; in strict mode the filling bits of the last group must be zero.\<close>

fun octets :: "bool \<Rightarrow> nat list \<Rightarrow> nat list option" where
  "octets strict [] = Some []"
| "octets strict [x] = None"
| "octets strict [x, y] = (if strict \<and> y mod 16 \<noteq> 0 then None else Some [x * 4 + y div 16])"
| "octets strict [x, y, z] =
     (if strict \<and> z mod 4 \<noteq> 0 then None else Some [x * 4 + y div 16, y mod 16 * 16 + z div 4])"
| "octets strict (x # y # z # w # r) =
     map_option (\<lambda>bs. (x * 4 + y div 16) # (y mod 16 * 16 + z div 4) # (z mod 4 * 64 + w) # bs)
       (octets strict r)"

definition pad_char :: char where "pad_char = CHR ''=''"

definition EncodeToString :: "base64 \<Rightarrow> string \<Rightarrow> string" where
  "EncodeToString e raw =
     map (\<lambda>n. alphabet e ! n) (sextets (bytes raw)) @
     (if padded e then replicate ((3 - length raw mod 3) mod 3) pad_char else [])"

definition sextet_of :: "base64 \<Rightarrow> char \<Rightarrow> nat option" where
  "sextet_of e c = map_of (zip (alphabet e) [0..<64]) c"

text \<open>
  \<open>DecodeString\<close> skips line breaks anywhere in the input, then reads the sextets; a padded
  encoding demands exactly the padding of the last group and nothing after it.
\<close>

definition DecodeString :: "base64 \<Rightarrow> bool \<Rightarrow> string \<Rightarrow> string option" where
  "DecodeString e strict s =
     (let t = filter (\<lambda>c. c \<noteq> CHR 0x0A \<and> c \<noteq> CHR 0x0D) s;
          body = (if padded e then takeWhile (\<lambda>c. c \<noteq> pad_char) t else t);
          pad = drop (length body) t
      in if padded e \<and> pad \<noteq> replicate ((4 - length body mod 4) mod 4) pad_char then None
         else Option.bind (those (map (sextet_of e) body))
                (\<lambda>xs. map_option (map char_of) (octets strict xs)))"

section \<open>Hexadecimal\<close>

definition hex_digits :: string where "hex_digits = ''0123456789abcdef''"

definition hex_EncodeToString :: "string \<Rightarrow> string" where
  "hex_EncodeToString raw =
     concat (map (\<lambda>b. [hex_digits ! (b div 16), hex_digits ! (b mod 16)]) (bytes raw))"

definition hex_value :: "char \<Rightarrow> nat option" where
  "hex_value c =
     (if is_digit c then Some (of_char c - 48)
      else if CHR ''a'' \<le> c \<and> c \<le> CHR ''f'' then Some (of_char c - 87)
      else if CHR ''A'' \<le> c \<and> c \<le> CHR ''F'' then Some (of_char c - 55)
      else None)"

fun hex_DecodeString :: "string \<Rightarrow> string option" where
  "hex_DecodeString [] = Some []"
| "hex_DecodeString [c] = None"
| "hex_DecodeString (c # d # r) =
     (case (hex_value c, hex_value d) of
        (Some x, Some y) \<Rightarrow> map_option (\<lambda>bs. char_of (x * 16 + y) # bs) (hex_DecodeString r)
      | _ \<Rightarrow> None)"

section \<open>The contract of an encoding\<close>

text \<open>
  What the validators rely on: decoding inverts encoding, and the text is printable ASCII, so
  that it survives trimming and the checks for control characters.
\<close>

locale text_codec =
  fixes enc :: "string \<Rightarrow> string"
    and dec :: "string \<Rightarrow> string option"
  assumes dec_enc: "dec (enc raw) = Some raw"
    and enc_graphic: "list_all graphic (enc raw)"
begin

lemma enc_inj: "enc x = enc y \<Longrightarrow> x = y"
  by (metis dec_enc option.inject)

lemma enc_trimmed: "TrimSpace (enc raw) = enc raw"
  by (simp add: TrimSpace_trimmed enc_graphic trimmed_graphic)

text \<open>
  The check \<open>err == nil && len(raw) == n && Encode(raw) == value\<close> accepts exactly the
  encodings of \<open>n\<close>-byte values.
\<close>

lemma canonical_iff:
  "(\<exists>raw. dec v = Some raw \<and> length raw = n \<and> enc raw = v) \<longleftrightarrow> (\<exists>raw. length raw = n \<and> v = enc raw)"
  using dec_enc by auto

end

section \<open>Lemmas\<close>

lemma bytes_less: "b \<in> set (bytes s) \<Longrightarrow> b < 256"
  by (auto simp: bytes_def)

lemma map_char_of_bytes [simp]: "map char_of (bytes s) = s"
  by (simp add: bytes_def comp_def)

lemma bytes_map_char_of: "list_all (\<lambda>b. b < 256) bs \<Longrightarrow> bytes (map char_of bs) = bs"
  by (induction bs) (auto simp: bytes_def)

lemma length_bytes [simp]: "length (bytes s) = length s"
  by (simp add: bytes_def)

lemma list_all_bytes: "list_all (\<lambda>b. b < 256) (bytes s)"
  by (simp add: list_all_iff bytes_less)

lemma those_eq_Some: "those xs = Some ys \<longleftrightarrow> xs = map Some ys"
  by (induction xs arbitrary: ys) (auto split: option.splits simp: Cons_eq_map_conv)

lemma digit_split: "y < k \<Longrightarrow> (x * k + y) div k = x" "y < k \<Longrightarrow> (x * k + y) mod k = (y :: nat)"
  by auto

lemma octet_div: "(b :: nat) < 256 \<Longrightarrow> b div 4 < 64" "b < 256 \<Longrightarrow> b div 16 < 16" "b < 256 \<Longrightarrow> b div 64 < 4"
  by auto

lemma octets_sextets: "list_all (\<lambda>b. b < 256) bs \<Longrightarrow> octets strict (sextets bs) = Some bs"
  by (induction bs rule: sextets.induct) (simp_all add: digit_split octet_div)

lemma sextet_less: "x < 4 \<Longrightarrow> y < 16 \<Longrightarrow> x * 16 + y < (64 :: nat)" "x < 16 \<Longrightarrow> y < 4 \<Longrightarrow> x * 4 + y < (64 :: nat)"
  "x < 4 \<Longrightarrow> x * 16 < (64 :: nat)" "x < 16 \<Longrightarrow> x * 4 < (64 :: nat)"
  by auto

lemma sextets_less: "list_all (\<lambda>b. b < 256) bs \<Longrightarrow> list_all (\<lambda>x. x < 64) (sextets bs)"
  by (induction bs rule: sextets.induct) (simp_all add: sextet_less octet_div)

lemma octet_less: "x < 64 \<Longrightarrow> y < 64 \<Longrightarrow> x * 4 + y div 16 < (256::nat)" 
  "y < 16 \<Longrightarrow> z < 64 \<Longrightarrow> y * 16 + z div 4 < (256::nat)" 
  "z < 4 \<Longrightarrow> w < 64 \<Longrightarrow> z * 64 + w < (256::nat)" 
  by linarith+

lemma sextet_div: "(x :: nat) < 64 \<Longrightarrow> x div 16 < 4" "x < 64 \<Longrightarrow> x div 4 < 16"
  by auto

text \<open>Strict decoding accepts only what the encoder produces.\<close>

lemma sextets_octets:
  "list_all (\<lambda>x. x < 64) xs \<Longrightarrow> octets strict xs = Some bs \<Longrightarrow> strict \<Longrightarrow> sextets bs = xs \<and> list_all (\<lambda>b. b < 256) bs"
proof (induction strict xs arbitrary: bs rule: octets.induct)
  case (3 strict x y)
  then have "bs = [x * 4 + y div 16]" and "y mod 16 = 0"
    by (simp_all split: if_splits)
  with 3 show ?case by (auto simp: digit_split sextet_div octet_less)
next
  case (4 strict x y z)
  then have "bs = [x * 4 + y div 16, y mod 16 * 16 + z div 4]" and "z mod 4 = 0"
    by (simp_all split: if_splits)
  with 4 show ?case by (auto simp: digit_split sextet_div octet_less)
next
  case (5 strict x y z w r)
  then obtain cs where "octets strict r = Some cs" 
    "bs = (x * 4 + y div 16) # (y mod 16 * 16 + z div 4) # (z mod 4 * 64 + w) # cs" by auto
  with 5 show ?case by (simp add: digit_split sextet_div octet_less)
qed auto

lemma length_sextets: "length (sextets bs) = 4 * (length bs div 3) + (if length bs mod 3 = 0 then 0 else length bs mod 3 + 1)"
proof (induction bs rule: sextets.induct)
  case (4 a b c r)
  have "length (a # b # c # r) = length r + 3" by simp
  then have "length (a # b # c # r) div 3 = Suc (length r div 3)" "length (a # b # c # r) mod 3 = length r mod 3"
    by simp_all
  with 4 show ?case by simp
qed simp_all
lemma pad_length: "(4 - length (sextets bs) mod 4) mod 4 = (3 - length bs mod 3) mod 3"
proof -
  have "length bs mod 3 = 0 \<or> length bs mod 3 = 1 \<or> length bs mod 3 = 2" by linarith
  then show ?thesis unfolding length_sextets by auto
qed

subsection \<open>Base64 over any proper alphabet\<close>

locale base64_alphabet =
  fixes e :: base64
  assumes alphabet_distinct: "distinct (alphabet e)"
    and alphabet_length: "length (alphabet e) = 64"
    and alphabet_graphic: "list_all (\<lambda>c. graphic c \<and> c \<noteq> pad_char) (alphabet e)"
begin

lemma sextet_of_nth: "n < 64 \<Longrightarrow> sextet_of e (alphabet e ! n) = Some n"
  using alphabet_distinct alphabet_length by (simp add: sextet_of_def map_of_zip_nth)

lemma sextet_of_SomeD: "sextet_of e c = Some n \<Longrightarrow> n < 64 \<and> alphabet e ! n = c"
  using alphabet_length by (auto simp: sextet_of_def in_set_zip dest!: map_of_SomeD)

lemma nth_graphic: "n < 64 \<Longrightarrow> graphic (alphabet e ! n) \<and> alphabet e ! n \<noteq> pad_char"
  using alphabet_graphic alphabet_length by (simp add: list_all_length)

lemma sextets_bytes_less: "n \<in> set (sextets (bytes raw)) \<Longrightarrow> n < 64"
  using sextets_less [OF list_all_bytes, of raw] by (simp add: list_all_iff)

lemma encode_graphic: "list_all graphic (EncodeToString e raw)"
  using sextets_bytes_less nth_graphic
  by (auto simp: EncodeToString_def list_all_iff pad_char_def graphic_def less_eq_char_def)

lemma encode_no_breaks: "filter (\<lambda>c. c \<noteq> CHR 0x0A \<and> c \<noteq> CHR 0x0D) (EncodeToString e raw) = EncodeToString e raw"
  using encode_graphic [of raw]
  by (auto simp: filter_id_conv list_all_iff graphic_def less_eq_char_def)

lemma decode_encode: "DecodeString e strict (EncodeToString e raw) = Some raw"
proof -
  let ?xs = "sextets (bytes raw)"
  let ?body = "map (\<lambda>n. alphabet e ! n) ?xs"
  have body: "takeWhile (\<lambda>c. c \<noteq> pad_char) (EncodeToString e raw) = ?body" if "padded e"
  proof -
    have "takeWhile (\<lambda>c. c \<noteq> pad_char) (?body @ r) = ?body @ takeWhile (\<lambda>c. c \<noteq> pad_char) r" for r
      using sextets_bytes_less nth_graphic by (intro takeWhile_append2) auto
    then show ?thesis using that by (simp only: EncodeToString_def) simp
  qed
  have "those (map (sextet_of e) ?body) = Some ?xs"
    using sextets_bytes_less by (simp add: those_eq_Some sextet_of_nth)
  moreover have "octets strict ?xs = Some (bytes raw)"
    by (rule octets_sextets [OF list_all_bytes])
  ultimately show ?thesis
    using body pad_length [of "bytes raw"]
    by (auto simp: DecodeString_def encode_no_breaks Let_def) (simp_all add: EncodeToString_def)
qed

sublocale strict: text_codec "EncodeToString e" "DecodeString e True"
  by unfold_locales (rule decode_encode encode_graphic)+

sublocale lax: text_codec "EncodeToString e" "DecodeString e False"
  by unfold_locales (rule decode_encode encode_graphic)+

text \<open>Strict decoding of text without line breaks accepts nothing but encoder output.\<close>

lemma strict_decode_canonical:
  assumes dec: "DecodeString e True s = Some raw" and breaks: "CHR 0x0A \<notin> set s" "CHR 0x0D \<notin> set s"
  shows "EncodeToString e raw = s"
proof -
  let ?body = "if padded e then takeWhile (\<lambda>c. c \<noteq> pad_char) s else s"
  have t: "filter (\<lambda>c. c \<noteq> CHR 0x0A \<and> c \<noteq> CHR 0x0D) s = s"
    using breaks by (auto simp: filter_id_conv)
  from dec obtain xs bs where xs: "map (sextet_of e) ?body = map Some xs"
    and bs: "octets True xs = Some bs" and raw: "raw = map char_of bs"
    and pad: "padded e \<Longrightarrow> drop (length ?body) s = replicate ((4 - length ?body mod 4) mod 4) pad_char"
    by (auto simp: DecodeString_def t Let_def those_eq_Some bind_eq_Some_conv split: if_splits)
  have len: "length ?body = length xs" using xs by (metis length_map)
  have nth: "\<And>i. i < length xs \<Longrightarrow> sextet_of e (?body ! i) = Some (xs ! i)"
    using xs len by (metis nth_map)
  have "list_all (\<lambda>x. x < 64) xs"
    using nth sextet_of_SomeD by (auto simp: list_all_length)
  then have sx: "sextets bs = xs" and "list_all (\<lambda>b. b < 256) bs"
    using sextets_octets [OF _ bs] by auto
  then have b: "bytes raw = bs" "length raw = length bs"
    by (simp_all add: raw bytes_map_char_of)
  have m: "map (\<lambda>n. alphabet e ! n) xs = ?body"
    using nth sextet_of_SomeD len by (intro nth_equalityI) auto
  have p: "(3 - length bs mod 3) mod 3 = (4 - length ?body mod 4) mod 4"
    using pad_length [of bs] by (simp only: sx len)
  have "EncodeToString e raw =
      ?body @ (if padded e then replicate ((4 - length ?body mod 4) mod 4) pad_char else [])"
    unfolding EncodeToString_def b sx m p ..
  also have "\<dots> = s"
    using pad takeWhile_dropWhile_id [of "\<lambda>c. c \<noteq> pad_char" s]
    by (cases "padded e") (simp_all flip: dropWhile_eq_drop)
  finally show ?thesis .
qed

end

interpretation std: base64_alphabet StdEncoding
  by unfold_locales (code_simp+)

interpretation rawurl: base64_alphabet RawURLEncoding
  by unfold_locales (code_simp+)

subsection \<open>Lengths of the encodings the contract fixes\<close>

lemma length_EncodeToString:
  "length (EncodeToString e raw) =
     4 * (length raw div 3) + (if length raw mod 3 = 0 then 0 else if padded e then 4 else length raw mod 3 + 1)"
proof -
  have "length raw mod 3 = 0 \<or> length raw mod 3 = 1 \<or> length raw mod 3 = 2" by linarith
  then show ?thesis by (auto simp: EncodeToString_def length_sextets)
qed

subsection \<open>Hexadecimal\<close>

lemma hex_value_digit: "n < 16 \<Longrightarrow> hex_value (hex_digits ! n) = Some n \<and> graphic (hex_digits ! n)"
proof -
  have "list_all (\<lambda>n. hex_value (hex_digits ! n) = Some n \<and> graphic (hex_digits ! n)) [0..<16]"
    by code_simp
  then show "n < 16 \<Longrightarrow> ?thesis" by (simp add: list_all_iff)
qed

lemma hex_decode_encode: "hex_DecodeString (hex_EncodeToString raw) = Some raw"
proof (induction raw)
  case (Cons c raw)
  have "(of_char c :: nat) < 256" by simp
  then have "(of_char c :: nat) div 16 < 16" by (rule octet_div(2))
  with Cons show ?case
    by (simp add: hex_EncodeToString_def bytes_def hex_value_digit)
qed (simp add: hex_EncodeToString_def bytes_def)

lemma hex_graphic: "list_all graphic (hex_EncodeToString raw)"
  using octet_div(2) [OF bytes_less] by (auto simp: list_all_iff hex_EncodeToString_def hex_value_digit)

interpretation hex: text_codec hex_EncodeToString hex_DecodeString
  by unfold_locales (rule hex_decode_encode hex_graphic)+

section \<open>Evaluation\<close>

text \<open>Code equations on integers: the kernel evaluates them much faster than unary naturals.\<close>

fun index_int :: "int \<Rightarrow> string \<Rightarrow> char \<Rightarrow> int option" where
  "index_int i [] c = None"
| "index_int i (a # as) c = (if 64 \<le> i then None else if c = a then Some i else index_int (i + 1) as c)"

fun octets_int :: "bool \<Rightarrow> int list \<Rightarrow> int list option" where
  "octets_int strict [] = Some []"
| "octets_int strict [x] = None"
| "octets_int strict [x, y] = (if strict \<and> y mod 16 \<noteq> 0 then None else Some [x * 4 + y div 16])"
| "octets_int strict [x, y, z] =
     (if strict \<and> z mod 4 \<noteq> 0 then None else Some [x * 4 + y div 16, y mod 16 * 16 + z div 4])"
| "octets_int strict (x # y # z # w # r) =
     map_option (\<lambda>bs. (x * 4 + y div 16) # (y mod 16 * 16 + z div 4) # (z mod 4 * 64 + w) # bs)
       (octets_int strict r)"

lemma index_int_map_of: "index_int (int n) as c = map_option int (map_of (zip as [n..<64]) c)"
proof (induction as arbitrary: n)
  case (Cons a as)
  show ?case
  proof (cases "n < 64")
    case True
    then have "[n..<64] = n # [Suc n..<64]" by (rule upt_conv_Cons)
    with True Cons.IH [of "Suc n"] show ?thesis by (simp add: add.commute)
  qed simp
qed simp

lemma octets_int_eq: "octets_int strict (map int xs) = map_option (map int) (octets strict xs)"
proof -
  have m: "int y mod 16 = int (y mod 16)" "int y mod 4 = int (y mod 4)" for y by (simp_all add: zmod_int)
  show ?thesis
    by (induction strict xs rule: octets.induct) (simp_all add: zdiv_int m option.map_comp comp_def)
qed

lemma those_map_option: "those (map (\<lambda>x. map_option f (g x)) xs) = map_option (map f) (those (map g xs))"
  by (induction xs) (auto simp: option.map_comp comp_def split: option.splits)

lemma char_of_int_nat: "char_of (int n) = char_of n"
proof -
  have "(of_char (char_of (int n) :: char) :: int) = int n mod 256" by (simp only: of_char_of)
  moreover have "(of_char (char_of n :: char) :: int) = int (of_char (char_of n :: char))" by (simp only: of_nat_of_char)
  moreover have "(of_char (char_of n :: char) :: nat) = n mod 256" by (simp only: of_char_of)
  ultimately have "(of_char (char_of (int n) :: char) :: int) = of_char (char_of n :: char)" by (simp add: zmod_int)
  then show ?thesis by (simp only: of_char_eq_iff)
qed

lemma DecodeString_code [code]:
  "DecodeString e strict s =
     (let t = filter (\<lambda>c. c \<noteq> CHR 0x0A \<and> c \<noteq> CHR 0x0D) s;
          body = (if padded e then takeWhile (\<lambda>c. c \<noteq> pad_char) t else t);
          pad = drop (length body) t
      in if padded e \<and> pad \<noteq> replicate ((4 - length body mod 4) mod 4) pad_char then None
         else Option.bind (those (map (index_int 0 (alphabet e)) body))
                (\<lambda>xs. map_option (map char_of) (octets_int strict xs)))"
proof -
  have "index_int 0 (alphabet e) = (\<lambda>c. map_option int (sextet_of e c))"
    using index_int_map_of [of 0] by (simp add: sextet_of_def fun_eq_iff)
  then have "Option.bind (those (map (index_int 0 (alphabet e)) body)) (\<lambda>xs. map_option (map char_of) (octets_int strict xs)) =
      Option.bind (those (map (sextet_of e) body)) (\<lambda>xs. map_option (map char_of) (octets strict xs))" for body
    by (cases "those (map (sextet_of e) body)")
       (simp_all add: those_map_option octets_int_eq option.map_comp comp_def char_of_int_nat)
  then show ?thesis by (simp add: DecodeString_def Let_def)
qed

definition hex_value_int :: "char \<Rightarrow> int option" where
  "hex_value_int c =
     (if is_digit c then Some (of_char c - 48)
      else if CHR ''a'' \<le> c \<and> c \<le> CHR ''f'' then Some (of_char c - 87)
      else if CHR ''A'' \<le> c \<and> c \<le> CHR ''F'' then Some (of_char c - 55)
      else None)"

fun hex_decode_int :: "string \<Rightarrow> string option" where
  "hex_decode_int [] = Some []"
| "hex_decode_int [c] = None"
| "hex_decode_int (c # d # r) =
     (case (hex_value_int c, hex_value_int d) of
        (Some x, Some y) \<Rightarrow> map_option (\<lambda>bs. char_of (x * 16 + y) # bs) (hex_decode_int r)
      | _ \<Rightarrow> None)"

lemma hex_value_int_eq: "hex_value_int c = map_option int (hex_value c)"
proof -
  have "of_char c = int (of_char c)" by (simp only: of_nat_of_char)
  then show ?thesis
    by (auto simp: hex_value_int_def hex_value_def is_digit_def less_eq_char_def of_nat_diff)
qed

lemma hex_DecodeString_code [code]: "hex_DecodeString s = hex_decode_int s"
proof (induction s rule: hex_DecodeString.induct)
  case (3 c d r)
  have "char_of (int x * 16 + int y) = char_of (x * 16 + y)" for x y
    using char_of_int_nat [of "x * 16 + y"] by simp
  with 3 show ?case by (auto simp: hex_value_int_eq split: option.splits)
qed simp_all

end
