(* ===== verification/Netip.thy ===== *)
theory Netip
  imports Encoding
begin

text \<open>
  The model of Go's \<open>net/netip\<close> (and of the decimal conversions of \<open>strconv\<close>) that the
  map validators read addresses and prefixes with. Addresses are machine words; an IPv6 address
  keeps its zone. The last section proves the meaning of \<open>Contains\<close>, \<open>Overlaps\<close> and
  \<open>Masked\<close> in terms of the addresses a prefix covers.
\<close>

section \<open>Decimal numbers\<close>

fun Itoa :: "int \<Rightarrow> string" where
  "Itoa n = (if n < 10 then [char_of (48 + n)] else Itoa (n div 10) @ [char_of (48 + n mod 10)])"

declare Itoa.simps [simp del]

definition dec_value :: "string \<Rightarrow> int" where
  "dec_value s = foldl (\<lambda>n c. n * 10 + (of_char c - 48)) 0 s"

text \<open>\<open>strconv.Atoi\<close> on 64 bits: an optional sign, decimal digits, the range of \<open>int\<close>.\<close>

definition Atoi :: "string \<Rightarrow> int option" where
  "Atoi s =
     (let neg = (s \<noteq> [] \<and> hd s = CHR ''-'');
          d = (if s \<noteq> [] \<and> (hd s = CHR ''-'' \<or> hd s = CHR ''+'') then tl s else s);
          v = (if neg then - dec_value d else dec_value d)
      in if d = [] \<or> \<not> list_all is_digit d \<or> v < - (2 ^ 63) \<or> 2 ^ 63 \<le> v then None else Some v)"

section \<open>Addresses\<close>

datatype Addr = NoAddr | IPv4 "32 word" | IPv6 "128 word" string

fun BitLen :: "Addr \<Rightarrow> nat" where
  "BitLen NoAddr = 0" | "BitLen (IPv4 _) = 32" | "BitLen (IPv6 _ _) = 128"

fun Zone :: "Addr \<Rightarrow> string" where
  "Zone (IPv6 _ z) = z" | "Zone _ = []"

fun withoutZone :: "Addr \<Rightarrow> Addr" where
  "withoutZone (IPv6 w _) = IPv6 w []" | "withoutZone a = a"

definition addr_IsValid :: "Addr \<Rightarrow> bool" where "addr_IsValid a \<longleftrightarrow> a \<noteq> NoAddr"

fun Is4 :: "Addr \<Rightarrow> bool" where
  "Is4 (IPv4 _) = True" | "Is4 _ = False"

fun Is4In6 :: "Addr \<Rightarrow> bool" where
  "Is4In6 (IPv6 w _) = (drop_bit 32 w = 0xFFFF)" | "Is4In6 _ = False"

fun IsUnspecified :: "Addr \<Rightarrow> bool" where
  "IsUnspecified (IPv4 w) = (w = 0)" | "IsUnspecified (IPv6 w z) = (w = 0 \<and> z = [])"
| "IsUnspecified NoAddr = False"

fun IsLoopback :: "Addr \<Rightarrow> bool" where
  "IsLoopback (IPv4 w) = (drop_bit 24 w = 127)"
| "IsLoopback (IPv6 w z) =
     (if drop_bit 32 w = 0xFFFF then drop_bit 24 (take_bit 32 w) = 127 else w = 1)"
| "IsLoopback NoAddr = False"

fun IsMulticast :: "Addr \<Rightarrow> bool" where
  "IsMulticast (IPv4 w) = (drop_bit 28 w = 0xE)"
| "IsMulticast (IPv6 w z) =
     (if drop_bit 32 w = 0xFFFF then drop_bit 28 (take_bit 32 w) = 0xE else drop_bit 120 w = 0xFF)"
| "IsMulticast NoAddr = False"

fun IsLinkLocalUnicast :: "Addr \<Rightarrow> bool" where
  "IsLinkLocalUnicast (IPv4 w) = (drop_bit 16 w = 0xA9FE)"
| "IsLinkLocalUnicast (IPv6 w z) =
     (if drop_bit 32 w = 0xFFFF then drop_bit 16 (take_bit 32 w) = 0xA9FE else drop_bit 118 w = 0x3FA)"
| "IsLinkLocalUnicast NoAddr = False"

text \<open>Four decimal octets without leading zeros.\<close>

definition parse_octet :: "string \<Rightarrow> int option" where
  "parse_octet f =
     (if f = [] \<or> \<not> list_all is_digit f \<or> (1 < length f \<and> hd f = CHR ''0'') \<or> 255 < dec_value f
      then None else Some (dec_value f))"

definition parseIPv4Fields :: "string \<Rightarrow> int list option" where
  "parseIPv4Fields s =
     (let fs = Split s (CHR ''.'') in if length fs = 4 then those (map parse_octet fs) else None)"

text \<open>Big-endian value of a list of digits in the given base.\<close>

definition horner :: "int \<Rightarrow> int list \<Rightarrow> int" where
  "horner b ds = foldl (\<lambda>n d. n * b + d) 0 ds"

definition hex_int :: "string \<Rightarrow> int" where
  "hex_int s = horner 16 (map (\<lambda>c. int (the (hex_value c))) s)"

text \<open>
  The loop of \<open>parseIPv6\<close>: hexadecimal groups separated by colons, at most one ellipsis, an
  embedded IPv4 address in the last two groups. The first argument is the room left.
\<close>

fun v6_groups :: "nat \<Rightarrow> int list \<Rightarrow> nat option \<Rightarrow> string \<Rightarrow> (int list \<times> nat option \<times> string) option" where
  "v6_groups 0 gs el s = Some (gs, el, s)"
| "v6_groups (Suc n) gs el s =
     (let h = takeWhile (\<lambda>c. hex_value c \<noteq> None) s; rest = dropWhile (\<lambda>c. hex_value c \<noteq> None) s;
          gs' = gs @ [hex_int h]
      in if h = [] \<or> 4 < length h then None
         else case rest of
           [] \<Rightarrow> Some (gs', el, [])
         | c # t \<Rightarrow>
             if c = CHR ''.'' then
               if (el = None \<and> length gs \<noteq> 6) \<or> 6 < length gs then None
               else map_option (\<lambda>os. (gs @ [os ! 0 * 256 + os ! 1, os ! 2 * 256 + os ! 3], el, []))
                      (parseIPv4Fields s)
             else if c \<noteq> CHR '':'' \<or> t = [] then None
             else if hd t = CHR '':'' then
               if el \<noteq> None then None
               else if tl t = [] then Some (gs', Some (length gs'), [])
               else v6_groups n gs' (Some (length gs')) (tl t)
             else v6_groups n gs' el t)"

definition expand_ellipsis :: "int list \<Rightarrow> nat option \<Rightarrow> int list option" where
  "expand_ellipsis gs el =
     (if length gs < 8 then
        map_option (\<lambda>k. take k gs @ replicate (8 - length gs) 0 @ drop k gs) el
      else if el = None then Some gs else None)"

definition parseIPv6 :: "string \<Rightarrow> Addr option" where
  "parseIPv6 s =
     (let (body, zone) = Cut s (CHR ''%'');
          lead = prefix ''::'' body;
          body' = (if lead then drop 2 body else body)
      in if CHR ''%'' \<in> set s \<and> zone = [] then None
         else if lead \<and> body' = [] then Some (IPv6 0 zone)
         else case v6_groups 8 [] (if lead then Some 0 else None) body' of
           None \<Rightarrow> None
         | Some (gs, el, rest) \<Rightarrow>
             if rest \<noteq> [] then None
             else map_option (\<lambda>ws. IPv6 (of_int (horner 65536 ws)) zone) (expand_ellipsis gs el))"

definition parseIPv4 :: "string \<Rightarrow> Addr option" where
  "parseIPv4 s = map_option (\<lambda>os. IPv4 (of_int (horner 256 os))) (parseIPv4Fields s)"

text \<open>The first dot, colon or percent sign decides the family.\<close>

definition ParseAddr :: "string \<Rightarrow> Addr option" where
  "ParseAddr s =
     (case find (\<lambda>c. c = CHR ''.'' \<or> c = CHR '':'' \<or> c = CHR ''%'') s of
        Some c \<Rightarrow> if c = CHR ''.'' then parseIPv4 s else if c = CHR '':'' then parseIPv6 s else None
      | None \<Rightarrow> None)"

section \<open>Printing addresses\<close>

definition octets4 :: "32 word \<Rightarrow> int list" where
  "octets4 w = map (\<lambda>i. uint w div 256 ^ i mod 256) [3, 2, 1, 0]"

definition string4 :: "32 word \<Rightarrow> string" where
  "string4 w = Join (map Itoa (octets4 w)) ''.''"

definition groups6 :: "128 word \<Rightarrow> int list" where
  "groups6 w = map (\<lambda>i. uint w div 65536 ^ i mod 65536) [7, 6, 5, 4, 3, 2, 1, 0]"

fun hex_string :: "int \<Rightarrow> string" where
  "hex_string n = (if n < 16 then [hex_digits ! nat n] else hex_string (n div 16) @ [hex_digits ! nat (n mod 16)])"

declare hex_string.simps [simp del]

text \<open>The first longest run of at least two zero groups, as start and end.\<close>

definition zero_run :: "int list \<Rightarrow> (nat \<times> nat) option" where
  "zero_run gs =
     foldl (\<lambda>best i. let l = length (takeWhile (\<lambda>g. g = 0) (drop i gs))
                     in if 2 \<le> l \<and> (case best of None \<Rightarrow> 0 | Some (a, b) \<Rightarrow> b - a) < l
                        then Some (i, i + l) else best)
       None [0..<length gs]"

definition string6 :: "128 word \<Rightarrow> string" where
  "string6 w =
     (let gs = groups6 w; hex = (\<lambda>xs. Join (map hex_string xs) '':'')
      in case zero_run gs of
           None \<Rightarrow> hex gs
         | Some (a, b) \<Rightarrow> hex (take a gs) @ ''::'' @ hex (drop b gs))"

fun addr_String :: "Addr \<Rightarrow> string" where
  "addr_String NoAddr = ''invalid IP''"
| "addr_String (IPv4 w) = string4 w"
| "addr_String (IPv6 w z) =
     (if drop_bit 32 w = 0xFFFF then ''::ffff:'' @ string4 (ucast w) else string6 w) @
     (if z = [] then [] else ''%'' @ z)"

section \<open>Prefixes\<close>

text \<open>\<open>NoPrefix\<close> is the zero \<open>netip.Prefix\<close>.\<close>

datatype Prefix = NoPrefix | Prefix Addr nat

fun prefix_Addr :: "Prefix \<Rightarrow> Addr" where
  "prefix_Addr NoPrefix = NoAddr" | "prefix_Addr (Prefix a b) = a"

fun prefix_Bits :: "Prefix \<Rightarrow> int" where
  "prefix_Bits NoPrefix = -1" | "prefix_Bits (Prefix a b) = int b"

definition prefix_IsValid :: "Prefix \<Rightarrow> bool" where "prefix_IsValid p \<longleftrightarrow> p \<noteq> NoPrefix"

definition PrefixFrom :: "Addr \<Rightarrow> nat \<Rightarrow> Prefix" where
  "PrefixFrom a b = (if a = NoAddr \<or> BitLen a < b then NoPrefix else Prefix (withoutZone a) b)"

text \<open>Clear the low \<open>n\<close> bits.\<close>

definition clear_low :: "nat \<Rightarrow> 'a::len word \<Rightarrow> 'a word" where
  "clear_low n w = push_bit n (drop_bit n w)"

fun mask_addr :: "Addr \<Rightarrow> nat \<Rightarrow> Addr" where
  "mask_addr (IPv4 w) b = IPv4 (clear_low (32 - b) w)"
| "mask_addr (IPv6 w z) b = IPv6 (clear_low (128 - b) w) []"
| "mask_addr NoAddr b = NoAddr"

fun Masked :: "Prefix \<Rightarrow> Prefix" where
  "Masked NoPrefix = NoPrefix" | "Masked (Prefix a b) = Prefix (mask_addr a b) b"

fun Contains :: "Prefix \<Rightarrow> Addr \<Rightarrow> bool" where
  "Contains (Prefix (IPv4 x) b) (IPv4 y) = (drop_bit (32 - b) x = drop_bit (32 - b) y)"
| "Contains (Prefix (IPv6 x _) b) (IPv6 y z) = (z = [] \<and> drop_bit (128 - b) x = drop_bit (128 - b) y)"
| "Contains _ _ = False"

fun Overlaps :: "Prefix \<Rightarrow> Prefix \<Rightarrow> bool" where
  "Overlaps (Prefix a m) (Prefix b n) =
     (if Prefix a m = Prefix b n then True
      else if Is4 a \<noteq> Is4 b then False
      else if min m n = 0 then True
      else mask_addr a (min m n) = mask_addr b (min m n))"
| "Overlaps _ _ = False"

definition prefix_String :: "Prefix \<Rightarrow> string" where
  "prefix_String p =
     (case p of NoPrefix \<Rightarrow> ''invalid Prefix'' | Prefix a b \<Rightarrow> addr_String a @ ''/'' @ Itoa (int b))"

definition ParsePrefix :: "string \<Rightarrow> Prefix option" where
  "ParsePrefix s =
     (case cut_last s (CHR ''/'') of
        None \<Rightarrow> None
      | Some (ip, bits) \<Rightarrow>
          (case ParseAddr ip of
             None \<Rightarrow> None
           | Some a \<Rightarrow>
               if Zone a \<noteq> [] then None
               else if 1 < length bits \<and> \<not> (CHR ''1'' \<le> hd bits \<and> hd bits \<le> CHR ''9'') then None
               else (case Atoi bits of
                       None \<Rightarrow> None
                     | Some n \<Rightarrow> if n < 0 \<or> int (BitLen a) < n then None
                                 else Some (PrefixFrom a (nat n)))))"

section \<open>What a prefix covers\<close>

lemma drop_bit_coarser:
  fixes x y :: "'a::len word"
  assumes "drop_bit m x = drop_bit m y" and "m \<le> n"
  shows "drop_bit n x = drop_bit n y"
proof -
  have "drop_bit (n - m + m) z = drop_bit (n - m) (drop_bit m z)" for z :: "'a word"
    by (simp only: drop_bit_drop_bit)
  then show ?thesis using assms by (metis le_add_diff_inverse2)
qed

lemma drop_bit_clear_low [simp]: "drop_bit n (clear_low n w) = drop_bit n w"
  unfolding clear_low_def
  by (rule bit_word_eqI) (auto simp: bit_drop_bit_eq bit_push_bit_iff dest: bit_imp_le_length)

lemma clear_low_idem [simp]: "clear_low n (clear_low n w) = clear_low n w"
  by (metis clear_low_def drop_bit_clear_low)

lemma clear_low_eq_iff: "clear_low n x = clear_low n y \<longleftrightarrow> drop_bit n x = drop_bit n y"
  by (metis clear_low_def drop_bit_clear_low)

text \<open>The prefixes \<open>ParsePrefix\<close> and \<open>PrefixFrom\<close> make: in range, without a zone.\<close>

fun wf_prefix :: "Prefix \<Rightarrow> bool" where
  "wf_prefix NoPrefix = False"
| "wf_prefix (Prefix a b) = (a \<noteq> NoAddr \<and> Zone a = [] \<and> b \<le> BitLen a)"

lemma wf_prefix_cases:
  assumes "wf_prefix p"
  obtains x b where "p = Prefix (IPv4 x) b" "b \<le> 32" | x b where "p = Prefix (IPv6 x []) b" "b \<le> 128"
proof (cases p)
  case (Prefix a b)
  with assms that show ?thesis by (cases a) auto
qed (use assms in simp)

lemma wf_PrefixFrom: "a \<noteq> NoAddr \<Longrightarrow> b \<le> BitLen a \<Longrightarrow> wf_prefix (PrefixFrom a b)"
  by (cases a) (auto simp: PrefixFrom_def)

lemma ParseAddr_valid: "ParseAddr s = Some a \<Longrightarrow> a \<noteq> NoAddr"
  by (auto simp: ParseAddr_def parseIPv4_def parseIPv6_def Let_def split: option.splits if_splits prod.splits)

lemma ParsePrefix_SomeD:
  assumes "ParsePrefix s = Some p"
  obtains ip bits a n where "s = ip @ ''/'' @ bits" "ParseAddr ip = Some a" "Atoi bits = Some (int n)"
    "Zone a = []" "n \<le> BitLen a" "p = Prefix a n"
proof -
  from assms obtain ip bits a n where 1: "cut_last s (CHR ''/'') = Some (ip, bits)"
    "ParseAddr ip = Some a" "Atoi bits = Some n" "Zone a = []" "\<not> n < 0" "\<not> int (BitLen a) < n"
    "p = PrefixFrom a (nat n)"
    by (simp add: ParsePrefix_def split: option.splits if_splits prod.splits)
  have "p = Prefix a (nat n)"
    using 1 ParseAddr_valid [OF 1(2)] by (cases a) (auto simp: PrefixFrom_def)
  with 1 that [of ip bits a "nat n"] show ?thesis by (auto simp: cut_last_Some)
qed

lemma wf_ParsePrefix: "ParsePrefix s = Some p \<Longrightarrow> wf_prefix p"
  by (erule ParsePrefix_SomeD) (auto dest: ParseAddr_valid)

lemma Contains_Addr: "wf_prefix p \<Longrightarrow> Contains p (prefix_Addr p)"
  by (erule wf_prefix_cases) auto

lemma Contains_Masked [simp]: "wf_prefix p \<Longrightarrow> Contains (Masked p) a = Contains p a"
  by (erule wf_prefix_cases; cases a) auto

lemma wf_Masked: "wf_prefix p \<Longrightarrow> wf_prefix (Masked p)"
  by (erule wf_prefix_cases) auto

lemma Masked_idem: "Masked (Masked p) = Masked p"
  by (cases p rule: Masked.cases; simp; cases "prefix_Addr p"; simp)

text \<open>Two prefixes overlap exactly when some address lies in both.\<close>

lemma Overlaps_word:
  fixes x y :: "'a::len word"
  assumes "m \<le> w" "n \<le> w"
  shows "drop_bit (w - min m n) x = drop_bit (w - min m n) y \<longleftrightarrow>
    (\<exists>z. drop_bit (w - m) x = drop_bit (w - m) z \<and> drop_bit (w - n) y = drop_bit (w - n) z)"
proof
  assume "drop_bit (w - min m n) x = drop_bit (w - min m n) y"
  then show "\<exists>z. drop_bit (w - m) x = drop_bit (w - m) z \<and> drop_bit (w - n) y = drop_bit (w - n) z"
    by (cases "m \<le> n") (auto simp: min_def)
next
  assume "\<exists>z. drop_bit (w - m) x = drop_bit (w - m) z \<and> drop_bit (w - n) y = drop_bit (w - n) z"
  then obtain z where z: "drop_bit (w - m) x = drop_bit (w - m) z" "drop_bit (w - n) y = drop_bit (w - n) z"
    by blast
  have "drop_bit (w - min m n) x = drop_bit (w - min m n) z"
    by (rule drop_bit_coarser [OF z(1)]) simp
  moreover have "drop_bit (w - min m n) y = drop_bit (w - min m n) z"
    by (rule drop_bit_coarser [OF z(2)]) simp
  ultimately show "drop_bit (w - min m n) x = drop_bit (w - min m n) y" by simp
qed

lemma Contains_ex4: "(\<exists>a. Contains (Prefix (IPv4 x) m) a \<and> Contains (Prefix (IPv4 y) n) a) \<longleftrightarrow>
    (\<exists>z. drop_bit (32 - m) x = drop_bit (32 - m) z \<and> drop_bit (32 - n) y = drop_bit (32 - n) z)"
    (is "?L \<longleftrightarrow> ?R")
proof
  assume ?L
  then obtain a where a: "Contains (Prefix (IPv4 x) m) a" "Contains (Prefix (IPv4 y) n) a" by blast
  then show ?R by (cases a) auto
next
  assume ?R
  then obtain z where "Contains (Prefix (IPv4 x) m) (IPv4 z)" "Contains (Prefix (IPv4 y) n) (IPv4 z)" by auto
  then show ?L by blast
qed

lemma Contains_ex6: "(\<exists>a. Contains (Prefix (IPv6 x []) m) a \<and> Contains (Prefix (IPv6 y []) n) a) \<longleftrightarrow>
    (\<exists>z. drop_bit (128 - m) x = drop_bit (128 - m) z \<and> drop_bit (128 - n) y = drop_bit (128 - n) z)"
    (is "?L \<longleftrightarrow> ?R")
proof
  assume ?L
  then obtain a where a: "Contains (Prefix (IPv6 x []) m) a" "Contains (Prefix (IPv6 y []) n) a" by blast
  then show ?R by (cases a) auto
next
  assume ?R
  then obtain z where "Contains (Prefix (IPv6 x []) m) (IPv6 z [])" "Contains (Prefix (IPv6 y []) n) (IPv6 z [])" by auto
  then show ?L by blast
qed

lemma drop_bit_all: "drop_bit LENGTH('a) (x :: 'a::len word) = 0"
  by (rule bit_word_eqI) (auto simp: bit_drop_bit_eq dest: bit_imp_le_length)

lemma Overlaps_iff:
  assumes "wf_prefix p" and "wf_prefix q"
  shows "Overlaps p q \<longleftrightarrow> (\<exists>a. Contains p a \<and> Contains q a)"
  using assms(1)
proof (cases rule: wf_prefix_cases)
  case p: (1 x m)
  from assms(2) show ?thesis
  proof (cases rule: wf_prefix_cases)
    case q: (1 y n)
    have "min m n = 0 \<Longrightarrow> drop_bit (32 - min m n) x = drop_bit (32 - min m n) y"
      using drop_bit_all [of x] drop_bit_all [of y] by simp
    then show ?thesis
      unfolding p q Contains_ex4 using Overlaps_word [of m 32 n x y] p q by (auto simp: clear_low_eq_iff)
  next
    case q: (2 y n)
    then show ?thesis using p by (auto elim: Contains.elims)
  qed
next
  case p: (2 x m)
  from assms(2) show ?thesis
  proof (cases rule: wf_prefix_cases)
    case q: (1 y n)
    then show ?thesis using p by (auto elim: Contains.elims)
  next
    case q: (2 y n)
    have "min m n = 0 \<Longrightarrow> drop_bit (128 - min m n) x = drop_bit (128 - min m n) y"
      using drop_bit_all [of x] drop_bit_all [of y] by simp
    then show ?thesis
      unfolding p q Contains_ex6 using Overlaps_word [of m 128 n x y] p q by (auto simp: clear_low_eq_iff)
  qed
qed

text \<open>The test the ACL validator makes for a covered destination.\<close>

lemma Contains_subset:
  assumes "wf_prefix r" "wf_prefix p" "BitLen (prefix_Addr r) = BitLen (prefix_Addr p)"
    "prefix_Bits r \<le> prefix_Bits p" "Contains r (prefix_Addr p)" "Contains p a"
  shows "Contains r a"
  using assms(1)
proof (cases rule: wf_prefix_cases)
  case r: (1 x m)
  from assms(2,3) r obtain y n where p: "p = Prefix (IPv4 y) n" by (cases rule: wf_prefix_cases) auto
  from assms(6) p obtain z where a: "a = IPv4 z" by (cases a) auto
  from assms(4,6) r p a have "drop_bit (32 - m) y = drop_bit (32 - m) z"
    by (auto intro: drop_bit_coarser)
  with assms(5) r p a show ?thesis by simp
next
  case r: (2 x m)
  from assms(2,3) r obtain y n where p: "p = Prefix (IPv6 y []) n" by (cases rule: wf_prefix_cases) auto
  from assms(6) p obtain z where a: "a = IPv6 z []" by (cases a) auto
  from assms(4,6) r p a have "drop_bit (128 - m) y = drop_bit (128 - m) z"
    by (auto intro: drop_bit_coarser)
  with assms(5) r p a show ?thesis by simp
qed

section \<open>Decimal text\<close>

lemma is_digit_int: "is_digit c \<longleftrightarrow> 48 \<le> (of_char c :: int) \<and> (of_char c :: int) \<le> 57"
proof -
  have "is_digit c \<longleftrightarrow> 48 \<le> (of_char c :: nat) \<and> (of_char c :: nat) \<le> 57"
    by (simp add: is_digit_def less_eq_char_def)
  also have "\<dots> \<longleftrightarrow> 48 \<le> int (of_char c) \<and> int (of_char c) \<le> 57" by linarith
  finally show ?thesis by (simp only: of_nat_of_char)
qed

lemma digit_char: "0 \<le> d \<Longrightarrow> d < 10 \<Longrightarrow> (of_char (char_of (48 + d) :: char) :: int) = 48 + d"
  by simp

lemma dec_value_append: "dec_value (s @ [c]) = dec_value s * 10 + (of_char c - 48)"
  by (simp add: dec_value_def)

lemma dec_value_Nil [simp]: "dec_value [] = 0"
  by (simp add: dec_value_def)

lemma Itoa_props:
  "0 \<le> n \<Longrightarrow> list_all is_digit (Itoa n) \<and> dec_value (Itoa n) = n \<and> Itoa n \<noteq> [] \<and> (hd (Itoa n) = CHR ''0'' \<longleftrightarrow> n = 0)"
proof (induction n rule: Itoa.induct)
  case (1 n)
  show ?case
  proof (cases "n < 10")
    case True
    have "char_of (48 + n) = CHR ''0'' \<longleftrightarrow> (of_char (char_of (48 + n) :: char) :: int) = of_char (CHR ''0'')"
      by (simp only: of_char_eq_iff)
    then have "char_of (48 + n) = CHR ''0'' \<longleftrightarrow> n = 0"
      using True "1.prems" by simp
    with True "1.prems" show ?thesis
      by (simp add: Itoa.simps [of n] is_digit_int dec_value_def digit_char)
  next
    case False
    with "1.IH" "1.prems" have IH: "list_all is_digit (Itoa (n div 10))" "dec_value (Itoa (n div 10)) = n div 10"
      "Itoa (n div 10) \<noteq> []" "hd (Itoa (n div 10)) = CHR ''0'' \<longleftrightarrow> n div 10 = 0" by auto
    have "is_digit (char_of (48 + n mod 10))" "n div 10 \<noteq> 0"
      using False "1.prems" pos_mod_bound [of 10 n] by (simp_all add: is_digit_int)
    with IH False "1.prems" show ?thesis
      by (simp add: Itoa.simps [of n] dec_value_append digit_char)
  qed
qed

lemma dec_value_Cons: "dec_value (c # s) = (of_char c - 48) * 10 ^ length s + dec_value s"
  by (induction s rule: rev_induct) (simp_all add: dec_value_append dec_value_append [of "c # _", simplified] algebra_simps, simp add: dec_value_def)

lemma dec_value_bounds: "list_all is_digit s \<Longrightarrow> 0 \<le> dec_value s \<and> dec_value s < 10 ^ length s"
  by (induction s rule: rev_induct) (auto simp: dec_value_append is_digit_int)

text \<open>Decimal text without a leading zero is what \<open>Itoa\<close> prints.\<close>

lemma Itoa_dec_value:
  "list_all is_digit s \<Longrightarrow> s \<noteq> [] \<Longrightarrow> (1 < length s \<Longrightarrow> hd s \<noteq> CHR ''0'') \<Longrightarrow> Itoa (dec_value s) = s"
proof (induction s rule: rev_induct)
  case (snoc c s)
  then have c: "48 \<le> (of_char c :: int)" "(of_char c :: int) \<le> 57" by (simp_all add: is_digit_int)
  show ?case
  proof (cases "s = []")
    case True
    with c show ?thesis by (simp add: dec_value_def Itoa.simps [of "of_char c - 48"])
  next
    case False
    with snoc have IH: "Itoa (dec_value s) = s" and h: "hd s \<noteq> CHR ''0''" and d: "list_all is_digit s"
      by (auto simp: hd_append)
    have "dec_value s \<noteq> 0"
      using IH h Itoa_props [of 0] by auto
    with dec_value_bounds [OF d] have "0 < dec_value s" by simp
    with c IH show ?thesis
      by (simp add: dec_value_append Itoa.simps [of "dec_value s * 10 + _"])
  qed
qed simp

lemma parse_octet_Itoa: "0 \<le> n \<Longrightarrow> n \<le> 255 \<Longrightarrow> parse_octet (Itoa n) = Some n"
proof -
  assume n: "0 \<le> n" "n \<le> 255"
  have "1 < length (Itoa n) \<Longrightarrow> hd (Itoa n) \<noteq> CHR ''0''"
    using Itoa_props [OF n(1)] by (auto simp: Itoa.simps [of 0])
  with Itoa_props [OF n(1)] n show ?thesis by (auto simp: parse_octet_def)
qed

lemma parse_octet_SomeD: "parse_octet f = Some n \<Longrightarrow> f = Itoa n \<and> 0 \<le> n \<and> n \<le> 255"
  using Itoa_dec_value [of f] dec_value_bounds [of f]
  by (auto simp: parse_octet_def split: if_splits)

section \<open>IPv4 text\<close>

lemma no_dot_Itoa: "0 \<le> n \<Longrightarrow> CHR ''.'' \<notin> set (Itoa n)"
  using Itoa_props [of n] by (auto simp: list_all_iff is_digit_def less_eq_char_def)

lemma octets4_bounds: "d \<in> set (octets4 w) \<Longrightarrow> 0 \<le> d \<and> d \<le> 255"
proof -
  have "0 \<le> x mod 256 \<and> x mod 256 \<le> 255" for x :: int
    using pos_mod_bound [of 256 x] by simp
  then show "d \<in> set (octets4 w) \<Longrightarrow> ?thesis" unfolding octets4_def by fastforce
qed

lemma length_octets4 [simp]: "length (octets4 w) = 4"
  by (simp add: octets4_def)

lemma div_digit: "0 < m \<Longrightarrow> 0 < k \<Longrightarrow> x div (m * k) * k + x div m mod k = x div (m :: int)"
  by (simp add: zdiv_zmult2_eq)

lemma horner_octets4: "horner 256 (octets4 w) = uint w"
proof -
  let ?x = "uint w"
  have "?x < 2 ^ 32" using uint_lt2p [of w] by simp
  then have "?x div 16777216 mod 256 = ?x div 16777216"
    by (intro mod_pos_pos_trivial) (auto simp: pos_imp_zdiv_nonneg_iff)
  then show ?thesis
    using div_digit [of 65536 256 ?x] div_digit [of 256 256 ?x] div_digit [of 1 256 ?x]
    by (simp add: horner_def octets4_def)
qed

lemma octets4_alt: "octets4 w =
    [uint w div 256 div 256 div 256 mod 256, uint w div 256 div 256 mod 256, uint w div 256 mod 256, uint w mod 256]"
  by (simp add: octets4_def flip: zdiv_zmult2_eq)

lemma uint_of_int_32: "0 \<le> n \<Longrightarrow> n < 2 ^ 32 \<Longrightarrow> uint (word_of_int n :: 32 word) = n"
  by (simp add: uint_word_of_int)

lemma digit_int: "0 \<le> y \<Longrightarrow> y < k \<Longrightarrow> (x * k + y) mod k = y" "0 \<le> y \<Longrightarrow> y < k \<Longrightarrow> (x * k + y) div k = (x :: int)"
  by auto

lemma map_parse_octet_Some:
  "map parse_octet fs = map Some ds \<Longrightarrow> fs = map Itoa ds \<and> (\<forall>d \<in> set ds. 0 \<le> d \<and> d \<le> 255)"
  by (induction fs arbitrary: ds) (auto simp: Cons_eq_map_conv dest!: parse_octet_SomeD)

lemma find_after_digits:
  "list_all is_digit ds \<Longrightarrow>
   find (\<lambda>c. c = CHR ''.'' \<or> c = CHR '':'' \<or> c = CHR ''%'') (ds @ CHR ''.'' # t) = Some (CHR ''.'')"
  by (induction ds) (auto simp: is_digit_def less_eq_char_def)

lemma octets4_horner:
  assumes "length ds = 4" "\<And>d. d \<in> set ds \<Longrightarrow> 0 \<le> d \<and> d \<le> 255"
  shows "octets4 (of_int (horner 256 ds)) = ds"
proof -
  from assms(1) obtain a b c d where ds: "ds = [a, b, c, d]"
    by (auto simp: numeral_eq_Suc length_Suc_conv)
  have r: "0 \<le> a" "a \<le> 255" "0 \<le> b" "b \<le> 255" "0 \<le> c" "c \<le> 255" "0 \<le> d" "d \<le> 255"
    using assms(2) by (auto simp: ds)
  let ?n = "((a * 256 + b) * 256 + c) * 256 + d"
  have n: "0 \<le> ?n" "?n < 2 ^ 32" using r by auto
  have "horner 256 ds = ?n" by (simp add: ds horner_def)
  then have u: "uint (of_int (horner 256 ds) :: 32 word) = ?n"
    by (simp only: uint_of_int_32 [OF n])
  have d1: "?n mod 256 = d" "?n div 256 = (a * 256 + b) * 256 + c"
    using r by (intro digit_int; simp)+
  have d2: "((a * 256 + b) * 256 + c) mod 256 = c" "((a * 256 + b) * 256 + c) div 256 = a * 256 + b"
    using r by (intro digit_int; simp)+
  have d3: "(a * 256 + b) mod 256 = b" "(a * 256 + b) div 256 = a" "a mod 256 = a"
    using r by auto
  show ?thesis unfolding octets4_alt u d1 d2 d3 by (simp add: ds)
qed

lemma ParseAddr_dotted:
  assumes "length ds = 4" "\<And>d. d \<in> set ds \<Longrightarrow> 0 \<le> d \<and> d \<le> 255"
  shows "ParseAddr (Join (map Itoa ds) ''.'') = Some (IPv4 (of_int (horner 256 ds)))"
proof -
  let ?s = "Join (map Itoa ds) ''.''"
  have sp: "Split ?s (CHR ''.'') = map Itoa ds"
    using assms no_dot_Itoa by (intro Split_Join) auto
  have "map parse_octet (map Itoa ds) = map Some ds"
    using assms(2) parse_octet_Itoa by auto
  then have "parseIPv4Fields ?s = Some ds"
    using sp assms(1) by (simp add: parseIPv4Fields_def those_eq_Some)
  moreover have "find (\<lambda>c. c = CHR ''.'' \<or> c = CHR '':'' \<or> c = CHR ''%'') ?s = Some (CHR ''.'')"
  proof -
    from assms(1) obtain a b bs where ds: "ds = a # b # bs"
      by (auto simp: numeral_eq_Suc length_Suc_conv)
    have "list_all is_digit (Itoa a)" using assms(2) Itoa_props by (simp add: ds)
    then show ?thesis by (simp add: ds find_after_digits)
  qed
  ultimately show ?thesis by (simp add: ParseAddr_def parseIPv4_def)
qed

lemma ParseAddr_string4: "ParseAddr (string4 w) = Some (IPv4 w)"
  unfolding string4_def
  using ParseAddr_dotted [of "octets4 w"] octets4_bounds by (simp add: horner_octets4)

text \<open>IPv4 text has one spelling: what parses as an IPv4 address is what the address prints as.\<close>

lemma ParseAddr_IPv4D:
  assumes "ParseAddr s = Some (IPv4 w)"
  shows "s = string4 w"
proof -
  from assms have "parseIPv4 s = Some (IPv4 w)"
    by (auto simp: ParseAddr_def parseIPv6_def Let_def split: option.splits if_splits prod.splits)
  then obtain ds where ds: "map parse_octet (Split s (CHR ''.'')) = map Some ds" "length ds = 4"
    and w: "w = of_int (horner 256 ds)"
    by (auto simp: parseIPv4_def parseIPv4Fields_def Let_def those_eq_Some split: if_splits)
       (metis length_map)
  have b: "Split s (CHR ''.'') = map Itoa ds" "\<And>d. d \<in> set ds \<Longrightarrow> 0 \<le> d \<and> d \<le> 255"
    using map_parse_octet_Some [OF ds(1)] by simp_all
  have "s = Join (map Itoa ds) ''.''" using Join_Split [of s "CHR ''.''"] b(1) by simp
  then show ?thesis using octets4_horner [OF ds(2) b(2)] by (simp add: w string4_def)
qed

end
