(* ===== verification/Go_Net.thy ===== *)
theory Go_Net
  imports Netip
begin

text \<open>
  The model of \<open>net.SplitHostPort\<close>, \<open>net.ParseIP\<close>, \<open>strconv.ParseUint\<close> and
  \<open>url.Parse\<close> (as of the Go version of \<open>src/clientapi/go.mod\<close>) that the endpoint
  validator, the application targets and the control-plane URL check are built on.
\<close>

section \<open>Host and port\<close>

text \<open>
  The port is what follows the last colon. A host that starts with a bracket must close it just
  before that colon; any other host has no colon; no further brackets are allowed.
\<close>

definition SplitHostPort :: "string \<Rightarrow> (string \<times> string) option" where
  "SplitHostPort s =
     (case cut_last s (CHR '':'') of
        None \<Rightarrow> None
      | Some (pre, port) \<Rightarrow>
          if hd s = CHR ''['' then
            let host = butlast (tl pre)
            in if 2 \<le> length pre \<and> last pre = CHR '']'' \<and> CHR '']'' \<notin> set host \<and>
                  CHR ''['' \<notin> set (tl s) \<and> CHR '']'' \<notin> set port
               then Some (host, port) else None
          else if CHR '':'' \<notin> set pre \<and> CHR ''['' \<notin> set s \<and> CHR '']'' \<notin> set s
          then Some (pre, port) else None)"

definition ParseUint16 :: "string \<Rightarrow> int option" where
  "ParseUint16 s = (if s = [] \<or> \<not> list_all is_digit s \<or> 65535 < dec_value s then None else Some (dec_value s))"

lemma ParseUint16_range: "ParseUint16 s = Some n \<Longrightarrow> 0 \<le> n \<and> n \<le> 65535"
  using dec_value_bounds by (auto simp: ParseUint16_def split: if_splits)

text \<open>\<open>net.ParseIP\<close> is \<open>netip.ParseAddr\<close> without zones; \<open>IsLoopback\<close> unmaps IPv4 in IPv6.\<close>

definition net_ParseIP :: "string \<Rightarrow> Addr option" where
  "net_ParseIP s = (case ParseAddr s of Some a \<Rightarrow> if Zone a = [] then Some a else None | None \<Rightarrow> None)"

section \<open>URLs\<close>

text \<open>The fields of \<open>url.URL\<close> the API reads; \<open>url_User\<close> says whether \<open>User\<close> is not nil.\<close>

record URL =
  url_Scheme :: string
  url_User :: bool
  url_Host :: string
  url_Path :: string
  url_RawQuery :: string
  url_Fragment :: string

datatype url_mode = UrlHost | UrlZone | UrlOther

text \<open>Bytes that must be escaped in a host.\<close>

definition host_escape :: "char \<Rightarrow> bool" where
  "host_escape c \<longleftrightarrow> \<not> is_alnum c \<and> c \<notin> set ''-_.~!$&'' \<and> c \<notin> {CHR 0x27, CHR 0x22} \<and>
     c \<notin> set ''()*+,;=:[]<>''"

text \<open>Percent-decoding, with the extra restrictions inside a host or a zone.\<close>

fun unescape :: "url_mode \<Rightarrow> string \<Rightarrow> string option" where
  "unescape m [] = Some []"
| "unescape m (c # s) =
     (if c = CHR ''%'' then
        (case s of
           x # y # r \<Rightarrow>
             (case (hex_value x, hex_value y) of
                (Some a, Some b) \<Rightarrow>
                  let v = char_of (a * 16 + b); pct = (x = CHR ''2'' \<and> y = CHR ''5'')
                  in if (m = UrlHost \<and> a < 8 \<and> \<not> pct) \<or>
                        (m = UrlZone \<and> \<not> pct \<and> v \<noteq> CHR '' '' \<and> host_escape v) then None
                     else map_option (\<lambda>t. v # t) (unescape m r)
              | _ \<Rightarrow> None)
         | _ \<Rightarrow> None)
      else if m \<noteq> UrlOther \<and> (of_char c :: int) < 0x80 \<and> host_escape c then None
      else map_option (\<lambda>t. c # t) (unescape m s))"

definition validOptionalPort :: "string \<Rightarrow> bool" where
  "validOptionalPort s \<longleftrightarrow> s = [] \<or> (hd s = CHR '':'' \<and> list_all is_digit (tl s))"

text \<open>The scheme is the text before the first colon, when only scheme characters precede it.\<close>

definition scheme_char :: "char \<Rightarrow> bool" where
  "scheme_char c \<longleftrightarrow> is_alnum c \<or> c = CHR ''+'' \<or> c = CHR ''-'' \<or> c = CHR ''.''"

definition getScheme :: "string \<Rightarrow> (string \<times> string) option" where
  "getScheme s =
     (let h = takeWhile scheme_char s; t = dropWhile scheme_char s
      in if h \<noteq> [] \<and> \<not> (is_lower (hd h) \<or> is_upper (hd h)) then Some ([], s)
         else if t \<noteq> [] \<and> hd t = CHR '':'' then (if h = [] then None else Some (h, tl t))
         else Some ([], s))"

text \<open>Index of the first occurrence of \<open>%25\<close>, where a zone starts.\<close>

fun zone_split :: "string \<Rightarrow> string \<times> string" where
  "zone_split [] = ([], [])"
| "zone_split (c # s) =
     (if prefix ''%25'' (c # s) then ([], c # s) else (case zone_split s of (a, b) \<Rightarrow> (c # a, b)))"

text \<open>
  A bracketed host must be an IPv6 address; otherwise the text from the first colon on must be
  a port.
\<close>

definition parseHost :: "string \<Rightarrow> string option" where
  "parseHost h =
     (case cut_last h (CHR ''['') of
        Some (pre, _) \<Rightarrow>
          if pre \<noteq> [] then None
          else (case cut_last (tl h) (CHR '']'') of
                  None \<Rightarrow> None
                | Some (name, port) \<Rightarrow>
                    (case zone_split name of (n, z) \<Rightarrow>
                     (case (unescape UrlHost n, unescape UrlZone z, unescape UrlHost port) of
                        (Some n', Some z', Some port') \<Rightarrow>
                          if validOptionalPort port \<and>
                             (\<exists>a \<in> set_option (ParseAddr (n' @ z')). \<not> Is4 a)
                          then Some (''['' @ n' @ z' @ '']'' @ port') else None
                      | _ \<Rightarrow> None)))
      | None \<Rightarrow>
          if validOptionalPort (dropWhile (\<lambda>c. c \<noteq> CHR '':'') h) then unescape UrlHost h else None)"

definition userinfo_char :: "char \<Rightarrow> bool" where
  "userinfo_char c \<longleftrightarrow> is_alnum c \<or> c \<in> set ''-._:~!$&()*+,;=%@'' \<or> c = CHR 0x27"

definition parseAuthority :: "string \<Rightarrow> (bool \<times> string) option" where
  "parseAuthority a =
     (case cut_last a (CHR ''@'') of
        None \<Rightarrow> map_option (Pair False) (parseHost a)
      | Some (u, h) \<Rightarrow>
          if list_all userinfo_char u \<and> unescape UrlOther (fst (Cut u (CHR '':''))) \<noteq> None \<and>
             unescape UrlOther (snd (Cut u (CHR '':''))) \<noteq> None
          then map_option (Pair True) (parseHost h) else None)"

definition ctl_byte :: "char \<Rightarrow> bool" where
  "ctl_byte c \<longleftrightarrow> c < CHR '' '' \<or> c = CHR 0x7F"

definition empty_URL :: URL where
  "empty_URL = \<lparr>url_Scheme = [], url_User = False, url_Host = [], url_Path = [], url_RawQuery = [],
                url_Fragment = []\<rparr>"

text \<open>The URL without its fragment.\<close>

definition url_parse :: "string \<Rightarrow> URL option" where
  "url_parse raw =
     (if list_ex ctl_byte raw then None
      else if raw = ''*'' then Some (empty_URL\<lparr>url_Path := ''*''\<rparr>)
      else case getScheme raw of
        None \<Rightarrow> None
      | Some (sch, rest0) \<Rightarrow>
          let scheme = ToLower sch;
              (rest, query) =
                (if rest0 \<noteq> [] \<and> last rest0 = CHR ''?'' \<and> count_list rest0 (CHR ''?'') = 1
                 then (butlast rest0, []) else Cut rest0 (CHR ''?''));
              u = empty_URL\<lparr>url_Scheme := scheme, url_RawQuery := query\<rparr>
          in if \<not> prefix ''/'' rest \<and> scheme \<noteq> [] then Some u
             else if \<not> prefix ''/'' rest \<and> CHR '':'' \<in> set (fst (Cut rest (CHR ''/''))) then None
             else if prefix ''//'' rest \<and> (scheme \<noteq> [] \<or> \<not> prefix ''///'' rest) then
               let auth = takeWhile (\<lambda>c. c \<noteq> CHR ''/'') (drop 2 rest);
                   path = dropWhile (\<lambda>c. c \<noteq> CHR ''/'') (drop 2 rest)
               in (case (parseAuthority auth, unescape UrlOther path) of
                     (Some (user, host), Some p) \<Rightarrow>
                       Some (u\<lparr>url_User := user, url_Host := host, url_Path := p\<rparr>)
                   | _ \<Rightarrow> None)
             else map_option (\<lambda>p. u\<lparr>url_Path := p\<rparr>) (unescape UrlOther rest))"

definition url_Parse :: "string \<Rightarrow> URL option" where
  "url_Parse raw =
     (case (url_parse (fst (Cut raw (CHR ''#''))), unescape UrlOther (snd (Cut raw (CHR ''#'')))) of
        (Some u, Some f) \<Rightarrow> Some (u\<lparr>url_Fragment := f\<rparr>)
      | _ \<Rightarrow> None)"

definition url_splitHostPort :: "string \<Rightarrow> string \<times> string" where
  "url_splitHostPort hp =
     (let (host, port) =
            (case cut_last hp (CHR '':'') of
               Some (h, p) \<Rightarrow> if list_all is_digit p then (h, p) else (hp, [])
             | None \<Rightarrow> (hp, []))
      in (if prefix ''['' host \<and> suffix '']'' host then butlast (tl host) else host, port))"

definition url_Hostname :: "URL \<Rightarrow> string" where "url_Hostname u = fst (url_splitHostPort (url_Host u))"
definition url_Port :: "URL \<Rightarrow> string" where "url_Port u = snd (url_splitHostPort (url_Host u))"

end
