(* ===== verification/Wireguard.thy ===== *)
theory Wireguard
  imports Go_Net
begin

text \<open>
  The package \<open>wgkeys\<close> (\<open>src/clientapi/wireguard\<close>): the validation of keys, host names,
  endpoints, addresses and prefixes shared by both sides of the contract, and key generation.
\<close>

unbundle bit_operations_syntax

section \<open>Validators (validate.go)\<close>

definition unsafe_rune :: "int \<Rightarrow> bool" where
  "unsafe_rune r \<longleftrightarrow> IsControl r \<or> r = 0x2028 \<or> r = 0x2029"

definition ValidateSafeText :: "string \<Rightarrow> string \<Rightarrow> err" where
  "ValidateSafeText field value =
     first_err
       [guard (\<not> ValidString value) (field @ '' contains invalid UTF-8''),
        guard (list_ex unsafe_rune (runes value)) (field @ '' contains a control character'')]"

definition validateKey :: "string \<Rightarrow> string \<Rightarrow> err" where
  "validateKey field value =
     first_err
       [ValidateSafeText field value,
        guard (value \<noteq> TrimSpace value \<or> value = [])
          (field @ '' must not be empty or contain surrounding whitespace''),
        guard (case DecodeString StdEncoding True value of
                 None \<Rightarrow> True
               | Some raw \<Rightarrow> length raw \<noteq> 32 \<or> EncodeToString StdEncoding raw \<noteq> value)
          (field @ '' must be canonical standard base64 encoding of 32 bytes'')]"

definition ValidatePublicKey :: "string \<Rightarrow> err" where
  "ValidatePublicKey value = validateKey ''wireguard public key'' value"

definition ValidatePrivateKey :: "string \<Rightarrow> err" where
  "ValidatePrivateKey value = validateKey ''wireguard private key'' value"

definition hostname_char :: "string \<Rightarrow> nat \<Rightarrow> bool" where
  "hostname_char label i \<longleftrightarrow>
     (let c = label ! i
      in is_lower c \<or> is_upper c \<or> is_digit c \<or>
         (c = CHR ''-'' \<and> 0 < i \<and> i < length label - 1))"

definition validateLabel :: "string \<Rightarrow> err" where
  "validateLabel label =
     first_err
       [guard (length label = 0 \<or> 63 < length label)
          ''hostname labels must contain between 1 and 63 characters'',
        range_err
          (\<lambda>i. guard (\<not> hostname_char label i)
             ''hostname must use RFC 1123 letters, digits, dots, and non-edge hyphens'')
          [0..<length label]]"

definition ValidateHostname :: "string \<Rightarrow> err" where
  "ValidateHostname value =
     first_err
       [ValidateSafeText ''hostname'' value,
        guard (value = [] \<or> value \<noteq> TrimSpace value)
          ''hostname must not be empty or contain surrounding whitespace'',
        guard (253 < len value) ''hostname must be at most 253 characters'',
        range_err validateLabel (Split value (CHR ''.''))]"

definition ValidateEndpoint :: "string \<Rightarrow> err" where
  "ValidateEndpoint value =
     first_err
       [ValidateSafeText ''endpoint'' value,
        guard (value = [] \<or> value \<noteq> TrimSpace value)
          ''endpoint must not be empty or contain surrounding whitespace'',
        (case SplitHostPort value of
           None \<Rightarrow> Some (Errorf ''endpoint must be host:port with bracketed IPv6: %w'')
         | Some (host, portText) \<Rightarrow>
             first_err
               [guard (host = [] \<or> CHR ''%'' \<in> set host) ''endpoint host is invalid'',
                guard (case Atoi portText of
                         None \<Rightarrow> True
                       | Some port \<Rightarrow> port < 1 \<or> 65535 < port \<or> Itoa port \<noteq> portText)
                  ''endpoint port must be a decimal number between 1 and 65535'',
                (case ParseAddr host of
                   Some addr \<Rightarrow> guard (\<not> addr_IsValid addr) ''endpoint IP address is invalid''
                 | None \<Rightarrow> wrap ''endpoint host'' (ValidateHostname host))])]"

definition bad_address :: "string \<Rightarrow> bool" where
  "bad_address value =
     (case ParseAddr value of None \<Rightarrow> True | Some addr \<Rightarrow> \<not> addr_IsValid addr \<or> Zone addr \<noteq> [])"

definition ValidateDNSIP :: "string \<Rightarrow> err" where
  "ValidateDNSIP value =
     first_err
       [ValidateSafeText ''DNS address'' value,
        guard (value = [] \<or> value \<noteq> TrimSpace value)
          ''DNS address must not be empty or contain surrounding whitespace'',
        guard (bad_address value) ''DNS address must be an IPv4 or IPv6 address'']"

definition ValidateAddr :: "string \<Rightarrow> string \<Rightarrow> err" where
  "ValidateAddr field value =
     first_err
       [ValidateSafeText field value,
        guard (value = [] \<or> value \<noteq> TrimSpace value)
          (field @ '' must not be empty or contain surrounding whitespace''),
        guard (bad_address value) (field @ '' must be an IPv4 or IPv6 address'')]"

definition ValidatePrefix :: "string \<Rightarrow> string \<Rightarrow> err" where
  "ValidatePrefix field value =
     first_err
       [ValidateSafeText field value,
        guard (value = [] \<or> value \<noteq> TrimSpace value)
          (field @ '' must not be empty or contain surrounding whitespace''),
        guard (case ParsePrefix value of
                 None \<Rightarrow> True
               | Some p \<Rightarrow> \<not> prefix_IsValid p \<or> Zone (prefix_Addr p) \<noteq> [])
          (field @ '' must be an IPv4 or IPv6 prefix'')]"

section \<open>Keys (keys.go)\<close>

text \<open>
  \<open>key[0] &= 248; key[31] &= 127; key[31] |= 64\<close> on a 32-byte array.
\<close>

definition byte_op :: "(8 word \<Rightarrow> 8 word) \<Rightarrow> char \<Rightarrow> char" where
  "byte_op f c = char_of (uint (f (of_char c)))"

definition clamp :: "string \<Rightarrow> string" where
  "clamp key =
     (let key1 = key[0 := byte_op (\<lambda>b. b AND 248) (key ! 0)];
          key2 = key1[31 := byte_op (\<lambda>b. b AND 127) (key1 ! 31)]
      in key2[31 := byte_op (\<lambda>b. b OR 64) (key2 ! 31)])"

text \<open>The random source is an argument: the 32 bytes \<open>rand.Read\<close> delivers, or its error.\<close>

definition GeneratePrivateKey :: "string result \<Rightarrow> string result" where
  "GeneratePrivateKey random =
     (case random of Inl e \<Rightarrow> Inl e | Inr key \<Rightarrow> Inr (EncodeToString StdEncoding (clamp key)))"

text \<open>\<open>x25519\<close> stands for \<open>curve25519.X25519(raw, curve25519.Basepoint)\<close>.\<close>

definition PublicKey :: "(string \<Rightarrow> string result) \<Rightarrow> string \<Rightarrow> string result" where
  "PublicKey x25519 privateKey =
     (case DecodeString StdEncoding False privateKey of
        None \<Rightarrow> Inl (Errorf ''illegal base64 data'')
      | Some raw \<Rightarrow>
          if length raw \<noteq> 32 then Inl (Errorf ''wireguard private key must decode to 32 bytes'')
          else (case x25519 raw of Inl e \<Rightarrow> Inl e | Inr pub \<Rightarrow> Inr (EncodeToString StdEncoding pub)))"

section \<open>Text that passes the checks\<close>

lemma runes_of_ascii: "(\<And>b. b \<in> set bs \<Longrightarrow> 0 \<le> b \<and> b < 0x80) \<Longrightarrow> runes_of bs = map (\<lambda>b. (b, 1)) bs"
  by (induction bs) auto

lemma graphic_int: "graphic c \<Longrightarrow> 0x21 \<le> (of_char c :: int) \<and> (of_char c :: int) \<le> 0x7E"
proof -
  assume "graphic c"
  then have "0x21 \<le> (of_char c :: nat)" "(of_char c :: nat) \<le> 0x7E"
    by (simp_all add: graphic_def less_eq_char_def)
  then have "0x21 \<le> int (of_char c) \<and> int (of_char c) \<le> 0x7E" by linarith
  then show ?thesis by (simp only: of_nat_of_char)
qed

lemma runes_of_graphic:
  assumes "list_all graphic s"
  shows "runes_of (map of_char s) = map (\<lambda>c. (of_char c, 1)) s"
proof -
  have "\<And>b. b \<in> set (map of_char s) \<Longrightarrow> 0 \<le> b \<and> b < (0x80 :: int)"
    using assms graphic_int by (fastforce simp: list_all_iff)
  then have "runes_of (map of_char s) = map (\<lambda>b. (b, 1)) (map of_char s)" by (rule runes_of_ascii)
  then show ?thesis by simp
qed

text \<open>Printable ASCII without spaces is safe text.\<close>

lemma ValidateSafeText_graphic: "list_all graphic s \<Longrightarrow> ValidateSafeText f s = None"
proof -
  assume g: "list_all graphic s"
  have "\<not> unsafe_rune (of_char c)" "(of_char c :: int) \<noteq> RuneError" if "c \<in> set s" for c
  proof -
    have "graphic c" using g that by (simp add: list_all_iff)
    from graphic_int [OF this] show "\<not> unsafe_rune (of_char c)" "(of_char c :: int) \<noteq> RuneError"
      by (simp_all add: unsafe_rune_def IsControl_def RuneError_def)
  qed
  then show ?thesis
    by (auto simp: ValidateSafeText_def ValidString_def runes_def runes_of_graphic [OF g] list_all_iff list_ex_iff)
qed

text \<open>Safe text has no ASCII control character, so no line break can be smuggled in.\<close>

lemma safe_text_no_control:
  assumes "ValidateSafeText f v = None" and "c \<in> set v"
  shows "\<not> c < CHR '' ''" and "c \<noteq> CHR 0x7F"
proof -
  have no: "\<not> unsafe_rune r" if "r \<in> set (runes v)" for r
    using assms(1) that by (auto simp: ValidateSafeText_def list_ex_iff)
  have "\<not> IsControl (of_char c)" if "of_char c < (0x80 :: int)"
    using no [OF ascii_in_runes [OF assms(2) that]] by (simp add: unsafe_rune_def)
  then have "\<not> of_char c < (0x20 :: int)" "of_char c \<noteq> (0x7F :: int)"
    by (auto simp: IsControl_def)
  then have n: "\<not> int (of_char c) < 0x20" "int (of_char c) \<noteq> 0x7F" by (simp_all only: of_nat_of_char not_False_eq_True)
  show "\<not> c < CHR '' ''" using n(1) by (simp add: less_char_def del: of_nat_of_char)
  show "c \<noteq> CHR 0x7F" using n(2) by auto
qed

section \<open>Keys\<close>

lemma length_std_encode_32: "length raw = 32 \<Longrightarrow> length (EncodeToString StdEncoding raw) = 44"
  by (simp add: length_EncodeToString StdEncoding_def)

lemma validateKey_iff:
  "validateKey f v = None \<longleftrightarrow> (\<exists>raw. length raw = 32 \<and> v = EncodeToString StdEncoding raw)"
proof
  assume "validateKey f v = None"
  then show "\<exists>raw. length raw = 32 \<and> v = EncodeToString StdEncoding raw"
    by (auto simp: validateKey_def split: option.splits)
next
  assume "\<exists>raw. length raw = 32 \<and> v = EncodeToString StdEncoding raw"
  then obtain raw where raw: "length raw = 32" and v: "v = EncodeToString StdEncoding raw" by blast
  have "v \<noteq> []" using length_std_encode_32 [OF raw] v by auto
  with raw show "validateKey f v = None"
    using ValidateSafeText_graphic [OF std.encode_graphic] std.strict.enc_trimmed
    by (simp add: validateKey_def v std.decode_encode)
qed

lemma length_clamp [simp]: "length (clamp key) = length key"
  by (simp add: clamp_def Let_def)

lemma byte_op_of_char: "(of_char (byte_op f c) :: 8 word) = f (of_char c)"
proof -
  have "uint (f (of_char c)) mod 256 = uint (f (of_char c))"
    using uint_lt2p [of "f (of_char c)"] by (intro mod_pos_pos_trivial) simp_all
  then have "(of_char (byte_op f c) :: int) = uint (f (of_char c))"
    by (simp add: byte_op_def of_char_of)
  then have "word_of_int (of_char (byte_op f c)) = f (of_char c)" by simp
  then show ?thesis by (simp only: of_int_of_char)
qed

text \<open>The low three bits are cleared, bit 255 is cleared and bit 254 set; the other bytes stay.\<close>

lemma clamp_bits:
  assumes "length key = 32"
  shows "(of_char (clamp key ! 0) :: 8 word) AND 7 = 0"
    and "(of_char (clamp key ! 31) :: 8 word) AND 192 = 64"
    and "0 < i \<Longrightarrow> i < 31 \<Longrightarrow> clamp key ! i = key ! i"
proof -
  have "(x AND 248) AND 7 = 0" for x :: "8 word"
    by (simp add: and.assoc)
  moreover have "(x AND 127 OR 64) AND 192 = 64" for x :: "8 word"
    by (simp add: bit.conj_disj_distrib2 and.assoc)
  ultimately show "(of_char (clamp key ! 0) :: 8 word) AND 7 = 0"
    and "(of_char (clamp key ! 31) :: 8 word) AND 192 = 64"
    using assms by (simp_all add: clamp_def Let_def byte_op_of_char)
  show "0 < i \<Longrightarrow> i < 31 \<Longrightarrow> clamp key ! i = key ! i"
    by (simp add: clamp_def Let_def)
qed

section \<open>Host names\<close>

text \<open>RFC 1123: labels of 1 to 63 letters, digits and inner hyphens, at most 253 characters in all.\<close>

definition rfc1123_label :: "string \<Rightarrow> bool" where
  "rfc1123_label l \<longleftrightarrow> l \<noteq> [] \<and> length l \<le> 63 \<and> (\<forall>c \<in> set l. is_alnum c \<or> c = CHR ''-'') \<and>
     hd l \<noteq> CHR ''-'' \<and> last l \<noteq> CHR ''-''"

lemma hyphen_not_alnum: "\<not> is_alnum (CHR ''-'')"
  by code_simp

lemma hostname_char_iff:
  "hostname_char l i \<longleftrightarrow> is_alnum (l ! i) \<or> (l ! i = CHR ''-'' \<and> 0 < i \<and> i < length l - 1)"
  by (simp add: hostname_char_def is_alnum_def Let_def)

lemma hostname_label_iff:
  assumes "l \<noteq> []"
  shows "(\<forall>i < length l. hostname_char l i) \<longleftrightarrow>
     (\<forall>c \<in> set l. is_alnum c \<or> c = CHR ''-'') \<and> hd l \<noteq> CHR ''-'' \<and> last l \<noteq> CHR ''-''"
    (is "?L \<longleftrightarrow> ?R")
proof
  assume L: ?L
  have "hostname_char l 0" "hostname_char l (length l - 1)" using L assms by auto
  then have "hd l \<noteq> CHR ''-''" "last l \<noteq> CHR ''-''"
    using assms hyphen_not_alnum by (auto simp: hostname_char_iff hd_conv_nth last_conv_nth)
  with L show ?R by (auto simp: hostname_char_iff all_set_conv_all_nth)
next
  assume R: ?R
  show ?L
  proof (intro allI impI)
    fix i assume i: "i < length l"
    with R assms have "l ! i \<noteq> CHR ''-'' \<or> 0 < i \<and> i < length l - 1"
      by (cases "i = 0"; cases "i = length l - 1") (auto simp: hd_conv_nth last_conv_nth)
    with R i show "hostname_char l i" by (auto simp: hostname_char_iff all_set_conv_all_nth)
  qed
qed

lemma validateLabel_None: "validateLabel l = None \<longleftrightarrow> rfc1123_label l"
proof (cases "l = []")
  case False
  then show ?thesis
    using hostname_label_iff [OF False] by (auto simp: validateLabel_def rfc1123_label_def)
qed (simp add: validateLabel_def rfc1123_label_def)

lemma set_Split: "c \<in> set s \<Longrightarrow> c = sep \<or> (\<exists>f \<in> set (Split s sep). c \<in> set f)"
  by (induction s) (auto split: list.splits)

lemma labels_graphic:
  assumes "\<forall>l \<in> set (Split v (CHR ''.'')). rfc1123_label l"
  shows "list_all graphic v" and "v \<noteq> []"
proof -
  show "list_all graphic v"
    unfolding list_all_iff
  proof
    fix c assume "c \<in> set v"
    from set_Split [OF this, of "CHR ''.''"] assms
    have "c = CHR ''.'' \<or> c = CHR ''-'' \<or> is_alnum c" unfolding rfc1123_label_def by blast
    moreover have "graphic (CHR ''.'')" "graphic (CHR ''-'')" by code_simp+
    ultimately show "graphic c" using graphic_alnum by blast
  qed
  show "v \<noteq> []"
  proof
    assume "v = []"
    with assms show False by (simp add: rfc1123_label_def)
  qed
qed

lemma ValidateHostname_iff:
  "ValidateHostname v = None \<longleftrightarrow> length v \<le> 253 \<and> (\<forall>l \<in> set (Split v (CHR ''.'')). rfc1123_label l)"
proof -
  have "ValidateHostname v = None \<longleftrightarrow> ValidateSafeText ''hostname'' v = None \<and> v \<noteq> [] \<and> v = TrimSpace v \<and>
      length v \<le> 253 \<and> (\<forall>l \<in> set (Split v (CHR ''.'')). rfc1123_label l)"
    unfolding ValidateHostname_def first_err_None
    by (simp add: validateLabel_None not_less len_def)
  then show ?thesis
    using labels_graphic [of v] ValidateSafeText_graphic trimmed_graphic TrimSpace_trimmed by metis
qed

section \<open>Addresses, prefixes, endpoints\<close>

lemma Cut_none: "c \<notin> set s \<Longrightarrow> Cut s c = (s, [])"
proof -
  assume "c \<notin> set s"
  then have d: "dropWhile (\<lambda>x. x \<noteq> c) s = []" and t: "takeWhile (\<lambda>x. x \<noteq> c) s = s"
    by (auto simp: dropWhile_eq_Nil_conv takeWhile_eq_all_conv)
  show ?thesis unfolding Cut_def d t by simp
qed

lemma ParseAddr_zone: "ParseAddr s = Some a \<Longrightarrow> CHR ''%'' \<notin> set s \<Longrightarrow> Zone a = []"
  by (auto simp: ParseAddr_def parseIPv4_def parseIPv6_def Cut_none Let_def
      split: option.splits if_splits prod.splits)

lemma ValidateAddr_SomeD: "ValidateAddr f v = None \<Longrightarrow> \<exists>a. ParseAddr v = Some a \<and> a \<noteq> NoAddr \<and> Zone a = []"
  by (auto simp: ValidateAddr_def bad_address_def addr_IsValid_def split: option.splits)

lemma ValidatePrefix_SomeD: "ValidatePrefix f v = None \<Longrightarrow> \<exists>p. ParsePrefix v = Some p \<and> wf_prefix p"
  by (auto simp: ValidatePrefix_def split: option.splits intro: wf_ParsePrefix)

lemma Atoi_Itoa: "0 \<le> n \<Longrightarrow> n < 2 ^ 63 \<Longrightarrow> Atoi (Itoa n) = Some n"
proof -
  assume n: "0 \<le> n" "n < 2 ^ 63"
  have "is_digit (hd (Itoa n))"
    using Itoa_props [OF n(1)] by (metis hd_in_set list_all_iff)
  then have "hd (Itoa n) \<noteq> CHR ''-''" "hd (Itoa n) \<noteq> CHR ''+''"
    by (auto simp: is_digit_def less_eq_char_def)
  with Itoa_props [OF n(1)] n show ?thesis by (simp add: Atoi_def)
qed

lemma digits_graphic: "list_all is_digit s \<Longrightarrow> list_all graphic s"
  using graphic_alnum by (auto simp: list_all_iff is_alnum_def)

lemma SplitHostPort_plain:
  assumes "CHR '':'' \<notin> set h" "CHR ''['' \<notin> set h" "CHR '']'' \<notin> set h" "h \<noteq> []" "list_all is_digit p"
  shows "SplitHostPort (h @ CHR '':'' # p) = Some (h, p)"
proof -
  have p: "CHR '':'' \<notin> set p" "CHR ''['' \<notin> set p" "CHR '']'' \<notin> set p"
    using assms(5) by (auto simp: list_all_iff is_digit_def less_eq_char_def)
  have "cut_last (h @ CHR '':'' # p) (CHR '':'') = Some (h, p)"
    using p by (simp add: cut_last_Some)
  moreover have "hd h \<noteq> CHR ''[''" using assms(2,4) by (cases h) auto
  ultimately show ?thesis using assms p by (simp add: SplitHostPort_def)
qed

lemma hostname_chars:
  assumes "ValidateHostname h = None"
  shows "CHR '':'' \<notin> set h" "CHR ''['' \<notin> set h" "CHR '']'' \<notin> set h" "CHR ''%'' \<notin> set h" "h \<noteq> []" "list_all graphic h"
proof -
  have L: "\<forall>l \<in> set (Split h (CHR ''.'')). rfc1123_label l" using assms ValidateHostname_iff by simp
  show "h \<noteq> []" "list_all graphic h" using labels_graphic [OF L] by simp_all
  have "\<not> is_alnum (CHR '':'')" "\<not> is_alnum (CHR ''['')" "\<not> is_alnum (CHR '']'')" "\<not> is_alnum (CHR ''%'')"
    by code_simp+
  then show "CHR '':'' \<notin> set h" "CHR ''['' \<notin> set h" "CHR '']'' \<notin> set h" "CHR ''%'' \<notin> set h"
    using L set_Split [of _ h "CHR ''.''"] unfolding rfc1123_label_def by fastforce+
qed

lemma ValidateEndpoint_host_port:
  assumes "ValidateHostname h = None" "1 \<le> port" "port \<le> 65535"
  shows "ValidateEndpoint (h @ '':'' @ Itoa port) = None"
proof -
  have d: "list_all is_digit (Itoa port)" using Itoa_props [of port] assms(2) by simp
  note h = hostname_chars [OF assms(1)]
  have g: "list_all graphic (h @ '':'' @ Itoa port)"
    using h(6) digits_graphic [OF d] by (simp add: graphic_def less_eq_char_def)
  have "SplitHostPort (h @ '':'' @ Itoa port) = Some (h, Itoa port)"
    using SplitHostPort_plain [OF h(1-3,5) d] by simp
  moreover have "Atoi (Itoa port) = Some port" using assms(2,3) by (intro Atoi_Itoa) auto
  ultimately show ?thesis
    using assms h ParseAddr_valid [of h] ValidateSafeText_graphic [OF g] TrimSpace_trimmed [OF trimmed_graphic [OF g]]
    by (auto simp: ValidateEndpoint_def addr_IsValid_def split: option.splits)
qed

lemma ValidateEndpoint_SomeD:
  assumes "ValidateEndpoint v = None"
  shows "\<exists>host port. SplitHostPort v = Some (host, Itoa port) \<and> 1 \<le> port \<and> port \<le> 65535 \<and>
    (ValidateHostname host = None \<or> (\<exists>a. ParseAddr host = Some a \<and> Zone a = []))"
proof -
  from assms obtain host pt where s: "SplitHostPort v = Some (host, pt)"
    and r: "CHR ''%'' \<notin> set host" "\<exists>port. Atoi pt = Some port \<and> 1 \<le> port \<and> port \<le> 65535 \<and> Itoa port = pt"
      "ParseAddr host = None \<longrightarrow> ValidateHostname host = None"
    by (auto simp: ValidateEndpoint_def not_less split: option.splits prod.splits)
  then show ?thesis using ParseAddr_zone [of host] by (cases "ParseAddr host") auto
qed

section \<open>Properties\<close>

text \<open>
  C39. A WireGuard public key is accepted exactly when it is the padded standard base64 encoding
  of some 32 bytes; in particular line breaks, missing padding, non-zero filling bits and
  surrounding space are rejected, and two different accepted texts are different keys.
\<close>

theorem ValidatePublicKey_canonical:
  "ValidatePublicKey v = None \<longleftrightarrow> (\<exists>raw. length raw = 32 \<and> v = EncodeToString StdEncoding raw)"
  by (simp add: ValidatePublicKey_def validateKey_iff)

text \<open>
  C40. From any 32 random bytes \<open>GeneratePrivateKey\<close> makes a key text that the validator
  accepts and that decodes to the clamped scalar: the low three bits of the first byte are
  clear, bit 7 of the last byte is clear and bit 6 set, every other byte is the random one; and
  \<open>PublicKey\<close> reads that scalar.
\<close>

theorem GeneratePrivateKey_valid:
  assumes "length key = 32"
  shows "\<exists>k raw. GeneratePrivateKey (Inr key) = Inr k \<and> ValidatePrivateKey k = None \<and>
    DecodeString StdEncoding True k = Some raw \<and> length raw = 32 \<and>
    (of_char (raw ! 0) :: 8 word) AND 7 = 0 \<and> (of_char (raw ! 31) :: 8 word) AND 192 = 64 \<and>
    (\<forall>i \<in> {0 <..< 31}. raw ! i = key ! i) \<and>
    PublicKey x25519 k = (case x25519 raw of Inl e \<Rightarrow> Inl e | Inr pub \<Rightarrow> Inr (EncodeToString StdEncoding pub))"
proof -
  have "ValidatePrivateKey (EncodeToString StdEncoding (clamp key)) = None"
    unfolding ValidatePrivateKey_def validateKey_iff
    using assms by (intro exI [of _ "clamp key"]) simp
  with assms show ?thesis
    by (intro exI [of _ "EncodeToString StdEncoding (clamp key)"] exI [of _ "clamp key"])
       (simp add: GeneratePrivateKey_def PublicKey_def std.decode_encode clamp_bits)
qed

theorem GeneratePrivateKey_valid_witness:
  "\<exists>k raw. GeneratePrivateKey (Inr (replicate 32 (CHR 0xFF))) = Inr k \<and> ValidatePrivateKey k = None \<and>
    DecodeString StdEncoding True k = Some raw \<and> length raw = 32 \<and>
    (of_char (raw ! 0) :: 8 word) AND 7 = 0 \<and> (of_char (raw ! 31) :: 8 word) AND 192 = 64 \<and>
    raw ! 7 = CHR 0xFF \<and> PublicKey Inr k = Inr (EncodeToString StdEncoding raw)"
proof -
  have "length (replicate 32 (CHR 0xFF)) = 32" by simp
  from GeneratePrivateKey_valid [OF this, of Inr] show ?thesis by fastforce
qed

text \<open>
  \<open>ValidateHostname\<close> accepts exactly the RFC 1123 host names without a trailing root dot:
  at most 253 bytes, dot-separated labels of 1 to 63 letters, digits and hyphens with no hyphen
  at either end of a label.
\<close>

theorem ValidateHostname_rfc1123:
  "ValidateHostname v = None \<longleftrightarrow> length v \<le> 253 \<and> list_all rfc1123_label (Split v (CHR ''.''))"
  by (simp add: ValidateHostname_iff list_all_iff)

text \<open>
  An accepted endpoint splits into a host and the canonical decimal text of a port between
  1 and 65535, and the host is an RFC 1123 name or an IP address without a zone; conversely a
  valid host name joined with such a port is accepted.
\<close>

theorem ValidateEndpoint_shape:
  "(ValidateEndpoint v = None \<longrightarrow>
     (\<exists>host port. SplitHostPort v = Some (host, Itoa port) \<and> 1 \<le> port \<and> port \<le> 65535 \<and>
        (ValidateHostname host = None \<or> (\<exists>a. ParseAddr host = Some a \<and> Zone a = [])))) \<and>
   (ValidateHostname h = None \<and> 1 \<le> port \<and> port \<le> 65535 \<longrightarrow>
     ValidateEndpoint (h @ '':'' @ Itoa port) = None)"
  using ValidateEndpoint_SomeD [of v] ValidateEndpoint_host_port [of h port] by blast

theorem ValidateEndpoint_shape_witness:
  "(\<exists>host port. SplitHostPort ''[2001:db8::1]:51820'' = Some (host, Itoa port) \<and> 1 \<le> port \<and> port \<le> 65535 \<and>
        (ValidateHostname host = None \<or> (\<exists>a. ParseAddr host = Some a \<and> Zone a = []))) \<and>
   ValidateEndpoint (''vpn.example.com'' @ '':'' @ Itoa 443) = None"
proof -
  have v: "ValidateEndpoint ''[2001:db8::1]:51820'' = None" and h: "ValidateHostname ''vpn.example.com'' = None"
    by code_simp+
  show ?thesis
    using ValidateEndpoint_shape [of "''[2001:db8::1]:51820''" "''vpn.example.com''" 443] v h by auto
qed

text \<open>
  Text that passes \<open>ValidateSafeText\<close> contains no byte below space and no DEL, so it
  cannot split a line of a generated WireGuard configuration.
\<close>

theorem ValidateSafeText_one_line:
  "ValidateSafeText field v = None \<Longrightarrow> list_all (\<lambda>c. CHR '' '' \<le> c \<and> c \<noteq> CHR 0x7F) v"
  using safe_text_no_control [of field v] by (auto simp: list_all_iff not_less)

theorem ValidateSafeText_one_line_witness:
  "list_all (\<lambda>c. CHR '' '' \<le> c \<and> c \<noteq> CHR 0x7F) ''caf'' \<and>
   ValidateSafeText ''name'' [CHR ''c'', CHR 0xC3, CHR 0xA9] = None \<and>
   list_all (\<lambda>c. CHR '' '' \<le> c \<and> c \<noteq> CHR 0x7F) [CHR ''c'', CHR 0xC3, CHR 0xA9]"
proof -
  have 1: "ValidateSafeText ''name'' ''caf'' = None"
    and 2: "ValidateSafeText ''name'' [CHR ''c'', CHR 0xC3, CHR 0xA9] = None" by code_simp+
  show ?thesis using ValidateSafeText_one_line [OF 1] ValidateSafeText_one_line [OF 2] 2 by simp
qed

end
