(* ===== verification/Api_Types.thy ===== *)
theory Api_Types
  imports Wireguard
begin

text \<open>
  The wire types of the contract (\<open>src/clientapi/v1/types.go\<close>, and the grant types of
  \<open>sharing.go\<close>) as records, one field per Go field, prefixed by the type. Unsigned integers
  keep their width; \<open>int\<close> fields are integers; a pointer is an \<open>option\<close>; a slice without
  \<open>omitempty\<close> is a \<open>slice\<close> and any other slice a list (see \<open>Prelude\<close>).

  The relay types come from a module outside this repository. The fields this repository reads
  are fields of the records below; everything else in them is a value of the uninterpreted type
  \<open>relay_data\<close>.
\<close>

typedecl relay_data

instantiation relay_data :: equal
begin

definition equal_relay_data :: "relay_data \<Rightarrow> relay_data \<Rightarrow> bool" where
  "equal_relay_data x y \<longleftrightarrow> x = y"

instance
  by standard (simp add: equal_relay_data_def)

end

record relay_endpoint =
  ep_ID :: string
  ep_Addr :: string
  ep_Protocol :: string
  ep_Region :: string
  ep_other :: relay_data

record relay_credential =
  rc_Algorithm :: string
  rc_KeyID :: string
  rc_NetworkID :: string
  rc_NodeID :: string
  rc_Signature :: string
  rc_other :: relay_data

section \<open>Networks and their policy\<close>

record ServiceHost =
  sh_NodeID :: string
  sh_PublicKey :: string

record ServicePort =
  sp_Protocol :: string
  sp_Port :: "32 word"

record ApplicationRoute =
  ar_Connector :: ServiceHost
  ar_CIDRs :: "string slice"
  ar_ExpiresAt :: gotime

record Application =
  app_ID :: string
  app_Name :: string
  app_Target :: string
  app_TargetType :: string
  app_DNSEnabled :: bool
  app_PolicyHash :: string
  app_Sources :: "ServiceHost list"
  app_Connectors :: "ServiceHost list"
  app_Routes :: "ApplicationRoute list"

record AdvertisedService =
  svc_ID :: string
  svc_Name :: string
  svc_Description :: string
  svc_DNSName :: string
  svc_Ports :: "ServicePort slice"
  svc_Tags :: "string list"
  svc_EligibleTags :: "string list"
  svc_ApprovalMode :: string
  svc_ApprovalStatus :: string
  svc_Health :: string
  svc_Hosts :: "ServiceHost list"

record DNSNameserver =
  ns_ID :: string
  ns_Address :: string
  ns_Scope :: string
  ns_Priority :: "32 word"
  ns_SplitDomains :: "string list"

record DNSConfig =
  dns_MagicDNSEnabled :: bool
  dns_HTTPSCertsEnabled :: bool
  dns_OverrideLocalDNS :: bool
  dns_Suffix :: string
  dns_Nameservers :: "DNSNameserver list"
  dns_SearchDomains :: "string list"

record ShareTraffic =
  st_Protocol :: string
  st_FirstPort :: "32 word"
  st_LastPort :: "32 word"

record SharePeerGrant =
  g_GrantID :: string
  g_RecipientNetworkID :: string
  g_RecipientNodeID :: string
  g_RecipientPublicKey :: string
  g_RecipientAllowedIPs :: "string slice"
  g_SourceNetworkID :: string
  g_SourceNodeID :: string
  g_SourcePublicKey :: string
  g_SourceAllowedIPs :: "string slice"
  g_Rights :: "ShareTraffic slice"
  g_Initiation :: string
  g_Revision :: "64 word"
  g_IssuedAt :: gotime
  g_ExpiresAt :: gotime

record Network =
  net_ID :: string
  net_Name :: string
  net_CIDR :: string
  net_IPv6CIDR :: string
  net_DNS :: "string list"
  net_DNSConfig :: "DNSConfig option"
  net_Applications :: "Application list"
  net_Services :: "AdvertisedService list"
  net_SharePeerGrants :: "SharePeerGrant list"
  net_CellID :: string
  net_AuthoritativeCellID :: string
  net_MigratingToCellID :: string
  net_Revision :: "64 word"
  net_OwnerID :: string
  net_AccountID :: string
  net_CreatedAt :: gotime

section \<open>Nodes and peers\<close>

record Node =
  node_ID :: string
  node_NetworkID :: string
  node_UserID :: string
  node_Hostname :: string
  node_IdentityPublicKey :: string
  node_PublicKey :: string
  node_DeviceFingerprint :: string
  node_AssignedIP :: string
  node_AssignedIPv6 :: string
  node_Endpoint :: string
  node_EndpointGeneration :: "64 word"
  node_EndpointCandidates :: "string list"
  node_EndpointExpiresAt :: "gotime option"
  node_Status :: string
  node_AdvertisedIPs :: "string list"
  node_RequestedTags :: "string list"
  node_Tags :: "string list"
  node_ApprovalState :: string
  node_Ephemeral :: bool
  node_KeyExpiryEnabled :: bool
  node_KeyExpiresAt :: "gotime option"
  node_CreatedAt :: gotime
  node_UpdatedAt :: gotime
  node_LastSeen :: gotime

record ACLPort =
  acl_Protocol :: string
  acl_Port :: int

record ACLGrant =
  ag_DestinationCIDRs :: "string slice"
  ag_AllowedPorts :: "ACLPort list"

record Peer =
  peer_ID :: string
  peer_NetworkID :: string
  peer_Hostname :: string
  peer_PublicKey :: string
  peer_Endpoint :: string
  peer_EndpointGeneration :: "64 word"
  peer_EndpointCandidates :: "string list"
  peer_EndpointExpiresAt :: "gotime option"
  peer_Status :: string
  peer_AllowedIPs :: "string slice"
  peer_AllowedPorts :: "ACLPort list"
  peer_ACLRestricted :: bool
  peer_ACLGrants :: "ACLGrant list"
  peer_Tags :: "string list"

record STUNEndpoint =
  stun_ID :: string
  stun_Addr :: string

section \<open>Maps, events, registration\<close>

record MapRevision =
  rev_Network :: "64 word"
  rev_Global :: "64 word"

definition MapRevision_Equal :: "MapRevision \<Rightarrow> MapRevision \<Rightarrow> bool" where
  "MapRevision_Equal r other \<longleftrightarrow> rev_Network r = rev_Network other \<and> rev_Global r = rev_Global other"

record MapCursor =
  cur_Revision :: MapRevision
  cur_MapHash :: string

record MapSignature =
  sig_Version :: int
  sig_KeyID :: string
  sig_Algorithm :: string
  sig_IssuedAt :: gotime
  sig_ExpiresAt :: gotime
  sig_PayloadHash :: string
  sig_Signature :: string

record NetworkMapSnapshot =
  snap_Revision :: MapRevision
  snap_Network :: Network
  snap_Node :: Node
  snap_Peers :: "Peer slice"
  snap_RegistrationBinding :: string
  snap_STUNEndpoints :: "STUNEndpoint list"
  snap_Relays :: "relay_endpoint slice"
  snap_RelayCredential :: "relay_credential option"
  snap_MapSignature :: "MapSignature option"

record RegisterNodeResponse =
  rsp_SchemaVersion :: int
  rsp_IdempotencyID :: string
  rsp_Revision :: MapRevision
  rsp_Network :: Network
  rsp_Node :: Node
  rsp_Peers :: "Peer slice"
  rsp_RegistrationBinding :: string
  rsp_NodeCredential :: string
  rsp_STUNEndpoints :: "STUNEndpoint list"
  rsp_Relays :: "relay_endpoint slice"
  rsp_RelayCredential :: "relay_credential option"
  rsp_MapSignature :: "MapSignature option"

definition Snapshot :: "RegisterNodeResponse \<Rightarrow> NetworkMapSnapshot" where
  "Snapshot r =
     \<lparr>snap_Revision = rsp_Revision r, snap_Network = rsp_Network r, snap_Node = rsp_Node r,
      snap_Peers = rsp_Peers r, snap_RegistrationBinding = rsp_RegistrationBinding r,
      snap_STUNEndpoints = rsp_STUNEndpoints r, snap_Relays = rsp_Relays r,
      snap_RelayCredential = rsp_RelayCredential r, snap_MapSignature = rsp_MapSignature r\<rparr>"

record MapDelta =
  delta_Network :: "Network option"
  delta_Node :: "Node option"
  delta_PeerUpserts :: "Peer list"
  delta_PeerRemoveIDs :: "string list"
  delta_STUNEndpoints :: "STUNEndpoint list option"
  delta_RelayUpserts :: "relay_endpoint list"
  delta_RelayRemoveIDs :: "string list"
  delta_RelayCredential :: "relay_credential option"

record MapStreamEvent =
  ev_Type :: string
  ev_ProtocolVersion :: int
  ev_Capabilities :: "string slice"
  ev_EventID :: string
  ev_From :: MapRevision
  ev_To :: MapRevision
  ev_BaseHash :: string
  ev_Reason :: string
  ev_Snapshot :: "NetworkMapSnapshot option"
  ev_Delta :: "MapDelta option"
  ev_ResultSignature :: "MapSignature option"

definition HasFullMap :: "MapStreamEvent \<Rightarrow> bool" where
  "HasFullMap e =
     (case ev_Snapshot e of
        None \<Rightarrow> False
      | Some s \<Rightarrow> TrimSpace (net_ID (snap_Network s)) \<noteq> [] \<and> TrimSpace (node_ID (snap_Node s)) \<noteq> [])"

record RegisterNodeRequest =
  req_SchemaVersion :: int
  req_IdempotencyID :: string
  req_NetworkID :: string
  req_NetworkName :: string
  req_AccountID :: string
  req_CellID :: string
  req_JoinToken :: string
  req_NodeCredential :: string
  req_RegistrationBinding :: string
  req_SessionTokenBinding :: string
  req_Hostname :: string
  req_ClientVersion :: string
  req_IdentityPublicKey :: string
  req_IdentitySignature :: string
  req_PublicKey :: string
  req_DeviceFingerprint :: string
  req_Endpoint :: string
  req_EndpointGeneration :: "64 word"
  req_EndpointCandidates :: "string list"
  req_EndpointTTL :: string
  req_AdvertisedIPs :: "string slice"
  req_Tags :: "string slice"

definition IsCredentialRenewal :: "RegisterNodeRequest \<Rightarrow> bool" where
  "IsCredentialRenewal r \<longleftrightarrow> req_NodeCredential r \<noteq> []"

definition MapStreamProtocolVersion :: int where "MapStreamProtocolVersion = 3"

definition SchemaVersion :: int where "SchemaVersion = 2"

definition MapStreamSupportedCapabilities :: "string list" where
  "MapStreamSupportedCapabilities = [''snapshot'', ''signed-delta'', ''checkpoint'', ''resync'', ''heartbeat'']"

lemma MapRevision_Equal_iff [simp]: "MapRevision_Equal r s \<longleftrightarrow> r = s"
  by (cases r; cases s) (auto simp: MapRevision_Equal_def)

end
