(* ===== verification/Field_Checks.thy ===== *)
theory Field_Checks
  imports Api_Types
begin

text \<open>
  The field validators at the end of \<open>src/clientapi/v1/registration.go\<close>, used by the
  registration messages and by the public error body, and the digests that stand for bearer
  secrets. SHA-256 is an argument, a function from bytes to bytes.
\<close>

definition maxIdentifierBytes :: int where "maxIdentifierBytes = 128"
definition maxRequestIDBytes :: int where "maxRequestIDBytes = 128"
definition maxDiagnosticMessageBytes :: int where "maxDiagnosticMessageBytes = 1024"
definition maxOpaqueCredentialBytes :: int where "maxOpaqueCredentialBytes = 16384"
definition maxSafeFieldBytes :: int where "maxSafeFieldBytes = 1024"

lemmas field_limits = maxIdentifierBytes_def maxRequestIDBytes_def maxDiagnosticMessageBytes_def
  maxOpaqueCredentialBytes_def maxSafeFieldBytes_def

definition secretBinding :: "(string \<Rightarrow> string) \<Rightarrow> string \<Rightarrow> string" where
  "secretBinding sha256 v =
     (let value = TrimSpace v
      in if value = [] then [] else EncodeToString RawURLEncoding (sha256 value))"

definition RegistrationSessionTokenBinding :: "(string \<Rightarrow> string) \<Rightarrow> string \<Rightarrow> string" where
  "RegistrationSessionTokenBinding sha256 token = secretBinding sha256 token"

definition validateDigest :: "string \<Rightarrow> string \<Rightarrow> bool \<Rightarrow> err" where
  "validateDigest field value required =
     (if value = [] \<and> \<not> required then None
      else first_err
        [guard (value \<noteq> TrimSpace value \<or> value = [])
           (field @ '' must not be empty or contain surrounding whitespace''),
         guard (case DecodeString RawURLEncoding True value of
                  None \<Rightarrow> True
                | Some raw \<Rightarrow> length raw \<noteq> 32 \<or> EncodeToString RawURLEncoding raw \<noteq> value)
           (field @ '' must be canonical base64url encoding of a SHA-256 digest'')])"

definition validateOpaqueCredential :: "string \<Rightarrow> string \<Rightarrow> err" where
  "validateOpaqueCredential field value =
     first_err
       [guard (maxOpaqueCredentialBytes < len value) (field @ '' exceeds %d bytes''),
        guard (value \<noteq> TrimSpace value) (field @ '' contains surrounding whitespace''),
        guard (\<not> ValidString value) (field @ '' contains invalid UTF-8''),
        guard (list_ex IsControl (runes value)) (field @ '' contains a control character'')]"

definition identifier_char :: "char \<Rightarrow> bool" where
  "identifier_char c \<longleftrightarrow> is_lower c \<or> is_upper c \<or> is_digit c \<or>
     c = CHR ''-'' \<or> c = CHR ''_'' \<or> c = CHR ''.'' \<or> c = CHR '':''"

definition validateIdentifier :: "string \<Rightarrow> string \<Rightarrow> int \<Rightarrow> int \<Rightarrow> err" where
  "validateIdentifier field value minBytes maxBytes =
     first_err
       [guard (len value < minBytes \<or> maxBytes < len value \<or> value \<noteq> TrimSpace value)
          (field @ '' must contain between %d and %d canonical bytes''),
        range_err (\<lambda>c. guard (\<not> identifier_char c) (field @ '' contains an invalid character'')) value]"

definition validateSafeString :: "string \<Rightarrow> string \<Rightarrow> int \<Rightarrow> int \<Rightarrow> err" where
  "validateSafeString field value minBytes maxBytes =
     first_err
       [guard (\<not> ValidString value) (field @ '' contains invalid UTF-8''),
        guard (value \<noteq> TrimSpace value \<or> len value < minBytes \<or> maxBytes < len value)
          (field @ '' must contain between %d and %d bytes without surrounding whitespace''),
        guard (list_ex unsafe_rune (runes value)) (field @ '' contains a control character'')]"

section \<open>What the checks accept\<close>

lemma identifier_char_graphic: "identifier_char c \<Longrightarrow> graphic c"
proof -
  have "graphic (CHR ''-'')" "graphic (CHR ''_'')" "graphic (CHR ''.'')" "graphic (CHR '':'')"
    by code_simp+
  then show "identifier_char c \<Longrightarrow> graphic c"
    using graphic_alnum [of c] by (auto simp: identifier_char_def is_alnum_def)
qed

text \<open>The whitespace test of \<open>validateIdentifier\<close> is implied by its character test.\<close>

lemma validateIdentifier_iff [accepts]:
  "validateIdentifier f v lo hi = None \<longleftrightarrow> lo \<le> len v \<and> len v \<le> hi \<and> list_all identifier_char v"
proof -
  have "TrimSpace v = v" if "list_all identifier_char v"
  proof -
    have "list_all graphic v" using that identifier_char_graphic by (auto simp: list_all_iff)
    then show ?thesis using trimmed_graphic TrimSpace_eq_iff by blast
  qed
  then show ?thesis by (auto simp: validateIdentifier_def list_all_iff)
qed

lemma validateDigest_iff [accepts]:
  "validateDigest f v req = None \<longleftrightarrow>
     (v = [] \<and> \<not> req) \<or> (\<exists>raw. length raw = 32 \<and> v = EncodeToString RawURLEncoding raw)"
proof
  assume "validateDigest f v req = None"
  then show "(v = [] \<and> \<not> req) \<or> (\<exists>raw. length raw = 32 \<and> v = EncodeToString RawURLEncoding raw)"
    by (auto simp: validateDigest_def split: if_splits option.splits)
next
  assume "(v = [] \<and> \<not> req) \<or> (\<exists>raw. length raw = 32 \<and> v = EncodeToString RawURLEncoding raw)"
  then consider "v = []" "\<not> req"
    | raw where "length raw = 32" "v = EncodeToString RawURLEncoding raw" by blast
  then show "validateDigest f v req = None"
  proof cases
    case 2
    then have "length v = 43" by (simp add: length_EncodeToString RawURLEncoding_def)
    then have "v \<noteq> []" by auto
    with 2 show ?thesis
      using rawurl.strict.enc_trimmed by (simp add: validateDigest_def rawurl.decode_encode)
  qed (simp add: validateDigest_def)
qed

lemma validateDigest_encode:
  "length raw = 32 \<Longrightarrow> validateDigest f (EncodeToString RawURLEncoding raw) req = None"
  by (auto simp: validateDigest_iff)

lemma EncodeToString_rawurl_eq_Nil [simp]: "EncodeToString RawURLEncoding raw = [] \<longleftrightarrow> raw = []"
proof
  assume "EncodeToString RawURLEncoding raw = []"
  then have "length (EncodeToString RawURLEncoding raw) = 0" by simp
  then show "raw = []" by (auto simp: length_EncodeToString RawURLEncoding_def split: if_splits)
next
  assume "raw = []"
  then show "EncodeToString RawURLEncoding raw = []" by (simp, code_simp)
qed

text \<open>
  A binding is empty only for a blank secret. With a digest that does not collide on two
  secrets, equal bindings mean equal secrets up to surrounding space.
\<close>

lemma secretBinding_eq_Nil:
  assumes "sha256 (TrimSpace v) \<noteq> []"
  shows "secretBinding sha256 v = [] \<longleftrightarrow> TrimSpace v = []"
  using assms by (simp add: secretBinding_def Let_def)

lemma secretBinding_inj:
  assumes "sha256 (TrimSpace v) = sha256 (TrimSpace w) \<Longrightarrow> TrimSpace v = TrimSpace w"
    and "\<And>x. length (sha256 x) = 32"
    and eq: "secretBinding sha256 v = secretBinding sha256 w"
  shows "TrimSpace v = TrimSpace w"
proof (cases "TrimSpace v = [] \<or> TrimSpace w = []")
  case True
  have "sha256 x \<noteq> []" for x using assms(2) [of x] by auto
  then show ?thesis using secretBinding_eq_Nil [of sha256] eq True by metis
next
  case False
  then have "sha256 (TrimSpace v) = sha256 (TrimSpace w)"
    using eq rawurl.strict.enc_inj by (simp add: secretBinding_def Let_def)
  then show ?thesis by (rule assms(1))
qed

end
