(* ===== verification/Public_Errors.thy ===== *)
theory Public_Errors
  imports Field_Checks
begin

text \<open>
  The closed public error enumeration and the error body of the control plane
  (\<open>src/clientapi/v1/errors.go\<close>).
\<close>

type_synonym ErrorCode = string

definition ErrorCodeNodeCredentialRenewalRequired :: ErrorCode where
  "ErrorCodeNodeCredentialRenewalRequired = ''node_credential_renewal_required''"
definition ErrorCodeNodeCredentialUnknown :: ErrorCode where
  "ErrorCodeNodeCredentialUnknown = ''node_credential_unknown''"
definition ErrorCodeNodeCredentialRevoked :: ErrorCode where
  "ErrorCodeNodeCredentialRevoked = ''node_credential_revoked''"
definition ErrorCodeNodeCredentialExpired :: ErrorCode where
  "ErrorCodeNodeCredentialExpired = ''node_credential_expired''"
definition ErrorCodeNodeCredentialInvalid :: ErrorCode where
  "ErrorCodeNodeCredentialInvalid = ''node_credential_invalid''"
definition ErrorCodeNodeIdentityBindingMismatch :: ErrorCode where
  "ErrorCodeNodeIdentityBindingMismatch = ''node_identity_binding_mismatch''"
definition ErrorCodeAuthenticationRequired :: ErrorCode where
  "ErrorCodeAuthenticationRequired = ''authentication_required''"
definition ErrorCodeAuthorizationDenied :: ErrorCode where
  "ErrorCodeAuthorizationDenied = ''authorization_denied''"
definition ErrorCodeTemporarilyUnavailable :: ErrorCode where
  "ErrorCodeTemporarilyUnavailable = ''temporarily_unavailable''"

lemmas error_code_defs =
  ErrorCodeNodeCredentialRenewalRequired_def ErrorCodeNodeCredentialUnknown_def
  ErrorCodeNodeCredentialRevoked_def ErrorCodeNodeCredentialExpired_def
  ErrorCodeNodeCredentialInvalid_def ErrorCodeNodeIdentityBindingMismatch_def
  ErrorCodeAuthenticationRequired_def ErrorCodeAuthorizationDenied_def
  ErrorCodeTemporarilyUnavailable_def

definition KnownErrorCodes :: "ErrorCode list" where
  "KnownErrorCodes =
     [ErrorCodeNodeCredentialRenewalRequired, ErrorCodeNodeCredentialUnknown,
      ErrorCodeNodeCredentialRevoked, ErrorCodeNodeCredentialExpired,
      ErrorCodeNodeCredentialInvalid, ErrorCodeNodeIdentityBindingMismatch,
      ErrorCodeAuthenticationRequired, ErrorCodeAuthorizationDenied,
      ErrorCodeTemporarilyUnavailable]"

text \<open>The pair \<open>(status, ok)\<close> of the source.\<close>

definition HTTPStatus :: "ErrorCode \<Rightarrow> int \<times> bool" where
  "HTTPStatus c =
     (if c = ErrorCodeNodeCredentialRenewalRequired \<or> c = ErrorCodeNodeIdentityBindingMismatch then (409, True)
      else if c = ErrorCodeNodeCredentialUnknown \<or> c = ErrorCodeNodeCredentialRevoked \<or>
              c = ErrorCodeNodeCredentialExpired \<or> c = ErrorCodeNodeCredentialInvalid \<or>
              c = ErrorCodeAuthenticationRequired then (401, True)
      else if c = ErrorCodeAuthorizationDenied then (403, True)
      else if c = ErrorCodeTemporarilyUnavailable then (503, True)
      else (0, False))"

definition ErrorCode_Valid :: "ErrorCode \<Rightarrow> bool" where
  "ErrorCode_Valid c = snd (HTTPStatus c)"

definition RequiresReEnrollment :: "ErrorCode \<Rightarrow> bool" where
  "RequiresReEnrollment c \<longleftrightarrow>
     c = ErrorCodeNodeCredentialUnknown \<or> c = ErrorCodeNodeCredentialRevoked \<or>
     c = ErrorCodeNodeCredentialExpired"

record PublicError =
  pe_SchemaVersion :: int
  pe_ErrorCode :: ErrorCode
  pe_DiagnosticMessage :: string
  pe_RequestID :: string

definition PublicError_Validate :: "PublicError \<Rightarrow> err" where
  "PublicError_Validate e =
     first_err
       [guard (pe_SchemaVersion e \<noteq> SchemaVersion) ''public error schema_version = %d, want %d'',
        guard (\<not> ErrorCode_Valid (pe_ErrorCode e)) ''unknown public error_code %q'',
        validateSafeString ''diagnostic_message'' (pe_DiagnosticMessage e) 1 maxDiagnosticMessageBytes,
        validateIdentifier ''request_id'' (pe_RequestID e) 1 maxRequestIDBytes]"

definition NewPublicError :: "ErrorCode \<Rightarrow> string \<Rightarrow> string \<Rightarrow> PublicError result" where
  "NewPublicError code diagnosticMessage requestID =
     (let value = \<lparr>pe_SchemaVersion = SchemaVersion, pe_ErrorCode = code,
                   pe_DiagnosticMessage = diagnosticMessage, pe_RequestID = requestID\<rparr>
      in require (PublicError_Validate value) (Inr value))"

definition ValidateHTTPStatus :: "PublicError \<Rightarrow> int \<Rightarrow> err" where
  "ValidateHTTPStatus e status =
     first_err
       [PublicError_Validate e,
        guard (status \<noteq> fst (HTTPStatus (pe_ErrorCode e)))
          ''public error_code %q requires HTTP %d, got %d'']"

definition ValidateHTTPResponse :: "PublicError \<Rightarrow> int \<Rightarrow> string \<Rightarrow> err" where
  "ValidateHTTPResponse e status requestID =
     first_err
       [ValidateHTTPStatus e status,
        validateIdentifier ''X-Request-ID'' requestID 1 maxRequestIDBytes,
        guard (pe_RequestID e \<noteq> requestID) ''public error request_id does not match X-Request-ID'']"

section \<open>The recovery contract\<close>

lemma ErrorCode_Valid_iff: "ErrorCode_Valid c \<longleftrightarrow> c \<in> set KnownErrorCodes"
  by (auto simp: ErrorCode_Valid_def HTTPStatus_def KnownErrorCodes_def)

text \<open>
  The code enumeration is closed and consistent: the known codes are listed without
  repetition and are exactly the valid ones, a code outside the enumeration has no status, every
  known code has one of the statuses 401, 403, 409 and 503, and re-enrollment is required only
  for known codes that are answered with 401, never for an unknown code.
\<close>

theorem error_code_contract:
  "distinct KnownErrorCodes \<and> (ErrorCode_Valid c \<longleftrightarrow> c \<in> set KnownErrorCodes) \<and>
   (if c \<in> set KnownErrorCodes
    then snd (HTTPStatus c) \<and> fst (HTTPStatus c) \<in> {401, 403, 409, 503}
    else HTTPStatus c = (0, False) \<and> \<not> RequiresReEnrollment c) \<and>
   (if RequiresReEnrollment c then HTTPStatus c = (401, True) else True)"
  by (auto simp: ErrorCode_Valid_iff KnownErrorCodes_def HTTPStatus_def RequiresReEnrollment_def error_code_defs)

text \<open>
  A body built by \<open>NewPublicError\<close> carries its arguments, passes \<open>Validate\<close>, and
  is accepted as an HTTP response exactly with the status assigned to its code and with its own
  request id in the header.
\<close>

theorem NewPublicError_response:
  assumes "NewPublicError code msg rid = Inr e"
  shows "pe_ErrorCode e = code \<and> pe_DiagnosticMessage e = msg \<and> pe_RequestID e = rid \<and>
    PublicError_Validate e = None \<and>
    (ValidateHTTPResponse e status header = None \<longleftrightarrow> HTTPStatus code = (status, True) \<and> header = rid)"
proof -
  have e: "pe_ErrorCode e = code" "pe_DiagnosticMessage e = msg" "pe_RequestID e = rid"
    and v: "PublicError_Validate e = None"
    using assms by (auto simp: NewPublicError_def Let_def)
  have "snd (HTTPStatus code)" "validateIdentifier f rid 1 maxRequestIDBytes = None" for f
    using v e by (auto simp: PublicError_Validate_def ErrorCode_Valid_def validateIdentifier_iff)
  with e v show ?thesis
    by (cases "HTTPStatus code") (auto simp: ValidateHTTPResponse_def ValidateHTTPStatus_def)
qed

theorem NewPublicError_response_witness:
  "\<exists>e. NewPublicError ErrorCodeNodeCredentialRevoked ''credential was revoked'' ''req-7f'' = Inr e \<and>
     ValidateHTTPResponse e 401 ''req-7f'' = None \<and> ValidateHTTPResponse e 403 ''req-7f'' \<noteq> None"
proof -
  let ?e = "\<lparr>pe_SchemaVersion = SchemaVersion, pe_ErrorCode = ErrorCodeNodeCredentialRevoked,
    pe_DiagnosticMessage = ''credential was revoked'', pe_RequestID = ''req-7f''\<rparr>"
  have e: "NewPublicError ErrorCodeNodeCredentialRevoked ''credential was revoked'' ''req-7f'' = Inr ?e"
    by code_simp
  have s: "HTTPStatus ErrorCodeNodeCredentialRevoked = (401, True)" by code_simp
  show ?thesis
    using NewPublicError_response [OF e, of 401 "''req-7f''"] NewPublicError_response [OF e, of 403 "''req-7f''"] e s
    by auto
qed

end
