(* ===== verification/Map_Fields.thy ===== *)
theory Map_Fields
  imports Field_Checks
begin

text \<open>
  The small checks that the map validators share (\<open>src/clientapi/v1/networkmap_validate.go\<close>):
  safe text, optional endpoints, DNS domains, protocol and port pairs, and the table of node
  identities that service hosts and application bindings are compared with.
\<close>

definition validateMapText :: "string \<Rightarrow> string \<Rightarrow> err" where
  "validateMapText field value = ValidateSafeText field value"

text \<open>\<open>for field, value := range map[string]string{...}\<close> with \<open>validateMapText\<close>.\<close>

definition validateMapTexts :: "(string \<times> string) list \<Rightarrow> err" where
  "validateMapTexts kvs = range_err (\<lambda>(field, value). validateMapText field value) kvs"

definition validateOptionalEndpoint :: "string \<Rightarrow> string \<Rightarrow> err" where
  "validateOptionalEndpoint field value = (if value = [] then None else wrap field (ValidateEndpoint value))"

definition dns_label_rune :: "int \<Rightarrow> bool" where
  "dns_label_rune r \<longleftrightarrow> 97 \<le> r \<and> r \<le> 122 \<or> 65 \<le> r \<and> r \<le> 90 \<or> 48 \<le> r \<and> r \<le> 57 \<or> r = 45"

definition valid_dns_label :: "string \<Rightarrow> bool" where
  "valid_dns_label label \<longleftrightarrow>
     label \<noteq> [] \<and> length label \<le> 63 \<and> hd label \<noteq> CHR ''-'' \<and> last label \<noteq> CHR ''-'' \<and>
     list_all dns_label_rune (runes label)"

definition validDNSDomain :: "string \<Rightarrow> bool" where
  "validDNSDomain v =
     (let value = TrimSuffix v ''.''
      in value \<noteq> [] \<and> length value \<le> 253 \<and> value = TrimSpace value \<and>
         list_all valid_dns_label (Split value (CHR ''.'')))"

text \<open>
  The protocol and port test of \<open>allowed_ports\<close>, written twice in the source with two
  messages.
\<close>

definition validateACLPort :: "string \<Rightarrow> string \<Rightarrow> ACLPort \<Rightarrow> err" where
  "validateACLPort protocol_msg port_msg port =
     first_err
       [guard (acl_Protocol port \<noteq> ''tcp'' \<and> acl_Protocol port \<noteq> ''udp'' \<and> acl_Protocol port \<noteq> ''icmp'') protocol_msg,
        guard ((acl_Protocol port = ''icmp'' \<and> acl_Port port \<noteq> 0) \<or>
               (acl_Protocol port \<noteq> ''icmp'' \<and> (acl_Port port < 1 \<or> 65535 < acl_Port port))) port_msg]"

text \<open>
  \<open>identities := map[string]string{Node.ID: Node.PublicKey}\<close> with the peers written over it;
  reading a missing key gives the empty string.
\<close>

definition identities :: "NetworkMapSnapshot \<Rightarrow> string \<Rightarrow> string" where
  "identities s =
     fold (\<lambda>peer m. m(peer_ID peer := peer_PublicKey peer)) (elems (snap_Peers s))
       ((\<lambda>_. [])(node_ID (snap_Node s) := node_PublicKey (snap_Node s)))"

text \<open>The test on every host or binding of a list: known identity, no node id twice.\<close>

fun bound_hosts :: "NetworkMapSnapshot \<Rightarrow> string \<Rightarrow> string list \<Rightarrow> ServiceHost list \<Rightarrow> err" where
  "bound_hosts s msg seen [] = None"
| "bound_hosts s msg seen (host # hosts) =
     first_err
       [guard (sh_NodeID host = [] \<or> sh_PublicKey host = [] \<or>
               identities s (sh_NodeID host) \<noteq> sh_PublicKey host \<or> sh_NodeID host \<in> set seen) msg,
        bound_hosts s msg (sh_NodeID host # seen) hosts]"

section \<open>Identities\<close>

text \<open>A host identity of a map: the node itself or one of its peers, with its current key.\<close>

definition known_identity :: "NetworkMapSnapshot \<Rightarrow> string \<Rightarrow> string \<Rightarrow> bool" where
  "known_identity s i k \<longleftrightarrow>
     (i = node_ID (snap_Node s) \<and> k = node_PublicKey (snap_Node s)) \<or>
     (\<exists>p \<in> set (elems (snap_Peers s)). peer_ID p = i \<and> peer_PublicKey p = k)"

lemma fold_identities:
  "fold (\<lambda>peer m. m(peer_ID peer := peer_PublicKey peer)) ps m i = k \<Longrightarrow>
     m i = k \<or> (\<exists>p \<in> set ps. peer_ID p = i \<and> peer_PublicKey p = k)"
  by (induction ps arbitrary: m) (fastforce split: if_splits)+

lemma identities_known:
  assumes "identities s i = k" and "k \<noteq> []"
  shows "known_identity s i k"
  using fold_identities [OF assms(1) [unfolded identities_def]] assms(2)
  by (auto simp: known_identity_def split: if_splits)

lemma bound_hosts_None [accepts]:
  "bound_hosts s msg seen hosts = None \<longleftrightarrow>
     (\<forall>h \<in> set hosts. sh_NodeID h \<noteq> [] \<and> sh_PublicKey h \<noteq> [] \<and> identities s (sh_NodeID h) = sh_PublicKey h) \<and>
     distinct (map sh_NodeID hosts) \<and> sh_NodeID ` set hosts \<inter> set seen = {}"
  by (induction hosts arbitrary: seen) auto

lemma bound_hosts_known:
  "bound_hosts s msg seen hosts = None \<Longrightarrow> h \<in> set hosts \<Longrightarrow> known_identity s (sh_NodeID h) (sh_PublicKey h)"
  by (auto simp: bound_hosts_None intro: identities_known)

section \<open>Addresses\<close>

text \<open>Whether the prefix a text stands for covers an address.\<close>

definition covers :: "string \<Rightarrow> Addr \<Rightarrow> bool" where
  "covers v a = (case ParsePrefix v of None \<Rightarrow> False | Some p \<Rightarrow> Contains p a)"

lemma covers_Some [simp]: "ParsePrefix v = Some p \<Longrightarrow> covers v a = Contains p a"
  by (simp add: covers_def)

lemma covers_disjoint:
  "ParsePrefix v = Some p \<Longrightarrow> ParsePrefix w = Some q \<Longrightarrow> \<not> Overlaps p q \<Longrightarrow> covers v a \<Longrightarrow> \<not> covers w a"
  using Overlaps_iff wf_ParsePrefix by fastforce

section \<open>Domains\<close>

lemma dns_rune_of_char: "dns_label_rune (of_char c) \<longleftrightarrow> is_alnum c \<or> c = CHR ''-''"
proof -
  have i: "(of_char c :: int) = int (of_char c)" by (simp only: of_nat_of_char)
  have "c = CHR ''-'' \<longleftrightarrow> (of_char c :: nat) = of_char (CHR ''-'')" by (simp only: of_char_eq_iff)
  then have "c = CHR ''-'' \<longleftrightarrow> (of_char c :: nat) = 45" by simp
  then show ?thesis
    unfolding dns_label_rune_def i is_alnum_def is_lower_def is_upper_def is_digit_def less_eq_char_def
    by auto
qed

lemma valid_dns_label_iff: "valid_dns_label l \<longleftrightarrow> rfc1123_label l"
proof -
  have "list_all dns_label_rune (runes l) \<longleftrightarrow> (\<forall>c \<in> set l. is_alnum c \<or> c = CHR ''-'')" (is "?L \<longleftrightarrow> ?R")
  proof
    assume L: ?L
    then have "r < 0x80" if "r \<in> set (runes l)" for r
      using that by (auto simp: list_all_iff dns_label_rune_def)
    then have "of_char c \<in> set (runes l)" if "c \<in> set l" for c
      using that runes_ascii_chars ascii_in_runes by blast
    with L show ?R by (auto simp: list_all_iff simp flip: dns_rune_of_char)
  next
    assume R: ?R
    moreover have "graphic (CHR ''-'')" by code_simp
    ultimately have "list_all graphic l" using graphic_alnum by (auto simp: list_all_iff)
    then have "runes l = map of_char l" by (simp add: runes_def runes_of_graphic)
    with R show ?L by (simp add: list_all_iff dns_rune_of_char)
  qed
  then show ?thesis by (auto simp: valid_dns_label_def rfc1123_label_def)
qed

lemma validDNSDomain_iff: "validDNSDomain v \<longleftrightarrow> ValidateHostname (TrimSuffix v ''.'') = None"
proof -
  let ?v = "TrimSuffix v ''.''"
  have "?v \<noteq> [] \<and> TrimSpace ?v = ?v" if "list_all rfc1123_label (Split ?v (CHR ''.''))"
    using labels_graphic [of ?v] that trimmed_graphic TrimSpace_eq_iff by (auto simp: list_all_iff)
  then show ?thesis
    by (auto simp: validDNSDomain_def Let_def valid_dns_label_iff ValidateHostname_iff list_all_iff)
qed

text \<open>
  The domain test of the map agrees with the host name validation of the WireGuard package:
  \<open>validDNSDomain\<close> accepts exactly the names that, after one optional trailing dot,
  \<open>ValidateHostname\<close> accepts, although it scans runes and compares labels in its own loop.
\<close>

theorem validDNSDomain_hostname:
  "validDNSDomain v \<longleftrightarrow> ValidateHostname (TrimSuffix v ''.'') = None"
  by (rule validDNSDomain_iff)

end
