(* ===== verification/Sample_Map.thy ===== *)
theory Sample_Map
  imports Map_Fields
begin

text \<open>
  The zero values of the Go structs, and one concrete network map: two nodes of network
  \<open>net-r\<close>, a peer of network \<open>net-s\<close> reached through a sharing grant, a service and
  an application. The witnesses of the properties evaluate the model on it.
\<close>

definition zero_time :: gotime where "zero_time = \<lparr>t_ns = 0, t_offset = 0\<rparr>"

definition zero_Network :: Network where
  "zero_Network = \<lparr>net_ID = [], net_Name = [], net_CIDR = [], net_IPv6CIDR = [], net_DNS = [], net_DNSConfig = None,
     net_Applications = [], net_Services = [], net_SharePeerGrants = [], net_CellID = [],
     net_AuthoritativeCellID = [], net_MigratingToCellID = [], net_Revision = 0, net_OwnerID = [],
     net_AccountID = [], net_CreatedAt = zero_time\<rparr>"

definition zero_Node :: Node where
  "zero_Node = \<lparr>node_ID = [], node_NetworkID = [], node_UserID = [], node_Hostname = [], node_IdentityPublicKey = [],
     node_PublicKey = [], node_DeviceFingerprint = [], node_AssignedIP = [], node_AssignedIPv6 = [],
     node_Endpoint = [], node_EndpointGeneration = 0, node_EndpointCandidates = [], node_EndpointExpiresAt = None,
     node_Status = [], node_AdvertisedIPs = [], node_RequestedTags = [], node_Tags = [], node_ApprovalState = [],
     node_Ephemeral = False, node_KeyExpiryEnabled = False, node_KeyExpiresAt = None, node_CreatedAt = zero_time,
     node_UpdatedAt = zero_time, node_LastSeen = zero_time\<rparr>"

definition zero_Peer :: Peer where
  "zero_Peer = \<lparr>peer_ID = [], peer_NetworkID = [], peer_Hostname = [], peer_PublicKey = [], peer_Endpoint = [],
     peer_EndpointGeneration = 0, peer_EndpointCandidates = [], peer_EndpointExpiresAt = None, peer_Status = [],
     peer_AllowedIPs = None, peer_AllowedPorts = [], peer_ACLRestricted = False, peer_ACLGrants = [], peer_Tags = []\<rparr>"

definition zero_Snapshot :: NetworkMapSnapshot where
  "zero_Snapshot = \<lparr>snap_Revision = \<lparr>rev_Network = 0, rev_Global = 0\<rparr>, snap_Network = zero_Network,
     snap_Node = zero_Node, snap_Peers = None, snap_RegistrationBinding = [], snap_STUNEndpoints = [],
     snap_Relays = None, snap_RelayCredential = None, snap_MapSignature = None\<rparr>"

text \<open>WireGuard keys: the standard base64 text of 32 equal bytes, as literals.\<close>

definition sample_key :: "char \<Rightarrow> string" where
  "sample_key c =
     (if c = CHR ''r'' then ''cnJycnJycnJycnJycnJycnJycnJycnJycnJycnJycnI=''
      else if c = CHR ''s'' then ''c3Nzc3Nzc3Nzc3Nzc3Nzc3Nzc3Nzc3Nzc3Nzc3Nzc3M=''
      else ''cHBwcHBwcHBwcHBwcHBwcHBwcHBwcHBwcHBwcHBwcHA='')"

definition sample_grant :: SharePeerGrant where
  "sample_grant = \<lparr>g_GrantID = ''grant-1'', g_RecipientNetworkID = ''net-r'', g_RecipientNodeID = ''node-r'',
     g_RecipientPublicKey = sample_key (CHR ''r''), g_RecipientAllowedIPs = Some [''10.1.0.2/32''],
     g_SourceNetworkID = ''net-s'', g_SourceNodeID = ''node-s'', g_SourcePublicKey = sample_key (CHR ''s''),
     g_SourceAllowedIPs = Some [''10.2.0.3/32''],
     g_Rights = Some [\<lparr>st_Protocol = ''tcp'', st_FirstPort = 22, st_LastPort = 80\<rparr>,
                      \<lparr>st_Protocol = ''tcp'', st_FirstPort = 443, st_LastPort = 443\<rparr>,
                      \<lparr>st_Protocol = ''icmp'', st_FirstPort = 0, st_LastPort = 0\<rparr>],
     g_Initiation = ''recipient_only'', g_Revision = 4, g_IssuedAt = \<lparr>t_ns = 1000000000, t_offset = 0\<rparr>,
     g_ExpiresAt = \<lparr>t_ns = 61000000000, t_offset = 0\<rparr>\<rparr>"

definition sample_service :: AdvertisedService where
  "sample_service = \<lparr>svc_ID = ''svc-1'', svc_Name = ''db'', svc_Description = [], svc_DNSName = ''db.internal'',
     svc_Ports = Some [\<lparr>sp_Protocol = ''tcp'', sp_Port = 5432\<rparr>], svc_Tags = [], svc_EligibleTags = [],
     svc_ApprovalMode = ''auto'', svc_ApprovalStatus = ''approved'', svc_Health = ''healthy'',
     svc_Hosts = [\<lparr>sh_NodeID = ''node-p'', sh_PublicKey = sample_key (CHR ''p'')\<rparr>]\<rparr>"

definition sample_application :: Application where
  "sample_application = \<lparr>app_ID = ''app-1'', app_Name = ''intranet'', app_Target = ''192.0.2.0/24'',
     app_TargetType = ''cidr'', app_DNSEnabled = False,
     app_PolicyHash = ''6868686868686868686868686868686868686868686868686868686868686868'',
     app_Sources = [\<lparr>sh_NodeID = ''node-r'', sh_PublicKey = sample_key (CHR ''r'')\<rparr>],
     app_Connectors = [\<lparr>sh_NodeID = ''node-p'', sh_PublicKey = sample_key (CHR ''p'')\<rparr>],
     app_Routes = [\<lparr>ar_Connector = \<lparr>sh_NodeID = ''node-p'', sh_PublicKey = sample_key (CHR ''p'')\<rparr>,
                     ar_CIDRs = Some [''192.0.2.0/24''], ar_ExpiresAt = \<lparr>t_ns = 5, t_offset = 0\<rparr>\<rparr>]\<rparr>"

definition sample_peer_p :: Peer where
  "sample_peer_p = zero_Peer\<lparr>peer_ID := ''node-p'', peer_NetworkID := ''net-r'', peer_Hostname := ''printer'',
     peer_PublicKey := sample_key (CHR ''p''), peer_Endpoint := ''198.51.100.7:51820'',
     peer_AllowedIPs := Some [''10.1.0.7/32'', ''172.16.0.0/16''], peer_ACLRestricted := True,
     peer_ACLGrants := [\<lparr>ag_DestinationCIDRs = Some [''172.16.4.0/24''],
                          ag_AllowedPorts = [\<lparr>acl_Protocol = ''tcp'', acl_Port = 443\<rparr>]\<rparr>]\<rparr>"

definition sample_peer_s :: Peer where
  "sample_peer_s = zero_Peer\<lparr>peer_ID := ''node-s'', peer_NetworkID := ''net-s'', peer_Hostname := ''shared'',
     peer_PublicKey := sample_key (CHR ''s''), peer_AllowedIPs := Some [''10.2.0.3/32'']\<rparr>"

definition sample_map :: NetworkMapSnapshot where
  "sample_map = zero_Snapshot\<lparr>
     snap_Revision := \<lparr>rev_Network = 7, rev_Global = 9\<rparr>,
     snap_Network := zero_Network\<lparr>net_ID := ''net-r'', net_Name := ''office'', net_CIDR := ''10.1.0.0/24'',
       net_DNS := [''10.1.0.1''], net_Applications := [sample_application], net_Services := [sample_service],
       net_SharePeerGrants := [sample_grant], net_Revision := 7\<rparr>,
     snap_Node := zero_Node\<lparr>node_ID := ''node-r'', node_NetworkID := ''net-r'', node_Hostname := ''laptop'',
       node_PublicKey := sample_key (CHR ''r''), node_AssignedIP := ''10.1.0.2''\<rparr>,
     snap_Peers := Some [sample_peer_p, sample_peer_s],
     snap_STUNEndpoints := [\<lparr>stun_ID = ''stun-1'', stun_Addr = ''stun.example.com:3478''\<rparr>]\<rparr>"

end
