(* ===== verification/Sharing.thy ===== *)
theory Sharing
  imports Sample_Map
begin

text \<open>
  Cross-network sharing grants (\<open>src/clientapi/v1/sharing.go\<close>): the validation of one
  grant, of its binding to the map it is delivered in, and of its lease.
\<close>

definition ShareInitiationRecipientOnly :: string where "ShareInitiationRecipientOnly = ''recipient_only''"
definition MaxSharePeerGrantTTL :: duration where "MaxSharePeerGrantTTL = 2 * minute"

definition bad_host_prefix :: "string \<Rightarrow> Prefix \<Rightarrow> bool" where
  "bad_host_prefix value p \<longleftrightarrow>
     prefix_Bits p \<noteq> int (BitLen (prefix_Addr p)) \<or> prefix_String p \<noteq> value \<or>
     Is4In6 (prefix_Addr p) \<or> IsUnspecified (prefix_Addr p) \<or> IsLoopback (prefix_Addr p) \<or>
     IsMulticast (prefix_Addr p) \<or> IsLinkLocalUnicast (prefix_Addr p)"

fun share_host_loop :: "Prefix list \<Rightarrow> string list \<Rightarrow> Prefix list result" where
  "share_host_loop acc [] = Inr acc"
| "share_host_loop acc (value # vals) =
     (case ParsePrefix value of
        None \<Rightarrow> Inl (Errorf ''sharing address must be a canonical unicast host prefix'')
      | Some p \<Rightarrow>
          if bad_host_prefix value p
          then Inl (Errorf ''sharing address must be a canonical unicast host prefix'')
          else if list_ex (\<lambda>e. BitLen (prefix_Addr e) = BitLen (prefix_Addr p)) acc
          then Inl (Errorf ''sharing has duplicate address family'')
          else share_host_loop (acc @ [p]) vals)"

definition shareHostPrefixes :: "string slice \<Rightarrow> Prefix list result" where
  "shareHostPrefixes vals =
     (if length (elems vals) < 1 \<or> 2 < length (elems vals)
      then Inl (Errorf ''sharing requires exact host addresses'')
      else share_host_loop [] (elems vals))"

definition check_right :: "ShareTraffic \<Rightarrow> err" where
  "check_right right =
     (if st_Protocol right = ''tcp'' \<or> st_Protocol right = ''udp''
      then guard (st_FirstPort right < 1 \<or> st_LastPort right < st_FirstPort right \<or> 65535 < st_LastPort right)
             ''sharing port range is invalid''
      else if st_Protocol right = ''icmp''
      then guard (st_FirstPort right \<noteq> 0 \<or> st_LastPort right \<noteq> 0) ''sharing ICMP ports must be zero''
      else Some (Errorf ''sharing protocol is invalid''))"

definition rights_overlap :: "ShareTraffic \<Rightarrow> ShareTraffic \<Rightarrow> bool" where
  "rights_overlap right other \<longleftrightarrow>
     st_Protocol right = st_Protocol other \<and> st_FirstPort right \<le> st_LastPort other \<and>
     st_FirstPort other \<le> st_LastPort right"

text \<open>The loop over the rights; \<open>before\<close> is \<open>grant.Rights[:i]\<close>.\<close>

fun check_rights :: "ShareTraffic list \<Rightarrow> ShareTraffic list \<Rightarrow> err" where
  "check_rights before [] = None"
| "check_rights before (right # rights) =
     first_err
       [check_right right,
        range_err (\<lambda>other. guard (rights_overlap right other) ''sharing rights overlap'') before,
        check_rights (before @ [right]) rights]"

definition SharePeerGrant_Validate :: "SharePeerGrant \<Rightarrow> err" where
  "SharePeerGrant_Validate grant =
     first_err
       [range_err
          (\<lambda>(field, value).
             first_err
               [guard (value = [] \<or> value \<noteq> TrimSpace value \<or> 128 < len value)
                  (''sharing '' @ field @ '' is invalid''),
                validateMapText field value])
          [(''grant_id'', g_GrantID grant), (''recipient_network_id'', g_RecipientNetworkID grant),
           (''recipient_node_id'', g_RecipientNodeID grant), (''source_network_id'', g_SourceNetworkID grant),
           (''source_node_id'', g_SourceNodeID grant)],
        guard (g_SourceNodeID grant = g_RecipientNodeID grant \<or> g_SourcePublicKey grant = g_RecipientPublicKey grant)
          ''sharing endpoints must be distinct'',
        range_err ValidatePublicKey [g_SourcePublicKey grant, g_RecipientPublicKey grant],
        guard (g_Initiation grant \<noteq> ShareInitiationRecipientOnly \<or> g_Revision grant = 0)
          ''sharing initiation or revision is invalid'',
        guard (IsZero (g_IssuedAt grant) \<or> \<not> After (g_ExpiresAt grant) (g_IssuedAt grant) \<or>
               MaxSharePeerGrantTTL < Sub (g_ExpiresAt grant) (g_IssuedAt grant))
          ''sharing lease is invalid'',
        after (shareHostPrefixes (g_SourceAllowedIPs grant))
          (\<lambda>left. after (shareHostPrefixes (g_RecipientAllowedIPs grant))
            (\<lambda>right. range_err (\<lambda>a. range_err (\<lambda>b. guard (Overlaps a b) ''sharing endpoint addresses overlap'') right) left)),
        guard (len (elems (g_Rights grant)) = 0 \<or> 128 < len (elems (g_Rights grant)))
          ''sharing rights are missing or excessive'',
        check_rights [] (elems (g_Rights grant))]"

definition shareIPsEqual :: "string list \<Rightarrow> string list \<Rightarrow> bool" where
  "shareIPsEqual left right \<longleftrightarrow> sort left = sort right"

definition shareLocalIPsMatch :: "Node \<Rightarrow> string list \<Rightarrow> bool" where
  "shareLocalIPsMatch node vals =
     (let parsed = map (\<lambda>v. (v, ParseAddr v)) (filter (\<lambda>v. v \<noteq> []) [node_AssignedIP node, node_AssignedIPv6 node])
      in if list_ex (\<lambda>(v, a). a = None) parsed then False
         else shareIPsEqual
           (map (\<lambda>(v, a). case a of None \<Rightarrow> [] | Some addr \<Rightarrow> prefix_String (PrefixFrom addr (BitLen addr))) parsed)
           vals)"

text \<open>
  One side of a grant as the loop of \<open>validateSharePeerGrants\<close> names it: network, node, key
  and addresses. \<open>share_ends\<close> is the pair (local, remote), swapped when this node is the source.
\<close>

record share_end =
  se_Network :: string
  se_Node :: string
  se_Key :: string
  se_IPs :: "string list"

definition recipient_end :: "SharePeerGrant \<Rightarrow> share_end" where
  "recipient_end g = \<lparr>se_Network = g_RecipientNetworkID g, se_Node = g_RecipientNodeID g,
     se_Key = g_RecipientPublicKey g, se_IPs = elems (g_RecipientAllowedIPs g)\<rparr>"

definition source_end :: "SharePeerGrant \<Rightarrow> share_end" where
  "source_end g = \<lparr>se_Network = g_SourceNetworkID g, se_Node = g_SourceNodeID g,
     se_Key = g_SourcePublicKey g, se_IPs = elems (g_SourceAllowedIPs g)\<rparr>"

definition share_ends :: "NetworkMapSnapshot \<Rightarrow> SharePeerGrant \<Rightarrow> share_end \<times> share_end" where
  "share_ends s g =
     (if node_ID (snap_Node s) = g_SourceNodeID g \<and> net_ID (snap_Network s) = g_SourceNetworkID g
      then (source_end g, recipient_end g) else (recipient_end g, source_end g))"

definition parsed_overlaps :: "string \<Rightarrow> Prefix \<Rightarrow> bool" where
  "parsed_overlaps v p = (case ParsePrefix v of None \<Rightarrow> False | Some q \<Rightarrow> Overlaps q p)"

text \<open>The checks for one address of the remote side.\<close>

definition remote_ip_check :: "NetworkMapSnapshot \<Rightarrow> share_end \<Rightarrow> share_end \<Rightarrow> string \<Rightarrow> err" where
  "remote_ip_check s l r value =
     (let p = (case ParsePrefix value of None \<Rightarrow> NoPrefix | Some p \<Rightarrow> p)
      in first_err
        [if se_Network r \<noteq> se_Network l
         then range_err (\<lambda>c. guard (parsed_overlaps c p) ''sharing address overlaps local network'')
                [net_CIDR (snap_Network s), net_IPv6CIDR (snap_Network s)]
         else None,
         range_err
           (\<lambda>peer.
              if peer_ID peer = se_Node r then None
              else first_err
                [guard (peer_PublicKey peer = se_Key r) ''sharing key belongs to multiple peers'',
                 range_err (\<lambda>other. guard (parsed_overlaps other p) ''sharing address overlaps another peer'')
                   (elems (peer_AllowedIPs peer))])
           (elems (snap_Peers s))])"

text \<open>The body of the loop over the grants after the duplicate test.\<close>

definition grant_binding :: "NetworkMapSnapshot \<Rightarrow> SharePeerGrant \<Rightarrow> err" where
  "grant_binding s g =
     (let l = fst (share_ends s g); r = snd (share_ends s g)
      in first_err
        [guard (se_Network l \<noteq> net_ID (snap_Network s) \<or> se_Node l \<noteq> node_ID (snap_Node s) \<or>
                se_Key l \<noteq> node_PublicKey (snap_Node s) \<or> \<not> shareLocalIPsMatch (snap_Node s) (se_IPs l))
           ''sharing local endpoint binding mismatch'',
         range_err
           (\<lambda>peer. guard (peer_ID peer = se_Node r \<and>
                          (peer_NetworkID peer \<noteq> se_Network r \<or> peer_PublicKey peer \<noteq> se_Key r \<or>
                           \<not> shareIPsEqual (elems (peer_AllowedIPs peer)) (se_IPs r)))
                     ''sharing peer endpoint binding mismatch'')
           (elems (snap_Peers s)),
         guard (\<not> list_ex (\<lambda>peer. peer_ID peer = se_Node r) (elems (snap_Peers s))) ''sharing peer is absent'',
         range_err (remote_ip_check s l r) (se_IPs r)])"

definition validateSharePeerGrants :: "NetworkMapSnapshot \<Rightarrow> err" where
  "validateSharePeerGrants s =
     (let grants = net_SharePeerGrants (snap_Network s);
          bound = map (\<lambda>g. se_Node (snd (share_ends s g))) grants
      in first_err
        [range_seen g_GrantID SharePeerGrant_Validate ''duplicate sharing grant'' (grant_binding s) [] grants,
         range_err
           (\<lambda>peer. guard (peer_NetworkID peer \<noteq> [] \<and> peer_NetworkID peer \<noteq> net_ID (snap_Network s) \<and>
                          peer_ID peer \<notin> set bound)
                     ''cross-network peer has no sharing grant'')
           (elems (snap_Peers s))])"

definition ValidateSharePeerGrantsAt :: "NetworkMapSnapshot \<Rightarrow> gotime \<Rightarrow> err" where
  "ValidateSharePeerGrantsAt s now =
     first_err
       [validateSharePeerGrants s,
        range_err
          (\<lambda>g. guard (Before now (g_IssuedAt g) \<or> \<not> Before now (g_ExpiresAt g)) ''sharing grant %q is outside its lease'')
          (net_SharePeerGrants (snap_Network s))]"

text \<open>\<open>slices.Clone\<close> copies a slice and keeps nil nil.\<close>

definition slices_Clone :: "'a slice \<Rightarrow> 'a slice" where
  "slices_Clone vals = map_option (\<lambda>xs. xs) vals"

definition cloneSharePeerGrants :: "SharePeerGrant list \<Rightarrow> SharePeerGrant list" where
  "cloneSharePeerGrants vals =
     map (\<lambda>g. g\<lparr>g_SourceAllowedIPs := slices_Clone (g_SourceAllowedIPs g),
                g_RecipientAllowedIPs := slices_Clone (g_RecipientAllowedIPs g),
                g_Rights := slices_Clone (g_Rights g)\<rparr>) vals"

lemma cloneSharePeerGrants_id [simp]: "cloneSharePeerGrants gs = gs"
  by (simp add: cloneSharePeerGrants_def slices_Clone_def option.map_ident)

section \<open>One grant\<close>

lemma share_host_loop_Inr:
  "share_host_loop acc vals = Inr ps \<Longrightarrow>
     ps = acc @ map (\<lambda>v. the (ParsePrefix v)) vals \<and>
     (\<forall>v \<in> set vals. \<exists>p. ParsePrefix v = Some p \<and> \<not> bad_host_prefix v p)"
  by (induction acc vals rule: share_host_loop.induct) (auto split: option.splits if_splits)

lemma shareHostPrefixes_Inr:
  assumes "shareHostPrefixes vals = Inr ps"
  shows "ps = map (\<lambda>v. the (ParsePrefix v)) (elems vals)"
    and "v \<in> set (elems vals) \<Longrightarrow> \<exists>p. ParsePrefix v = Some p \<and> \<not> bad_host_prefix v p"
  using assms share_host_loop_Inr [of "[]" "elems vals" ps]
  by (auto simp: shareHostPrefixes_def split: if_splits)

text \<open>An address text of a grant covers exactly one address.\<close>

lemma host_prefix_single:
  assumes "ParsePrefix v = Some p" and "\<not> bad_host_prefix v p"
  shows "Contains p a \<longleftrightarrow> a = prefix_Addr p"
proof -
  have "wf_prefix p" using assms(1) by (rule wf_ParsePrefix)
  then show ?thesis
    using assms(2) by (cases p rule: prefix_Addr.cases; cases "prefix_Addr p"; cases a)
      (auto simp: bad_host_prefix_def)
qed

lemma check_rights_None:
  "check_rights before rights = None \<longleftrightarrow>
     (\<forall>r \<in> set rights. check_right r = None) \<and>
     (\<forall>r \<in> set rights. \<forall>o' \<in> set before. \<not> rights_overlap r o') \<and>
     sorted_wrt (\<lambda>o' r. \<not> rights_overlap r o') rights"
  by (induction before rights rule: check_rights.induct) auto

text \<open>Whether a right lets a destination port of a protocol through.\<close>

definition permits :: "ShareTraffic \<Rightarrow> string \<Rightarrow> nat \<Rightarrow> bool" where
  "permits r proto port \<longleftrightarrow>
     st_Protocol r = proto \<and> unat (st_FirstPort r) \<le> port \<and> port \<le> unat (st_LastPort r)"

lemma permits_overlap:
  assumes "permits r proto port" and "permits q proto port"
  shows "rights_overlap r q"
  using assms by (auto simp: permits_def rights_overlap_def word_le_nat_alt)

lemma sorted_wrt_nth_pair:
  assumes "sorted_wrt (\<lambda>o' r. \<not> rights_overlap r o') rs" "i < length rs" "j < length rs"
    "permits (rs ! i) proto port" "permits (rs ! j) proto port"
  shows "i = j"
proof (rule ccontr)
  assume "i \<noteq> j"
  then consider "i < j" | "j < i" by linarith
  then show False
  proof cases
    case 1
    then have "\<not> rights_overlap (rs ! j) (rs ! i)" using assms(1,3) sorted_wrt_nth_less by blast
    then show False using permits_overlap assms(4,5) by blast
  next
    case 2
    then have "\<not> rights_overlap (rs ! i) (rs ! j)" using assms(1,2) sorted_wrt_nth_less by blast
    then show False using permits_overlap assms(4,5) by blast
  qed
qed

lemma grant_lease:
  assumes "SharePeerGrant_Validate g = None"
  shows "t_ns (g_IssuedAt g) < t_ns (g_ExpiresAt g)"
    and "t_ns (g_ExpiresAt g) - t_ns (g_IssuedAt g) \<le> MaxSharePeerGrantTTL"
  using assms
  by (auto simp: SharePeerGrant_Validate_def After_def Sub_def MaxSharePeerGrantTTL_def duration_defs)

lemma grant_addresses:
  assumes "SharePeerGrant_Validate g = None"
  shows "\<exists>left right. shareHostPrefixes (g_SourceAllowedIPs g) = Inr left \<and>
    shareHostPrefixes (g_RecipientAllowedIPs g) = Inr right \<and> (\<forall>a \<in> set left. \<forall>b \<in> set right. \<not> Overlaps a b)"
  using assms by (auto simp: SharePeerGrant_Validate_def)

lemma grant_host_address:
  assumes "SharePeerGrant_Validate g = None"
    and "v \<in> set (elems (g_SourceAllowedIPs g)) \<union> set (elems (g_RecipientAllowedIPs g))"
  obtains p where "ParsePrefix v = Some p" "\<not> bad_host_prefix v p" "wf_prefix p"
  using grant_addresses [OF assms(1)] assms(2) shareHostPrefixes_Inr(2) wf_ParsePrefix by blast

lemma grant_sides_disjoint:
  assumes "SharePeerGrant_Validate g = None"
    and "v \<in> set (elems (g_SourceAllowedIPs g))" and "w \<in> set (elems (g_RecipientAllowedIPs g))"
    and "covers v a"
  shows "\<not> covers w a"
proof -
  obtain left right where lr: "shareHostPrefixes (g_SourceAllowedIPs g) = Inr left"
    "shareHostPrefixes (g_RecipientAllowedIPs g) = Inr right" and no: "\<forall>a \<in> set left. \<forall>b \<in> set right. \<not> Overlaps a b"
    using grant_addresses [OF assms(1)] by blast
  have "\<not> Overlaps (the (ParsePrefix v)) (the (ParsePrefix w))"
    using no assms(2,3) lr [THEN shareHostPrefixes_Inr(1)] by simp
  then show ?thesis
    using covers_disjoint [of v _ w] shareHostPrefixes_Inr(2) [OF lr(1) assms(2)]
      shareHostPrefixes_Inr(2) [OF lr(2) assms(3)] assms(4) by auto
qed

lemma check_right_ports:
  assumes "check_right r = None" "permits r proto port"
  shows "(proto = ''tcp'' \<or> proto = ''udp'') \<and> 1 \<le> port \<and> port \<le> 65535 \<or> proto = ''icmp'' \<and> port = 0"
  using assms
  by (auto simp: check_right_def permits_def word_le_nat_alt word_less_nat_alt split: if_splits)

text \<open>
  C33. A valid sharing grant is narrow: its lease is positive and lasts at most two minutes, its
  endpoints are two different nodes with different keys, every address it names is a single
  address that is neither unspecified, loopback, multicast nor link-local, no address belongs to both sides,
  and a destination port is permitted by at most one of its rights and lies in 1..65535 for TCP and
  UDP.
\<close>

theorem SharePeerGrant_narrow:
  assumes "SharePeerGrant_Validate g = None"
  shows "0 < t_ns (g_ExpiresAt g) - t_ns (g_IssuedAt g) \<and>
    t_ns (g_ExpiresAt g) - t_ns (g_IssuedAt g) \<le> 120 * 1000000000 \<and>
    g_SourceNodeID g \<noteq> g_RecipientNodeID g \<and> g_SourcePublicKey g \<noteq> g_RecipientPublicKey g \<and>
    (\<forall>v \<in> set (elems (g_SourceAllowedIPs g)) \<union> set (elems (g_RecipientAllowedIPs g)).
       \<exists>a. (\<forall>x. covers v x \<longleftrightarrow> x = a) \<and>
         \<not> IsUnspecified a \<and> \<not> IsLoopback a \<and> \<not> IsMulticast a \<and> \<not> IsLinkLocalUnicast a) \<and>
    (\<forall>v \<in> set (elems (g_SourceAllowedIPs g)). \<forall>w \<in> set (elems (g_RecipientAllowedIPs g)).
       \<not> (\<exists>a. covers v a \<and> covers w a)) \<and>
    (\<forall>i < length (elems (g_Rights g)). \<forall>j < length (elems (g_Rights g)). \<forall>proto port.
       permits (elems (g_Rights g) ! i) proto port \<and> permits (elems (g_Rights g) ! j) proto port \<longrightarrow>
         i = j \<and> (proto = ''icmp'' \<or> 1 \<le> port \<and> port \<le> 65535))"
proof (intro conjI ballI allI impI)
  show "0 < t_ns (g_ExpiresAt g) - t_ns (g_IssuedAt g)"
    and "t_ns (g_ExpiresAt g) - t_ns (g_IssuedAt g) \<le> 120 * 1000000000"
    using grant_lease [OF assms] by (simp_all add: MaxSharePeerGrantTTL_def duration_defs)
  show "g_SourceNodeID g \<noteq> g_RecipientNodeID g" "g_SourcePublicKey g \<noteq> g_RecipientPublicKey g"
    using assms by (auto simp: SharePeerGrant_Validate_def)
next
  fix v assume "v \<in> set (elems (g_SourceAllowedIPs g)) \<union> set (elems (g_RecipientAllowedIPs g))"
  then obtain p where p: "ParsePrefix v = Some p" "\<not> bad_host_prefix v p"
    using grant_host_address [OF assms] by blast
  then show "\<exists>a. (\<forall>x. covers v x \<longleftrightarrow> x = a) \<and>
         \<not> IsUnspecified a \<and> \<not> IsLoopback a \<and> \<not> IsMulticast a \<and> \<not> IsLinkLocalUnicast a"
    using host_prefix_single [OF p] by (intro exI [of _ "prefix_Addr p"]) (auto simp: bad_host_prefix_def)
next
  fix v w assume "v \<in> set (elems (g_SourceAllowedIPs g))" "w \<in> set (elems (g_RecipientAllowedIPs g))"
  then show "\<not> (\<exists>a. covers v a \<and> covers w a)" using grant_sides_disjoint [OF assms] by blast
next
  fix i j proto port
  let ?rs = "elems (g_Rights g)"
  assume ij: "i < length ?rs" "j < length ?rs" "permits (?rs ! i) proto port \<and> permits (?rs ! j) proto port"
  have c: "check_rights [] ?rs = None" using assms by (simp add: SharePeerGrant_Validate_def)
  then show "i = j" using sorted_wrt_nth_pair ij unfolding check_rights_None by blast
  have "check_right (?rs ! i) = None" using c ij unfolding check_rights_None by simp
  then show "proto = ''icmp'' \<or> 1 \<le> port \<and> port \<le> 65535" using check_right_ports ij by blast
qed

theorem SharePeerGrant_narrow_witness:
  "SharePeerGrant_Validate sample_grant = None \<and>
   0 < t_ns (g_ExpiresAt sample_grant) - t_ns (g_IssuedAt sample_grant) \<and>
   \<not> (\<exists>a. covers ''10.2.0.3/32'' a \<and> covers ''10.1.0.2/32'' a)"
proof -
  have v: "SharePeerGrant_Validate sample_grant = None" by code_simp
  show ?thesis using SharePeerGrant_narrow [OF v] v by (simp add: sample_grant_def)
qed

section \<open>Grants in a map\<close>

lemma shareIPsEqual_iff: "shareIPsEqual l r \<longleftrightarrow> mset l = mset r"
  unfolding shareIPsEqual_def by (metis mset_sort properties_for_sort sorted_sort)

lemma share_ends_cases:
  obtains "share_ends s g = (source_end g, recipient_end g)" | "share_ends s g = (recipient_end g, source_end g)"
  unfolding share_ends_def by metis

lemma remote_end_address:
  assumes "SharePeerGrant_Validate g = None" and "v \<in> set (se_IPs (snd (share_ends s g)))"
  obtains p where "ParsePrefix v = Some p" "wf_prefix p"
  using assms grant_host_address [OF assms(1), of v]
  by (cases rule: share_ends_cases [of s g]) (auto simp: source_end_def recipient_end_def)

lemma not_parsed_overlaps:
  assumes "\<not> parsed_overlaps c p" and "ParsePrefix v = Some p" and "covers v a"
  shows "\<not> covers c a"
proof (cases "ParsePrefix c")
  case (Some q)
  then show ?thesis using assms covers_disjoint [of c q v p a] by (auto simp: parsed_overlaps_def)
qed (simp add: covers_def)

lemma validateSharePeerGrants_None [accepts]:
  "validateSharePeerGrants s = None \<longleftrightarrow>
     (\<forall>g \<in> set (net_SharePeerGrants (snap_Network s)). SharePeerGrant_Validate g = None \<and> grant_binding s g = None) \<and>
     distinct (map g_GrantID (net_SharePeerGrants (snap_Network s))) \<and>
     (\<forall>p \<in> set (elems (snap_Peers s)). peer_NetworkID p \<noteq> [] \<and> peer_NetworkID p \<noteq> net_ID (snap_Network s) \<longrightarrow>
        (\<exists>g \<in> set (net_SharePeerGrants (snap_Network s)). peer_ID p = se_Node (snd (share_ends s g))))"
  by (auto simp: validateSharePeerGrants_def Let_def image_iff)

text \<open>What the loop establishes for one grant and one address of the remote side.\<close>

lemma remote_ip_isolated:
  assumes "grant_binding s g = None" and "SharePeerGrant_Validate g = None"
    and "v \<in> set (se_IPs (snd (share_ends s g)))" and "covers v a"
  shows "se_Network (snd (share_ends s g)) \<noteq> net_ID (snap_Network s) \<Longrightarrow>
      \<not> covers (net_CIDR (snap_Network s)) a \<and> \<not> covers (net_IPv6CIDR (snap_Network s)) a"
    and "q \<in> set (elems (snap_Peers s)) \<Longrightarrow> peer_ID q \<noteq> se_Node (snd (share_ends s g)) \<Longrightarrow>
      w \<in> set (elems (peer_AllowedIPs q)) \<Longrightarrow> \<not> covers w a"
proof -
  obtain p where p: "ParsePrefix v = Some p" using remote_end_address [OF assms(2,3)] by blast
  have c: "remote_ip_check s (fst (share_ends s g)) (snd (share_ends s g)) v = None"
    and n: "se_Network (fst (share_ends s g)) = net_ID (snap_Network s)"
    using assms(1,3) by (auto simp: grant_binding_def Let_def)
  show "se_Network (snd (share_ends s g)) \<noteq> net_ID (snap_Network s) \<Longrightarrow>
      \<not> covers (net_CIDR (snap_Network s)) a \<and> \<not> covers (net_IPv6CIDR (snap_Network s)) a"
    using c n p not_parsed_overlaps [OF _ p assms(4)] by (auto simp: remote_ip_check_def)
  show "q \<in> set (elems (snap_Peers s)) \<Longrightarrow> peer_ID q \<noteq> se_Node (snd (share_ends s g)) \<Longrightarrow>
      w \<in> set (elems (peer_AllowedIPs q)) \<Longrightarrow> \<not> covers w a"
    using c p not_parsed_overlaps [OF _ p assms(4)] by (auto simp: remote_ip_check_def)
qed

text \<open>
  C32. In an accepted map every peer of another network is covered by a valid grant: one end of the
  grant is this node, with its network, id and key; the other end is the peer, with its network, id,
  key and exactly its allowed addresses; and no address of the peer lies in the overlay
  network or in the allowed addresses of a peer with another id.
\<close>

theorem cross_network_peer_bound:
  assumes "validateSharePeerGrants s = None" and "p \<in> set (elems (snap_Peers s))"
    and "peer_NetworkID p \<noteq> []" and "peer_NetworkID p \<noteq> net_ID (snap_Network s)"
  shows "\<exists>g \<in> set (net_SharePeerGrants (snap_Network s)). \<exists>l r.
    SharePeerGrant_Validate g = None \<and> {l, r} = {source_end g, recipient_end g} \<and>
    se_Network l = net_ID (snap_Network s) \<and> se_Node l = node_ID (snap_Node s) \<and>
    se_Key l = node_PublicKey (snap_Node s) \<and>
    se_Network r = peer_NetworkID p \<and> se_Node r = peer_ID p \<and> se_Key r = peer_PublicKey p \<and>
    mset (se_IPs r) = mset (elems (peer_AllowedIPs p)) \<and>
    (\<forall>v \<in> set (elems (peer_AllowedIPs p)). \<forall>a. covers v a \<longrightarrow>
       \<not> covers (net_CIDR (snap_Network s)) a \<and> \<not> covers (net_IPv6CIDR (snap_Network s)) a \<and>
       (\<forall>q \<in> set (elems (snap_Peers s)). peer_ID q \<noteq> peer_ID p \<longrightarrow>
          (\<forall>w \<in> set (elems (peer_AllowedIPs q)). \<not> covers w a)))"
proof -
  obtain g where g: "g \<in> set (net_SharePeerGrants (snap_Network s))"
    and id: "peer_ID p = se_Node (snd (share_ends s g))"
    and v: "SharePeerGrant_Validate g = None" and b: "grant_binding s g = None"
    using assms by (auto simp: validateSharePeerGrants_None)
  let ?l = "fst (share_ends s g)" and ?r = "snd (share_ends s g)"
  have l: "se_Network ?l = net_ID (snap_Network s)" "se_Node ?l = node_ID (snap_Node s)"
      "se_Key ?l = node_PublicKey (snap_Node s)"
    and r: "se_Network ?r = peer_NetworkID p" "se_Key ?r = peer_PublicKey p"
      "mset (se_IPs ?r) = mset (elems (peer_AllowedIPs p))"
    using b assms(2) id by (auto simp: grant_binding_def Let_def shareIPsEqual_iff)
  have e: "{?l, ?r} = {source_end g, recipient_end g}" by (cases rule: share_ends_cases [of s g]) auto
  have "set (se_IPs ?r) = set (elems (peer_AllowedIPs p))" using r(3) by (metis set_mset_mset)
  then show ?thesis
    using g v e l r id remote_ip_isolated [OF b v] assms(4)
    by (intro bexI [OF _ g] exI [of _ ?l] exI [of _ ?r]) simp
qed

theorem cross_network_peer_bound_witness:
  "\<exists>g \<in> set (net_SharePeerGrants (snap_Network sample_map)). SharePeerGrant_Validate g = None \<and>
     ''net-s'' \<in> {g_SourceNetworkID g, g_RecipientNetworkID g}"
proof -
  have v: "validateSharePeerGrants sample_map = None" by code_simp
  have p: "sample_peer_s \<in> set (elems (snap_Peers sample_map))" by (simp add: sample_map_def)
  have n: "peer_NetworkID sample_peer_s = ''net-s''" "net_ID (snap_Network sample_map) = ''net-r''"
    by (simp_all add: sample_map_def sample_peer_s_def)
  show ?thesis using cross_network_peer_bound [OF v p] n by (force simp: source_end_def recipient_end_def doubleton_eq_iff)
qed

text \<open>
  The lease check makes a grant usable only from its issue up to, not including, its expiry;
  in an accepted map no grant is older than two minutes.
\<close>

theorem grants_current:
  assumes "ValidateSharePeerGrantsAt s now = None" and "g \<in> set (net_SharePeerGrants (snap_Network s))"
  shows "t_ns (g_IssuedAt g) \<le> t_ns now \<and> t_ns now < t_ns (g_ExpiresAt g) \<and>
    t_ns now - t_ns (g_IssuedAt g) < 120 * 1000000000 \<and> validateSharePeerGrants s = None"
proof -
  have v: "SharePeerGrant_Validate g = None"
    using assms by (auto simp: ValidateSharePeerGrantsAt_def validateSharePeerGrants_None)
  have n: "t_ns (g_IssuedAt g) \<le> t_ns now" "t_ns now < t_ns (g_ExpiresAt g)" "validateSharePeerGrants s = None"
    using assms by (auto simp: ValidateSharePeerGrantsAt_def time_defs)
  then show ?thesis using grant_lease [OF v] by (auto simp: MaxSharePeerGrantTTL_def duration_defs)
qed

theorem grants_current_witness:
  "ValidateSharePeerGrantsAt sample_map \<lparr>t_ns = 2000000000, t_offset = 0\<rparr> = None \<and>
   t_ns (g_IssuedAt sample_grant) \<le> 2000000000 \<and> 2000000000 < t_ns (g_ExpiresAt sample_grant)"
proof -
  have v: "ValidateSharePeerGrantsAt sample_map \<lparr>t_ns = 2000000000, t_offset = 0\<rparr> = None" by code_simp
  have g: "sample_grant \<in> set (net_SharePeerGrants (snap_Network sample_map))" by (simp add: sample_map_def)
  show ?thesis using grants_current [OF v g] v by simp
qed

end
