(* ===== verification/Application.thy ===== *)
theory Application
  imports Sample_Map
begin

text \<open>
  Application targets and routes (\<open>src/clientapi/v1/application.go\<close>): the parsing of a
  target, the address ranges an application may never reach, and the binding of sources,
  connectors and routes to the map they are delivered in.
\<close>

record ApplicationTarget =
  tgt_Domain :: string
  tgt_Prefix :: Prefix
  tgt_TCPPort :: "16 word"

definition zero_target :: ApplicationTarget where
  "zero_target = \<lparr>tgt_Domain = [], tgt_Prefix = NoPrefix, tgt_TCPPort = 0\<rparr>"

definition forbidden_ranges :: "string list" where
  "forbidden_ranges =
     [''0.0.0.0/8'', ''127.0.0.0/8'', ''169.254.0.0/16'', ''224.0.0.0/4'', ''240.0.0.0/4'', ''::/128'',
      ''::1/128'', ''::ffff:0:0/96'', ''fe80::/10'', ''ff00::/8'']"

text \<open>\<open>MustParsePrefix\<close> panics on a text that does not parse; every forbidden range parses (\<open>forbidden_ranges_parse\<close>).\<close>

definition applicationPrefixAllowed :: "Prefix \<Rightarrow> bool" where
  "applicationPrefixAllowed p \<longleftrightarrow>
     prefix_IsValid p \<and> \<not> Is4In6 (prefix_Addr p) \<and> prefix_Bits p \<noteq> 0 \<and>
     list_all (\<lambda>value. case ParsePrefix value of None \<Rightarrow> False | Some f \<Rightarrow> \<not> Overlaps p f) forbidden_ranges"

definition applicationAddressAllowed :: "Addr \<Rightarrow> bool" where
  "applicationAddressAllowed address \<longleftrightarrow>
     (if \<not> addr_IsValid address \<or> Is4In6 address then False
      else applicationPrefixAllowed (PrefixFrom address (BitLen address)))"

definition ValidateApplicationAddress :: "Addr \<Rightarrow> err" where
  "ValidateApplicationAddress address =
     guard (\<not> applicationAddressAllowed address) ''application destination address is forbidden''"

definition url_origin :: "URL \<Rightarrow> bool" where
  "url_origin u \<longleftrightarrow>
     (url_Scheme u = ''http'' \<or> url_Scheme u = ''https'') \<and> \<not> url_User u \<and>
     (url_Path u = [] \<or> url_Path u = ''/'') \<and> url_RawQuery u = [] \<and> url_Fragment u = [] \<and>
     validDNSDomain (url_Hostname u)"

definition ParseApplicationTarget :: "string \<Rightarrow> string \<Rightarrow> ApplicationTarget result" where
  "ParseApplicationTarget kind target =
     (if kind = ''cidr'' then
        (case ParsePrefix target of
           None \<Rightarrow> Inl (Errorf ''invalid application CIDR'')
         | Some p \<Rightarrow>
             if prefix_String (Masked p) \<noteq> target \<or> \<not> applicationPrefixAllowed p
             then Inl (Errorf ''invalid application CIDR'')
             else Inr (zero_target\<lparr>tgt_Prefix := p\<rparr>))
      else if kind = ''domain'' then
        (if \<not> validDNSDomain target \<or> CHR ''*'' \<in> set target \<or> target \<noteq> ToLower target
         then Inl (Errorf ''application requires an exact canonical domain'')
         else Inr (zero_target\<lparr>tgt_Domain := target\<rparr>))
      else if kind = ''url'' then
        (case url_Parse target of
           None \<Rightarrow> Inl (Errorf ''application URL must identify an HTTP(S) origin without path, query or credentials'')
         | Some u \<Rightarrow>
             if \<not> url_origin u
             then Inl (Errorf ''application URL must identify an HTTP(S) origin without path, query or credentials'')
             else if url_Port u \<noteq> [] then
               (case ParseUint16 (url_Port u) of
                  None \<Rightarrow> Inl (Errorf ''invalid application URL port'')
                | Some port \<Rightarrow>
                    if port = 0 then Inl (Errorf ''invalid application URL port'')
                    else Inr (zero_target\<lparr>tgt_Domain := ToLower (url_Hostname u), tgt_TCPPort := word_of_int port\<rparr>))
             else Inr (zero_target\<lparr>tgt_Domain := ToLower (url_Hostname u),
                                   tgt_TCPPort := (if url_Scheme u = ''https'' then 443 else 80)\<rparr>))
      else Inl (Errorf ''unsupported application target type''))"

text \<open>The loop over the CIDRs of one route; \<open>seen\<close> is the map \<open>prefixes\<close>.\<close>

fun check_route_cidrs :: "NetworkMapSnapshot \<Rightarrow> ApplicationTarget \<Rightarrow> string list \<Rightarrow> string list \<Rightarrow> err" where
  "check_route_cidrs s target seen [] = None"
| "check_route_cidrs s target seen (value # cidrs) =
     (case ParsePrefix value of
        None \<Rightarrow> Some (Errorf ''invalid application route destination'')
      | Some p \<Rightarrow>
          first_err
            [guard (prefix_String (Masked p) \<noteq> value \<or> \<not> applicationPrefixAllowed p \<or> value \<in> set seen)
               ''invalid application route destination'',
             range_err
               (\<lambda>overlay. guard (case ParsePrefix overlay of None \<Rightarrow> False | Some network \<Rightarrow> Overlaps p network)
                  ''application route overlaps overlay network'')
               [net_CIDR (snap_Network s), net_IPv6CIDR (snap_Network s)],
             guard (prefix_IsValid (tgt_Prefix target) \<and> p \<noteq> tgt_Prefix target \<or>
                    \<not> prefix_IsValid (tgt_Prefix target) \<and> prefix_Bits p \<noteq> int (BitLen (prefix_Addr p)))
               ''application route exceeds target scope'',
             check_route_cidrs s target (value # seen) cidrs])"

fun check_routes :: "NetworkMapSnapshot \<Rightarrow> Application \<Rightarrow> ApplicationTarget \<Rightarrow> string list \<Rightarrow> ApplicationRoute list \<Rightarrow> err" where
  "check_routes s app target seen [] = None"
| "check_routes s app target seen (route # routes) =
     first_err
       [guard (ar_Connector route \<notin> set (app_Connectors app) \<or> sh_NodeID (ar_Connector route) \<in> set seen \<or>
               IsZero (ar_ExpiresAt route) \<or> length (elems (ar_CIDRs route)) = 0 \<or> 64 < length (elems (ar_CIDRs route)))
          ''invalid application route binding'',
        check_route_cidrs s target [] (elems (ar_CIDRs route)),
        check_routes s app target (sh_NodeID (ar_Connector route) # seen) routes]"

definition check_application :: "NetworkMapSnapshot \<Rightarrow> Application \<Rightarrow> err" where
  "check_application s app =
     first_err
       [guard (case hex_DecodeString (app_PolicyHash app) of None \<Rightarrow> True | Some hash \<Rightarrow> length hash \<noteq> 32)
          ''application policy hash is missing or invalid'',
        range_err (bound_hosts s ''invalid application node binding'' []) [app_Sources app, app_Connectors app],
        after (ParseApplicationTarget (app_TargetType app) (app_Target app))
          (\<lambda>target. check_routes s app target [] (app_Routes app))]"

definition validateApplicationBindings :: "NetworkMapSnapshot \<Rightarrow> err" where
  "validateApplicationBindings s = range_err (check_application s) (net_Applications (snap_Network s))"

section \<open>Forbidden addresses\<close>

lemma forbidden_ranges_parse: "list_all (\<lambda>v. ParsePrefix v \<noteq> None) forbidden_ranges"
  by code_simp

lemma allowed_not_covered:
  assumes "applicationPrefixAllowed p" and "wf_prefix p" and "Contains p a" and "f \<in> set forbidden_ranges"
  shows "\<not> covers f a"
proof -
  obtain q where q: "ParsePrefix f = Some q" "\<not> Overlaps p q"
    using assms(1,4) by (fastforce simp: applicationPrefixAllowed_def list_all_iff split: option.splits)
  then show ?thesis using Overlaps_iff [OF assms(2) wf_ParsePrefix [OF q(1)]] assms(3) by auto
qed

text \<open>The forbidden ranges as constants, and what they cover.\<close>

lemma forbidden_parsed:
  "ParsePrefix ''0.0.0.0/8'' = Some (Prefix (IPv4 0) 8)"
  "ParsePrefix ''127.0.0.0/8'' = Some (Prefix (IPv4 0x7F000000) 8)"
  "ParsePrefix ''169.254.0.0/16'' = Some (Prefix (IPv4 0xA9FE0000) 16)"
  "ParsePrefix ''224.0.0.0/4'' = Some (Prefix (IPv4 0xE0000000) 4)"
  "ParsePrefix ''240.0.0.0/4'' = Some (Prefix (IPv4 0xF0000000) 4)"
  "ParsePrefix ''::/128'' = Some (Prefix (IPv6 0 []) 128)"
  "ParsePrefix ''::1/128'' = Some (Prefix (IPv6 1 []) 128)"
  "ParsePrefix ''::ffff:0:0/96'' = Some (Prefix (IPv6 0xFFFF00000000 []) 96)"
  "ParsePrefix ''fe80::/10'' = Some (Prefix (IPv6 0xFE800000000000000000000000000000 []) 10)"
  "ParsePrefix ''ff00::/8'' = Some (Prefix (IPv6 0xFF000000000000000000000000000000 []) 8)"
  by code_simp+

lemma forbidden_drop_bits:
  "drop_bit 24 (0x7F000000 :: 32 word) = 127" "drop_bit 16 (0xA9FE0000 :: 32 word) = 0xA9FE"
  "drop_bit 28 (0xE0000000 :: 32 word) = 0xE" "drop_bit 28 (0xF0000000 :: 32 word) = 0xF"
  "drop_bit 32 (0xFFFF00000000 :: 128 word) = 0xFFFF"
  "drop_bit 118 (0xFE800000000000000000000000000000 :: 128 word) = 0x3FA"
  "drop_bit 120 (0xFF000000000000000000000000000000 :: 128 word) = 0xFF"
  by code_simp+

text \<open>The addresses outside the forbidden ranges, bit by bit.\<close>

definition ordinary_address :: "Addr \<Rightarrow> bool" where
  "ordinary_address a =
     (case a of
        NoAddr \<Rightarrow> False
      | IPv4 w \<Rightarrow> drop_bit 24 w \<noteq> 0 \<and> drop_bit 24 w \<noteq> 127 \<and> drop_bit 16 w \<noteq> 0xA9FE \<and>
                  drop_bit 28 w \<noteq> 0xE \<and> drop_bit 28 w \<noteq> 0xF
      | IPv6 w z \<Rightarrow> w \<noteq> 0 \<and> w \<noteq> 1 \<and> drop_bit 32 w \<noteq> 0xFFFF \<and> drop_bit 118 w \<noteq> 0x3FA \<and> drop_bit 120 w \<noteq> 0xFF)"

lemma uncovered_ordinary:
  assumes "Zone a = []"
  shows "(\<forall>f \<in> set forbidden_ranges. \<not> covers f a) \<longleftrightarrow> a = NoAddr \<or> ordinary_address a"
proof (cases a)
  case (IPv4 w)
  then show ?thesis
    by (simp add: forbidden_ranges_def forbidden_parsed forbidden_drop_bits ordinary_address_def covers_def
        eq_commute [of _ "drop_bit _ w"])
next
  case (IPv6 w z)
  with assms have "a = IPv6 w []" by simp
  then show ?thesis
    by (simp add: forbidden_ranges_def forbidden_parsed forbidden_drop_bits ordinary_address_def covers_def
        eq_commute [of _ "drop_bit _ w"] eq_commute [of _ w])
qed (simp add: covers_def forbidden_ranges_def forbidden_parsed)

lemma ordinary_special:
  assumes "ordinary_address a"
  shows "\<not> IsUnspecified a" "\<not> IsLoopback a" "\<not> IsMulticast a" "\<not> IsLinkLocalUnicast a" "\<not> Is4In6 a"
  using assms by (cases a; auto simp: ordinary_address_def)+

lemma Contains_zone: "Contains p a \<Longrightarrow> Zone a = [] \<and> a \<noteq> NoAddr"
  by (cases "(p, a)" rule: Contains.cases) auto

lemma allowed_ordinary:
  assumes "applicationPrefixAllowed p" and "wf_prefix p" and "Contains p a"
  shows "ordinary_address a"
  using uncovered_ordinary [of a] Contains_zone [OF assms(3)] allowed_not_covered [OF assms] by blast

lemma allowed_iff:
  assumes "wf_prefix p"
  shows "applicationPrefixAllowed p \<longleftrightarrow>
    prefix_Bits p \<noteq> 0 \<and> (\<forall>a. Contains p a \<longrightarrow> ordinary_address a)"
proof
  assume "applicationPrefixAllowed p"
  then show "prefix_Bits p \<noteq> 0 \<and> (\<forall>a. Contains p a \<longrightarrow> ordinary_address a)"
    using allowed_ordinary [OF _ assms] by (auto simp: applicationPrefixAllowed_def)
next
  assume r: "prefix_Bits p \<noteq> 0 \<and> (\<forall>a. Contains p a \<longrightarrow> ordinary_address a)"
  have "\<exists>q. ParsePrefix f = Some q \<and> \<not> Overlaps p q" if f: "f \<in> set forbidden_ranges" for f
  proof -
    obtain q where q: "ParsePrefix f = Some q"
      using forbidden_ranges_parse f by (auto simp: list_all_iff)
    have "\<not> (\<exists>a. Contains p a \<and> Contains q a)"
      using r uncovered_ordinary Contains_zone f q by (metis covers_Some)
    then show ?thesis using q Overlaps_iff [OF assms wf_ParsePrefix [OF q]] by blast
  qed
  moreover have "\<not> Is4In6 (prefix_Addr p)" using r Contains_Addr [OF assms] ordinary_special(5) by blast
  moreover have "prefix_IsValid p" using assms by (auto simp: prefix_IsValid_def)
  ultimately show "applicationPrefixAllowed p"
    using r by (fastforce simp: applicationPrefixAllowed_def list_all_iff)
qed

text \<open>
  C35. The test on application prefixes is exact at the level of addresses: a parsed prefix is allowed
  if and only if it is not the default route and every address it covers lies outside the special
  ranges. So no allowed prefix reaches an unspecified, loopback, multicast,
  link-local or IPv4-mapped address, however wide it is.
\<close>

theorem applicationPrefixAllowed_exact:
  assumes "ParsePrefix v = Some p"
  shows "(applicationPrefixAllowed p \<longleftrightarrow> prefix_Bits p \<noteq> 0 \<and> (\<forall>a. Contains p a \<longrightarrow> ordinary_address a)) \<and>
    (applicationPrefixAllowed p \<and> Contains p a \<longrightarrow>
       \<not> IsUnspecified a \<and> \<not> IsLoopback a \<and> \<not> IsMulticast a \<and> \<not> IsLinkLocalUnicast a \<and> \<not> Is4In6 a)"
  using allowed_iff [OF wf_ParsePrefix [OF assms]] ordinary_special by blast

theorem applicationPrefixAllowed_exact_witness:
  "\<not> IsLoopback (IPv4 0xC0000207) \<and> \<not> IsMulticast (IPv4 0xC0000207)"
proof -
  have p: "ParsePrefix ''192.0.2.0/24'' = Some (Prefix (IPv4 0xC0000200) 24)" by code_simp
  have "applicationPrefixAllowed (Prefix (IPv4 0xC0000200) 24)" "Contains (Prefix (IPv4 0xC0000200) 24) (IPv4 0xC0000207)"
    by code_simp+
  then show ?thesis using applicationPrefixAllowed_exact [OF p, of "IPv4 0xC0000207"] by blast
qed

section \<open>Targets\<close>

text \<open>
  A parsed application target is canonical and within its kind: a CIDR target is an allowed
  prefix whose text is its own canonical form, without host bits; a domain target is a lower-case host name;
  a URL target is an \<open>http\<close> or \<open>https\<close> origin whose host is a domain name and
  whose port is not zero. Every other kind is refused.
\<close>

theorem ParseApplicationTarget_sound:
  assumes "ParseApplicationTarget kind target = Inr t"
  shows "(kind = ''cidr'' \<and> ParsePrefix target = Some (tgt_Prefix t) \<and> prefix_String (Masked (tgt_Prefix t)) = target \<and>
      (\<forall>a. covers target a \<longrightarrow> ordinary_address a) \<and> tgt_Domain t = [] \<and> tgt_TCPPort t = 0) \<or>
    (kind = ''domain'' \<and> tgt_Domain t = target \<and> ToLower target = target \<and> tgt_Prefix t = NoPrefix \<and>
      ValidateHostname (TrimSuffix target ''.'') = None \<and> tgt_TCPPort t = 0) \<or>
    (kind = ''url'' \<and> tgt_Prefix t = NoPrefix \<and> tgt_TCPPort t \<noteq> 0 \<and>
      (\<exists>u. url_Parse target = Some u \<and> url_origin u \<and> tgt_Domain t = ToLower (url_Hostname u)))"
proof -
  consider "kind = ''cidr''" | "kind = ''domain''" | "kind = ''url''"
    using assms by (auto simp: ParseApplicationTarget_def split: if_splits)
  then show ?thesis
  proof cases
    case 1
    then obtain p where p: "ParsePrefix target = Some p" "applicationPrefixAllowed p"
      and t: "prefix_String (Masked p) = target" "t = zero_target\<lparr>tgt_Prefix := p\<rparr>"
      using assms by (auto simp: ParseApplicationTarget_def split: option.splits if_splits)
    then have "\<forall>a. covers target a \<longrightarrow> ordinary_address a"
      using allowed_ordinary [OF p(2) wf_ParsePrefix [OF p(1)]] by simp
    with 1 p t show ?thesis by (simp add: zero_target_def)
  next
    case 2
    then show ?thesis
      using assms by (auto simp: ParseApplicationTarget_def zero_target_def validDNSDomain_iff split: if_splits)
  next
    case 3
    have "word_of_int port \<noteq> (0 :: 16 word)" if "ParseUint16 s = Some port" "port \<noteq> 0" for s port
    proof
      assume "word_of_int port = (0 :: 16 word)"
      then have "uint (word_of_int port :: 16 word) = 0" by simp
      then have "port mod 65536 = 0" by (simp add: uint_word_of_int)
      with that ParseUint16_range [OF that(1)] show False by simp
    qed
    with 3 show ?thesis
      using assms by (auto simp: ParseApplicationTarget_def zero_target_def split: option.splits if_splits)
  qed
qed

theorem ParseApplicationTarget_sound_witness:
  "\<exists>t. ParseApplicationTarget ''url'' ''https://Intra.Example.com:8443/'' = Inr t \<and> tgt_Domain t = ''intra.example.com'' \<and>
     tgt_TCPPort t \<noteq> 0"
proof -
  have "ParseApplicationTarget ''url'' ''https://Intra.Example.com:8443/'' =
      Inr \<lparr>tgt_Domain = ''intra.example.com'', tgt_Prefix = NoPrefix, tgt_TCPPort = 8443\<rparr>" by code_simp
  then show ?thesis using ParseApplicationTarget_sound by fastforce
qed

section \<open>Bindings\<close>

lemma target_prefix:
  assumes "ParseApplicationTarget kind target = Inr t"
  shows "if kind = ''cidr'' then prefix_IsValid (tgt_Prefix t) \<and> prefix_String (Masked (tgt_Prefix t)) = target
    else \<not> prefix_IsValid (tgt_Prefix t)"
  using assms
  by (auto simp: ParseApplicationTarget_def zero_target_def applicationPrefixAllowed_def prefix_IsValid_def
      split: option.splits if_splits)

text \<open>What the loop establishes for one destination.\<close>

definition route_cidr_ok :: "NetworkMapSnapshot \<Rightarrow> ApplicationTarget \<Rightarrow> string \<Rightarrow> Prefix \<Rightarrow> bool" where
  "route_cidr_ok s t v p \<longleftrightarrow>
     ParsePrefix v = Some p \<and> applicationPrefixAllowed p \<and> prefix_String (Masked p) = v \<and>
     (\<forall>c \<in> {net_CIDR (snap_Network s), net_IPv6CIDR (snap_Network s)}. \<forall>q. ParsePrefix c = Some q \<longrightarrow> \<not> Overlaps p q) \<and>
     (if prefix_IsValid (tgt_Prefix t) then p = tgt_Prefix t else prefix_Bits p = int (BitLen (prefix_Addr p)))"

lemma check_route_cidrs_Cons:
  assumes "check_route_cidrs s t seen (v # cidrs) = None"
  shows "(\<exists>p. route_cidr_ok s t v p) \<and> check_route_cidrs s t (v # seen) cidrs = None"
proof (cases "ParsePrefix v")
  case (Some p)
  then have "route_cidr_ok s t v p" using assms by (simp add: route_cidr_ok_def split: option.splits) (auto split: if_splits)
  then show ?thesis using assms Some by auto
qed (use assms in simp)

lemma check_route_cidrs_None:
  "check_route_cidrs s t seen cidrs = None \<Longrightarrow> v \<in> set cidrs \<Longrightarrow> \<exists>p. route_cidr_ok s t v p"
  by (induction cidrs arbitrary: seen) (auto simp del: check_route_cidrs.simps dest!: check_route_cidrs_Cons)

lemma check_routes_None:
  "check_routes s app t seen routes = None \<Longrightarrow> r \<in> set routes \<Longrightarrow>
     ar_Connector r \<in> set (app_Connectors app) \<and> \<not> IsZero (ar_ExpiresAt r) \<and>
     check_route_cidrs s t [] (elems (ar_CIDRs r)) = None"
  by (induction s app t seen routes rule: check_routes.induct) auto

text \<open>
  C34. In an accepted map an application route leads where it may: its connector is one of the
  application's connectors, with the current key of a node of the map, and every address of its
  destinations lies outside the special ranges and outside the overlay network; for a CIDR application
  the destination is the target itself, and otherwise it is a single address.
\<close>

theorem application_routes_confined:
  assumes "validateApplicationBindings s = None" and "app \<in> set (net_Applications (snap_Network s))"
    and "r \<in> set (app_Routes app)" and "v \<in> set (elems (ar_CIDRs r))"
  shows "ar_Connector r \<in> set (app_Connectors app) \<and>
    known_identity s (sh_NodeID (ar_Connector r)) (sh_PublicKey (ar_Connector r)) \<and>
    (\<forall>a. covers v a \<longrightarrow> ordinary_address a \<and>
       \<not> covers (net_CIDR (snap_Network s)) a \<and> \<not> covers (net_IPv6CIDR (snap_Network s)) a) \<and>
    (if app_TargetType app = ''cidr'' then v = app_Target app
     else \<exists>p. ParsePrefix v = Some p \<and> prefix_Bits p = int (BitLen (prefix_Addr p)))"
proof -
  obtain t where t: "ParseApplicationTarget (app_TargetType app) (app_Target app) = Inr t"
    and rt: "check_routes s app t [] (app_Routes app) = None"
    and bh: "bound_hosts s ''invalid application node binding'' [] (app_Connectors app) = None"
    using assms(1,2) by (auto simp: validateApplicationBindings_def check_application_def)
  note c = check_routes_None [OF rt assms(3)]
  obtain p where p: "ParsePrefix v = Some p" "applicationPrefixAllowed p" "prefix_String (Masked p) = v"
    and o': "\<forall>c \<in> {net_CIDR (snap_Network s), net_IPv6CIDR (snap_Network s)}. \<forall>q. ParsePrefix c = Some q \<longrightarrow> \<not> Overlaps p q"
    and k: "if prefix_IsValid (tgt_Prefix t) then p = tgt_Prefix t else prefix_Bits p = int (BitLen (prefix_Addr p))"
    using check_route_cidrs_None [OF _ assms(4)] c unfolding route_cidr_ok_def by metis
  have "ordinary_address a" if "covers v a" for a
    using allowed_ordinary [OF p(2) wf_ParsePrefix [OF p(1)]] that p(1) by simp
  moreover have "\<not> covers c a" if "covers v a" "c \<in> {net_CIDR (snap_Network s), net_IPv6CIDR (snap_Network s)}" for a c
    using covers_disjoint [OF p(1)] o' that by (cases "ParsePrefix c") (auto simp: covers_def)
  moreover have "if app_TargetType app = ''cidr'' then v = app_Target app
     else prefix_Bits p = int (BitLen (prefix_Addr p))"
    using t k p target_prefix [OF t] by (auto split: if_splits)
  ultimately show ?thesis using c bound_hosts_known [OF bh] p(1) by auto
qed

theorem application_routes_confined_witness:
  "known_identity sample_map ''node-p'' (sample_key (CHR ''p'')) \<and>
   ordinary_address (IPv4 0xC0000207) \<and> \<not> covers ''10.1.0.0/24'' (IPv4 0xC0000207)"
proof -
  have v: "validateApplicationBindings sample_map = None" by code_simp
  have c: "covers ''192.0.2.0/24'' (IPv4 0xC0000207)" by code_simp
  show ?thesis
    using application_routes_confined [OF v, of sample_application "hd (app_Routes sample_application)" "''192.0.2.0/24''"] c
    by (simp add: sample_map_def sample_application_def)
qed

end
