(* ===== verification/Map_Validate.thy ===== *)
theory Map_Validate
  imports Sharing Application
begin

text \<open>
  The boundary check of an untrusted network map
  (\<open>src/clientapi/v1/networkmap_validate.go\<close>, \<open>acl_grants.go\<close>). The relay module's
  \<open>EndpointSnapshot.Validate\<close> is the argument \<open>relay_ok\<close>: the verdict on the
  list of relay endpoints.
\<close>

section \<open>ACL grants (acl_grants.go)\<close>

definition acl_covered :: "Prefix list \<Rightarrow> Prefix \<Rightarrow> bool" where
  "acl_covered routes p =
     list_ex (\<lambda>route. BitLen (prefix_Addr route) = BitLen (prefix_Addr p) \<and> prefix_Bits route \<le> prefix_Bits p \<and>
                      Contains route (prefix_Addr p)) routes"

definition check_acl_destination :: "Prefix list \<Rightarrow> string \<Rightarrow> err" where
  "check_acl_destination routes cidr =
     (case ParsePrefix cidr of
        None \<Rightarrow> Some (Errorf ''acl_grants[%d] destination must be a canonical IP prefix'')
      | Some p \<Rightarrow>
          first_err
            [guard (Is4In6 (prefix_Addr p) \<or> p \<noteq> Masked p) ''acl_grants[%d] destination must be a canonical IP prefix'',
             guard (\<not> acl_covered routes p) ''acl_grants[%d] destination is outside peer allowed_ips''])"

definition check_acl_grant :: "Prefix list \<Rightarrow> ACLGrant \<Rightarrow> err" where
  "check_acl_grant routes grant =
     first_err
       [guard (len (elems (ag_DestinationCIDRs grant)) = 0 \<or> 1000 < len (elems (ag_DestinationCIDRs grant)))
          ''acl_grants[%d] requires 1..1000 destination CIDRs'',
        guard (65535 < len (ag_AllowedPorts grant)) ''acl_grants[%d] has too many ports'',
        range_err (check_acl_destination routes) (elems (ag_DestinationCIDRs grant)),
        range_err (validateACLPort ''acl_grants[%d] protocol is invalid'' ''acl_grants[%d] port is invalid'')
          (ag_AllowedPorts grant)]"

definition validateACLGrants :: "Peer \<Rightarrow> err" where
  "validateACLGrants peer =
     (if peer_ACLGrants peer = [] then None
      else first_err
        [guard (\<not> peer_ACLRestricted peer \<or> peer_AllowedPorts peer \<noteq> [])
           ''acl_grants require acl_restricted and cannot mix with peer-wide allowed_ports'',
         guard (1000 < len (peer_ACLGrants peer)) ''at most 1000 acl_grants are allowed'',
         (case those (map ParsePrefix (elems (peer_AllowedIPs peer))) of
            None \<Rightarrow> Some (Errorf ''acl_grants require valid allowed_ips prefixes'')
          | Some ps \<Rightarrow> range_err (check_acl_grant (map Masked ps)) (peer_ACLGrants peer))])"

section \<open>The parts of a map (networkmap_validate.go)\<close>

definition validateApplications :: "Application list \<Rightarrow> err" where
  "validateApplications applications =
     range_seen app_ID
       (\<lambda>app. guard (TrimSpace (app_ID app) = [] \<or> TrimSpace (app_Name app) = [] \<or>
                     TrimSpace (app_TargetType app) = [] \<or> TrimSpace (app_Target app) = [])
                ''network.applications[%d] is incomplete'')
       ''network.applications[%d].id is duplicated''
       (\<lambda>app. first_err
          [validateMapTexts
             [(''network.applications[%d].id'', app_ID app), (''network.applications[%d].name'', app_Name app),
              (''network.applications[%d].target_type'', app_TargetType app),
              (''network.applications[%d].target'', app_Target app)],
           after (ParseApplicationTarget (app_TargetType app) (app_Target app)) (\<lambda>_. None)])
       [] applications"

definition validateServices :: "AdvertisedService list \<Rightarrow> err" where
  "validateServices services =
     range_seen svc_ID
       (\<lambda>svc. guard (TrimSpace (svc_ID svc) = [] \<or> TrimSpace (svc_Name svc) = [] \<or>
                     \<not> validDNSDomain (svc_DNSName svc) \<or> elems (svc_Ports svc) = [])
                ''network.services[%d] is incomplete'')
       ''network.services[%d].id is duplicated''
       (\<lambda>svc. first_err
          [validateMapTexts
             [(''network.services[%d].id'', svc_ID svc), (''network.services[%d].name'', svc_Name svc),
              (''network.services[%d].description'', svc_Description svc),
              (''network.services[%d].dns_name'', svc_DNSName svc),
              (''network.services[%d].approval_status'', svc_ApprovalStatus svc),
              (''network.services[%d].health'', svc_Health svc)],
           guard (svc_ApprovalMode svc \<noteq> ''manual'' \<and> svc_ApprovalMode svc \<noteq> ''auto'')
             ''network.services[%d].approval_mode is invalid'',
           range_err
             (\<lambda>port. guard ((sp_Protocol port \<noteq> ''tcp'' \<and> sp_Protocol port \<noteq> ''udp'') \<or> sp_Port port = 0 \<or>
                            65535 < sp_Port port)
                       ''network.services[%d].ports[%d] is invalid'')
             (elems (svc_Ports svc))])
       [] services"

definition validateServiceHosts :: "NetworkMapSnapshot \<Rightarrow> err" where
  "validateServiceHosts s =
     range_err
       (\<lambda>svc. first_err
          [guard (svc_Hosts svc \<noteq> [] \<and> svc_ApprovalStatus svc \<noteq> ''approved'') ''service %q has hosts without approval'',
           bound_hosts s ''service %q has an invalid or duplicate host identity'' [] (svc_Hosts svc)])
       (net_Services (snap_Network s))"

definition check_nameserver :: "DNSNameserver \<Rightarrow> err" where
  "check_nameserver ns =
     first_err
       [guard (case ParseAddr (ns_Address ns) of None \<Rightarrow> True | Some a \<Rightarrow> addr_String a \<noteq> ns_Address ns)
          ''network.dns_config.nameservers[%d].address is invalid'',
        (if ns_Scope ns = ''global''
         then guard (ns_SplitDomains ns \<noteq> []) ''network.dns_config.nameservers[%d] global resolver has split domains''
         else if ns_Scope ns = ''split''
         then guard (ns_SplitDomains ns = []) ''network.dns_config.nameservers[%d] split resolver has no domains''
         else Some (Errorf ''network.dns_config.nameservers[%d].scope is invalid'')),
        range_err (\<lambda>d. guard (\<not> validDNSDomain d) ''network.dns_config.nameservers[%d].split_domains[%d] is invalid'')
          (ns_SplitDomains ns)]"

definition validateDNSConfig :: "DNSConfig option \<Rightarrow> err" where
  "validateDNSConfig c =
     (case c of
        None \<Rightarrow> None
      | Some config \<Rightarrow>
          first_err
            [guard (dns_Suffix config \<noteq> [] \<and> \<not> validDNSDomain (dns_Suffix config)) ''network.dns_config.suffix is invalid'',
             range_seen ns_ID
               (\<lambda>ns. guard (TrimSpace (ns_ID ns) = [] \<or> ns_ID ns \<noteq> TrimSpace (ns_ID ns))
                       ''network.dns_config.nameservers[%d].id is invalid'')
               ''network.dns_config.nameservers[%d].id is duplicated'' check_nameserver [] (dns_Nameservers config),
             range_seen (\<lambda>d. ToLower (TrimSuffix d ''.''))
               (\<lambda>d. guard (\<not> validDNSDomain d) ''network.dns_config.search_domains[%d] is invalid'')
               ''network.dns_config.search_domains[%d] is duplicated'' (\<lambda>_. None) [] (dns_SearchDomains config)])"

definition validateMapNode :: "Node \<Rightarrow> string \<Rightarrow> err" where
  "validateMapNode node networkID =
     first_err
       [guard (TrimSpace (node_ID node) = []) ''network map node_id is missing'',
        guard (TrimSpace (node_NetworkID node) \<noteq> networkID) ''network map node network_id %q does not match network %q'',
        validateMapTexts
          [(''node.id'', node_ID node), (''node.network_id'', node_NetworkID node), (''node.user_id'', node_UserID node),
           (''node.identity_public_key'', node_IdentityPublicKey node),
           (''node.device_fingerprint'', node_DeviceFingerprint node), (''node.status'', node_Status node)],
        wrap ''node.hostname'' (ValidateHostname (node_Hostname node)),
        wrap ''node.public_key'' (ValidatePublicKey (node_PublicKey node)),
        ValidateAddr ''node.assigned_ip'' (node_AssignedIP node),
        (if node_AssignedIPv6 node \<noteq> [] then ValidateAddr ''node.assigned_ipv6'' (node_AssignedIPv6 node) else None),
        validateOptionalEndpoint ''node.endpoint'' (node_Endpoint node),
        range_err (\<lambda>e. wrap ''node.endpoint_candidates[%d]'' (ValidateEndpoint e)) (node_EndpointCandidates node),
        range_err (ValidatePrefix ''node.advertised_ips[%d]'') (node_AdvertisedIPs node),
        range_err (validateMapText ''node.tags[%d]'') (node_Tags node)]"

definition validateMapPeer :: "Peer \<Rightarrow> err" where
  "validateMapPeer peer =
     first_err
       [guard (TrimSpace (peer_ID peer) = []) ''peer_id is missing'',
        validateMapTexts
          [(''peer.id'', peer_ID peer), (''peer.network_id'', peer_NetworkID peer), (''peer.status'', peer_Status peer)],
        wrap ''hostname'' (ValidateHostname (peer_Hostname peer)),
        wrap ''public_key'' (ValidatePublicKey (peer_PublicKey peer)),
        validateOptionalEndpoint ''endpoint'' (peer_Endpoint peer),
        range_err (\<lambda>e. wrap ''endpoint_candidates[%d]'' (ValidateEndpoint e)) (peer_EndpointCandidates peer),
        range_err (ValidatePrefix ''allowed_ips[%d]'') (elems (peer_AllowedIPs peer)),
        range_err (validateACLPort ''allowed_ports[%d].protocol is invalid'' ''allowed_ports[%d].port is invalid'')
          (peer_AllowedPorts peer),
        validateACLGrants peer,
        range_err (validateMapText ''tags[%d]'') (peer_Tags peer)]"

section \<open>The whole map\<close>

definition check_relay_credential :: "NetworkMapSnapshot \<Rightarrow> string \<Rightarrow> relay_credential \<Rightarrow> err" where
  "check_relay_credential s networkID c =
     first_err
       [validateMapTexts
          [(''relay_credential.algorithm'', rc_Algorithm c), (''relay_credential.key_id'', rc_KeyID c),
           (''relay_credential.network_id'', rc_NetworkID c), (''relay_credential.node_id'', rc_NodeID c),
           (''relay_credential.signature'', rc_Signature c)],
        guard (TrimSpace (rc_NetworkID c) \<noteq> networkID) ''relay credential network_id %q does not match network %q'',
        guard (TrimSpace (rc_NodeID c) \<noteq> TrimSpace (node_ID (snap_Node s)))
          ''relay credential node_id %q does not match node %q'']"

definition ValidateNetworkMapSnapshot :: "(relay_endpoint list \<Rightarrow> err) \<Rightarrow> NetworkMapSnapshot \<Rightarrow> err" where
  "ValidateNetworkMapSnapshot relay_ok s =
     (let networkID = TrimSpace (net_ID (snap_Network s)); network = snap_Network s
      in first_err
        [guard (networkID = []) ''network map network_id is missing'',
         validateMapText ''network.id'' (net_ID network),
         validateMapTexts
           [(''network.name'', net_Name network), (''network.cell_id'', net_CellID network),
            (''network.authoritative_cell_id'', net_AuthoritativeCellID network),
            (''network.migrating_to_cell_id'', net_MigratingToCellID network),
            (''network.owner_id'', net_OwnerID network), (''network.account_id'', net_AccountID network),
            (''registration_binding'', snap_RegistrationBinding s)],
         ValidatePrefix ''network.cidr'' (net_CIDR network),
         (if net_IPv6CIDR network \<noteq> [] then ValidatePrefix ''network.ipv6_cidr'' (net_IPv6CIDR network) else None),
         range_err (\<lambda>v. wrap ''network.dns[%d]'' (ValidateDNSIP v)) (net_DNS network),
         validateDNSConfig (net_DNSConfig network),
         validateApplications (net_Applications network),
         validateServices (net_Services network),
         validateMapNode (snap_Node s) networkID,
         validateServiceHosts s,
         validateApplicationBindings s,
         validateSharePeerGrants s,
         range_seen peer_ID (\<lambda>peer. wrap ''peers[%d]'' (validateMapPeer peer)) ''peers[%d]: duplicate peer id %q''
           (\<lambda>_. None) [] (elems (snap_Peers s)),
         range_err
           (\<lambda>e. first_err
              [guard (TrimSpace (stun_ID e) = []) ''stun_endpoints[%d].id is missing'',
               validateMapText ''stun_endpoints[%d].id'' (stun_ID e),
               wrap ''stun_endpoints[%d].addr'' (ValidateEndpoint (stun_Addr e))])
           (snap_STUNEndpoints s),
         wrap ''relays'' (relay_ok (elems (snap_Relays s))),
         range_err
           (\<lambda>e. first_err
              [guard (TrimSpace (ep_ID e) = []) ''relays[%d].id is missing'',
               validateMapTexts
                 [(''relays[%d].id'', ep_ID e), (''relays[%d].protocol'', ep_Protocol e), (''relays[%d].region'', ep_Region e)],
               wrap ''relays[%d].addr'' (ValidateEndpoint (ep_Addr e))])
           (elems (snap_Relays s)),
         (case snap_RelayCredential s of None \<Rightarrow> None | Some c \<Rightarrow> check_relay_credential s networkID c),
         (case snap_MapSignature s of
            None \<Rightarrow> None
          | Some sig \<Rightarrow>
              validateMapTexts
                [(''map_signature.algorithm'', sig_Algorithm sig), (''map_signature.key_id'', sig_KeyID sig),
                 (''map_signature.payload_hash'', sig_PayloadHash sig), (''map_signature.signature'', sig_Signature sig)])])"

definition ValidateNetworkMap :: "(relay_endpoint list \<Rightarrow> err) \<Rightarrow> RegisterNodeResponse \<Rightarrow> err" where
  "ValidateNetworkMap relay_ok response = ValidateNetworkMapSnapshot relay_ok (Snapshot response)"

section \<open>ACL destinations stay inside the allowed addresses\<close>

lemma acl_covered_Contains:
  assumes "acl_covered routes p" and "wf_prefix p" and "\<forall>r \<in> set routes. wf_prefix r" and "Contains p a"
  shows "\<exists>r \<in> set routes. Contains r a"
  using assms Contains_subset [of _ p a] by (fastforce simp: acl_covered_def list_ex_iff)

lemma check_acl_destination_covers:
  assumes "check_acl_destination (map Masked ps) v = None" and "\<forall>p \<in> set ps. wf_prefix p" and "covers v a"
  shows "\<exists>p \<in> set ps. Contains p a"
proof -
  obtain q where q: "ParsePrefix v = Some q" "acl_covered (map Masked ps) q"
    using assms(1) by (auto simp: check_acl_destination_def split: option.splits)
  then obtain p where "p \<in> set ps" "Contains (Masked p) a"
    using acl_covered_Contains [OF q(2) wf_ParsePrefix [OF q(1)]] assms(2,3) wf_Masked by fastforce
  with assms(2) show ?thesis by (intro bexI [of _ p]) simp_all
qed

lemma validateACLGrants_parsed:
  assumes "validateACLGrants peer = None" and "g \<in> set (peer_ACLGrants peer)"
  obtains ps where "map ParsePrefix (elems (peer_AllowedIPs peer)) = map Some ps"
    and "check_acl_grant (map Masked ps) g = None"
proof -
  have "peer_ACLGrants peer \<noteq> []" using assms(2) by auto
  then show ?thesis using assms that
    by (auto simp: validateACLGrants_def those_eq_Some split: option.splits)
qed

text \<open>
  C36. An ACL grant of an accepted peer never reaches beyond the peer: every address of its
  destinations is covered by one of the peer's allowed prefixes, the peer is restricted and has no
  peer-wide ports, and every port of the grant is in 1..65535 for TCP and UDP and 0 for ICMP.
\<close>

theorem ACLGrant_confined:
  assumes "validateACLGrants peer = None" and "g \<in> set (peer_ACLGrants peer)"
  shows "peer_ACLRestricted peer \<and> peer_AllowedPorts peer = [] \<and>
    (\<forall>v \<in> set (elems (ag_DestinationCIDRs g)). (\<exists>a. covers v a) \<and>
       (\<forall>a. covers v a \<longrightarrow> (\<exists>w \<in> set (elems (peer_AllowedIPs peer)). covers w a))) \<and>
    (\<forall>port \<in> set (ag_AllowedPorts g).
       if acl_Protocol port = ''icmp'' then acl_Port port = 0
       else acl_Protocol port \<in> {''tcp'', ''udp''} \<and> 1 \<le> acl_Port port \<and> acl_Port port \<le> 65535)"
proof -
  obtain ps where ps: "map ParsePrefix (elems (peer_AllowedIPs peer)) = map Some ps"
    and c: "check_acl_grant (map Masked ps) g = None"
    using validateACLGrants_parsed [OF assms] by blast
  have mem: "\<exists>w \<in> set (elems (peer_AllowedIPs peer)). ParsePrefix w = Some p" if "p \<in> set ps" for p
    using arg_cong [OF ps, of set] that by (metis (no_types, lifting) image_iff image_set)
  have wf: "\<forall>p \<in> set ps. wf_prefix p" using mem wf_ParsePrefix by blast
  have dest: "check_acl_destination (map Masked ps) v = None" if "v \<in> set (elems (ag_DestinationCIDRs g))" for v
    using c that by (simp add: check_acl_grant_def)
  have "\<exists>a. covers v a" if "v \<in> set (elems (ag_DestinationCIDRs g))" for v
    using dest [OF that] Contains_Addr wf_ParsePrefix
    by (fastforce simp: check_acl_destination_def split: option.splits)
  moreover have "\<exists>w \<in> set (elems (peer_AllowedIPs peer)). covers w a"
    if "v \<in> set (elems (ag_DestinationCIDRs g))" "covers v a" for v a
    using check_acl_destination_covers [OF dest [OF that(1)] wf that(2)] mem covers_Some by metis
  moreover have "peer_ACLRestricted peer" "peer_AllowedPorts peer = []"
    using assms by (auto simp: validateACLGrants_def split: if_splits)
  moreover have "validateACLPort x y port = None" if "port \<in> set (ag_AllowedPorts g)" for x y port
    using c that by (auto simp: check_acl_grant_def validateACLPort_def)
  ultimately show ?thesis by (fastforce simp: validateACLPort_def)
qed

theorem ACLGrant_confined_witness:
  "\<exists>w \<in> set (elems (peer_AllowedIPs sample_peer_p)). covers w (IPv4 0xAC100407)"
proof -
  have v: "validateACLGrants sample_peer_p = None" by code_simp
  have "covers ''172.16.4.0/24'' (IPv4 0xAC100407)" by code_simp
  then show ?thesis
    using ACLGrant_confined [OF v, of "hd (peer_ACLGrants sample_peer_p)"] by (simp add: sample_peer_p_def)
qed

section \<open>What an accepted map guarantees\<close>

lemma sample_map_valid: "ValidateNetworkMapSnapshot (\<lambda>_. None) sample_map = None"
  by code_simp

text \<open>
  C31. An accepted map is consistent in its identities: peer ids are distinct; a service has
  hosts only when it is approved, and every host of a service and every source and connector of an
  application is the node itself or a peer of the map with its current public key; the node
  belongs to the network; a relay credential is for this network and this node; and the relay
  module accepted the relays.
\<close>

theorem accepted_map_bindings:
  assumes "ValidateNetworkMapSnapshot relay_ok s = None"
  shows "distinct (map peer_ID (elems (snap_Peers s))) \<and>
    (\<forall>svc \<in> set (net_Services (snap_Network s)). \<forall>h \<in> set (svc_Hosts svc).
       svc_ApprovalStatus svc = ''approved'' \<and> known_identity s (sh_NodeID h) (sh_PublicKey h)) \<and>
    (\<forall>app \<in> set (net_Applications (snap_Network s)). \<forall>h \<in> set (app_Sources app) \<union> set (app_Connectors app).
       known_identity s (sh_NodeID h) (sh_PublicKey h)) \<and>
    TrimSpace (node_NetworkID (snap_Node s)) = TrimSpace (net_ID (snap_Network s)) \<and>
    (\<forall>c. snap_RelayCredential s = Some c \<longrightarrow>
       TrimSpace (rc_NetworkID c) = TrimSpace (net_ID (snap_Network s)) \<and>
       TrimSpace (rc_NodeID c) = TrimSpace (node_ID (snap_Node s))) \<and>
    relay_ok (elems (snap_Relays s)) = None"
proof -
  have v: "validateServiceHosts s = None" "validateApplicationBindings s = None"
    "validateMapNode (snap_Node s) (TrimSpace (net_ID (snap_Network s))) = None"
    "distinct (map peer_ID (elems (snap_Peers s)))" "relay_ok (elems (snap_Relays s)) = None"
    and rc: "\<And>c. snap_RelayCredential s = Some c \<Longrightarrow> check_relay_credential s (TrimSpace (net_ID (snap_Network s))) c = None"
    using assms by (simp_all add: ValidateNetworkMapSnapshot_def Let_def)
  have "svc_ApprovalStatus svc = ''approved'' \<and> known_identity s (sh_NodeID h) (sh_PublicKey h)"
    if "svc \<in> set (net_Services (snap_Network s))" "h \<in> set (svc_Hosts svc)" for svc h
    using v(1) that bound_hosts_known by (fastforce simp: validateServiceHosts_def)
  moreover have "known_identity s (sh_NodeID h) (sh_PublicKey h)"
    if "app \<in> set (net_Applications (snap_Network s))" "h \<in> set (app_Sources app) \<union> set (app_Connectors app)" for app h
    using v(2) that bound_hosts_known by (fastforce simp: validateApplicationBindings_def check_application_def)
  ultimately show ?thesis
    using v(3-5) rc by (auto simp: validateMapNode_def check_relay_credential_def)
qed

theorem accepted_map_bindings_witness:
  "ValidateNetworkMapSnapshot (\<lambda>_. None) sample_map = None \<and>
   known_identity sample_map ''node-p'' (sample_key (CHR ''p'')) \<and> distinct [''node-p'', ''node-s'']"
proof -
  show ?thesis
    using accepted_map_bindings [OF sample_map_valid] sample_map_valid
    by (simp add: sample_map_def sample_service_def sample_peer_p_def sample_peer_s_def)
qed

text \<open>Text that stays on one line of a generated configuration.\<close>

definition single_line :: "string \<Rightarrow> bool" where
  "single_line v = list_all (\<lambda>c. CHR '' '' \<le> c \<and> c \<noteq> CHR 0x7F) v"

lemma single_line_safe: "ValidateSafeText f v = None \<Longrightarrow> single_line v"
  using safe_text_no_control [of f v] by (auto simp: single_line_def list_all_iff not_less)

lemma single_line_Nil [simp]: "single_line []"
  by (simp add: single_line_def)

lemma single_line_checked:
  "ValidatePublicKey v = None \<Longrightarrow> single_line v" "ValidateHostname v = None \<Longrightarrow> single_line v"
  "ValidateEndpoint v = None \<Longrightarrow> single_line v" "ValidateDNSIP v = None \<Longrightarrow> single_line v"
  "ValidateAddr f v = None \<Longrightarrow> single_line v" "ValidatePrefix f v = None \<Longrightarrow> single_line v"
  by (auto simp: ValidatePublicKey_def validateKey_def ValidateHostname_def ValidateEndpoint_def ValidateDNSIP_def
      ValidateAddr_def ValidatePrefix_def intro: single_line_safe)

lemma single_line_optional_endpoint: "validateOptionalEndpoint f v = None \<Longrightarrow> single_line v"
  by (cases "v = []") (auto simp: validateOptionalEndpoint_def intro: single_line_checked)

lemma single_line_append [simp]: "single_line (s @ t) \<longleftrightarrow> single_line s \<and> single_line t"
  by (simp add: single_line_def)

lemma single_line_Join: "single_line sep \<Longrightarrow> list_all single_line fs \<Longrightarrow> single_line (Join fs sep)"
  by (induction fs sep rule: Join.induct) auto

lemma single_line_graphic: "list_all graphic s \<Longrightarrow> single_line s"
  by (rule single_line_safe [OF ValidateSafeText_graphic])

lemma single_line_domain:
  assumes "validDNSDomain v"
  shows "single_line v"
proof -
  have t: "single_line (TrimSuffix v ''.'')" using assms single_line_checked(2) by (simp add: validDNSDomain_iff)
  have "single_line ''.''" by code_simp
  then show ?thesis using t by (auto simp: TrimSuffix_def suffix_def split: if_splits)
qed

lemma single_line_Itoa: "0 \<le> n \<Longrightarrow> single_line (Itoa n)"
  using Itoa_props(1) digits_graphic single_line_graphic by blast

lemma single_line_hex: "0 \<le> n \<Longrightarrow> single_line (hex_string n)"
proof (induction n rule: hex_string.induct)
  case (1 n)
  have d: "single_line [hex_digits ! nat k]" if "0 \<le> k" "k < 16" for k :: int
    using hex_value_digit [of "nat k"] that by (intro single_line_graphic) simp
  show ?case
    using "1.IH" "1.prems" d [of n] d [of "n mod 16"] by (subst hex_string.simps) (simp del: single_line_def)
qed

text \<open>Only the zone of an address can hold other than digits, letters and separators.\<close>

lemma single_line_addr:
  assumes "CHR ''%'' \<notin> set (addr_String a)"
  shows "single_line (addr_String a)"
proof -
  have c: "single_line ''.''" "single_line '':''" "single_line ''::''" "single_line ''::ffff:''" "single_line ''invalid IP''" by code_simp+
  have v4: "single_line (string4 w)" for w
    unfolding string4_def octets4_def using c by (intro single_line_Join) (simp_all add: single_line_Itoa)
  have "list_all single_line (map hex_string gs)" if "set gs \<subseteq> set (groups6 w)" for gs w
    using that by (auto simp: groups6_def list_all_iff intro!: single_line_hex)
  then have hex: "single_line (Join (map hex_string gs) '':'')" if "set gs \<subseteq> set (groups6 w)" for gs w
    using that c by (intro single_line_Join) blast+
  have v6: "single_line (string6 w)" for w
  proof (cases "zero_run (groups6 w)")
    case None
    then show ?thesis using hex [OF order.refl, of w] by (simp add: string6_def Let_def)
  next
    case (Some ab)
    then show ?thesis
      using hex [OF set_take_subset, of "fst ab" w] hex [OF set_drop_subset, of "snd ab" w] c(3)
      by (simp add: string6_def Let_def case_prod_beta del: append_Cons)
  qed
  have "single_line (''::ffff:'' @ string4 w)" for w using c(4) v4 by (simp del: append_Cons)
  then show ?thesis using assms c(5) v4 v6 by (cases a) (auto split: if_splits)
qed

text \<open>
  The texts of a map that a client writes into its WireGuard, resolver and relay configuration. Of
  the resolver addresses of \<open>dns_config\<close> only those without a zone are listed.
\<close>

definition dns_config_texts :: "DNSConfig \<Rightarrow> string list" where
  "dns_config_texts c =
     [dns_Suffix c] @ dns_SearchDomains c @ concat (map ns_SplitDomains (dns_Nameservers c)) @
     filter (\<lambda>v. CHR ''%'' \<notin> set v) (map ns_Address (dns_Nameservers c))"

definition rendered_texts :: "NetworkMapSnapshot \<Rightarrow> string list" where
  "rendered_texts s =
     (let network = snap_Network s; node = snap_Node s
      in [net_CIDR network, net_IPv6CIDR network] @ net_DNS network @
         (case net_DNSConfig network of None \<Rightarrow> [] | Some c \<Rightarrow> dns_config_texts c) @
         [node_PublicKey node, node_Hostname node, node_AssignedIP node, node_AssignedIPv6 node, node_Endpoint node] @
         node_EndpointCandidates node @ node_AdvertisedIPs node @
         concat (map (\<lambda>p. [peer_PublicKey p, peer_Hostname p, peer_Endpoint p] @ peer_EndpointCandidates p @
                          elems (peer_AllowedIPs p)) (elems (snap_Peers s))) @
         map stun_Addr (snap_STUNEndpoints s) @ map ep_Addr (elems (snap_Relays s)))"

lemma dns_single_line:
  assumes "validateDNSConfig (Some c) = None"
  shows "list_all single_line (dns_config_texts c)"
proof -
  have ns: "check_nameserver n = None" if "n \<in> set (dns_Nameservers c)" for n
    using assms that by (simp add: validateDNSConfig_def)
  have "single_line (ns_Address n)" if n: "n \<in> set (dns_Nameservers c)" "CHR ''%'' \<notin> set (ns_Address n)" for n
  proof -
    obtain a where "addr_String a = ns_Address n" using ns [OF n(1)] by (auto simp: check_nameserver_def split: option.splits)
    then show ?thesis using single_line_addr [of a] n(2) by simp
  qed
  moreover have "single_line d" if "n \<in> set (dns_Nameservers c)" "d \<in> set (ns_SplitDomains n)" for n d
    using ns [OF that(1)] that(2) by (auto simp: check_nameserver_def intro: single_line_domain)
  moreover have "single_line (dns_Suffix c)"
    using assms by (cases "dns_Suffix c = []") (auto simp: validateDNSConfig_def intro: single_line_domain)
  moreover have "single_line d" if "d \<in> set (dns_SearchDomains c)" for d
    using assms that by (auto simp: validateDNSConfig_def intro: single_line_domain)
  ultimately show ?thesis by (auto simp: dns_config_texts_def list_all_iff)
qed

lemma peer_single_line:
  assumes "validateMapPeer p = None"
    and "v \<in> {peer_PublicKey p, peer_Hostname p, peer_Endpoint p} \<union> set (peer_EndpointCandidates p) \<union> set (elems (peer_AllowedIPs p))"
  shows "single_line v"
  using assms by (auto simp: validateMapPeer_def intro: single_line_checked single_line_optional_endpoint)

lemma node_single_line:
  assumes "validateMapNode n i = None"
    and "v \<in> {node_PublicKey n, node_Hostname n, node_AssignedIP n, node_AssignedIPv6 n, node_Endpoint n} \<union>
      set (node_EndpointCandidates n) \<union> set (node_AdvertisedIPs n)"
  shows "single_line v"
  using assms by (auto simp: validateMapNode_def split: if_splits
      intro: single_line_checked single_line_optional_endpoint)

text \<open>
  C37. What a client renders from an accepted map stays on its line: the CIDRs of the network, its
  resolvers, the suffix and the domains of the resolver configuration, the keys, host names,
  addresses, endpoints and prefixes of the node and of every peer, and the addresses of the STUN and
  relay endpoints contain no byte below space and no DEL. A resolver address of the resolver
  configuration is included unless it has an IPv6 zone.
\<close>

theorem accepted_map_renders_safely:
  assumes "ValidateNetworkMapSnapshot relay_ok s = None"
  shows "list_all single_line (rendered_texts s)"
proof -
  let ?net = "snap_Network s"
  have n: "validateMapNode (snap_Node s) (TrimSpace (net_ID ?net)) = None"
    and p: "\<And>p. p \<in> set (elems (snap_Peers s)) \<Longrightarrow> validateMapPeer p = None"
    and d: "\<And>v. v \<in> set (net_DNS ?net) \<Longrightarrow> ValidateDNSIP v = None"
    and c: "validateDNSConfig (net_DNSConfig ?net) = None"
    and e: "\<And>e. e \<in> set (snap_STUNEndpoints s) \<Longrightarrow> ValidateEndpoint (stun_Addr e) = None"
      "\<And>e. e \<in> set (elems (snap_Relays s)) \<Longrightarrow> ValidateEndpoint (ep_Addr e) = None"
    and v4: "ValidatePrefix ''network.cidr'' (net_CIDR ?net) = None"
    and v6: "net_IPv6CIDR ?net \<noteq> [] \<Longrightarrow> ValidatePrefix ''network.ipv6_cidr'' (net_IPv6CIDR ?net) = None"
    using assms by (simp_all add: ValidateNetworkMapSnapshot_def Let_def)
  have "single_line v" if "p \<in> set (elems (snap_Peers s))"
    "v \<in> {peer_PublicKey p, peer_Hostname p, peer_Endpoint p} \<union> set (peer_EndpointCandidates p) \<union> set (elems (peer_AllowedIPs p))" for p v
    using peer_single_line p that by blast
  moreover have "list_all single_line (case net_DNSConfig ?net of None \<Rightarrow> [] | Some c \<Rightarrow> dns_config_texts c)"
    using c dns_single_line by (cases "net_DNSConfig ?net") simp_all
  moreover have "single_line (net_CIDR ?net)" "single_line (net_IPv6CIDR ?net)"
    using single_line_checked(6) v4 v6 by (blast, cases "net_IPv6CIDR ?net = []") auto
  ultimately show ?thesis
    using node_single_line [OF n] single_line_checked(4) [OF d] single_line_checked(3) [OF e(1)] single_line_checked(3) [OF e(2)]
    unfolding rendered_texts_def Let_def list_all_append list_all_iff by auto
qed

theorem accepted_map_renders_safely_witness:
  "ValidateNetworkMapSnapshot (\<lambda>_. None) sample_map = None \<and> list_all single_line (rendered_texts sample_map) \<and>
   ''198.51.100.7:51820'' \<in> set (rendered_texts sample_map)"
proof -
  show ?thesis
    using accepted_map_renders_safely [OF sample_map_valid] sample_map_valid
    by (simp add: rendered_texts_def sample_map_def sample_peer_p_def)
qed

text \<open>
  The address of a resolver of \<open>dns_config\<close> is only parsed and printed again, and the zone of an IPv6
  address is any text: an address that ends a line inside its zone is accepted.
\<close>

definition zoned_config :: DNSConfig where
  "zoned_config = \<lparr>dns_MagicDNSEnabled = False, dns_HTTPSCertsEnabled = False, dns_OverrideLocalDNS = False, dns_Suffix = [],
     dns_Nameservers = [\<lparr>ns_ID = ''ns-1'', ns_Address = ''fe80::1%a'' @ [CHR 0x0A] @ ''nameserver 192.0.2.1'', ns_Scope = ''global'',
       ns_Priority = 0, ns_SplitDomains = []\<rparr>], dns_SearchDomains = []\<rparr>"

lemma zoned_nameserver_accepted:
  "validateDNSConfig (Some zoned_config) = None \<and> \<not> list_all single_line (map ns_Address (dns_Nameservers zoned_config))"
  by code_simp

text \<open>
  An accepted resolver configuration is unambiguous: resolver ids are distinct, every resolver
  address is canonical, a split resolver names at least one domain and a global one none, and no two
  search domains differ only in case or in a trailing dot.
\<close>

theorem accepted_dns_config:
  assumes "validateDNSConfig (Some c) = None"
  shows "distinct (map ns_ID (dns_Nameservers c)) \<and>
    (\<forall>ns \<in> set (dns_Nameservers c).
       (\<exists>a. ParseAddr (ns_Address ns) = Some a \<and> addr_String a = ns_Address ns) \<and>
       (ns_Scope ns = ''split'' \<and> ns_SplitDomains ns \<noteq> [] \<or> ns_Scope ns = ''global'' \<and> ns_SplitDomains ns = []) \<and>
       (\<forall>d \<in> set (ns_SplitDomains ns). ValidateHostname (TrimSuffix d ''.'') = None)) \<and>
    distinct (map (\<lambda>d. ToLower (TrimSuffix d ''.'')) (dns_SearchDomains c))"
proof -
  have "check_nameserver ns = None" if "ns \<in> set (dns_Nameservers c)" for ns
    using assms that by (simp add: validateDNSConfig_def)
  then show ?thesis
    using assms by (fastforce simp: validateDNSConfig_def check_nameserver_def validDNSDomain_iff split: option.splits if_splits)
qed

theorem accepted_dns_config_witness:
  "ParseAddr ''10.1.0.1'' \<noteq> None \<and> ValidateHostname (TrimSuffix ''corp.example.'' ''.'') = None"
proof -
  let ?c = "\<lparr>dns_MagicDNSEnabled = True, dns_HTTPSCertsEnabled = False, dns_OverrideLocalDNS = False,
    dns_Suffix = ''net.example'', dns_Nameservers = [\<lparr>ns_ID = ''ns-1'', ns_Address = ''10.1.0.1'', ns_Scope = ''split'',
      ns_Priority = 10, ns_SplitDomains = [''corp.example.'']\<rparr>], dns_SearchDomains = [''Corp.example'']\<rparr>"
  have "validateDNSConfig (Some ?c) = None" by code_simp
  from accepted_dns_config [OF this] show ?thesis by auto
qed

end
