(* ===== verification/Signing_Trust.thy ===== *)
theory Signing_Trust
  imports Field_Checks
begin

text \<open>
  Signing trust bundles (\<open>src/clientapi/v1/signing_trust.go\<close>): the key id derived from an
  Ed25519 public key, the bundle's validation, and the resolution of a key kid at an instant.
  SHA-256 is an argument.
\<close>

definition SigningTrustBundleVersion :: int where "SigningTrustBundleVersion = 1"
definition SigningKeyAlgorithmEd25519 :: string where "SigningKeyAlgorithmEd25519 = ''ed25519''"

record SigningTrustKey =
  key_KeyID :: string
  key_Algorithm :: string
  key_PublicKey :: string
  key_Provider :: string
  key_ProviderKey :: string
  key_ProviderVersion :: int
  key_NotBefore :: "gotime option"
  key_NotAfter :: "gotime option"

record SigningTrustBundle =
  tb_Version :: int
  tb_ActiveKeyID :: string
  tb_Keys :: "SigningTrustKey slice"

record ServerKeyResponse =
  sk_TrustBundle :: SigningTrustBundle
  sk_NodeCredentialTrustBundle :: SigningTrustBundle
  sk_RelayTrustBundle :: SigningTrustBundle

definition SigningKeyID :: "(string \<Rightarrow> string) \<Rightarrow> string \<Rightarrow> string result" where
  "SigningKeyID sha256 publicKey =
     (case DecodeString RawURLEncoding False (TrimSpace publicKey) of
        None \<Rightarrow> Inl (Errorf ''invalid Ed25519 signing public key'')
      | Some raw \<Rightarrow>
          if length raw \<noteq> 32 then Inl (Errorf ''invalid Ed25519 signing public key'')
          else Inr (''ed25519:'' @ EncodeToString RawURLEncoding (sha256 raw)))"

definition NewSigningTrustBundle :: "(string \<Rightarrow> string) \<Rightarrow> string \<Rightarrow> SigningTrustBundle result" where
  "NewSigningTrustBundle sha256 pk =
     (let publicKey = TrimSpace pk
      in case SigningKeyID sha256 publicKey of
           Inl e \<Rightarrow> Inl e
         | Inr keyID \<Rightarrow>
             Inr \<lparr>tb_Version = SigningTrustBundleVersion, tb_ActiveKeyID = keyID,
                  tb_Keys = Some [\<lparr>key_KeyID = keyID, key_Algorithm = SigningKeyAlgorithmEd25519,
                                   key_PublicKey = publicKey, key_Provider = [], key_ProviderKey = [],
                                   key_ProviderVersion = 0, key_NotBefore = None, key_NotAfter = None\<rparr>]\<rparr>)"

definition empty_window :: "SigningTrustKey \<Rightarrow> bool" where
  "empty_window key =
     (case (key_NotBefore key, key_NotAfter key) of
        (Some nb, Some na) \<Rightarrow> \<not> After na nb
      | _ \<Rightarrow> False)"

text \<open>The body of the loop over the keys after the duplicate test.\<close>

definition check_trust_key :: "(string \<Rightarrow> string) \<Rightarrow> SigningTrustKey \<Rightarrow> err" where
  "check_trust_key sha256 key =
     (let keyID = TrimSpace (key_KeyID key)
      in first_err
        [guard (TrimSpace (key_Algorithm key) \<noteq> SigningKeyAlgorithmEd25519)
           (''signing trust key '' @ keyID @ '' uses unsupported algorithm''),
         (case SigningKeyID sha256 (key_PublicKey key) of
            Inl e \<Rightarrow> Some (Wrap (''signing trust key '' @ keyID) e)
          | Inr derived \<Rightarrow>
              guard (derived \<noteq> keyID) (''signing trust key '' @ keyID @ '' does not match its public key'')),
         guard (empty_window key) (''signing trust key '' @ keyID @ '' has an invalid validity window'')])"

definition SigningTrustBundle_Validate :: "(string \<Rightarrow> string) \<Rightarrow> SigningTrustBundle \<Rightarrow> err" where
  "SigningTrustBundle_Validate sha256 b =
     first_err
       [guard (tb_Version b \<noteq> SigningTrustBundleVersion) ''unsupported signing trust bundle version %d'',
        guard (TrimSpace (tb_ActiveKeyID b) = []) ''signing trust bundle active_key_id is required'',
        guard (elems (tb_Keys b) = []) ''signing trust bundle keys are required'',
        range_seen (TrimSpace \<circ> key_KeyID)
          (\<lambda>key. guard (TrimSpace (key_KeyID key) = []) ''signing trust key id is required'')
          ''signing trust key id %s is duplicated'' (check_trust_key sha256) [] (elems (tb_Keys b)),
        guard (\<not> list_ex (\<lambda>key. TrimSpace (key_KeyID key) = TrimSpace (tb_ActiveKeyID b)) (elems (tb_Keys b)))
          ''signing trust bundle active key is missing'']"

fun resolve_key :: "string \<Rightarrow> gotime \<Rightarrow> SigningTrustKey list \<Rightarrow> SigningTrustKey result" where
  "resolve_key keyID at [] = Inl (Errorf (''signing key id '' @ keyID @ '' is not trusted''))"
| "resolve_key keyID at (key # keys) =
     (if key_KeyID key \<noteq> keyID then resolve_key keyID at keys
      else if case key_NotBefore key of None \<Rightarrow> False | Some nb \<Rightarrow> Before (UTC at) (UTC nb)
      then Inl (Errorf ''signing key is not yet trusted'')
      else if case key_NotAfter key of None \<Rightarrow> False | Some na \<Rightarrow> \<not> Before (UTC at) (UTC na)
      then Inl (Errorf ''signing key trust has expired'')
      else Inr key)"

definition Resolve :: "(string \<Rightarrow> string) \<Rightarrow> SigningTrustBundle \<Rightarrow> string \<Rightarrow> gotime \<Rightarrow> SigningTrustKey result" where
  "Resolve sha256 b kid at =
     require (SigningTrustBundle_Validate sha256 b)
       (let keyID = TrimSpace kid
        in if keyID = [] then Inl (Errorf ''signing key id is required'')
           else resolve_key keyID at (elems (tb_Keys b)))"

definition clone_key :: "SigningTrustKey \<Rightarrow> SigningTrustKey" where
  "clone_key key = key\<lparr>key_NotBefore := map_option UTC (key_NotBefore key),
                       key_NotAfter := map_option UTC (key_NotAfter key)\<rparr>"

definition CloneSigningTrustBundle :: "SigningTrustBundle \<Rightarrow> SigningTrustBundle" where
  "CloneSigningTrustBundle bundle = bundle\<lparr>tb_Keys := Some (map clone_key (elems (tb_Keys bundle)))\<rparr>"

definition CloneServerKeyResponse :: "ServerKeyResponse \<Rightarrow> ServerKeyResponse" where
  "CloneServerKeyResponse response =
     response\<lparr>sk_TrustBundle := CloneSigningTrustBundle (sk_TrustBundle response),
              sk_NodeCredentialTrustBundle := CloneSigningTrustBundle (sk_NodeCredentialTrustBundle response),
              sk_RelayTrustBundle := CloneSigningTrustBundle (sk_RelayTrustBundle response)\<rparr>"

definition signingTrustBundleFromResponse ::
  "(string \<Rightarrow> string) \<Rightarrow> string \<Rightarrow> SigningTrustBundle \<Rightarrow> SigningTrustBundle result" where
  "signingTrustBundleFromResponse sha256 label responseBundle =
     (let bundle = CloneSigningTrustBundle responseBundle
      in require (wrap (label @ '' signing trust bundle'') (SigningTrustBundle_Validate sha256 bundle)) (Inr bundle))"

definition MapSigningTrustBundle :: "(string \<Rightarrow> string) \<Rightarrow> ServerKeyResponse \<Rightarrow> SigningTrustBundle result" where
  "MapSigningTrustBundle sha256 r = signingTrustBundleFromResponse sha256 ''map'' (sk_TrustBundle r)"

definition NodeCredentialSigningTrustBundle :: "(string \<Rightarrow> string) \<Rightarrow> ServerKeyResponse \<Rightarrow> SigningTrustBundle result" where
  "NodeCredentialSigningTrustBundle sha256 r =
     signingTrustBundleFromResponse sha256 ''node credential'' (sk_NodeCredentialTrustBundle r)"

definition RelaySigningTrustBundle :: "(string \<Rightarrow> string) \<Rightarrow> ServerKeyResponse \<Rightarrow> SigningTrustBundle result" where
  "RelaySigningTrustBundle sha256 r = signingTrustBundleFromResponse sha256 ''relay'' (sk_RelayTrustBundle r)"

section \<open>Key ids\<close>

lemma SigningKeyID_graphic:
  assumes "SigningKeyID sha256 pk = Inr kid"
  shows "list_all graphic kid"
proof -
  have "list_all graphic ''ed25519:''" by code_simp
  then show ?thesis
    using assms rawurl.encode_graphic by (auto simp: SigningKeyID_def split: option.splits if_splits)
qed

lemma SigningKeyID_trimmed: "SigningKeyID sha256 pk = Inr kid \<Longrightarrow> TrimSpace kid = kid"
  using SigningKeyID_graphic trimmed_graphic TrimSpace_eq_iff by blast

lemma SigningKeyID_nonempty: "SigningKeyID sha256 pk = Inr kid \<Longrightarrow> kid \<noteq> []"
  by (auto simp: SigningKeyID_def split: option.splits if_splits)

lemma SigningKeyID_TrimSpace [simp]: "SigningKeyID sha256 (TrimSpace pk) = SigningKeyID sha256 pk"
  by (simp add: SigningKeyID_def)

section \<open>Resolution\<close>

text \<open>A key is trusted at an instant: not before its start, strictly before its end.\<close>

definition trusted_at :: "SigningTrustKey \<Rightarrow> gotime \<Rightarrow> bool" where
  "trusted_at key at \<longleftrightarrow>
     (case key_NotBefore key of None \<Rightarrow> True | Some nb \<Rightarrow> t_ns nb \<le> t_ns at) \<and>
     (case key_NotAfter key of None \<Rightarrow> True | Some na \<Rightarrow> t_ns at < t_ns na)"

lemma check_trust_key_None [accepts]:
  "check_trust_key sha256 key = None \<longleftrightarrow>
     TrimSpace (key_Algorithm key) = SigningKeyAlgorithmEd25519 \<and>
     SigningKeyID sha256 (key_PublicKey key) = Inr (TrimSpace (key_KeyID key)) \<and> \<not> empty_window key"
  by (auto simp: check_trust_key_def Let_def split: sum.splits)

lemma SigningTrustBundle_Validate_None [accepts]:
  "SigningTrustBundle_Validate sha256 b = None \<longleftrightarrow>
     tb_Version b = SigningTrustBundleVersion \<and> TrimSpace (tb_ActiveKeyID b) \<noteq> [] \<and>
     (\<forall>key \<in> set (elems (tb_Keys b)). check_trust_key sha256 key = None) \<and>
     distinct (map (TrimSpace \<circ> key_KeyID) (elems (tb_Keys b))) \<and>
     (\<exists>key \<in> set (elems (tb_Keys b)). TrimSpace (key_KeyID key) = TrimSpace (tb_ActiveKeyID b))"
proof -
  have "TrimSpace (key_KeyID key) \<noteq> []" if "check_trust_key sha256 key = None" for key
    using that SigningKeyID_nonempty by (auto simp: check_trust_key_None)
  then show ?thesis
    by (auto simp: SigningTrustBundle_Validate_def list_ex_iff)
qed

lemma resolve_key_Inr:
  "resolve_key kid at keys = Inr key \<Longrightarrow> key \<in> set keys \<and> key_KeyID key = kid \<and> trusted_at key at"
  by (induction keys) (auto simp: trusted_at_def time_defs split: if_splits option.splits)

lemma resolve_key_found:
  assumes "distinct (map key_KeyID keys)" and "key \<in> set keys" and "trusted_at key at"
  shows "resolve_key (key_KeyID key) at keys = Inr key"
  using assms by (induction keys) (auto simp: trusted_at_def time_defs image_iff split: option.splits)

lemma distinct_trimmed_ids:
  "distinct (map (TrimSpace \<circ> key_KeyID) keys) \<Longrightarrow> distinct (map key_KeyID keys)"
  by (auto simp: distinct_map inj_on_def)

lemma Resolve_Inr:
  "Resolve sha256 b kid at = Inr key \<longleftrightarrow>
     SigningTrustBundle_Validate sha256 b = None \<and> key \<in> set (elems (tb_Keys b)) \<and>
     key_KeyID key = TrimSpace kid \<and> trusted_at key at"
proof
  assume "Resolve sha256 b kid at = Inr key"
  then show "SigningTrustBundle_Validate sha256 b = None \<and> key \<in> set (elems (tb_Keys b)) \<and>
     key_KeyID key = TrimSpace kid \<and> trusted_at key at"
    using resolve_key_Inr by (fastforce simp: Resolve_def Let_def split: if_splits)
next
  assume a: "SigningTrustBundle_Validate sha256 b = None \<and> key \<in> set (elems (tb_Keys b)) \<and>
     key_KeyID key = TrimSpace kid \<and> trusted_at key at"
  then have d: "distinct (map key_KeyID (elems (tb_Keys b)))"
    and c: "check_trust_key sha256 key = None"
    by (auto simp: SigningTrustBundle_Validate_None distinct_trimmed_ids)
  have "TrimSpace kid \<noteq> []"
    using c a SigningKeyID_nonempty by (auto simp: check_trust_key_None)
  then show "Resolve sha256 b kid at = Inr key"
    using resolve_key_found [OF d, of key at] a by (simp add: Resolve_def)
qed

lemma Resolve_key_id:
  assumes "Resolve sha256 b kid at = Inr key"
  shows "SigningKeyID sha256 (key_PublicKey key) = Inr (TrimSpace kid)"
    and "TrimSpace (key_Algorithm key) = SigningKeyAlgorithmEd25519"
  using assms by (auto simp: Resolve_Inr SigningTrustBundle_Validate_None check_trust_key_None)

text \<open>
  C38. Resolution is exact: \<open>Resolve\<close> returns a key for an kid at an instant if and only if the
  bundle is valid and the key is a key of the bundle that carries this kid and whose validity window
  contains the instant; there is at most one such key, its id is the one derived from its own
  public key, and its algorithm is Ed25519.
\<close>

theorem Resolve_exact:
  "(Resolve sha256 b kid at = Inr key \<longleftrightarrow>
      SigningTrustBundle_Validate sha256 b = None \<and> key \<in> set (elems (tb_Keys b)) \<and>
      key_KeyID key = TrimSpace kid \<and> trusted_at key at) \<and>
   (Resolve sha256 b kid at = Inr key \<longrightarrow>
      SigningKeyID sha256 (key_PublicKey key) = Inr (TrimSpace kid) \<and>
      TrimSpace (key_Algorithm key) = SigningKeyAlgorithmEd25519)"
  using Resolve_Inr Resolve_key_id by blast

theorem Resolve_exact_witness:
  "SigningKeyID (\<lambda>_. replicate 32 (CHR ''h'')) (replicate 43 (CHR ''A'')) =
     Inr (TrimSpace (''ed25519:'' @ EncodeToString RawURLEncoding (replicate 32 (CHR ''h''))))"
proof -
  let ?kid = "''ed25519:'' @ EncodeToString RawURLEncoding (replicate 32 (CHR ''h''))"
  let ?key = "\<lparr>key_KeyID = ?kid, key_Algorithm = ''ed25519'', key_PublicKey = replicate 43 (CHR ''A''),
    key_Provider = [], key_ProviderKey = [], key_ProviderVersion = 0,
    key_NotBefore = Some \<lparr>t_ns = 5, t_offset = 0\<rparr>, key_NotAfter = None\<rparr>"
  let ?b = "\<lparr>tb_Version = 1, tb_ActiveKeyID = ?kid, tb_Keys = Some [?key]\<rparr>"
  have "Resolve (\<lambda>_. replicate 32 (CHR ''h'')) ?b ?kid \<lparr>t_ns = 6, t_offset = 0\<rparr> = Inr ?key"
    by code_simp
  then show ?thesis
    using Resolve_exact [of "\<lambda>_. replicate 32 (CHR ''h'')" ?b ?kid "\<lparr>t_ns = 6, t_offset = 0\<rparr>" ?key] by simp
qed

text \<open>
  A key published with white space around its id passes the validation of the bundle, which
  trims ids before it compares them, but can never be resolved, because \<open>Resolve\<close> compares
  the untrimmed kid: even the bundle's active key is then useless.
\<close>

theorem padded_key_id_unresolvable:
  assumes "SigningTrustBundle_Validate sha256 b = None" and "key \<in> set (elems (tb_Keys b))"
    and "TrimSpace (key_KeyID key) \<noteq> key_KeyID key"
  shows "\<not> ok (Resolve sha256 b (key_KeyID key) at)"
proof
  assume "ok (Resolve sha256 b (key_KeyID key) at)"
  then obtain k where k: "k \<in> set (elems (tb_Keys b))" "key_KeyID k = TrimSpace (key_KeyID key)"
    by (auto simp: ok_iff Resolve_Inr)
  then have "TrimSpace (key_KeyID k) = TrimSpace (key_KeyID key)" by simp
  with k assms have "k = key"
    by (auto simp: SigningTrustBundle_Validate_None distinct_map inj_on_def)
  with k assms(3) show False by simp
qed

theorem padded_key_id_unresolvable_witness:
  "\<exists>b. SigningTrustBundle_Validate (\<lambda>_. replicate 32 (CHR ''h'')) b = None \<and>
     \<not> ok (Resolve (\<lambda>_. replicate 32 (CHR ''h'')) b (tb_ActiveKeyID b) \<lparr>t_ns = 6, t_offset = 0\<rparr>)"
proof -
  let ?kid = "'' ed25519:'' @ EncodeToString RawURLEncoding (replicate 32 (CHR ''h''))"
  let ?key = "\<lparr>key_KeyID = ?kid, key_Algorithm = ''ed25519'', key_PublicKey = replicate 43 (CHR ''A''),
    key_Provider = [], key_ProviderKey = [], key_ProviderVersion = 0,
    key_NotBefore = None, key_NotAfter = None\<rparr>"
  let ?b = "\<lparr>tb_Version = 1, tb_ActiveKeyID = ?kid, tb_Keys = Some [?key]\<rparr>"
  have v: "SigningTrustBundle_Validate (\<lambda>_. replicate 32 (CHR ''h'')) ?b = None"
    and p: "TrimSpace (key_KeyID ?key) \<noteq> key_KeyID ?key" by code_simp+
  have "\<not> ok (Resolve (\<lambda>_. replicate 32 (CHR ''h'')) ?b (key_KeyID ?key) \<lparr>t_ns = 6, t_offset = 0\<rparr>)"
    by (rule padded_key_id_unresolvable [OF v _ p]) simp
  with v show ?thesis by (intro exI [of _ ?b]) simp
qed

lemma NewSigningTrustBundle_resolves:
  assumes "NewSigningTrustBundle sha256 pk = Inr b"
  shows "SigningTrustBundle_Validate sha256 b = None \<and>
    SigningKeyID sha256 pk = Inr (tb_ActiveKeyID b) \<and>
    (\<exists>key. Resolve sha256 b (tb_ActiveKeyID b) at = Inr key \<and> key_PublicKey key = TrimSpace pk)"
proof -
  obtain kid where kid: "SigningKeyID sha256 pk = Inr kid"
    using assms by (auto simp: NewSigningTrustBundle_def split: sum.splits)
  let ?key = "\<lparr>key_KeyID = kid, key_Algorithm = SigningKeyAlgorithmEd25519, key_PublicKey = TrimSpace pk,
    key_Provider = [], key_ProviderKey = [], key_ProviderVersion = 0, key_NotBefore = None, key_NotAfter = None\<rparr>"
  have b: "b = \<lparr>tb_Version = SigningTrustBundleVersion, tb_ActiveKeyID = kid, tb_Keys = Some [?key]\<rparr>"
    using assms kid by (simp add: NewSigningTrustBundle_def)
  have a: "TrimSpace SigningKeyAlgorithmEd25519 = SigningKeyAlgorithmEd25519" by code_simp
  have v: "SigningTrustBundle_Validate sha256 b = None"
    using kid a SigningKeyID_nonempty [OF kid] SigningKeyID_trimmed [OF kid]
    by (simp add: SigningTrustBundle_Validate_None check_trust_key_None b empty_window_def)
  then have "Resolve sha256 b (tb_ActiveKeyID b) at = Inr ?key"
    using SigningKeyID_trimmed [OF kid] by (simp add: Resolve_Inr) (simp add: b trusted_at_def)
  with v kid b show ?thesis by auto
qed

text \<open>
  A bundle made from one public key is valid, its active key id is the id derived from that
  key, and the active key resolves at every instant to that key.
\<close>

theorem NewSigningTrustBundle_valid:
  assumes "NewSigningTrustBundle sha256 pk = Inr b"
  shows "SigningTrustBundle_Validate sha256 b = None \<and>
    SigningKeyID sha256 pk = Inr (tb_ActiveKeyID b) \<and>
    (\<exists>key. Resolve sha256 b (tb_ActiveKeyID b) at = Inr key \<and> key_PublicKey key = TrimSpace pk)"
  using NewSigningTrustBundle_resolves [OF assms] .

theorem NewSigningTrustBundle_valid_witness:
  "\<exists>b. NewSigningTrustBundle (\<lambda>_. replicate 32 (CHR ''h'')) (replicate 43 (CHR ''A'')) = Inr b \<and>
     SigningTrustBundle_Validate (\<lambda>_. replicate 32 (CHR ''h'')) b = None"
proof -
  have "ok (NewSigningTrustBundle (\<lambda>_. replicate 32 (CHR ''h'')) (replicate 43 (CHR ''A'')))" by code_simp
  then show ?thesis using NewSigningTrustBundle_valid by (fastforce simp: ok_iff)
qed

section \<open>Copies\<close>

lemma clone_key_simps [simp]:
  "key_KeyID (clone_key k) = key_KeyID k" "key_Algorithm (clone_key k) = key_Algorithm k"
  "key_PublicKey (clone_key k) = key_PublicKey k"
  by (simp_all add: clone_key_def)

lemma empty_window_clone [simp]: "empty_window (clone_key k) = empty_window k"
  by (cases "key_NotBefore k"; cases "key_NotAfter k") (auto simp: empty_window_def clone_key_def time_defs)

lemma check_trust_key_clone [simp]: "check_trust_key sha256 (clone_key k) = check_trust_key sha256 k"
  by (simp add: check_trust_key_def)

lemma range_seen_clone:
  "range_seen (TrimSpace \<circ> key_KeyID) pre dup post seen (map clone_key keys) =
   range_seen (TrimSpace \<circ> key_KeyID) (pre \<circ> clone_key) dup (post \<circ> clone_key) seen keys"
  by (induction keys arbitrary: seen) simp_all

lemma check_trust_key_comp_clone [simp]: "check_trust_key sha256 \<circ> clone_key = check_trust_key sha256"
  by (simp add: fun_eq_iff)

lemma key_id_guard_clone [simp]:
  "(\<lambda>key. guard (TrimSpace (key_KeyID key) = []) m) \<circ> clone_key = (\<lambda>key. guard (TrimSpace (key_KeyID key) = []) m)"
  by (simp add: fun_eq_iff)

lemma Validate_clone [simp]:
  "SigningTrustBundle_Validate sha256 (CloneSigningTrustBundle b) = SigningTrustBundle_Validate sha256 b"
  by (simp add: SigningTrustBundle_Validate_def CloneSigningTrustBundle_def range_seen_clone list_ex_iff)

lemma resolve_key_clone: "resolve_key kid at (map clone_key keys) = map_sum (\<lambda>e. e) clone_key (resolve_key kid at keys)"
  by (induction keys) (auto simp: clone_key_def time_defs split: option.splits)

lemma clone_key_idem [simp]: "clone_key (clone_key k) = clone_key k"
  by (simp add: clone_key_def option.map_comp comp_def)

text \<open>
  The defensive copy of a bundle is faithful: it validates with the same outcome, resolves
  every kid at every instant to the copy of what the original resolves to, with the same error
  otherwise, and copying a copy changes nothing.
\<close>

theorem CloneSigningTrustBundle_faithful:
  "SigningTrustBundle_Validate sha256 (CloneSigningTrustBundle b) = SigningTrustBundle_Validate sha256 b \<and>
   Resolve sha256 (CloneSigningTrustBundle b) kid at = map_sum (\<lambda>e. e) clone_key (Resolve sha256 b kid at) \<and>
   CloneSigningTrustBundle (CloneSigningTrustBundle b) = CloneSigningTrustBundle b"
proof -
  have "elems (tb_Keys (CloneSigningTrustBundle b)) = map clone_key (elems (tb_Keys b))"
    by (simp add: CloneSigningTrustBundle_def)
  then have "Resolve sha256 (CloneSigningTrustBundle b) kid at = map_sum (\<lambda>e. e) clone_key (Resolve sha256 b kid at)"
    by (simp add: Resolve_def require_def resolve_key_clone Let_def split: option.splits)
  moreover have "CloneSigningTrustBundle (CloneSigningTrustBundle b) = CloneSigningTrustBundle b"
    by (simp add: CloneSigningTrustBundle_def)
  ultimately show ?thesis by simp
qed

end
