(* ===== verification/Json.thy ===== *)
theory Json
  imports Go_Text Netip
begin

text \<open>
  What the API uses of \<open>encoding/json\<close>: values, the text \<open>json.Marshal\<close> writes for
  them (with the escapes of its string encoder and without spaces), and \<open>time.Time\<close> in the
  strict RFC 3339 format with nanoseconds, the only value whose encoding can fail.
\<close>

datatype json =
    JNull
  | JBool bool
  | JInt int
  | JString string
  | JTime gotime
  | JArray "json list"
  | JObject "(string \<times> json) list"

section \<open>Strings\<close>

definition hex_pair :: "int \<Rightarrow> string" where
  "hex_pair b = [hex_digits ! nat (b div 16), hex_digits ! nat (b mod 16)]"

definition escape_ascii :: "int \<Rightarrow> string" where
  "escape_ascii b =
     (if b = 0x22 then [CHR 0x5C, CHR 0x22]
      else if b = 0x5C then [CHR 0x5C, CHR 0x5C]
      else if b = 8 then [CHR 0x5C, CHR ''b'']
      else if b = 12 then [CHR 0x5C, CHR ''f'']
      else if b = 10 then [CHR 0x5C, CHR ''n'']
      else if b = 13 then [CHR 0x5C, CHR ''r'']
      else if b = 9 then [CHR 0x5C, CHR ''t'']
      else if b < 0x20 \<or> b = 0x3C \<or> b = 0x3E \<or> b = 0x26 then CHR 0x5C # ''u00'' @ hex_pair b
      else [char_of b])"

text \<open>One step per rune: an invalid byte becomes \<open>ufffd\<close>, the line separators are escaped.\<close>

function escape_bytes :: "int list \<Rightarrow> string" where
  "escape_bytes [] = []"
| "escape_bytes (b # bs) =
     (let r = fst (decode_rune (b # bs)); n = snd (decode_rune (b # bs))
      in (if b < 0x80 then escape_ascii b
          else if r = RuneError \<and> n = 1 then CHR 0x5C # ''ufffd''
          else if r = 0x2028 then CHR 0x5C # ''u2028''
          else if r = 0x2029 then CHR 0x5C # ''u2029''
          else map char_of (take n (b # bs))) @
         escape_bytes (drop (n - 1) bs))"
  by pat_completeness auto
termination
  by (relation "measure length") auto

definition json_quote :: "string \<Rightarrow> string" where
  "json_quote s = CHR 0x22 # escape_bytes (map of_char s) @ [CHR 0x22]"

section \<open>Times\<close>

text \<open>Year, month and day of a day number; day 0 is the first of January of year 1.\<close>

definition civil :: "int \<Rightarrow> int \<times> int \<times> int" where
  "civil days =
     (let z = days + 306; era = z div 146097; doe = z mod 146097;
          yoe = (doe - doe div 1460 + doe div 36524 - doe div 146096) div 365;
          doy = doe - (365 * yoe + yoe div 4 - yoe div 100);
          mp = (5 * doy + 2) div 153;
          d = doy - (153 * mp + 2) div 5 + 1;
          m = (if mp < 10 then mp + 3 else mp - 9);
          y = yoe + era * 400 + (if m \<le> 2 then 1 else 0)
      in (y, m, d))"

definition pad_int :: "nat \<Rightarrow> int \<Rightarrow> string" where
  "pad_int w n = (let s = Itoa n in replicate (w - length s) (CHR ''0'') @ s)"

text \<open>The local clock of an instant, in nanoseconds since the zero time.\<close>

definition local_ns :: "gotime \<Rightarrow> int" where
  "local_ns t = t_ns t + t_offset t * second"

definition year_of :: "gotime \<Rightarrow> int" where
  "year_of t = fst (civil (local_ns t div (24 * hour)))"

text \<open>The zone in minutes, rounded towards zero as Go's division does.\<close>

definition zone_minutes :: "gotime \<Rightarrow> int" where
  "zone_minutes t = (if t_offset t < 0 then - ((- t_offset t) div 60) else t_offset t div 60)"

definition time_err :: "gotime \<Rightarrow> err" where
  "time_err t =
     first_err
       [guard (year_of t < 0 \<or> 9999 < year_of t) ''Time.MarshalJSON: year outside of range [0,9999]'',
        guard (24 \<le> \<bar>zone_minutes t\<bar> div 60) ''Time.MarshalJSON: timezone hour outside of range [0,23]'']"

definition rfc3339 :: "gotime \<Rightarrow> string" where
  "rfc3339 t =
     (let l = local_ns t; (y, m, d) = civil (l div (24 * hour)); r = l mod (24 * hour);
          frac = TrimRight (pad_int 9 (r mod second)) (CHR ''0'');
          z = zone_minutes t
      in pad_int 4 y @ ''-'' @ pad_int 2 m @ ''-'' @ pad_int 2 d @ ''T'' @
         pad_int 2 (r div hour) @ '':'' @ pad_int 2 (r div minute mod 60) @ '':'' @ pad_int 2 (r div second mod 60) @
         (if frac = [] then [] else ''.'' @ frac) @
         (if t_offset t = 0 then ''Z''
          else (if z < 0 then ''-'' else ''+'') @ pad_int 2 (\<bar>z\<bar> div 60) @ '':'' @ pad_int 2 (\<bar>z\<bar> mod 60)))"

section \<open>Values\<close>

fun json_text :: "json \<Rightarrow> string" where
  "json_text JNull = ''null''"
| "json_text (JBool b) = (if b then ''true'' else ''false'')"
| "json_text (JInt n) = (if n < 0 then CHR ''-'' # Itoa (- n) else Itoa n)"
| "json_text (JString s) = json_quote s"
| "json_text (JTime t) = CHR 0x22 # rfc3339 t @ [CHR 0x22]"
| "json_text (JArray xs) = ''['' @ Join (map json_text xs) '','' @ '']''"
| "json_text (JObject kvs) = ''{'' @ Join (map (\<lambda>(k, v). json_quote k @ '':'' @ json_text v) kvs) '','' @ ''}''"

fun json_times :: "json \<Rightarrow> gotime list" where
  "json_times (JTime t) = [t]"
| "json_times (JArray xs) = concat (map json_times xs)"
| "json_times (JObject kvs) = concat (map (\<lambda>(k, v). json_times v) kvs)"
| "json_times _ = []"

definition Marshal :: "json \<Rightarrow> string result" where
  "Marshal j = require (range_err time_err (json_times j)) (Inr (json_text j))"

section \<open>Struct fields\<close>

text \<open>A struct is encoded field by field; \<open>omitempty\<close> drops a field whose value is empty.\<close>

definition omitempty :: "bool \<Rightarrow> string \<Rightarrow> json \<Rightarrow> (string \<times> json) list" where
  "omitempty is_empty k v = (if is_empty then [] else [(k, v)])"

definition str_field :: "string \<Rightarrow> string \<Rightarrow> (string \<times> json) list" where
  "str_field k s = [(k, JString s)]"

definition opt_str_field :: "string \<Rightarrow> string \<Rightarrow> (string \<times> json) list" where
  "opt_str_field k s = omitempty (s = []) k (JString s)"

definition list_field :: "('a \<Rightarrow> json) \<Rightarrow> string \<Rightarrow> 'a list \<Rightarrow> (string \<times> json) list" where
  "list_field f k xs = omitempty (xs = []) k (JArray (map f xs))"

definition slice_field :: "('a \<Rightarrow> json) \<Rightarrow> string \<Rightarrow> 'a slice \<Rightarrow> (string \<times> json) list" where
  "slice_field f k s = [(k, case s of None \<Rightarrow> JNull | Some xs \<Rightarrow> JArray (map f xs))]"

definition ptr_field :: "('a \<Rightarrow> json) \<Rightarrow> string \<Rightarrow> 'a option \<Rightarrow> (string \<times> json) list" where
  "ptr_field f k p = (case p of None \<Rightarrow> [] | Some x \<Rightarrow> [(k, f x)])"

definition word_field :: "string \<Rightarrow> 'a::len word \<Rightarrow> (string \<times> json) list" where
  "word_field k w = [(k, JInt (uint w))]"

definition opt_word_field :: "string \<Rightarrow> 'a::len word \<Rightarrow> (string \<times> json) list" where
  "opt_word_field k w = omitempty (w = 0) k (JInt (uint w))"

lemmas field_defs = omitempty_def str_field_def opt_str_field_def list_field_def slice_field_def ptr_field_def
  word_field_def opt_word_field_def

text \<open>Three instants against the text Go prints for them: a leap day with a fraction, a zone west of UTC, the zero time.\<close>

lemma rfc3339_examples:
  "rfc3339 \<lparr>t_ns = 63844847999500000000, t_offset = 0\<rparr> = ''2024-02-29T23:59:59.5Z''"
  "rfc3339 \<lparr>t_ns = 63844847999000000000, t_offset = - 12600\<rparr> = ''2024-02-29T20:29:59-03:30''"
  "rfc3339 \<lparr>t_ns = 0, t_offset = 0\<rparr> = ''0001-01-01T00:00:00Z''"
  by code_simp+

end
