(* ===== verification/Sample_Keys.thy ===== *)
theory Sample_Keys
  imports Signing_Trust
begin

text \<open>
  A signing key pair for the witnesses: the digest and the signature algorithm are instantiated by
  total functions that satisfy what the theorems ask of them. The trust bundle is the one that
  \<open>NewSigningTrustBundle\<close> builds for the key.
\<close>

lemma SigningKeyID_decodes:
  assumes "SigningKeyID sha256 pk = Inr kid"
  shows "TrimSpace pk \<noteq> []" and "TrimSpace kid \<noteq> []"
proof -
  have "DecodeString RawURLEncoding False [] = Some []" by code_simp
  then show "TrimSpace pk \<noteq> []" using assms by (auto simp: SigningKeyID_def split: option.splits if_splits)
  show "TrimSpace kid \<noteq> []" using SigningKeyID_nonempty SigningKeyID_trimmed assms by simp
qed

definition sample_sha256 :: "string \<Rightarrow> string" where
  "sample_sha256 m = take 32 (m @ replicate 32 (CHR ''0''))"

definition sample_public :: "string \<Rightarrow> string" where "sample_public priv = take 32 priv"

definition sample_sign :: "string \<Rightarrow> string \<Rightarrow> string" where
  "sample_sign priv m = sample_public priv @ sample_sha256 m"

definition sample_verify :: "string \<Rightarrow> string \<Rightarrow> string \<Rightarrow> bool" where
  "sample_verify pub m sg \<longleftrightarrow> sg = pub @ sample_sha256 m"

definition sample_priv :: string where "sample_priv = replicate 64 (CHR ''k'')"

definition sample_issued :: gotime where "sample_issued = \<lparr>t_ns = 1500000000, t_offset = 0\<rparr>"
definition sample_now :: gotime where "sample_now = \<lparr>t_ns = 2000000000, t_offset = 0\<rparr>"

definition sample_key_id :: string where
  "sample_key_id = ''ed25519:'' @ EncodeToString RawURLEncoding (replicate 32 (CHR ''k''))"

lemma length_sample_sha256 [simp]: "length (sample_sha256 m) = 32"
  by (simp add: sample_sha256_def)

lemma sample_public_priv: "sample_public sample_priv = replicate 32 (CHR ''k'')"
  by (simp add: sample_public_def sample_priv_def)

lemma sample_verifies: "sample_verify (sample_public priv) m (sample_sign priv m)"
  by (simp add: sample_verify_def sample_sign_def)

lemma SigningKeyID_encode:
  "length raw = 32 \<Longrightarrow>
   SigningKeyID sha256 (EncodeToString RawURLEncoding raw) = Inr (''ed25519:'' @ EncodeToString RawURLEncoding (sha256 raw))"
  using rawurl.lax.enc_trimmed rawurl.lax.dec_enc by (simp add: SigningKeyID_def)

lemma sample_bundle:
  obtains b key where "NewSigningTrustBundle sample_sha256 (EncodeToString RawURLEncoding (sample_public sample_priv)) = Inr b"
    and "Resolve sample_sha256 b sample_key_id sample_now = Inr key"
    and "key_PublicKey key = EncodeToString RawURLEncoding (sample_public sample_priv)"
proof -
  have k: "SigningKeyID sample_sha256 (EncodeToString RawURLEncoding (sample_public sample_priv)) = Inr sample_key_id"
    by (simp add: SigningKeyID_encode sample_public_priv sample_key_id_def sample_sha256_def)
  then obtain b where b: "NewSigningTrustBundle sample_sha256 (EncodeToString RawURLEncoding (sample_public sample_priv)) = Inr b"
    by (simp add: NewSigningTrustBundle_def)
  then show ?thesis
    using NewSigningTrustBundle_resolves [OF b, of sample_now] k that rawurl.lax.enc_trimmed by auto
qed

end
