(* ===== verification/Map_Sign.thy ===== *)
theory Map_Sign
  imports Map_Validate Signing_Trust Json Sample_Keys
begin

text \<open>
  Signing and verification of network maps (\<open>src/clientapi/v1/mapsign.go\<close>): the canonical
  payload, and the checks on a signature at an instant. SHA-256, Ed25519 (\<open>sign\<close>,
  \<open>verify\<close>, the public half of a private key) and the encoding of a relay endpoint, a type of
  the relay module, are arguments; \<open>nil\<close> for the signing callback is \<open>None\<close>.
\<close>

section \<open>The wire encoding of a map (types.go)\<close>

definition json_ServiceHost :: "ServiceHost \<Rightarrow> json" where
  "json_ServiceHost h = JObject (str_field ''node_id'' (sh_NodeID h) @ str_field ''public_key'' (sh_PublicKey h))"

definition json_ServicePort :: "ServicePort \<Rightarrow> json" where
  "json_ServicePort p = JObject (str_field ''protocol'' (sp_Protocol p) @ word_field ''port'' (sp_Port p))"

definition json_ApplicationRoute :: "ApplicationRoute \<Rightarrow> json" where
  "json_ApplicationRoute r =
     JObject ([(''connector'', json_ServiceHost (ar_Connector r))] @ slice_field JString ''cidrs'' (ar_CIDRs r) @
              [(''expires_at'', JTime (ar_ExpiresAt r))])"

definition json_Application :: "Application \<Rightarrow> json" where
  "json_Application a =
     JObject (str_field ''id'' (app_ID a) @ str_field ''name'' (app_Name a) @ str_field ''target'' (app_Target a) @
              str_field ''target_type'' (app_TargetType a) @
              omitempty (\<not> app_DNSEnabled a) ''dns_enabled'' (JBool (app_DNSEnabled a)) @
              str_field ''policy_hash'' (app_PolicyHash a) @ list_field json_ServiceHost ''sources'' (app_Sources a) @
              list_field json_ServiceHost ''connectors'' (app_Connectors a) @
              list_field json_ApplicationRoute ''routes'' (app_Routes a))"

definition json_AdvertisedService :: "AdvertisedService \<Rightarrow> json" where
  "json_AdvertisedService s =
     JObject (str_field ''id'' (svc_ID s) @ str_field ''name'' (svc_Name s) @
              opt_str_field ''description'' (svc_Description s) @ str_field ''dns_name'' (svc_DNSName s) @
              slice_field json_ServicePort ''ports'' (svc_Ports s) @ list_field JString ''tags'' (svc_Tags s) @
              list_field JString ''eligible_tags'' (svc_EligibleTags s) @
              str_field ''approval_mode'' (svc_ApprovalMode s) @ str_field ''approval_status'' (svc_ApprovalStatus s) @
              str_field ''health'' (svc_Health s) @ list_field json_ServiceHost ''hosts'' (svc_Hosts s))"

definition json_DNSNameserver :: "DNSNameserver \<Rightarrow> json" where
  "json_DNSNameserver n =
     JObject (str_field ''id'' (ns_ID n) @ str_field ''address'' (ns_Address n) @ str_field ''scope'' (ns_Scope n) @
              word_field ''priority'' (ns_Priority n) @ list_field JString ''split_domains'' (ns_SplitDomains n))"

definition json_DNSConfig :: "DNSConfig \<Rightarrow> json" where
  "json_DNSConfig c =
     JObject ([(''magicdns_enabled'', JBool (dns_MagicDNSEnabled c)),
               (''https_certs_enabled'', JBool (dns_HTTPSCertsEnabled c)),
               (''override_local_dns'', JBool (dns_OverrideLocalDNS c))] @
              opt_str_field ''suffix'' (dns_Suffix c) @
              list_field json_DNSNameserver ''nameservers'' (dns_Nameservers c) @
              list_field JString ''search_domains'' (dns_SearchDomains c))"

definition json_ShareTraffic :: "ShareTraffic \<Rightarrow> json" where
  "json_ShareTraffic t =
     JObject (str_field ''protocol'' (st_Protocol t) @ word_field ''first_port'' (st_FirstPort t) @
              word_field ''last_port'' (st_LastPort t))"

definition json_SharePeerGrant :: "SharePeerGrant \<Rightarrow> json" where
  "json_SharePeerGrant g =
     JObject (str_field ''grant_id'' (g_GrantID g) @ str_field ''recipient_network_id'' (g_RecipientNetworkID g) @
              str_field ''recipient_node_id'' (g_RecipientNodeID g) @
              str_field ''recipient_public_key'' (g_RecipientPublicKey g) @
              slice_field JString ''recipient_allowed_ips'' (g_RecipientAllowedIPs g) @
              str_field ''source_network_id'' (g_SourceNetworkID g) @ str_field ''source_node_id'' (g_SourceNodeID g) @
              str_field ''source_public_key'' (g_SourcePublicKey g) @
              slice_field JString ''source_allowed_ips'' (g_SourceAllowedIPs g) @
              slice_field json_ShareTraffic ''rights'' (g_Rights g) @ str_field ''initiation'' (g_Initiation g) @
              word_field ''revision'' (g_Revision g) @
              [(''issued_at'', JTime (g_IssuedAt g)), (''expires_at'', JTime (g_ExpiresAt g))])"

definition json_Network :: "Network \<Rightarrow> json" where
  "json_Network n =
     JObject (str_field ''id'' (net_ID n) @ str_field ''name'' (net_Name n) @ str_field ''cidr'' (net_CIDR n) @
              opt_str_field ''ipv6_cidr'' (net_IPv6CIDR n) @ list_field JString ''dns'' (net_DNS n) @
              ptr_field json_DNSConfig ''dns_config'' (net_DNSConfig n) @
              list_field json_Application ''applications'' (net_Applications n) @
              list_field json_AdvertisedService ''services'' (net_Services n) @
              list_field json_SharePeerGrant ''share_peer_grants'' (net_SharePeerGrants n) @
              opt_str_field ''cell_id'' (net_CellID n) @
              opt_str_field ''authoritative_cell_id'' (net_AuthoritativeCellID n) @
              opt_str_field ''migrating_to_cell_id'' (net_MigratingToCellID n) @
              word_field ''revision'' (net_Revision n) @ str_field ''owner_id'' (net_OwnerID n) @
              opt_str_field ''account_id'' (net_AccountID n) @ [(''created_at'', JTime (net_CreatedAt n))])"

definition json_Node :: "Node \<Rightarrow> json" where
  "json_Node n =
     JObject (str_field ''id'' (node_ID n) @ str_field ''network_id'' (node_NetworkID n) @
              str_field ''user_id'' (node_UserID n) @ str_field ''hostname'' (node_Hostname n) @
              opt_str_field ''identity_public_key'' (node_IdentityPublicKey n) @
              str_field ''public_key'' (node_PublicKey n) @
              opt_str_field ''device_fingerprint'' (node_DeviceFingerprint n) @
              str_field ''assigned_ip'' (node_AssignedIP n) @ opt_str_field ''assigned_ipv6'' (node_AssignedIPv6 n) @
              opt_str_field ''endpoint'' (node_Endpoint n) @
              opt_word_field ''endpoint_generation'' (node_EndpointGeneration n) @
              list_field JString ''endpoint_candidates'' (node_EndpointCandidates n) @
              ptr_field JTime ''endpoint_expires_at'' (node_EndpointExpiresAt n) @
              str_field ''status'' (node_Status n) @ list_field JString ''advertised_ips'' (node_AdvertisedIPs n) @
              list_field JString ''requested_tags'' (node_RequestedTags n) @
              list_field JString ''tags'' (node_Tags n) @ str_field ''approval_state'' (node_ApprovalState n) @
              [(''ephemeral'', JBool (node_Ephemeral n)), (''key_expiry_enabled'', JBool (node_KeyExpiryEnabled n))] @
              ptr_field JTime ''key_expires_at'' (node_KeyExpiresAt n) @
              [(''created_at'', JTime (node_CreatedAt n)), (''updated_at'', JTime (node_UpdatedAt n)),
               (''last_seen'', JTime (node_LastSeen n))])"

definition json_ACLPort :: "ACLPort \<Rightarrow> json" where
  "json_ACLPort p = JObject (str_field ''protocol'' (acl_Protocol p) @ [(''port'', JInt (acl_Port p))])"

definition json_ACLGrant :: "ACLGrant \<Rightarrow> json" where
  "json_ACLGrant g =
     JObject (slice_field JString ''destination_cidrs'' (ag_DestinationCIDRs g) @
              list_field json_ACLPort ''allowed_ports'' (ag_AllowedPorts g))"

definition json_Peer :: "Peer \<Rightarrow> json" where
  "json_Peer p =
     JObject (str_field ''id'' (peer_ID p) @ opt_str_field ''network_id'' (peer_NetworkID p) @
              str_field ''hostname'' (peer_Hostname p) @ str_field ''public_key'' (peer_PublicKey p) @
              opt_str_field ''endpoint'' (peer_Endpoint p) @
              opt_word_field ''endpoint_generation'' (peer_EndpointGeneration p) @
              list_field JString ''endpoint_candidates'' (peer_EndpointCandidates p) @
              ptr_field JTime ''endpoint_expires_at'' (peer_EndpointExpiresAt p) @
              opt_str_field ''status'' (peer_Status p) @ slice_field JString ''allowed_ips'' (peer_AllowedIPs p) @
              list_field json_ACLPort ''allowed_ports'' (peer_AllowedPorts p) @
              omitempty (\<not> peer_ACLRestricted p) ''acl_restricted'' (JBool (peer_ACLRestricted p)) @
              list_field json_ACLGrant ''acl_grants'' (peer_ACLGrants p) @ list_field JString ''tags'' (peer_Tags p))"

definition json_STUNEndpoint :: "STUNEndpoint \<Rightarrow> json" where
  "json_STUNEndpoint e = JObject (str_field ''id'' (stun_ID e) @ str_field ''addr'' (stun_Addr e))"

definition json_MapRevision :: "MapRevision \<Rightarrow> json" where
  "json_MapRevision r = JObject (word_field ''network'' (rev_Network r) @ word_field ''global'' (rev_Global r))"

section \<open>The signed payload\<close>

definition mapSignatureVersion :: int where "mapSignatureVersion = 5"
definition mapSignatureAlgorithm :: string where "mapSignatureAlgorithm = ''ed25519-network-map-v5''"
definition DefaultNetworkMapSignatureTTL :: duration where "DefaultNetworkMapSignatureTTL = 24 * hour"
definition maxNetworkMapSignatureClockSkew :: duration where "maxNetworkMapSignatureClockSkew = 5 * minute"

record networkMapSigningPayload =
  p_Schema :: int
  p_KeyID :: string
  p_IssuedAt :: gotime
  p_ExpiresAt :: gotime
  p_Revision :: MapRevision
  p_RegistrationBinding :: string
  p_Network :: Network
  p_Node :: Node
  p_Peers :: "Peer slice"
  p_STUNEndpoints :: "STUNEndpoint list"
  p_Relays :: "relay_endpoint list"

definition json_payload :: "(relay_endpoint \<Rightarrow> json) \<Rightarrow> networkMapSigningPayload \<Rightarrow> json" where
  "json_payload relay_json p =
     JObject ([(''schema'', JInt (p_Schema p))] @ str_field ''key_id'' (p_KeyID p) @
              [(''issued_at'', JTime (p_IssuedAt p)), (''expires_at'', JTime (p_ExpiresAt p)),
               (''revision'', json_MapRevision (p_Revision p))] @
              opt_str_field ''registration_binding'' (p_RegistrationBinding p) @
              [(''network'', json_Network (p_Network p)), (''node'', json_Node (p_Node p))] @
              slice_field json_Peer ''peers'' (p_Peers p) @
              list_field json_STUNEndpoint ''stun_endpoints'' (p_STUNEndpoints p) @
              list_field relay_json ''relays'' (p_Relays p))"

text \<open>
  \<open>sort.Slice\<close> with the less function of the source: by id, then by host name or address.
  The order of elements that compare equal is left open by the library; the model keeps them in
  their order, one of the results it allows.
\<close>

definition sort_peers :: "Peer list \<Rightarrow> Peer list" where
  "sort_peers ps = sort_key (\<lambda>p. (peer_ID p, peer_Hostname p)) ps"

definition sort_relays :: "relay_endpoint list \<Rightarrow> relay_endpoint list" where
  "sort_relays rs = sort_key (\<lambda>r. (ep_ID r, ep_Addr r)) rs"

definition sort_stun :: "STUNEndpoint list \<Rightarrow> STUNEndpoint list" where
  "sort_stun es = sort_key (\<lambda>e. (stun_ID e, stun_Addr e)) es"

definition signing_payload :: "NetworkMapSnapshot \<Rightarrow> string \<Rightarrow> gotime \<Rightarrow> gotime \<Rightarrow> networkMapSigningPayload" where
  "signing_payload s keyID issuedAt expiresAt =
     \<lparr>p_Schema = mapSignatureVersion, p_KeyID = TrimSpace keyID, p_IssuedAt = UTC issuedAt,
      p_ExpiresAt = UTC expiresAt, p_Revision = snap_Revision s,
      p_RegistrationBinding = TrimSpace (snap_RegistrationBinding s), p_Network = snap_Network s,
      p_Node = snap_Node s, p_Peers = map_option sort_peers (append_to_nil (snap_Peers s)),
      p_STUNEndpoints = sort_stun (snap_STUNEndpoints s), p_Relays = sort_relays (elems (snap_Relays s))\<rparr>"

definition canonicalNetworkMapPayload ::
  "(relay_endpoint \<Rightarrow> json) \<Rightarrow> NetworkMapSnapshot \<Rightarrow> string \<Rightarrow> gotime \<Rightarrow> gotime \<Rightarrow> string result" where
  "canonicalNetworkMapPayload relay_json s keyID issuedAt expiresAt =
     require (guard (TrimSpace keyID = []) ''network map signing key id is required'')
       (Marshal (json_payload relay_json (signing_payload s keyID issuedAt expiresAt)))"

section \<open>Signing\<close>

definition SignNetworkMapSnapshotWithProvider ::
  "(string \<Rightarrow> string) \<Rightarrow> (relay_endpoint \<Rightarrow> json) \<Rightarrow> string \<Rightarrow> NetworkMapSnapshot \<Rightarrow> gotime \<Rightarrow> duration \<Rightarrow>
   (string \<Rightarrow> string result) option \<Rightarrow> MapSignature result" where
  "SignNetworkMapSnapshotWithProvider sha256 relay_json publicKey snapshot issued ttl signer =
     (if length publicKey \<noteq> 32 then Inl (Errorf ''invalid map signing public key'')
      else case signer of
        None \<Rightarrow> Inl (Errorf ''map signing provider is required'')
      | Some sign \<Rightarrow>
          if ttl \<le> 0 then Inl (Errorf ''network map signature ttl must be positive'')
          else
            (let issuedAt = Truncate (UTC issued) second;
                 expiresAt = UTC (Add issuedAt ttl);
                 publicKeyText = EncodeToString RawURLEncoding publicKey
             in case SigningKeyID sha256 publicKeyText of
                  Inl e \<Rightarrow> Inl e
                | Inr keyID \<Rightarrow>
                    (case canonicalNetworkMapPayload relay_json snapshot keyID issuedAt expiresAt of
                       Inl e \<Rightarrow> Inl e
                     | Inr payload \<Rightarrow>
                         (case sign payload of
                            Inl e \<Rightarrow> Inl (Wrap ''sign network map'' e)
                          | Inr signature \<Rightarrow>
                              if length signature \<noteq> 64
                              then Inl (Errorf ''map signing provider returned an invalid signature'')
                              else Inr \<lparr>sig_Version = mapSignatureVersion, sig_KeyID = keyID,
                                        sig_Algorithm = mapSignatureAlgorithm, sig_IssuedAt = issuedAt,
                                        sig_ExpiresAt = expiresAt,
                                        sig_PayloadHash = hex_EncodeToString (sha256 payload),
                                        sig_Signature = EncodeToString RawURLEncoding signature\<rparr>))))"

definition SignNetworkMapWithProvider ::
  "(string \<Rightarrow> string) \<Rightarrow> (relay_endpoint \<Rightarrow> json) \<Rightarrow> string \<Rightarrow> RegisterNodeResponse \<Rightarrow> gotime \<Rightarrow> duration \<Rightarrow>
   (string \<Rightarrow> string result) option \<Rightarrow> MapSignature result" where
  "SignNetworkMapWithProvider sha256 relay_json publicKey response issued ttl signer =
     SignNetworkMapSnapshotWithProvider sha256 relay_json publicKey (Snapshot response) issued ttl signer"

text \<open>\<open>privateKey.Public()\<close> is \<open>public\<close>; its type assertion cannot fail.\<close>

definition SignNetworkMapSnapshotAt ::
  "(string \<Rightarrow> string) \<Rightarrow> (relay_endpoint \<Rightarrow> json) \<Rightarrow> (string \<Rightarrow> string) \<Rightarrow> (string \<Rightarrow> string \<Rightarrow> string) \<Rightarrow>
   string \<Rightarrow> NetworkMapSnapshot \<Rightarrow> gotime \<Rightarrow> duration \<Rightarrow> MapSignature result" where
  "SignNetworkMapSnapshotAt sha256 relay_json public sign privateKey snapshot issued ttl =
     (if length privateKey \<noteq> 64 then Inl (Errorf ''invalid map signing private key'')
      else SignNetworkMapSnapshotWithProvider sha256 relay_json (public privateKey) snapshot issued ttl
             (Some (\<lambda>payload. Inr (sign privateKey payload))))"

definition SignNetworkMapAt ::
  "(string \<Rightarrow> string) \<Rightarrow> (relay_endpoint \<Rightarrow> json) \<Rightarrow> (string \<Rightarrow> string) \<Rightarrow> (string \<Rightarrow> string \<Rightarrow> string) \<Rightarrow>
   string \<Rightarrow> RegisterNodeResponse \<Rightarrow> gotime \<Rightarrow> duration \<Rightarrow> MapSignature result" where
  "SignNetworkMapAt sha256 relay_json public sign privateKey response issued ttl =
     SignNetworkMapSnapshotAt sha256 relay_json public sign privateKey (Snapshot response) issued ttl"

text \<open>\<open>now\<close> is the clock.\<close>

definition SignNetworkMapSnapshot ::
  "(string \<Rightarrow> string) \<Rightarrow> (relay_endpoint \<Rightarrow> json) \<Rightarrow> (string \<Rightarrow> string) \<Rightarrow> (string \<Rightarrow> string \<Rightarrow> string) \<Rightarrow>
   gotime \<Rightarrow> string \<Rightarrow> NetworkMapSnapshot \<Rightarrow> MapSignature result" where
  "SignNetworkMapSnapshot sha256 relay_json public sign now privateKey snapshot =
     SignNetworkMapSnapshotAt sha256 relay_json public sign privateKey snapshot (UTC now) DefaultNetworkMapSignatureTTL"

definition SignNetworkMap ::
  "(string \<Rightarrow> string) \<Rightarrow> (relay_endpoint \<Rightarrow> json) \<Rightarrow> (string \<Rightarrow> string) \<Rightarrow> (string \<Rightarrow> string \<Rightarrow> string) \<Rightarrow>
   gotime \<Rightarrow> string \<Rightarrow> RegisterNodeResponse \<Rightarrow> MapSignature result" where
  "SignNetworkMap sha256 relay_json public sign now privateKey response =
     SignNetworkMapSnapshot sha256 relay_json public sign now privateKey (Snapshot response)"

section \<open>Verification\<close>

text \<open>The checks on the signature itself, up to the payload.\<close>

definition check_signature_times :: "MapSignature \<Rightarrow> gotime \<Rightarrow> err" where
  "check_signature_times signature now =
     (let issuedAt = UTC (sig_IssuedAt signature); expiresAt = UTC (sig_ExpiresAt signature)
      in first_err
        [guard (IsZero (sig_IssuedAt signature)) ''network map signature issued_at is missing'',
         guard (IsZero (sig_ExpiresAt signature)) ''network map signature expires_at is missing'',
         guard (\<not> After expiresAt issuedAt) ''network map signature expires_at must be after issued_at'',
         guard (After issuedAt (Add (UTC now) maxNetworkMapSignatureClockSkew)) ''network map signature is not yet valid'',
         guard (\<not> Before (UTC now) expiresAt) ''network map signature expired''])"

definition VerifyNetworkMapSnapshotSignatureAt ::
  "(string \<Rightarrow> string) \<Rightarrow> (relay_endpoint \<Rightarrow> json) \<Rightarrow> (string \<Rightarrow> string \<Rightarrow> string \<Rightarrow> bool) \<Rightarrow>
   NetworkMapSnapshot \<Rightarrow> string \<Rightarrow> gotime \<Rightarrow> err" where
  "VerifyNetworkMapSnapshotSignatureAt sha256 relay_json verify snapshot expectedPublicKey now =
     (case snap_MapSignature snapshot of
        None \<Rightarrow> Some (Errorf ''network map signature is missing'')
      | Some signature \<Rightarrow>
          (let publicKey = TrimSpace expectedPublicKey
           in first_err
             [guard (sig_Version signature \<noteq> mapSignatureVersion) ''unsupported network map signature version'',
              guard (sig_Algorithm signature \<noteq> mapSignatureAlgorithm) ''unsupported network map signature algorithm'',
              guard (publicKey = []) ''network map signing trust anchor is required'',
              after (SigningKeyID sha256 publicKey)
                (\<lambda>keyID. guard (TrimSpace (sig_KeyID signature) = [] \<or> sig_KeyID signature \<noteq> keyID)
                           ''network map signing key id mismatch''),
              (case DecodeString RawURLEncoding False publicKey of
                 None \<Rightarrow> Some (Errorf ''invalid network map signing public key'')
               | Some publicKeyRaw \<Rightarrow>
                   if length publicKeyRaw \<noteq> 32 then Some (Errorf ''invalid network map signing public key'')
                   else (case DecodeString RawURLEncoding False (sig_Signature signature) of
                     None \<Rightarrow> Some (Errorf ''invalid network map signature'')
                   | Some signatureRaw \<Rightarrow>
                       if length signatureRaw \<noteq> 64 then Some (Errorf ''invalid network map signature'')
                       else first_err
                         [check_signature_times signature now,
                          after (canonicalNetworkMapPayload relay_json snapshot (sig_KeyID signature)
                                   (UTC (sig_IssuedAt signature)) (UTC (sig_ExpiresAt signature)))
                            (\<lambda>payload. first_err
                               [guard (sig_PayloadHash signature \<noteq> hex_EncodeToString (sha256 payload))
                                  ''network map payload hash mismatch'',
                                guard (\<not> verify publicKeyRaw payload signatureRaw)
                                  ''network map signature verification failed'']),
                          ValidateSharePeerGrantsAt snapshot (UTC now)]))]))"

definition VerifyNetworkMapSignatureAt ::
  "(string \<Rightarrow> string) \<Rightarrow> (relay_endpoint \<Rightarrow> json) \<Rightarrow> (string \<Rightarrow> string \<Rightarrow> string \<Rightarrow> bool) \<Rightarrow>
   RegisterNodeResponse \<Rightarrow> string \<Rightarrow> gotime \<Rightarrow> err" where
  "VerifyNetworkMapSignatureAt sha256 relay_json verify response expectedPublicKey now =
     VerifyNetworkMapSnapshotSignatureAt sha256 relay_json verify (Snapshot response) expectedPublicKey now"

text \<open>The two readings of the clock are the arguments \<open>now1\<close> and \<open>now2\<close>.\<close>

definition VerifyNetworkMapSnapshotSignatureWithTrustBundle ::
  "(string \<Rightarrow> string) \<Rightarrow> (relay_endpoint \<Rightarrow> json) \<Rightarrow> (string \<Rightarrow> string \<Rightarrow> string \<Rightarrow> bool) \<Rightarrow> gotime \<Rightarrow> gotime \<Rightarrow>
   NetworkMapSnapshot \<Rightarrow> SigningTrustBundle \<Rightarrow> err" where
  "VerifyNetworkMapSnapshotSignatureWithTrustBundle sha256 relay_json verify now1 now2 snapshot trust =
     (case snap_MapSignature snapshot of
        None \<Rightarrow> Some (Errorf ''network map signature is missing'')
      | Some signature \<Rightarrow>
          after (Resolve sha256 trust (sig_KeyID signature) (UTC now1))
            (\<lambda>key. VerifyNetworkMapSnapshotSignatureAt sha256 relay_json verify snapshot (key_PublicKey key) (UTC now2)))"

definition VerifyNetworkMapSignatureWithTrustBundle ::
  "(string \<Rightarrow> string) \<Rightarrow> (relay_endpoint \<Rightarrow> json) \<Rightarrow> (string \<Rightarrow> string \<Rightarrow> string \<Rightarrow> bool) \<Rightarrow> gotime \<Rightarrow> gotime \<Rightarrow>
   RegisterNodeResponse \<Rightarrow> SigningTrustBundle \<Rightarrow> err" where
  "VerifyNetworkMapSignatureWithTrustBundle sha256 relay_json verify now1 now2 response trust =
     VerifyNetworkMapSnapshotSignatureWithTrustBundle sha256 relay_json verify now1 now2 (Snapshot response) trust"

section \<open>What a verified signature means\<close>

text \<open>The window a signature may be used in: five minutes of clock skew before, none after.\<close>

definition in_signature_window :: "MapSignature \<Rightarrow> gotime \<Rightarrow> bool" where
  "in_signature_window sig now \<longleftrightarrow>
     t_ns (sig_IssuedAt sig) \<noteq> 0 \<and> t_ns (sig_ExpiresAt sig) \<noteq> 0 \<and>
     t_ns (sig_IssuedAt sig) < t_ns (sig_ExpiresAt sig) \<and>
     t_ns (sig_IssuedAt sig) \<le> t_ns now + 300 * 1000000000 \<and> t_ns now < t_ns (sig_ExpiresAt sig)"

lemma check_signature_times_None [accepts]:
  "check_signature_times sig now = None \<longleftrightarrow> in_signature_window sig now"
  by (auto simp: check_signature_times_def in_signature_window_def Let_def time_defs
      maxNetworkMapSignatureClockSkew_def duration_defs)

text \<open>A snapshot carries a signature made with the key \<open>pk\<close> over its own payload.\<close>

definition signed_by ::
  "(string \<Rightarrow> string) \<Rightarrow> (relay_endpoint \<Rightarrow> json) \<Rightarrow> (string \<Rightarrow> string \<Rightarrow> string \<Rightarrow> bool) \<Rightarrow>
   NetworkMapSnapshot \<Rightarrow> MapSignature \<Rightarrow> string \<Rightarrow> bool" where
  "signed_by sha256 relay_json verify s sig pk \<longleftrightarrow>
     sig_Version sig = mapSignatureVersion \<and> sig_Algorithm sig = mapSignatureAlgorithm \<and>
     SigningKeyID sha256 pk = Inr (sig_KeyID sig) \<and>
     (\<exists>raw sigraw payload.
        DecodeString RawURLEncoding False (TrimSpace pk) = Some raw \<and> length raw = 32 \<and>
        DecodeString RawURLEncoding False (sig_Signature sig) = Some sigraw \<and> length sigraw = 64 \<and>
        canonicalNetworkMapPayload relay_json s (sig_KeyID sig) (sig_IssuedAt sig) (sig_ExpiresAt sig) = Inr payload \<and>
        sig_PayloadHash sig = hex_EncodeToString (sha256 payload) \<and> verify raw payload sigraw)"

lemma payload_UTC [simp]:
  "canonicalNetworkMapPayload rj s k (UTC i) (UTC e) = canonicalNetworkMapPayload rj s k i e"
  by (simp add: canonicalNetworkMapPayload_def signing_payload_def)

lemma UTC_grants [simp]: "ValidateSharePeerGrantsAt s (UTC now) = ValidateSharePeerGrantsAt s now"
  by (simp add: ValidateSharePeerGrantsAt_def time_defs)

lemma trusted_at_UTC [simp]: "trusted_at key (UTC now) = trusted_at key now"
  by (simp add: trusted_at_def split: option.splits)

lemma in_signature_window_UTC [simp]: "in_signature_window sig (UTC now) = in_signature_window sig now"
  by (simp add: in_signature_window_def)

lemma Verify_None [accepts]:
  "VerifyNetworkMapSnapshotSignatureAt sha256 relay_json verify s pk now = None \<longleftrightarrow>
     (\<exists>sig. snap_MapSignature s = Some sig \<and> signed_by sha256 relay_json verify s sig pk \<and>
        in_signature_window sig now \<and> ValidateSharePeerGrantsAt s now = None)"
proof (cases "snap_MapSignature s")
  case (Some sig)
  show ?thesis
    using SigningKeyID_decodes [of sha256 pk]
    by (auto simp: VerifyNetworkMapSnapshotSignatureAt_def Some Let_def signed_by_def check_signature_times_None
        split: option.splits)
qed (simp add: VerifyNetworkMapSnapshotSignatureAt_def)

text \<open>
  C20. A map accepted under a trust bundle is authentic and current: its signature was made, over the
  canonical payload of exactly this map, with a key of the bundle whose validity window contains the
  instant of resolution and whose id is derived from its own public key; the signature is inside its
  window at the instant of verification; and every sharing grant of the map is inside its lease.
\<close>

theorem verified_map_authentic:
  assumes "VerifyNetworkMapSnapshotSignatureWithTrustBundle sha256 relay_json verify now1 now2 s trust = None"
  shows "\<exists>sig key. snap_MapSignature s = Some sig \<and>
    SigningTrustBundle_Validate sha256 trust = None \<and> key \<in> set (elems (tb_Keys trust)) \<and> trusted_at key now1 \<and>
    SigningKeyID sha256 (key_PublicKey key) = Inr (key_KeyID key) \<and> sig_KeyID sig = key_KeyID key \<and>
    signed_by sha256 relay_json verify s sig (key_PublicKey key) \<and> in_signature_window sig now2 \<and>
    ValidateSharePeerGrantsAt s now2 = None"
proof -
  obtain sig key where sig: "snap_MapSignature s = Some sig"
    and res: "Resolve sha256 trust (sig_KeyID sig) (UTC now1) = Inr key"
    and ver: "VerifyNetworkMapSnapshotSignatureAt sha256 relay_json verify s (key_PublicKey key) (UTC now2) = None"
    using assms by (auto simp: VerifyNetworkMapSnapshotSignatureWithTrustBundle_def split: option.splits)
  have by': "signed_by sha256 relay_json verify s sig (key_PublicKey key)" "in_signature_window sig now2"
    "ValidateSharePeerGrantsAt s now2 = None"
    using ver sig by (auto simp: Verify_None)
  have t: "trusted_at key now1" using res by (simp add: Resolve_Inr)
  have "SigningKeyID sha256 (key_PublicKey key) = Inr (key_KeyID key)"
    using Resolve_key_id(1) [OF res] res by (auto simp: Resolve_Inr)
  moreover have "sig_KeyID sig = key_KeyID key"
    using calculation by'(1) by (simp add: signed_by_def)
  ultimately show ?thesis using sig res by' t by (auto simp: Resolve_Inr)
qed

section \<open>Signing and verifying\<close>

lemma grant_checks_ignore_signature [simp]:
  "share_ends (s\<lparr>snap_MapSignature := x\<rparr>) g = share_ends s g"
  "remote_ip_check (s\<lparr>snap_MapSignature := x\<rparr>) l r v = remote_ip_check s l r v"
  "grant_binding (s\<lparr>snap_MapSignature := x\<rparr>) = grant_binding s"
proof -
  show e: "share_ends (s\<lparr>snap_MapSignature := x\<rparr>) g = share_ends s g" for g by (simp add: share_ends_def)
  show c: "remote_ip_check (s\<lparr>snap_MapSignature := x\<rparr>) l r v = remote_ip_check s l r v" for l r v
    by (simp add: remote_ip_check_def cong: if_cong)
  have "remote_ip_check (s\<lparr>snap_MapSignature := x\<rparr>) l r = remote_ip_check s l r" for l r
    by (rule ext) (rule c)
  then show "grant_binding (s\<lparr>snap_MapSignature := x\<rparr>) = grant_binding s"
    by (intro ext) (simp add: grant_binding_def e)
qed

lemma grants_ignore_signature [simp]:
  "ValidateSharePeerGrantsAt (s\<lparr>snap_MapSignature := x\<rparr>) now = ValidateSharePeerGrantsAt s now"
  by (simp add: ValidateSharePeerGrantsAt_def validateSharePeerGrants_def)

lemma payload_ignores_signature [simp]:
  "canonicalNetworkMapPayload rj (s\<lparr>snap_MapSignature := x\<rparr>) k i e = canonicalNetworkMapPayload rj s k i e"
  by (simp add: canonicalNetworkMapPayload_def signing_payload_def)

lemma Sign_Inr:
  assumes "SignNetworkMapSnapshotWithProvider sha256 rj pub s issued ttl (Some signer) = Inr sig"
  shows "length pub = 32" and "0 < ttl"
    and "SigningKeyID sha256 (EncodeToString RawURLEncoding pub) = Inr (sig_KeyID sig)"
    and "sig_Version sig = mapSignatureVersion" and "sig_Algorithm sig = mapSignatureAlgorithm"
    and "sig_IssuedAt sig = Truncate (UTC issued) second"
    and "sig_ExpiresAt sig = UTC (Add (Truncate (UTC issued) second) ttl)"
    and "\<exists>payload raw. canonicalNetworkMapPayload rj s (sig_KeyID sig) (sig_IssuedAt sig) (sig_ExpiresAt sig) = Inr payload \<and>
      signer payload = Inr raw \<and> length raw = 64 \<and> sig_PayloadHash sig = hex_EncodeToString (sha256 payload) \<and>
      sig_Signature sig = EncodeToString RawURLEncoding raw"
  using assms
  by (auto simp: SignNetworkMapSnapshotWithProvider_def Let_def split: if_splits sum.splits)

lemma signed_by_signer:
  assumes "SignNetworkMapSnapshotWithProvider sha256 rj pub s issued ttl (Some signer) = Inr sig"
    and "\<And>payload raw. signer payload = Inr raw \<Longrightarrow> verify pub payload raw"
  shows "signed_by sha256 rj verify (s\<lparr>snap_MapSignature := x\<rparr>) sig (EncodeToString RawURLEncoding pub)"
  using Sign_Inr [OF assms(1)] assms(2) rawurl.lax.enc_trimmed rawurl.lax.dec_enc
  by (auto simp: signed_by_def)

lemma signed_window:
  assumes "SignNetworkMapSnapshotWithProvider sha256 rj pub s issued ttl (Some signer) = Inr sig"
    and "second \<le> t_ns issued" and "t_ns issued \<le> t_ns now + 300 * 1000000000" and "t_ns now < t_ns (sig_ExpiresAt sig)"
  shows "in_signature_window sig now"
proof -
  have m: "0 \<le> t_ns issued mod second" "t_ns issued mod second < second" by (simp_all add: duration_defs)
  have "t_ns issued - t_ns issued mod second \<noteq> 0" using m assms(2) by linarith
  then show ?thesis
    using Sign_Inr(2,6,7) [OF assms(1)] assms(2-) m
    by (auto simp: in_signature_window_def Truncate_def duration_defs)
qed

lemma signed_map_verifies:
  assumes "SignNetworkMapSnapshotAt sha256 relay_json public sign priv s issued ttl = Inr sig"
    and ed25519: "\<And>m. verify (public priv) m (sign priv m)"
    and "second \<le> t_ns issued" and "t_ns issued \<le> t_ns now + 300 * 1000000000"
    and "t_ns now < t_ns (sig_ExpiresAt sig)" and "ValidateSharePeerGrantsAt s now = None"
  shows "VerifyNetworkMapSnapshotSignatureAt sha256 relay_json verify (s\<lparr>snap_MapSignature := Some sig\<rparr>)
      (EncodeToString RawURLEncoding (public priv)) now = None"
proof -
  have sig: "SignNetworkMapSnapshotWithProvider sha256 relay_json (public priv) s issued ttl
      (Some (\<lambda>payload. Inr (sign priv payload))) = Inr sig"
    using assms(1) by (simp add: SignNetworkMapSnapshotAt_def split: if_splits)
  have "signed_by sha256 relay_json verify (s\<lparr>snap_MapSignature := Some sig\<rparr>) sig (EncodeToString RawURLEncoding (public priv))"
    by (rule signed_by_signer [OF sig]) (use ed25519 in auto)
  moreover have "in_signature_window sig now" by (rule signed_window [OF sig assms(3-5)])
  ultimately show ?thesis using assms(6) by (simp add: Verify_None)
qed

text \<open>
  C21. A map signed with a private key and sent with that signature verifies with the matching public key
  exactly while it is current: at an instant from five minutes before its issue time, truncated to
  the second, until the lifetime of the signature has passed, provided every sharing grant of the map
  is accepted at that instant. The signature attached to the map does not disturb the payload it
  signs. The issue time lies at least a second after the zero time, which the code takes for a
  missing one; the only fact used about Ed25519 is that signatures it makes verify.
\<close>

theorem sign_then_verify:
  assumes "SignNetworkMapSnapshotAt sha256 relay_json public sign priv s issued ttl = Inr sig"
    and ed25519: "\<And>m. verify (public priv) m (sign priv m)" and "second \<le> t_ns issued"
  shows "VerifyNetworkMapSnapshotSignatureAt sha256 relay_json verify (s\<lparr>snap_MapSignature := Some sig\<rparr>)
      (EncodeToString RawURLEncoding (public priv)) now = None \<longleftrightarrow>
    t_ns issued - t_ns issued mod second \<le> t_ns now + 300 * 1000000000 \<and>
    t_ns now < t_ns issued - t_ns issued mod second + ttl \<and> ValidateSharePeerGrantsAt s now = None"
proof -
  have sig: "SignNetworkMapSnapshotWithProvider sha256 relay_json (public priv) s issued ttl
      (Some (\<lambda>payload. Inr (sign priv payload))) = Inr sig"
    using assms(1) by (simp add: SignNetworkMapSnapshotAt_def split: if_splits)
  have "signed_by sha256 relay_json verify (s\<lparr>snap_MapSignature := Some sig\<rparr>) sig (EncodeToString RawURLEncoding (public priv))"
    by (rule signed_by_signer [OF sig]) (use ed25519 in auto)
  moreover have "t_ns issued mod second < second" by (simp add: duration_defs)
  then have "in_signature_window sig now \<longleftrightarrow> t_ns issued - t_ns issued mod second \<le> t_ns now + 300 * 1000000000 \<and>
      t_ns now < t_ns issued - t_ns issued mod second + ttl"
    using Sign_Inr(2,6,7) [OF sig] assms(3)
    by (auto simp: in_signature_window_def Truncate_def duration_defs)
  ultimately show ?thesis by (simp add: Verify_None)
qed

section \<open>The payload is canonical\<close>

lemma sort_peers_cong:
  assumes "mset ps = mset qs" and "distinct (map (\<lambda>p. (peer_ID p, peer_Hostname p)) ps)"
  shows "sort_peers ps = sort_peers qs"
  unfolding sort_peers_def using assms by (intro sort_key_mset_eq) (auto simp: inj_on_def distinct_map)

lemma sort_relays_cong:
  assumes "mset rs = mset qs" and "distinct (map (\<lambda>r. (ep_ID r, ep_Addr r)) rs)"
  shows "sort_relays rs = sort_relays qs"
  unfolding sort_relays_def using assms by (intro sort_key_mset_eq) (auto simp: inj_on_def distinct_map)

lemma sort_stun_cong:
  assumes "mset es = mset fs"
  shows "sort_stun es = sort_stun fs"
  unfolding sort_stun_def using assms by (intro sort_key_mset_eq) (auto simp: inj_on_def)

lemma append_to_nil_cong:
  "mset (elems a) = mset (elems b) \<Longrightarrow> sort_peers (elems a) = sort_peers (elems b) \<Longrightarrow>
   map_option sort_peers (append_to_nil a) = map_option sort_peers (append_to_nil b)"
  by (auto simp: append_to_nil_def)

text \<open>
  C22. The signed payload does not depend on the order of lists: two maps with the same revision, network
  and node and the same registration binding up to surrounding white space, whose peers, STUN endpoints
  and relays are the same up to order, have the same payload, so a signature made for one is valid for
  the other. No two peers share both id and host name and no two relays both id and address, for
  which the order of the sort is open. Whether the list of peers or of relays itself is nil or
  empty, the relay credential and an attached signature play no part.
\<close>

theorem payload_canonical:
  assumes "snap_Revision s = snap_Revision t" and "snap_Network s = snap_Network t" and "snap_Node s = snap_Node t"
    and "TrimSpace (snap_RegistrationBinding s) = TrimSpace (snap_RegistrationBinding t)"
    and "mset (elems (snap_Peers s)) = mset (elems (snap_Peers t))" 
    and "distinct (map (\<lambda>p. (peer_ID p, peer_Hostname p)) (elems (snap_Peers s)))"
    and "mset (snap_STUNEndpoints s) = mset (snap_STUNEndpoints t)"
    and "mset (elems (snap_Relays s)) = mset (elems (snap_Relays t))"
    and "distinct (map (\<lambda>r. (ep_ID r, ep_Addr r)) (elems (snap_Relays s)))"
  shows "canonicalNetworkMapPayload relay_json s keyID issuedAt expiresAt =
    canonicalNetworkMapPayload relay_json t keyID issuedAt expiresAt"
  using append_to_nil_cong [OF assms(5) sort_peers_cong [OF assms(5,6)]] sort_stun_cong [OF assms(7)]
    sort_relays_cong [OF assms(8,9)] assms(1-4)
  by (simp add: canonicalNetworkMapPayload_def signing_payload_def)

section \<open>Witnesses\<close>

lemma sample_payload_times:
  "range_err time_err (json_times (json_payload (\<lambda>_. JNull) (signing_payload sample_map sample_key_id
     \<lparr>t_ns = 1000000000, t_offset = 0\<rparr> \<lparr>t_ns = 61000000000, t_offset = 0\<rparr>))) = None"
  by code_simp

lemma second_pos: "0 < second" "\<not> 60 * second \<le> 0"
  by (simp_all add: second_def)

lemma sample_signs:
  obtains sig where
    "SignNetworkMapSnapshotAt sample_sha256 (\<lambda>_. JNull) sample_public sample_sign sample_priv sample_map
       sample_issued (60 * second) = Inr sig"
    and "sig_KeyID sig = sample_key_id" and "t_ns (sig_ExpiresAt sig) = 61000000000"
proof -
  have t: "Truncate (UTC sample_issued) second = \<lparr>t_ns = 1000000000, t_offset = 0\<rparr>"
    "UTC (Add \<lparr>t_ns = 1000000000, t_offset = 0\<rparr> (60 * second)) = \<lparr>t_ns = 61000000000, t_offset = 0\<rparr>"
    by code_simp+
  have k: "SigningKeyID sample_sha256 (EncodeToString RawURLEncoding (replicate 32 (CHR ''k''))) = Inr sample_key_id"
    by (simp add: SigningKeyID_encode sample_key_id_def sample_sha256_def)
  then have "TrimSpace sample_key_id \<noteq> []" using SigningKeyID_decodes(2) by blast
  then obtain payload where pl: "canonicalNetworkMapPayload (\<lambda>_. JNull) sample_map sample_key_id
      \<lparr>t_ns = 1000000000, t_offset = 0\<rparr> \<lparr>t_ns = 61000000000, t_offset = 0\<rparr> = Inr payload"
    by (simp add: canonicalNetworkMapPayload_def Marshal_def guard_def sample_payload_times del: range_err_None)
  have "length sample_priv = 64" by (simp add: sample_priv_def)
  then have "\<exists>sig. SignNetworkMapSnapshotAt sample_sha256 (\<lambda>_. JNull) sample_public sample_sign sample_priv sample_map
       sample_issued (60 * second) = Inr sig \<and> sig_KeyID sig = sample_key_id \<and> t_ns (sig_ExpiresAt sig) = 61000000000"
    using k
    by (simp add: SignNetworkMapSnapshotAt_def SignNetworkMapSnapshotWithProvider_def t pl sample_public_priv
        sample_sign_def Let_def second_pos)
  then show ?thesis using that by blast
qed

theorem sign_then_verify_witness:
  "\<exists>sig. VerifyNetworkMapSnapshotSignatureAt sample_sha256 (\<lambda>_. JNull) sample_verify (sample_map\<lparr>snap_MapSignature := Some sig\<rparr>)
      (EncodeToString RawURLEncoding (sample_public sample_priv)) sample_now = None \<and>
    VerifyNetworkMapSnapshotSignatureAt sample_sha256 (\<lambda>_. JNull) sample_verify (sample_map\<lparr>snap_MapSignature := Some sig\<rparr>)
      (EncodeToString RawURLEncoding (sample_public sample_priv)) \<lparr>t_ns = 61000000000, t_offset = 0\<rparr> \<noteq> None"
proof -
  obtain sig where sig: "SignNetworkMapSnapshotAt sample_sha256 (\<lambda>_. JNull) sample_public sample_sign sample_priv sample_map
       sample_issued (60 * second) = Inr sig"
    using sample_signs by blast
  have g: "ValidateSharePeerGrantsAt sample_map sample_now = None" by code_simp
  have i: "second \<le> t_ns sample_issued" by (simp add: sample_issued_def duration_defs)
  note w = sign_then_verify [where verify = sample_verify, OF sig sample_verifies i]
  show ?thesis using g by (intro exI [of _ sig]) (simp add: w sample_issued_def sample_now_def duration_defs)
qed

theorem verified_map_authentic_witness:
  "\<exists>sig (b :: SigningTrustBundle) key. snap_MapSignature (sample_map\<lparr>snap_MapSignature := Some sig\<rparr>) = Some sig \<and>
     key \<in> set (elems (tb_Keys b)) \<and>
     signed_by sample_sha256 (\<lambda>_. JNull) sample_verify (sample_map\<lparr>snap_MapSignature := Some sig\<rparr>) sig (key_PublicKey key)"
proof -
  obtain sig where sig: "SignNetworkMapSnapshotAt sample_sha256 (\<lambda>_. JNull) sample_public sample_sign sample_priv sample_map
       sample_issued (60 * second) = Inr sig" "sig_KeyID sig = sample_key_id" "t_ns (sig_ExpiresAt sig) = 61000000000"
    using sample_signs by blast
  obtain b key where b: "Resolve sample_sha256 b sample_key_id sample_now = Inr key"
    "key_PublicKey key = EncodeToString RawURLEncoding (sample_public sample_priv)"
    using sample_bundle by blast
  have g: "ValidateSharePeerGrantsAt sample_map sample_now = None" by code_simp
  have u: "UTC sample_now = sample_now" by (simp add: UTC_def sample_now_def)
  have "VerifyNetworkMapSnapshotSignatureAt sample_sha256 (\<lambda>_. JNull) sample_verify (sample_map\<lparr>snap_MapSignature := Some sig\<rparr>)
      (key_PublicKey key) sample_now = None"
    using signed_map_verifies [OF sig(1), of sample_verify sample_now] sample_verifies g
    by (auto simp: sig(3) b(2) sample_issued_def sample_now_def duration_defs)
  then have "VerifyNetworkMapSnapshotSignatureWithTrustBundle sample_sha256 (\<lambda>_. JNull) sample_verify sample_now sample_now
      (sample_map\<lparr>snap_MapSignature := Some sig\<rparr>) b = None"
    by (simp add: VerifyNetworkMapSnapshotSignatureWithTrustBundle_def sig(2) b(1) u)
  from verified_map_authentic [OF this] show ?thesis by (intro exI [of _ sig] exI [of _ b]) auto
qed

theorem payload_canonical_witness:
  "canonicalNetworkMapPayload (\<lambda>_. JNull) sample_map sample_key_id sample_issued sample_now =
   canonicalNetworkMapPayload (\<lambda>_. JNull)
     (sample_map\<lparr>snap_Peers := Some [sample_peer_s, sample_peer_p], snap_Relays := Some [], snap_RegistrationBinding := '' ''\<rparr>)
     sample_key_id sample_issued sample_now"
proof (rule payload_canonical)
  show "TrimSpace (snap_RegistrationBinding sample_map) =
    TrimSpace (snap_RegistrationBinding (sample_map\<lparr>snap_Peers := Some [sample_peer_s, sample_peer_p], snap_Relays := Some [],
      snap_RegistrationBinding := '' ''\<rparr>))" by code_simp
qed (simp_all add: sample_map_def sample_peer_p_def sample_peer_s_def zero_Snapshot_def)

end
