(* ===== verification/Map_Stream.thy ===== *)
theory Map_Stream
  imports Map_Sign
begin

text \<open>
  The map stream (\<open>src/clientapi/v1/mapstream.go\<close>, and the event check of
  \<open>api.go\<close>): an event turns the cached map into the next one, which is validated and
  authenticated before it is returned.
\<close>

section \<open>Events (api.go)\<close>

definition validateMapStreamEvent :: "MapStreamEvent \<Rightarrow> err" where
  "validateMapStreamEvent event =
     first_err
       [guard (TrimSpace (ev_EventID event) = []) ''map stream event_id is required'',
        (if ev_Type event = ''heartbeat'' then
           guard (ev_Snapshot event \<noteq> None \<or> ev_Delta event \<noteq> None)
             ''map stream heartbeat must not include a snapshot or delta''
         else if ev_Type event = ''snapshot'' \<or> ev_Type event = ''resync'' then
           first_err
             [guard (\<not> HasFullMap event) ''map stream %s event is missing a complete snapshot'',
              guard (ev_Delta event \<noteq> None) ''map stream %s event must not include a delta'',
              guard (ev_ResultSignature event = None) ''map stream %s event is missing result_signature'']
         else if ev_Type event = ''delta'' then
           first_err
             [guard (ev_Delta event = None) ''map stream delta event is missing delta'',
              guard (ev_Snapshot event \<noteq> None) ''map stream delta event must not include a snapshot'',
              guard (TrimSpace (ev_BaseHash event) = []) ''map stream delta event is missing base_hash'',
              guard (ev_ResultSignature event = None) ''map stream delta event is missing result_signature'']
         else if ev_Type event = ''checkpoint'' then
           guard (ev_Snapshot event \<noteq> None \<or> ev_Delta event \<noteq> None)
             ''map stream checkpoint must not include a snapshot or delta''
         else Some (Errorf ''unsupported map stream event type %q''))]"

definition mapStreamCapabilitiesEqual :: "string list \<Rightarrow> string list \<Rightarrow> bool" where
  "mapStreamCapabilitiesEqual got want \<longleftrightarrow>
     length got = length want \<and> list_all (\<lambda>i. got ! i = want ! i) [0..<length got]"

section \<open>Copies\<close>

text \<open>
  \<open>append([]T(nil), xs...)\<close> is \<open>append_to_nil\<close>: it makes a nil slice of an
  empty one. On the fields that are plain lists in the model it is the identity.
\<close>

definition cloneApplications :: "Application list \<Rightarrow> Application list" where
  "cloneApplications apps =
     map (\<lambda>a. a\<lparr>app_Routes := map (\<lambda>r. r\<lparr>ar_CIDRs := append_to_nil (ar_CIDRs r)\<rparr>) (app_Routes a)\<rparr>) apps"

definition cloneServices :: "AdvertisedService list \<Rightarrow> AdvertisedService list" where
  "cloneServices svcs = map (\<lambda>s. s\<lparr>svc_Ports := append_to_nil (svc_Ports s)\<rparr>) svcs"

definition cloneDNSConfig :: "DNSConfig option \<Rightarrow> DNSConfig option" where
  "cloneDNSConfig c =
     map_option (\<lambda>v. v\<lparr>dns_Nameservers := map (\<lambda>n. n\<lparr>ns_SplitDomains := ns_SplitDomains n\<rparr>) (dns_Nameservers v)\<rparr>) c"

definition cloneMapTime :: "gotime option \<Rightarrow> gotime option" where
  "cloneMapTime t = (case t of None \<Rightarrow> None | Some v \<Rightarrow> Some v)"

definition cloneMapSignature :: "MapSignature option \<Rightarrow> MapSignature option" where
  "cloneMapSignature s = (case s of None \<Rightarrow> None | Some v \<Rightarrow> Some v)"

definition clone_acl_grant :: "ACLGrant \<Rightarrow> ACLGrant" where
  "clone_acl_grant g = g\<lparr>ag_DestinationCIDRs := append_to_nil (ag_DestinationCIDRs g)\<rparr>"

definition clone_peer :: "Peer \<Rightarrow> Peer" where
  "clone_peer p = p\<lparr>peer_AllowedIPs := append_to_nil (peer_AllowedIPs p),
     peer_EndpointExpiresAt := cloneMapTime (peer_EndpointExpiresAt p),
     peer_ACLGrants := map clone_acl_grant (peer_ACLGrants p)\<rparr>"

definition cloneNetworkMapSnapshot :: "NetworkMapSnapshot \<Rightarrow> NetworkMapSnapshot" where
  "cloneNetworkMapSnapshot s =
     s\<lparr>snap_Network := (snap_Network s)\<lparr>
          net_DNSConfig := cloneDNSConfig (net_DNSConfig (snap_Network s)),
          net_Applications := cloneApplications (net_Applications (snap_Network s)),
          net_Services := cloneServices (net_Services (snap_Network s)),
          net_SharePeerGrants := cloneSharePeerGrants (net_SharePeerGrants (snap_Network s))\<rparr>,
       snap_Node := (snap_Node s)\<lparr>
          node_EndpointExpiresAt := cloneMapTime (node_EndpointExpiresAt (snap_Node s)),
          node_KeyExpiresAt := cloneMapTime (node_KeyExpiresAt (snap_Node s))\<rparr>,
       snap_Peers := map_option (map clone_peer) (append_to_nil (snap_Peers s)),
       snap_Relays := append_to_nil (snap_Relays s),
       snap_MapSignature := cloneMapSignature (snap_MapSignature s)\<rparr>"

section \<open>Deltas\<close>

text \<open>The set of trimmed ids, in the order they were met.\<close>

fun id_set_loop :: "string \<Rightarrow> string list \<Rightarrow> string list \<Rightarrow> string list result" where
  "id_set_loop field acc [] = Inr acc"
| "id_set_loop field acc (value # vals) =
     (let i = TrimSpace value
      in if i = [] then Inl (Errorf (field @ '' contains an empty id''))
         else if i \<in> set acc then Inl (Errorf (field @ '' contains duplicate id %q''))
         else id_set_loop field (acc @ [i]) vals)"

definition normalizedIDSet :: "string \<Rightarrow> string list \<Rightarrow> string list result" where
  "normalizedIDSet field vals = id_set_loop field [] vals"

text \<open>
  The two loops of \<open>mergePeers\<close>, which \<open>mergeRelays\<close> repeats for another type: first the
  kept elements and the positions of their ids, then the upserts.
\<close>

fun keep_loop :: "('a \<Rightarrow> string) \<Rightarrow> string list \<Rightarrow> 'a list \<Rightarrow> (string \<rightharpoonup> nat) \<Rightarrow> 'a list \<Rightarrow> 'a list \<times> (string \<rightharpoonup> nat)" where
  "keep_loop key remove res index [] = (res, index)"
| "keep_loop key remove res index (x # xs) =
     (if key x \<in> set remove then keep_loop key remove res index xs
      else keep_loop key remove (res @ [x]) (index(key x \<mapsto> length res)) xs)"

fun upsert_loop :: "('a \<Rightarrow> string) \<Rightarrow> string \<Rightarrow> 'a list \<Rightarrow> (string \<rightharpoonup> nat) \<Rightarrow> string list \<Rightarrow> 'a list \<Rightarrow> 'a list result" where
  "upsert_loop key field res index seen [] = Inr res"
| "upsert_loop key field res index seen (x # xs) =
     (let i = TrimSpace (key x)
      in if i = [] then Inl (Errorf (field @ '' contains an empty id''))
         else if i \<in> set seen then Inl (Errorf (field @ '' contains duplicate id %q''))
         else case index i of
           Some position \<Rightarrow> upsert_loop key field (res[position := x]) index (i # seen) xs
         | None \<Rightarrow> upsert_loop key field (res @ [x]) (index(i \<mapsto> length res)) (i # seen) xs)"

definition mergePeers :: "Peer list \<Rightarrow> Peer list \<Rightarrow> string list \<Rightarrow> Peer list result" where
  "mergePeers current upserts removeIDs =
     (case normalizedIDSet ''peer_remove_ids'' removeIDs of
        Inl e \<Rightarrow> Inl e
      | Inr remove \<Rightarrow>
          (case keep_loop peer_ID remove [] (\<lambda>_. None) current of
             (res, index) \<Rightarrow> upsert_loop peer_ID ''peer_upserts'' res index [] upserts))"

definition mergeRelays :: "relay_endpoint list \<Rightarrow> relay_endpoint list \<Rightarrow> string list \<Rightarrow> relay_endpoint list result" where
  "mergeRelays current upserts removeIDs =
     (case normalizedIDSet ''relay_remove_ids'' removeIDs of
        Inl e \<Rightarrow> Inl e
      | Inr remove \<Rightarrow>
          (case keep_loop ep_ID remove [] (\<lambda>_. None) current of
             (res, index) \<Rightarrow> upsert_loop ep_ID ''relay_upserts'' res index [] upserts))"

text \<open>The assignments of \<open>applyMapDelta\<close> before the merges.\<close>

definition delta_fields :: "NetworkMapSnapshot \<Rightarrow> MapDelta \<Rightarrow> NetworkMapSnapshot" where
  "delta_fields next delta =
     next\<lparr>snap_Network := (case delta_Network delta of None \<Rightarrow> snap_Network next | Some n \<Rightarrow> n),
          snap_Node := (case delta_Node delta of None \<Rightarrow> snap_Node next | Some n \<Rightarrow> n),
          snap_STUNEndpoints := (case delta_STUNEndpoints delta of None \<Rightarrow> snap_STUNEndpoints next | Some es \<Rightarrow> es),
          snap_RelayCredential := (case delta_RelayCredential delta of None \<Rightarrow> snap_RelayCredential next | Some c \<Rightarrow> Some c)\<rparr>"

definition applyMapDelta :: "NetworkMapSnapshot \<Rightarrow> MapDelta \<Rightarrow> NetworkMapSnapshot result" where
  "applyMapDelta current delta =
     (let next = delta_fields (cloneNetworkMapSnapshot current) delta
      in case mergePeers (elems (snap_Peers next)) (delta_PeerUpserts delta) (delta_PeerRemoveIDs delta) of
           Inl e \<Rightarrow> Inl e
         | Inr peers \<Rightarrow>
             (case mergeRelays (elems (snap_Relays next)) (delta_RelayUpserts delta) (delta_RelayRemoveIDs delta) of
                Inl e \<Rightarrow> Inl e
              | Inr relays \<Rightarrow>
                  Inr (cloneNetworkMapSnapshot (next\<lparr>snap_Peers := Some peers, snap_Relays := Some relays\<rparr>))))"

section \<open>Applying an event\<close>

definition currentMapHash :: "NetworkMapSnapshot \<Rightarrow> string" where
  "currentMapHash s = (case snap_MapSignature s of None \<Rightarrow> [] | Some sig \<Rightarrow> TrimSpace (sig_PayloadHash sig))"

text \<open>
  The code outside this repository that verification rests on: the digest, the encoding of a relay
  endpoint, the signature algorithm and the relay module's check.
\<close>

record env =
  env_sha256 :: "string \<Rightarrow> string"
  env_relay_json :: "relay_endpoint \<Rightarrow> json"
  env_verify :: "string \<Rightarrow> string \<Rightarrow> string \<Rightarrow> bool"
  env_relay_ok :: "relay_endpoint list \<Rightarrow> err"

definition verifyMapStreamResult ::
  "env \<Rightarrow> NetworkMapSnapshot \<Rightarrow> SigningTrustBundle \<Rightarrow> gotime \<Rightarrow> NetworkMapSnapshot result" where
  "verifyMapStreamResult env snapshot trust now =
     require (wrap ''validate map stream result'' (ValidateNetworkMapSnapshot (env_relay_ok env) snapshot))
       (case snap_MapSignature snapshot of
          None \<Rightarrow> Inl (Errorf ''map stream result signature is missing'')
        | Some sig \<Rightarrow>
            (case Resolve (env_sha256 env) trust (sig_KeyID sig) (UTC now) of
               Inl e \<Rightarrow> Inl e
             | Inr key \<Rightarrow>
                 require (VerifyNetworkMapSnapshotSignatureAt (env_sha256 env) (env_relay_json env) (env_verify env)
                            snapshot (key_PublicKey key) (UTC now))
                   (Inr snapshot)))"

text \<open>\<open>return NetworkMapSnapshot{}, err\<close> and \<open>return next, nil\<close>; the zero snapshot is \<open>None\<close>.\<close>

definition returns :: "NetworkMapSnapshot result \<Rightarrow> NetworkMapSnapshot option \<times> err" where
  "returns r = (case r of Inl e \<Rightarrow> (None, Some e) | Inr s \<Rightarrow> (Some s, None))"

definition already_applied :: "NetworkMapSnapshot \<Rightarrow> MapStreamEvent \<Rightarrow> bool" where
  "already_applied current event =
     (MapRevision_Equal (snap_Revision current) (ev_To event) \<and>
      (case (snap_MapSignature current, ev_ResultSignature event) of
         (Some m, Some r) \<Rightarrow> sig_PayloadHash m = sig_PayloadHash r
       | _ \<Rightarrow> False))"

definition resync :: "string \<Rightarrow> NetworkMapSnapshot option \<times> err" where
  "resync m = (None, Some (Wrap m ErrMapStreamResyncRequired))"

definition ApplyMapStreamEvent ::
  "env \<Rightarrow> NetworkMapSnapshot \<Rightarrow> MapStreamEvent \<Rightarrow> SigningTrustBundle \<Rightarrow> gotime \<Rightarrow> NetworkMapSnapshot option \<times> err" where
  "ApplyMapStreamEvent env current event trust now =
     (case validateMapStreamEvent event of
        Some e \<Rightarrow> (None, Some e)
      | None \<Rightarrow>
          if already_applied current event
          then (Some (cloneNetworkMapSnapshot current), Some ErrMapStreamEventAlreadyApplied)
          else if ev_Type event = ''heartbeat'' \<or> ev_Type event = ''checkpoint'' then
            (if \<not> MapRevision_Equal (snap_Revision current) (ev_To event)
             then resync ''checkpoint revision does not match cached revision''
             else if ev_BaseHash event \<noteq> [] \<and> ev_BaseHash event \<noteq> currentMapHash current
             then resync ''checkpoint base hash does not match cached map''
             else (Some (cloneNetworkMapSnapshot current), None))
          else if ev_Type event = ''snapshot'' \<or> ev_Type event = ''resync'' then
            (case ev_Snapshot event of
               None \<Rightarrow> (None, Some (Errorf ''panic: nil snapshot''))
             | Some s \<Rightarrow>
                 returns (verifyMapStreamResult env
                   ((cloneNetworkMapSnapshot s)\<lparr>snap_Revision := ev_To event,
                      snap_MapSignature := cloneMapSignature (ev_ResultSignature event)\<rparr>) trust now))
          else if ev_Type event = ''delta'' then
            (if \<not> MapRevision_Equal (snap_Revision current) (ev_From event)
             then resync ''delta base revision does not match cached revision''
             else if ev_BaseHash event \<noteq> currentMapHash current
             then resync ''delta base hash does not match cached map''
             else (case ev_Delta event of
               None \<Rightarrow> (None, Some (Errorf ''panic: nil delta''))
             | Some delta \<Rightarrow>
                 (case applyMapDelta current delta of
                    Inl e \<Rightarrow> (None, Some e)
                  | Inr next \<Rightarrow>
                      returns (verifyMapStreamResult env
                        (next\<lparr>snap_Revision := ev_To event,
                              snap_MapSignature := cloneMapSignature (ev_ResultSignature event)\<rparr>) trust now))))
          else (None, Some (Errorf ''unsupported map stream event type %q'')))"

section \<open>A merge is an update of a map from ids\<close>

text \<open>The elements of a list by their id.\<close>

definition by_id :: "('a \<Rightarrow> string) \<Rightarrow> 'a list \<Rightarrow> string \<rightharpoonup> 'a" where
  "by_id key xs = map_of (map (\<lambda>x. (key x, x)) xs)"

lemma by_id_Nil [simp]: "by_id key [] = Map.empty"
  by (simp add: by_id_def)

lemma by_id_Cons [simp]: "by_id key (x # xs) = (by_id key xs)(key x \<mapsto> x)"
  by (simp add: by_id_def)

lemma by_id_append: "by_id key (xs @ ys) = by_id key ys ++ by_id key xs"
  by (simp add: by_id_def map_of_append)

lemma dom_by_id: "dom (by_id key xs) = key ` set xs"
  by (simp add: by_id_def dom_map_of_conv_image_fst image_image)

lemma by_id_map: "(\<And>x. key (f x) = key x) \<Longrightarrow> by_id key (map f xs) = map_option f \<circ> by_id key xs"
  by (induction xs) (auto simp: fun_eq_iff)

lemma by_id_SomeD: "by_id key xs i = Some x \<Longrightarrow> x \<in> set xs \<and> key x = i"
  by (induction xs) (auto split: if_splits)

lemma by_id_None: "by_id key xs i = None \<longleftrightarrow> i \<notin> key ` set xs"
  by (metis dom_by_id domIff)

text \<open>
  The reference for a merge: of the elements that are not removed, the last one with an id gives way to
  the upsert with that id, and the upserts without such an element follow in their order. The ids
  of upserts are trimmed, those of elements are not.
\<close>

fun override :: "(string \<rightharpoonup> 'a) \<Rightarrow> (string \<times> 'a) list \<Rightarrow> 'a list" where
  "override m [] = []"
| "override m ((k, x) # al) = (if k \<in> fst ` set al then x else case m k of Some u \<Rightarrow> u | None \<Rightarrow> x) # override m al"

definition merged :: "('a \<Rightarrow> string) \<Rightarrow> 'a list \<Rightarrow> 'a list \<Rightarrow> string list \<Rightarrow> 'a list" where
  "merged key current upserts removeIDs =
     (let kept = filter (\<lambda>x. key x \<notin> TrimSpace ` set removeIDs) current
      in override (by_id (TrimSpace \<circ> key) upserts) (map (\<lambda>x. (key x, x)) kept) @
         filter (\<lambda>u. TrimSpace (key u) \<notin> key ` set kept) upserts)"

lemma override_empty [simp]: "override Map.empty al = map snd al"
  by (induction "Map.empty :: string \<rightharpoonup> 'a" al rule: override.induct) auto

lemma override_fresh: "k \<notin> fst ` set al \<Longrightarrow> override (m(k \<mapsto> x)) al = override m al"
  by (induction m al rule: override.induct) auto

lemma override_update:
  assumes "n < length al" "fst (al ! n) = k" "k \<notin> set (drop (Suc n) (map fst al))" "m k = None"
  shows "override m (al[n := (k, x)]) = override (m(k \<mapsto> x)) al"
  using assms(1-3)
proof (induction al arbitrary: n)
  case (Cons a al)
  show ?case
  proof (cases n)
    case 0
    then show ?thesis using Cons.prems assms(4) override_fresh [of k al m x] by (cases a) (auto simp: fun_upd_same simp del: fun_upd_apply)
  next
    case (Suc j)
    then have j: "j < length al" "fst (al ! j) = k" "k \<notin> set (drop (Suc j) (map fst al))" using Cons.prems by auto
    have "map fst (al[j := (k, x)]) = map fst al" using j(1,2) by (simp add: map_update list_update_same_conv)
    then have f: "fst ` set (al[j := (k, x)]) = fst ` set al" by (metis list.set_map)
    have "k \<in> fst ` set al" using j(1,2) nth_mem by (metis image_eqI)
    then show ?thesis using Cons.IH [OF j] Suc f by (cases a) auto
  qed
qed simp

lemma override_snoc:
  "k \<notin> fst ` set al \<Longrightarrow> m k = None \<Longrightarrow> override m (al @ [(k, x)]) = override (m(k \<mapsto> x)) al @ [x]"
  by (induction m al rule: override.induct) auto

text \<open>The index of the loops: the last position of every id.\<close>

definition indexes :: "string list \<Rightarrow> (string \<rightharpoonup> nat) \<Rightarrow> bool" where
  "indexes ks index \<longleftrightarrow> (\<forall>k n. index k = Some n \<longleftrightarrow> n < length ks \<and> ks ! n = k \<and> k \<notin> set (drop (Suc n) ks))"

lemma indexes_empty: "indexes [] (\<lambda>_. None)"
  by (simp add: indexes_def)

lemma indexes_None:
  assumes "indexes ks index" "index k = None"
  shows "k \<notin> set ks"
proof
  assume "k \<in> set ks"
  then obtain ys zs where "ks = ys @ k # zs" "k \<notin> set zs" using split_list_last by metis
  then have "index k = Some (length ys)" using assms(1) by (auto simp: indexes_def)
  then show False using assms(2) by simp
qed

lemma indexes_snoc:
  assumes "indexes ks index"
  shows "indexes (ks @ [k]) (index(k \<mapsto> length ks))"
  unfolding indexes_def
proof (intro allI)
  fix i n
  have old: "index i = Some n \<longleftrightarrow> n < length ks \<and> ks ! n = i \<and> i \<notin> set (drop (Suc n) ks)"
    using assms by (simp add: indexes_def)
  consider "n < length ks" | "n = length ks" | "length ks < n" by linarith
  then show "(index(k \<mapsto> length ks)) i = Some n \<longleftrightarrow>
      n < length (ks @ [k]) \<and> (ks @ [k]) ! n = i \<and> i \<notin> set (drop (Suc n) (ks @ [k]))"
    using old by cases (auto simp: nth_append)
qed

lemma keep_loop_spec:
  assumes "indexes (map key res) index" and "keep_loop key remove res index xs = (out, index')"
  shows "out = res @ filter (\<lambda>x. key x \<notin> set remove) xs \<and> indexes (map key out) index'"
  using assms
proof (induction xs arbitrary: res index)
  case (Cons x xs)
  show ?case
  proof (cases "key x \<in> set remove")
    case False
    have i: "indexes (map key (res @ [x])) (index(key x \<mapsto> length res))"
      using indexes_snoc [OF Cons.prems(1), of "key x"] by simp
    have "keep_loop key remove (res @ [x]) (index(key x \<mapsto> length res)) xs = (out, index')" using Cons.prems(2) False by simp
    from Cons.IH [OF i this] show ?thesis using False by auto
  qed (use Cons in simp)
qed simp

lemma upsert_loop_Inr_iff:
  "ok (upsert_loop key field res index seen xs) \<longleftrightarrow>
     list_all (\<lambda>x. TrimSpace (key x) \<noteq> []) xs \<and> distinct (map (TrimSpace \<circ> key) xs) \<and>
     (TrimSpace \<circ> key) ` set xs \<inter> set seen = {}"
  by (induction xs arbitrary: res index seen) (auto simp: Let_def split: option.splits)

lemma upsert_loop_spec:
  assumes "indexes (map fst al) index" and "upsert_loop key field (map snd al) index seen xs = Inr out"
  shows "out = override (by_id (TrimSpace \<circ> key) xs) al @ filter (\<lambda>u. TrimSpace (key u) \<notin> fst ` set al) xs"
  using assms
proof (induction xs arbitrary: al index seen)
  case (Cons x xs)
  let ?i = "TrimSpace (key x)" and ?m = "by_id (TrimSpace \<circ> key) xs"
  have "distinct (map (TrimSpace \<circ> key) (x # xs))"
    using Cons.prems(2) upsert_loop_Inr_iff [of key field "map snd al" index seen "x # xs"] by (simp add: ok_iff)
  then have new: "?i \<notin> (TrimSpace \<circ> key) ` set xs" by simp
  then have none: "?m ?i = None" by (simp add: by_id_None)
  have step: "(case index ?i of
        Some position \<Rightarrow> upsert_loop key field ((map snd al)[position := x]) index (?i # seen) xs
      | None \<Rightarrow> upsert_loop key field (map snd al @ [x]) (index(?i \<mapsto> length al)) (?i # seen) xs) = Inr out"
    using Cons.prems(2) unfolding upsert_loop.simps Let_def length_map by (metis sum.distinct(1))
  show ?case
  proof (cases "index ?i")
    case None
    have k: "?i \<notin> fst ` set al" using indexes_None [OF Cons.prems(1) None] by simp
    have "indexes (map fst (al @ [(?i, x)])) (index(?i \<mapsto> length al))" using indexes_snoc [OF Cons.prems(1), of ?i] by simp
    moreover have "upsert_loop key field (map snd (al @ [(?i, x)])) (index(?i \<mapsto> length al)) (?i # seen) xs = Inr out"
      using step None by simp
    ultimately have "out = override ?m (al @ [(?i, x)]) @ filter (\<lambda>u. TrimSpace (key u) \<notin> fst ` set (al @ [(?i, x)])) xs"
      by (rule Cons.IH)
    moreover have "filter (\<lambda>u. TrimSpace (key u) \<notin> fst ` set (al @ [(?i, x)])) xs = filter (\<lambda>u. TrimSpace (key u) \<notin> fst ` set al) xs"
      using new by (intro filter_cong) (auto simp: image_iff)
    ultimately show ?thesis using k none override_snoc [where m = ?m, OF k none] by (simp add: comp_def del: fun_upd_apply)
  next
    case (Some n)
    then have n: "n < length al" "fst (al ! n) = ?i" "?i \<notin> set (drop (Suc n) (map fst al))"
      using Cons.prems(1) by (auto simp: indexes_def)
    have f: "map fst (al[n := (?i, x)]) = map fst al" using n(1,2) by (simp add: map_update list_update_same_conv)
    have "upsert_loop key field (map snd (al[n := (?i, x)])) index (?i # seen) xs = Inr out"
      using step Some by (simp add: map_update)
    then have "out = override ?m (al[n := (?i, x)]) @ filter (\<lambda>u. TrimSpace (key u) \<notin> fst ` set (al[n := (?i, x)])) xs"
      by (rule Cons.IH [of "al[n := (?i, x)]", unfolded f, OF Cons.prems(1)])
    moreover have "fst ` set (al[n := (?i, x)]) = fst ` set al" using f by (metis list.set_map)
    moreover have "?i \<in> fst ` set al" using n(1,2) nth_mem by (metis image_eqI)
    ultimately show ?thesis using override_update [where m = ?m, OF n none] by (simp add: comp_def del: fun_upd_apply)
  qed
qed simp

lemma id_set_loop_Inr:
  "id_set_loop field acc vals = Inr out \<Longrightarrow> out = acc @ map TrimSpace vals"
  by (induction vals arbitrary: acc) (fastforce simp: Let_def split: if_splits)+

lemma id_set_loop_ok:
  "ok (id_set_loop field acc vals) \<longleftrightarrow>
     list_all (\<lambda>v. TrimSpace v \<noteq> []) vals \<and> distinct (map TrimSpace vals) \<and> TrimSpace ` set vals \<inter> set acc = {}"
  by (induction vals arbitrary: acc) (auto simp: Let_def)

lemma normalizedIDSet_ok:
  "ok (normalizedIDSet field vals) \<longleftrightarrow> list_all (\<lambda>v. TrimSpace v \<noteq> []) vals \<and> distinct (map TrimSpace vals)"
  by (simp add: normalizedIDSet_def id_set_loop_ok)

lemma normalizedIDSet_Inr: "normalizedIDSet field vals = Inr out \<Longrightarrow> out = map TrimSpace vals"
  using id_set_loop_Inr [of field "[]"] by (simp add: normalizedIDSet_def)

lemma by_id_filter: "by_id key (filter (\<lambda>x. key x \<notin> R) xs) = by_id key xs |` (- R)"
  by (induction xs) (auto simp: fun_eq_iff restrict_map_def)

text \<open>On distinct ids and trimmed upserts a merge is an update of the map from ids.\<close>

definition trimmed_ids :: "('a \<Rightarrow> string) \<Rightarrow> 'a list \<Rightarrow> bool" where
  "trimmed_ids key xs = list_all (\<lambda>x. TrimSpace (key x) = key x) xs"

lemma override_distinct:
  "distinct (map fst al) \<Longrightarrow> override m al = map (\<lambda>(k, x). case m k of Some u \<Rightarrow> u | None \<Rightarrow> x) al"
  by (induction m al rule: override.induct) auto

lemma overridden_by_id:
  assumes "distinct (map key kept)" "distinct (map key ups)"
  defines "out \<equiv> map (\<lambda>x. case by_id key ups (key x) of Some u \<Rightarrow> u | None \<Rightarrow> x) kept @ filter (\<lambda>u. key u \<notin> key ` set kept) ups"
  shows "by_id key out = by_id key kept ++ by_id key ups" and "distinct (map key out)"
proof -
  let ?f = "\<lambda>x. case by_id key ups (key x) of Some u \<Rightarrow> u | None \<Rightarrow> x"
  have f: "key (?f x) = key x" for x using by_id_SomeD [of key ups "key x"] by (auto split: option.splits)
  have "map key out = map key kept @ map key (filter (\<lambda>u. key u \<notin> key ` set kept) ups)" by (simp add: out_def f)
  moreover have "distinct (map key (filter (\<lambda>u. key u \<notin> key ` set kept) ups))" using assms(2) by (rule distinct_map_filter)
  ultimately show "distinct (map key out)" using assms(1) by (auto simp: image_iff)
  have n: "by_id key (filter (\<lambda>u. key u \<notin> key ` set kept) ups) i = (if i \<in> key ` set kept then None else by_id key ups i)" for i
    using by_id_filter [of key "key ` set kept" ups] by simp
  have "by_id key out i = (by_id key kept ++ by_id key ups) i" for i
  proof (cases "by_id key kept i")
    case None
    then have "i \<notin> key ` set kept" using by_id_None by metis
    then show ?thesis using n [of i] None by (simp add: out_def by_id_append by_id_map [of key ?f, OF f] map_add_def split: option.split)
  next
    case (Some x)
    then have "key x = i" "i \<in> key ` set kept" using by_id_SomeD [OF Some] by auto
    then show ?thesis using n [of i] Some by (simp add: out_def by_id_append by_id_map [of key ?f, OF f] map_add_def split: option.split)
  qed
  then show "by_id key out = by_id key kept ++ by_id key ups" by blast
qed

lemma merged_by_id:
  assumes "distinct (map key current)" and t: "trimmed_ids key upserts" and d: "distinct (map (TrimSpace \<circ> key) upserts)"
  shows "by_id key (merged key current upserts removeIDs) = (by_id key current |` (- TrimSpace ` set removeIDs)) ++ by_id key upserts"
    and "distinct (map key (merged key current upserts removeIDs))"
proof -
  define kept where "kept = filter (\<lambda>x. key x \<notin> TrimSpace ` set removeIDs) current"
  have k: "distinct (map key kept)" "by_id key kept = by_id key current |` (- TrimSpace ` set removeIDs)"
    using assms(1) by_id_filter unfolding kept_def by (blast intro: distinct_map_filter)+
  have "map (TrimSpace \<circ> key) upserts = map key upserts" using t by (simp add: trimmed_ids_def list_all_iff)
  then have u: "distinct (map key upserts)" using d by (simp only:)
  have b: "by_id (TrimSpace \<circ> key) upserts = by_id key upserts"
    unfolding by_id_def using t by (intro arg_cong [of _ _ map_of]) (simp add: trimmed_ids_def list_all_iff)
  have f: "filter (\<lambda>u. TrimSpace (key u) \<notin> key ` set kept) upserts = filter (\<lambda>u. key u \<notin> key ` set kept) upserts"
    using t by (intro filter_cong) (auto simp: trimmed_ids_def list_all_iff)
  have "distinct (map fst (map (\<lambda>x. (key x, x)) kept))" using k(1) by (simp add: comp_def)
  then have m: "merged key current upserts removeIDs =
      map (\<lambda>x. case by_id key upserts (key x) of Some u \<Rightarrow> u | None \<Rightarrow> x) kept @ filter (\<lambda>u. key u \<notin> key ` set kept) upserts"
    unfolding merged_def Let_def kept_def [symmetric] b f by (simp add: override_distinct)
  show "by_id key (merged key current upserts removeIDs) = (by_id key current |` (- TrimSpace ` set removeIDs)) ++ by_id key upserts"
    and "distinct (map key (merged key current upserts removeIDs))"
    using overridden_by_id [OF k(1) u] unfolding m k(2) by simp_all
qed

lemma merged_map:
  assumes "\<And>x. key (f x) = key x" and "\<And>x. f (f x) = f x"
  shows "map f (merged key (map f current) upserts removeIDs) = map f (merged key current upserts removeIDs)"
proof -
  let ?kept = "filter (\<lambda>x. key x \<notin> TrimSpace ` set removeIDs) current"
  have "filter (\<lambda>x. key x \<notin> TrimSpace ` set removeIDs) (map f current) = map f ?kept"
    by (simp add: filter_map comp_def assms(1))
  moreover have "map f (override m (map (\<lambda>x. (key x, f x)) xs)) = map f (override m (map (\<lambda>x. (key x, x)) xs))" for m xs
    by (induction xs) (auto simp: assms(2) image_image split: option.splits)
  moreover have "key ` set (map f ?kept) = key ` set ?kept" by (simp add: image_image assms(1))
  ultimately show ?thesis unfolding merged_def Let_def by (simp add: comp_def assms(1))
qed

text \<open>
  What the two merges of the code share: they succeed when the removals and the upserts are distinct
  and not blank after trimming, and then compute the reference.
\<close>

locale keyed_merge =
  fixes key :: "'a \<Rightarrow> string"
    and merge :: "'a list \<Rightarrow> 'a list \<Rightarrow> string list \<Rightarrow> 'a list result"
    and removals :: string and upsertions :: string
  assumes merge_eq: "merge current upserts removeIDs =
     (case normalizedIDSet removals removeIDs of
        Inl e \<Rightarrow> Inl e
      | Inr remove \<Rightarrow>
          (case keep_loop key remove [] (\<lambda>_. None) current of
             (res, index) \<Rightarrow> upsert_loop key upsertions res index [] upserts))"
begin

lemma merge_ok:
  "ok (merge current upserts removeIDs) \<longleftrightarrow>
     list_all (\<lambda>v. TrimSpace v \<noteq> []) removeIDs \<and> distinct (map TrimSpace removeIDs) \<and>
     list_all (\<lambda>x. TrimSpace (key x) \<noteq> []) upserts \<and> distinct (map (TrimSpace \<circ> key) upserts)"
  using normalizedIDSet_ok [of removals removeIDs]
  by (cases "normalizedIDSet removals removeIDs") (auto simp: merge_eq upsert_loop_Inr_iff split: prod.splits)

lemma merge_merged:
  assumes "merge current upserts removeIDs = Inr out"
  shows "out = merged key current upserts removeIDs"
proof -
  obtain res index where k: "keep_loop key (map TrimSpace removeIDs) [] (\<lambda>_. None) current = (res, index)"
    by (cases "keep_loop key (map TrimSpace removeIDs) [] (\<lambda>_. None) current")
  have up: "upsert_loop key upsertions res index [] upserts = Inr out"
    using assms k normalizedIDSet_Inr unfolding merge_eq
    by (cases "normalizedIDSet removals removeIDs") fastforce+
  have i: "indexes (map key []) (\<lambda>_. None)" by (simp add: indexes_empty)
  have r: "res = filter (\<lambda>x. key x \<notin> TrimSpace ` set removeIDs) current" using keep_loop_spec [OF i k] by simp
  have ix: "indexes (map key res) index" using keep_loop_spec [OF i k] by blast
  let ?al = "map (\<lambda>x. (key x, x)) res"
  have "indexes (map fst ?al) index" "upsert_loop key upsertions (map snd ?al) index [] upserts = Inr out"
    using ix up by (simp_all add: comp_def)
  from upsert_loop_spec [OF this] show ?thesis by (simp add: merged_def Let_def r image_image)
qed

end

interpretation peers: keyed_merge peer_ID mergePeers "''peer_remove_ids''" "''peer_upserts''"
  by unfold_locales (simp add: mergePeers_def)

interpretation relays: keyed_merge ep_ID mergeRelays "''relay_remove_ids''" "''relay_upserts''"
  by unfold_locales (simp add: mergeRelays_def)

end
