(* ===== verification/Stream_Trace.thy ===== *)
theory Stream_Trace
  imports Map_Stream
begin

text \<open>
  What a client that follows the map stream can rely on: copies of a map, deltas as updates of maps
  from ids, the authenticity of every map an event produces, and the sequence of caches that a run
  of events goes through.
\<close>

section \<open>Copies\<close>

text \<open>A map without slices that are empty but not nil, in the fields where JSON shows the difference.\<close>

definition compact_peer :: "Peer \<Rightarrow> bool" where
  "compact_peer p \<longleftrightarrow> peer_AllowedIPs p \<noteq> Some [] \<and> list_all (\<lambda>g. ag_DestinationCIDRs g \<noteq> Some []) (peer_ACLGrants p)"

definition compact :: "NetworkMapSnapshot \<Rightarrow> bool" where
  "compact s \<longleftrightarrow>
     list_all (\<lambda>a. list_all (\<lambda>r. ar_CIDRs r \<noteq> Some []) (app_Routes a)) (net_Applications (snap_Network s)) \<and>
     list_all (\<lambda>v. svc_Ports v \<noteq> Some []) (net_Services (snap_Network s)) \<and>
     snap_Peers s \<noteq> Some [] \<and> list_all compact_peer (elems (snap_Peers s)) \<and> snap_Relays s \<noteq> Some []"

lemma map_id_iff: "map f xs = xs \<longleftrightarrow> list_all (\<lambda>x. f x = x) xs"
  by (induction xs) auto

lemma cloneMapTime_id [simp]: "cloneMapTime t = t"
  by (simp add: cloneMapTime_def split: option.split)

lemma cloneMapSignature_id [simp]: "cloneMapSignature t = t"
  by (simp add: cloneMapSignature_def split: option.split)

lemma cloneDNSConfig_id [simp]: "cloneDNSConfig c = c"
  by (cases c) (simp_all add: cloneDNSConfig_def)

lemma clone_acl_grant_iff: "clone_acl_grant g = g \<longleftrightarrow> ag_DestinationCIDRs g \<noteq> Some []"
  by (cases g) (simp add: clone_acl_grant_def)

lemma clone_peer_iff: "clone_peer p = p \<longleftrightarrow> compact_peer p"
  by (cases p) (simp add: clone_peer_def compact_peer_def map_id_iff clone_acl_grant_iff)

lemma cloneApplications_iff:
  "cloneApplications apps = apps \<longleftrightarrow> list_all (\<lambda>a. list_all (\<lambda>r. ar_CIDRs r \<noteq> Some []) (app_Routes a)) apps"
proof -
  have r: "r\<lparr>ar_CIDRs := append_to_nil (ar_CIDRs r)\<rparr> = r \<longleftrightarrow> ar_CIDRs r \<noteq> Some []" for r :: ApplicationRoute
    by (cases r) simp
  have "a\<lparr>app_Routes := rs\<rparr> = a \<longleftrightarrow> rs = app_Routes a" for a :: Application and rs
    by (cases a) auto
  then show ?thesis by (simp add: cloneApplications_def map_id_iff r)
qed

lemma cloneServices_iff: "cloneServices svcs = svcs \<longleftrightarrow> list_all (\<lambda>v. svc_Ports v \<noteq> Some []) svcs"
proof -
  have "v\<lparr>svc_Ports := append_to_nil (svc_Ports v)\<rparr> = v \<longleftrightarrow> svc_Ports v \<noteq> Some []" for v :: AdvertisedService
    by (cases v) simp
  then show ?thesis by (simp add: cloneServices_def map_id_iff)
qed

lemma clone_fields [simp]:
  "snap_Revision (cloneNetworkMapSnapshot s) = snap_Revision s"
  "snap_Peers (cloneNetworkMapSnapshot s) = map_option (map clone_peer) (append_to_nil (snap_Peers s))"
  "snap_Relays (cloneNetworkMapSnapshot s) = append_to_nil (snap_Relays s)"
  "snap_MapSignature (cloneNetworkMapSnapshot s) = snap_MapSignature s"
  "snap_RegistrationBinding (cloneNetworkMapSnapshot s) = snap_RegistrationBinding s"
  "snap_RelayCredential (cloneNetworkMapSnapshot s) = snap_RelayCredential s"
  "snap_Node (cloneNetworkMapSnapshot s) = snap_Node s"
  "snap_STUNEndpoints (cloneNetworkMapSnapshot s) = snap_STUNEndpoints s"
  by (simp_all add: cloneNetworkMapSnapshot_def)

lemma elems_map_option [simp]: "elems (map_option (map f) x) = map f (elems x)"
  by (cases x) auto

lemma clone_iff: "cloneNetworkMapSnapshot s = s \<longleftrightarrow> compact s"
proof -
  have peers: "map_option (map clone_peer) (append_to_nil x) = x \<longleftrightarrow> x \<noteq> Some [] \<and> list_all compact_peer (elems x)" for x
    by (cases x) (auto simp: append_to_nil_def map_id_iff clone_peer_iff)
  have net: "n\<lparr>net_Applications := cloneApplications (net_Applications n),
      net_Services := cloneServices (net_Services n)\<rparr> = n \<longleftrightarrow>
    cloneApplications (net_Applications n) = net_Applications n \<and> cloneServices (net_Services n) = net_Services n" for n :: Network
    by (cases n) auto
  have snap: "s\<lparr>snap_Network := n, snap_Peers := ps, snap_Relays := rs\<rparr> = s \<longleftrightarrow> n = snap_Network s \<and> ps = snap_Peers s \<and> rs = snap_Relays s" for n ps rs
    by (cases s) auto
  show ?thesis
    by (simp add: cloneNetworkMapSnapshot_def snap net peers compact_def cloneApplications_iff cloneServices_iff conj_ac)
qed

lemma compact_clone [simp]: "compact (cloneNetworkMapSnapshot s)"
proof -
  have nil: "append_to_nil x \<noteq> Some []" for x :: "'a slice"
    by (simp add: append_to_nil_def)
  show ?thesis
    unfolding compact_def
    by (auto simp: cloneNetworkMapSnapshot_def cloneApplications_def cloneServices_def compact_peer_def clone_peer_def
        clone_acl_grant_def list_all_iff nil)
qed

lemma compact_ignores [simp]:
  "compact (s\<lparr>snap_Revision := r\<rparr>) = compact s" "compact (s\<lparr>snap_MapSignature := x\<rparr>) = compact s"
  by (simp_all add: compact_def)

text \<open>
  A copy of a map differs from the map only where a slice is empty and not nil: copying is the
  identity exactly on maps without such slices, and copying twice is copying once.
\<close>

theorem clone_exact:
  "(cloneNetworkMapSnapshot s = s \<longleftrightarrow> compact s) \<and>
   cloneNetworkMapSnapshot (cloneNetworkMapSnapshot s) = cloneNetworkMapSnapshot s"
  using clone_iff compact_clone by blast

section \<open>Deltas\<close>

text \<open>The peers and the relays of a map by id, which is what a delta speaks about.\<close>

definition peers_of :: "NetworkMapSnapshot \<Rightarrow> string \<rightharpoonup> Peer" where
  "peers_of s = by_id peer_ID (elems (snap_Peers s))"

definition relays_of :: "NetworkMapSnapshot \<Rightarrow> string \<rightharpoonup> relay_endpoint" where
  "relays_of s = by_id ep_ID (elems (snap_Relays s))"

definition distinct_ids :: "NetworkMapSnapshot \<Rightarrow> bool" where
  "distinct_ids s \<longleftrightarrow> distinct (map peer_ID (elems (snap_Peers s))) \<and> distinct (map ep_ID (elems (snap_Relays s)))"

definition wf_delta :: "MapDelta \<Rightarrow> bool" where
  "wf_delta d \<longleftrightarrow>
     list_all (\<lambda>v. TrimSpace v \<noteq> []) (delta_PeerRemoveIDs d) \<and> distinct (map TrimSpace (delta_PeerRemoveIDs d)) \<and>
     list_all (\<lambda>p. TrimSpace (peer_ID p) \<noteq> []) (delta_PeerUpserts d) \<and> distinct (map (TrimSpace \<circ> peer_ID) (delta_PeerUpserts d)) \<and>
     list_all (\<lambda>v. TrimSpace v \<noteq> []) (delta_RelayRemoveIDs d) \<and> distinct (map TrimSpace (delta_RelayRemoveIDs d)) \<and>
     list_all (\<lambda>r. TrimSpace (ep_ID r) \<noteq> []) (delta_RelayUpserts d) \<and> distinct (map (TrimSpace \<circ> ep_ID) (delta_RelayUpserts d))"

lemma applyMapDelta_ok: "ok (applyMapDelta current delta) \<longleftrightarrow> wf_delta delta"
proof -
  let ?n = "delta_fields (cloneNetworkMapSnapshot current) delta"
  have "ok (mergePeers (elems (snap_Peers ?n)) (delta_PeerUpserts delta) (delta_PeerRemoveIDs delta)) \<and>
        ok (mergeRelays (elems (snap_Relays ?n)) (delta_RelayUpserts delta) (delta_RelayRemoveIDs delta)) \<longleftrightarrow> wf_delta delta"
    unfolding peers.merge_ok relays.merge_ok wf_delta_def by blast
  then show ?thesis by (auto simp: applyMapDelta_def Let_def ok_iff split: sum.splits)
qed

lemma clone_peer_ID [simp]: "peer_ID (clone_peer p) = peer_ID p"
  by (simp add: clone_peer_def)

lemma peers_of_clone: "peers_of (cloneNetworkMapSnapshot s) = map_option clone_peer \<circ> peers_of s"
  by (simp add: peers_of_def by_id_map)

lemma clone_peer_idem [simp]: "clone_peer (clone_peer p) = clone_peer p"
  by (simp add: clone_peer_def clone_acl_grant_def)

lemma map_option_restrict_add:
  "map_option f \<circ> ((m |` A) ++ m') = ((map_option f \<circ> m) |` A) ++ (map_option f \<circ> m')"
  by (auto simp: fun_eq_iff restrict_map_def map_add_def split: option.splits)

text \<open>The network of a map as it is copied.\<close>

definition clone_network :: "Network \<Rightarrow> Network" where
  "clone_network n = n\<lparr>net_Applications := cloneApplications (net_Applications n), net_Services := cloneServices (net_Services n)\<rparr>"

lemma clone_network_eq: "snap_Network (cloneNetworkMapSnapshot s) = clone_network (snap_Network s)"
  by (simp add: cloneNetworkMapSnapshot_def clone_network_def)

lemma clone_network_idem [simp]: "clone_network (clone_network n) = clone_network n"
  by (simp add: clone_network_def cloneApplications_def cloneServices_def comp_def)

lemma applyMapDelta_merges:
  assumes a: "applyMapDelta current delta = Inr next_map"
  shows "elems (snap_Peers next_map) =
      map clone_peer (merged peer_ID (elems (snap_Peers current)) (delta_PeerUpserts delta) (delta_PeerRemoveIDs delta))" (is ?P)
    and "elems (snap_Relays next_map) =
      merged ep_ID (elems (snap_Relays current)) (delta_RelayUpserts delta) (delta_RelayRemoveIDs delta)" (is ?R)
    and "snap_Network next_map = clone_network (case delta_Network delta of None \<Rightarrow> snap_Network current | Some n \<Rightarrow> n)" (is ?N)
    and "snap_Node next_map = (case delta_Node delta of None \<Rightarrow> snap_Node current | Some n \<Rightarrow> n)" (is ?O)
    and "snap_STUNEndpoints next_map = (case delta_STUNEndpoints delta of None \<Rightarrow> snap_STUNEndpoints current | Some es \<Rightarrow> es)" (is ?S)
    and "snap_RelayCredential next_map = (case delta_RelayCredential delta of None \<Rightarrow> snap_RelayCredential current | Some c \<Rightarrow> Some c)" (is ?C)
proof -
  let ?n = "delta_fields (cloneNetworkMapSnapshot current) delta"
  obtain ps rs where ps: "mergePeers (elems (snap_Peers ?n)) (delta_PeerUpserts delta) (delta_PeerRemoveIDs delta) = Inr ps"
    and rs: "mergeRelays (elems (snap_Relays ?n)) (delta_RelayUpserts delta) (delta_RelayRemoveIDs delta) = Inr rs"
    and nx: "next_map = cloneNetworkMapSnapshot (?n\<lparr>snap_Peers := Some ps, snap_Relays := Some rs\<rparr>)"
    using a by (auto simp: applyMapDelta_def Let_def split: sum.splits)
  have n: "elems (snap_Peers ?n) = map clone_peer (elems (snap_Peers current))" "elems (snap_Relays ?n) = elems (snap_Relays current)"
    by (simp_all add: delta_fields_def)
  show ?P
    using peers.merge_merged [OF ps] merged_map [of peer_ID clone_peer] by (simp add: nx n)
  show ?R using relays.merge_merged [OF rs] by (simp add: nx n)
  show ?N ?O ?S ?C
    by (simp_all add: nx clone_network_eq delta_fields_def split: option.split)
qed

text \<open>
  C4. A delta is accepted exactly when its removals are non-blank and distinct after trimming, and so are
  the ids of its upserts. Then the peers of the result are, in order, the cached peers that are not
  removed, where the last peer with an id that an upsert has gives way to that upsert, and the upserts
  with other ids (all copied); the relays likewise; network, node, STUN endpoints and relay
  credential are those of the delta where it has them and the cached ones otherwise. When the cached
  ids are distinct and the ids of the upserts are trimmed, this is an update of two maps from ids: the
  cached map without the removed ids, overridden by the upserts; and ids stay distinct.
\<close>

theorem applyMapDelta_refines:
  "case applyMapDelta current delta of
     Inl _ \<Rightarrow> \<not> wf_delta delta
   | Inr next_map \<Rightarrow>
       wf_delta delta \<and>
       elems (snap_Peers next_map) =
         map clone_peer (merged peer_ID (elems (snap_Peers current)) (delta_PeerUpserts delta) (delta_PeerRemoveIDs delta)) \<and>
       elems (snap_Relays next_map) =
         merged ep_ID (elems (snap_Relays current)) (delta_RelayUpserts delta) (delta_RelayRemoveIDs delta) \<and>
       snap_Network next_map = clone_network (case delta_Network delta of None \<Rightarrow> snap_Network current | Some n \<Rightarrow> n) \<and>
       snap_Node next_map = (case delta_Node delta of None \<Rightarrow> snap_Node current | Some n \<Rightarrow> n) \<and>
       snap_STUNEndpoints next_map = (case delta_STUNEndpoints delta of None \<Rightarrow> snap_STUNEndpoints current | Some es \<Rightarrow> es) \<and>
       snap_RelayCredential next_map = (case delta_RelayCredential delta of None \<Rightarrow> snap_RelayCredential current | Some c \<Rightarrow> Some c) \<and>
       (distinct_ids current \<and> trimmed_ids peer_ID (delta_PeerUpserts delta) \<and> trimmed_ids ep_ID (delta_RelayUpserts delta) \<longrightarrow>
          distinct_ids next_map \<and>
          peers_of next_map = ((map_option clone_peer \<circ> peers_of current) |` (- TrimSpace ` set (delta_PeerRemoveIDs delta))) ++
            (map_option clone_peer \<circ> by_id peer_ID (delta_PeerUpserts delta)) \<and>
          relays_of next_map = (relays_of current |` (- TrimSpace ` set (delta_RelayRemoveIDs delta))) ++
            by_id ep_ID (delta_RelayUpserts delta))"
proof (cases "applyMapDelta current delta")
  case (Inl e)
  then show ?thesis using applyMapDelta_ok [of current delta] by simp
next
  case (Inr next_map)
  then have w: "wf_delta delta" using applyMapDelta_ok [of current delta] by simp
  note m = applyMapDelta_merges [OF Inr]
  have "distinct_ids next_map \<and>
      peers_of next_map = ((map_option clone_peer \<circ> peers_of current) |` (- TrimSpace ` set (delta_PeerRemoveIDs delta))) ++
        (map_option clone_peer \<circ> by_id peer_ID (delta_PeerUpserts delta)) \<and>
      relays_of next_map = (relays_of current |` (- TrimSpace ` set (delta_RelayRemoveIDs delta))) ++ by_id ep_ID (delta_RelayUpserts delta)"
    if "distinct_ids current" "trimmed_ids peer_ID (delta_PeerUpserts delta)" "trimmed_ids ep_ID (delta_RelayUpserts delta)"
  proof -
    have d: "distinct (map peer_ID (elems (snap_Peers current)))" "distinct (map ep_ID (elems (snap_Relays current)))"
      using that(1) by (simp_all add: distinct_ids_def)
    have u: "distinct (map (TrimSpace \<circ> peer_ID) (delta_PeerUpserts delta))" "distinct (map (TrimSpace \<circ> ep_ID) (delta_RelayUpserts delta))"
      using w by (simp_all add: wf_delta_def)
    note p = merged_by_id [OF d(1) that(2) u(1)] and r = merged_by_id [OF d(2) that(3) u(2)]
    have "distinct_ids next_map" using p(2) r(2) by (simp add: distinct_ids_def m(1,2) comp_def)
    moreover have "peers_of next_map = map_option clone_peer \<circ>
        by_id peer_ID (merged peer_ID (elems (snap_Peers current)) (delta_PeerUpserts delta) (delta_PeerRemoveIDs delta))"
      by (simp add: peers_of_def m(1) by_id_map)
    moreover have "relays_of next_map = (relays_of current |` (- TrimSpace ` set (delta_RelayRemoveIDs delta))) ++ by_id ep_ID (delta_RelayUpserts delta)"
      by (simp add: relays_of_def m(2) r(1))
    ultimately show ?thesis unfolding p(1) map_option_restrict_add peers_of_def by blast
  qed
  then show ?thesis using Inr w m by simp
qed

definition sample_delta :: MapDelta where
  "sample_delta = \<lparr>delta_Network = None, delta_Node = None,
     delta_PeerUpserts = [sample_peer_p\<lparr>peer_Hostname := ''scanner''\<rparr>], delta_PeerRemoveIDs = ['' node-s''],
     delta_STUNEndpoints = None, delta_RelayUpserts = [], delta_RelayRemoveIDs = [], delta_RelayCredential = None\<rparr>"

theorem applyMapDelta_refines_witness:
  "\<exists>n. applyMapDelta sample_map sample_delta = Inr n \<and> distinct_ids n \<and> peers_of n ''node-s'' = None \<and>
     map_option peer_Hostname (peers_of n ''node-p'') = Some ''scanner''"
proof -
  have d: "distinct_ids sample_map"
    by (simp add: distinct_ids_def sample_map_def sample_peer_p_def sample_peer_s_def zero_Snapshot_def)
  have t: "TrimSpace ''node-p'' = ''node-p''" "TrimSpace '' node-s'' = ''node-s''" by code_simp+
  have c: "trimmed_ids peer_ID (delta_PeerUpserts sample_delta)" "trimmed_ids ep_ID (delta_RelayUpserts sample_delta)"
    by (simp_all add: trimmed_ids_def sample_delta_def sample_peer_p_def t)
  have w: "wf_delta sample_delta" by (simp add: wf_delta_def sample_delta_def sample_peer_p_def t)
  obtain n where n: "applyMapDelta sample_map sample_delta = Inr n"
    using applyMapDelta_refines [where current = sample_map and delta = sample_delta] w by (cases "applyMapDelta sample_map sample_delta") auto
  have p: "peers_of n = ((map_option clone_peer \<circ> peers_of sample_map) |` (- TrimSpace ` set (delta_PeerRemoveIDs sample_delta))) ++
        (map_option clone_peer \<circ> by_id peer_ID (delta_PeerUpserts sample_delta))" "distinct_ids n"
    using applyMapDelta_refines [where current = sample_map and delta = sample_delta] d c by (simp_all add: n)
  have "peers_of n ''node-s'' = None \<and> map_option peer_Hostname (peers_of n ''node-p'') = Some ''scanner''"
    by (simp add: p(1) sample_delta_def t by_id_def clone_peer_def sample_peer_p_def map_add_def)
  then show ?thesis using n p(2) by blast
qed

section \<open>Authentic maps\<close>

text \<open>A map that some key of the bundle signed.\<close>

definition authentic :: "env \<Rightarrow> SigningTrustBundle \<Rightarrow> NetworkMapSnapshot \<Rightarrow> bool" where
  "authentic env trust s \<longleftrightarrow>
     (\<exists>sig key. snap_MapSignature s = Some sig \<and> key \<in> set (elems (tb_Keys trust)) \<and> sig_KeyID sig = key_KeyID key \<and>
        signed_by (env_sha256 env) (env_relay_json env) (env_verify env) s sig (key_PublicKey key))"

text \<open>Authentic, and the key, the signature and the sharing grants are all current at \<open>now\<close>.\<close>

definition authentic_at :: "env \<Rightarrow> SigningTrustBundle \<Rightarrow> gotime \<Rightarrow> NetworkMapSnapshot \<Rightarrow> bool" where
  "authentic_at env trust now s \<longleftrightarrow>
     (\<exists>sig key. snap_MapSignature s = Some sig \<and> SigningTrustBundle_Validate (env_sha256 env) trust = None \<and>
        key \<in> set (elems (tb_Keys trust)) \<and> trusted_at key now \<and> sig_KeyID sig = key_KeyID key \<and>
        signed_by (env_sha256 env) (env_relay_json env) (env_verify env) s sig (key_PublicKey key) \<and>
        in_signature_window sig now \<and> ValidateSharePeerGrantsAt s now = None)"

lemma authentic_at_authentic: "authentic_at env trust now s \<Longrightarrow> authentic env trust s"
  by (auto simp: authentic_at_def authentic_def)

lemma verifyMapStreamResult_Inr:
  "verifyMapStreamResult env s trust now = Inr t \<longleftrightarrow>
     t = s \<and> ValidateNetworkMapSnapshot (env_relay_ok env) s = None \<and> authentic_at env trust now s"
proof -
  have key: "Resolve sha trust (sig_KeyID sig) (UTC now) = Inr key \<and> signed_by sha rj vf s sig (key_PublicKey key) \<longleftrightarrow>
     SigningTrustBundle_Validate sha trust = None \<and> key \<in> set (elems (tb_Keys trust)) \<and> trusted_at key now \<and>
     sig_KeyID sig = key_KeyID key \<and> signed_by sha rj vf s sig (key_PublicKey key)" for sha rj vf sig key
    using SigningKeyID_trimmed Resolve_key_id(1) by (auto simp: Resolve_Inr signed_by_def)
  have "verifyMapStreamResult env s trust now = Inr t \<longleftrightarrow>
      t = s \<and> ValidateNetworkMapSnapshot (env_relay_ok env) s = None \<and>
      (\<exists>sig key. snap_MapSignature s = Some sig \<and>
         (Resolve (env_sha256 env) trust (sig_KeyID sig) (UTC now) = Inr key \<and>
          signed_by (env_sha256 env) (env_relay_json env) (env_verify env) s sig (key_PublicKey key)) \<and>
         in_signature_window sig now \<and> ValidateSharePeerGrantsAt s now = None)"
    by (auto simp: verifyMapStreamResult_def Verify_None split: option.splits sum.splits)
  then show ?thesis unfolding key authentic_at_def by (simp only: conj_assoc)
qed

section \<open>One event\<close>

text \<open>The events that carry a new map, and the map that one of them proposes.\<close>

definition carries_map :: "MapStreamEvent \<Rightarrow> bool" where
  "carries_map event \<longleftrightarrow> ev_Type event = ''snapshot'' \<or> ev_Type event = ''resync'' \<or> ev_Type event = ''delta''"

definition proposed :: "NetworkMapSnapshot \<Rightarrow> MapStreamEvent \<Rightarrow> NetworkMapSnapshot \<Rightarrow> bool" where
  "proposed current event m \<longleftrightarrow>
     (if ev_Type event = ''delta''
      then snap_Revision current = ev_From event \<and> ev_BaseHash event = currentMapHash current \<and>
           (\<exists>d. ev_Delta event = Some d \<and> applyMapDelta current d = Inr m)
      else \<exists>s. ev_Snapshot event = Some s \<and> m = cloneNetworkMapSnapshot s)"

lemma returns_eq [simp]: "returns r = (Some s, None) \<longleftrightarrow> r = Inr s"
  by (cases r) (auto simp: returns_def)

lemma resync_eq [simp]: "resync m \<noteq> (Some s, x)"
  by (simp add: resync_def)

lemma applyMapDelta_compact: "applyMapDelta current delta = Inr m \<Longrightarrow> compact m"
  by (auto simp: applyMapDelta_def Let_def split: sum.splits)

text \<open>When an event is applied.\<close>

lemma Apply_success:
  "ApplyMapStreamEvent env current event trust now = (Some s, None) \<longleftrightarrow>
     validateMapStreamEvent event = None \<and> \<not> already_applied current event \<and>
     (if carries_map event
      then \<exists>m. proposed current event m \<and>
             s = m\<lparr>snap_Revision := ev_To event, snap_MapSignature := ev_ResultSignature event\<rparr> \<and>
             ValidateNetworkMapSnapshot (env_relay_ok env) s = None \<and> authentic_at env trust now s
      else (ev_Type event = ''heartbeat'' \<or> ev_Type event = ''checkpoint'') \<and> snap_Revision current = ev_To event \<and>
           (ev_BaseHash event = [] \<or> ev_BaseHash event = currentMapHash current) \<and> s = cloneNetworkMapSnapshot current)"
proof (cases "validateMapStreamEvent event = None \<and> \<not> already_applied current event")
  case True
  consider "ev_Type event = ''heartbeat'' \<or> ev_Type event = ''checkpoint''"
    | "ev_Type event = ''snapshot'' \<or> ev_Type event = ''resync''" | "ev_Type event = ''delta''"
    | "\<not> carries_map event \<and> \<not> (ev_Type event = ''heartbeat'' \<or> ev_Type event = ''checkpoint'')"
    by (auto simp: carries_map_def)
  then show ?thesis
  proof cases
    case 1
    then show ?thesis using True by (auto simp: ApplyMapStreamEvent_def carries_map_def)
  next
    case 2
    then show ?thesis
      using True by (auto simp: ApplyMapStreamEvent_def carries_map_def proposed_def verifyMapStreamResult_Inr split: option.splits)
  next
    case 3
    then show ?thesis
      using True by (auto simp: ApplyMapStreamEvent_def carries_map_def proposed_def verifyMapStreamResult_Inr
          split: option.splits sum.splits)
  next
    case 4
    then show ?thesis using True by (auto simp: ApplyMapStreamEvent_def carries_map_def)
  qed
next
  case False
  then show ?thesis by (cases "validateMapStreamEvent event") (simp_all add: ApplyMapStreamEvent_def)
qed

lemma proposed_compact: "proposed current event m \<Longrightarrow> compact m"
  by (auto simp: proposed_def applyMapDelta_compact split: if_splits)

text \<open>
  C1. An event that carries a map is applied only when the resulting map is validated and
  authentic: it passes \<open>ValidateNetworkMapSnapshot\<close>, its revision and signature are those the
  event announces, the signature was made over exactly this map by a key of the trust bundle, and
  key, signature and sharing grants are current. A delta is applied only to the map it was made
  for, by revision and by payload hash.
\<close>

theorem ApplyMapStreamEvent_authentic:
  assumes "ApplyMapStreamEvent env current event trust now = (Some s, None)" and "carries_map event"
  shows "ValidateNetworkMapSnapshot (env_relay_ok env) s = None \<and> authentic_at env trust now s \<and>
    snap_Revision s = ev_To event \<and> snap_MapSignature s = ev_ResultSignature event \<and>
    (ev_Type event = ''delta'' \<longrightarrow> snap_Revision current = ev_From event \<and> ev_BaseHash event = currentMapHash current)"
  using assms by (auto simp: Apply_success proposed_def)

text \<open>An event that does not continue the cached map.\<close>

definition stale :: "NetworkMapSnapshot \<Rightarrow> MapStreamEvent \<Rightarrow> bool" where
  "stale current event \<longleftrightarrow>
     (if ev_Type event = ''delta''
      then snap_Revision current \<noteq> ev_From event \<or> ev_BaseHash event \<noteq> currentMapHash current
      else \<not> carries_map event \<and>
        (snap_Revision current \<noteq> ev_To event \<or> ev_BaseHash event \<noteq> [] \<and> ev_BaseHash event \<noteq> currentMapHash current))"

lemma valid_event_type:
  assumes "validateMapStreamEvent event = None"
  obtains "ev_Type event = ''heartbeat''" | "ev_Type event = ''checkpoint''" | "ev_Type event = ''snapshot''"
    | "ev_Type event = ''resync''" | "ev_Type event = ''delta''"
  using assms by (auto simp: validateMapStreamEvent_def split: if_splits)

lemma Apply_stale:
  assumes "validateMapStreamEvent event = None" and "\<not> already_applied current event" and "stale current event"
  shows "\<exists>m. ApplyMapStreamEvent env current event trust now = (None, Some (Wrap m ErrMapStreamResyncRequired))"
proof (rule valid_event_type [OF assms(1)])
  assume "ev_Type event = ''delta''"
  then show ?thesis using assms by (simp add: ApplyMapStreamEvent_def stale_def resync_def)
qed (use assms in \<open>simp_all add: ApplyMapStreamEvent_def stale_def resync_def carries_map_def\<close>)

lemma returns_cases: "returns r = (Some s, x) \<Longrightarrow> x = None"
  by (cases r) (auto simp: returns_def)

lemma returns_fail: "returns r = (None, x) \<Longrightarrow> x \<noteq> None"
  by (cases r) (auto simp: returns_def)

lemma Apply_either:
  assumes "\<not> already_applied current event"
  shows "(fst (ApplyMapStreamEvent env current event trust now) = None) \<longleftrightarrow>
         (snd (ApplyMapStreamEvent env current event trust now) \<noteq> None)"
proof -
  have r: "fst (returns x) = None \<longleftrightarrow> snd (returns x) \<noteq> None" for x by (cases x) (simp_all add: returns_def)
  show ?thesis
    using assms by (simp add: ApplyMapStreamEvent_def resync_def r split: option.splits sum.splits)
qed

lemma already_applied_iff:
  "already_applied current event \<longleftrightarrow> snap_Revision current = ev_To event \<and>
     (\<exists>m r. snap_MapSignature current = Some m \<and> ev_ResultSignature event = Some r \<and> sig_PayloadHash m = sig_PayloadHash r)"
  by (auto simp: already_applied_def split: option.splits)

lemma Apply_repeated:
  "validateMapStreamEvent event = None \<Longrightarrow> already_applied current event \<Longrightarrow> ApplyMapStreamEvent env current event trust now =
     (Some (cloneNetworkMapSnapshot current), Some ErrMapStreamEventAlreadyApplied)"
  by (simp add: ApplyMapStreamEvent_def)

lemma Apply_outcome:
  assumes "validateMapStreamEvent event = None" "\<not> already_applied current event"
  shows "if stale current event
    then \<exists>e. ApplyMapStreamEvent env current event trust now = (None, Some e) \<and> errors_Is e ErrMapStreamResyncRequired
    else if carries_map event
    then (\<exists>s. ApplyMapStreamEvent env current event trust now = (Some s, None)) \<or>
         (\<exists>e. ApplyMapStreamEvent env current event trust now = (None, Some e))
    else ApplyMapStreamEvent env current event trust now = (Some (cloneNetworkMapSnapshot current), None)"
proof -
  have "ApplyMapStreamEvent env current event trust now = (Some (cloneNetworkMapSnapshot current), None)"
    if "\<not> stale current event" "\<not> carries_map event"
    using that assms valid_event_type [OF assms(1)] by (auto simp: Apply_success stale_def carries_map_def split: if_splits)
  moreover have "(\<exists>s. ApplyMapStreamEvent env current event trust now = (Some s, None)) \<or>
      (\<exists>e. ApplyMapStreamEvent env current event trust now = (None, Some e))"
    using Apply_either [OF assms(2), of env trust now] by (cases "ApplyMapStreamEvent env current event trust now") auto
  moreover have "\<exists>e. ApplyMapStreamEvent env current event trust now = (None, Some e) \<and> errors_Is e ErrMapStreamResyncRequired"
    if "stale current event"
    using Apply_stale [OF assms that] by fastforce
  ultimately show ?thesis by (simp only: split: if_split) blast
qed

text \<open>
  C5. What a client is told, for every event. An event that is not well formed is refused with the error of
  that check. Otherwise, an event that announces the revision of the cached map and a result
  signature with the payload hash of the signature of the cached map is reported as already applied,
  with a copy of the cached map; another event that does not continue the cached map, by revision or
  by hash, asks for a resynchronisation; a heartbeat or checkpoint that does continue it returns a copy
  of the cached map; and an event that carries a map returns either a map or an error, never both.
\<close>

theorem ApplyMapStreamEvent_errors:
  "case validateMapStreamEvent event of
     Some e \<Rightarrow> ApplyMapStreamEvent env current event trust now = (None, Some e)
   | None \<Rightarrow>
       if snap_Revision current = ev_To event \<and>
          (\<exists>m r. snap_MapSignature current = Some m \<and> ev_ResultSignature event = Some r \<and> sig_PayloadHash m = sig_PayloadHash r)
       then ApplyMapStreamEvent env current event trust now =
         (Some (cloneNetworkMapSnapshot current), Some ErrMapStreamEventAlreadyApplied)
       else if stale current event
       then \<exists>e. ApplyMapStreamEvent env current event trust now = (None, Some e) \<and> errors_Is e ErrMapStreamResyncRequired
       else if carries_map event
       then (\<exists>s. ApplyMapStreamEvent env current event trust now = (Some s, None)) \<or>
            (\<exists>e. ApplyMapStreamEvent env current event trust now = (None, Some e))
       else ApplyMapStreamEvent env current event trust now = (Some (cloneNetworkMapSnapshot current), None)"
  unfolding already_applied_iff [symmetric]
proof (split option.split, intro conjI impI allI)
  assume v: "validateMapStreamEvent event = None"
  show "if already_applied current event
    then ApplyMapStreamEvent env current event trust now = (Some (cloneNetworkMapSnapshot current), Some ErrMapStreamEventAlreadyApplied)
    else if stale current event
    then \<exists>e. ApplyMapStreamEvent env current event trust now = (None, Some e) \<and> errors_Is e ErrMapStreamResyncRequired
    else if carries_map event
    then (\<exists>s. ApplyMapStreamEvent env current event trust now = (Some s, None)) \<or>
         (\<exists>e. ApplyMapStreamEvent env current event trust now = (None, Some e))
    else ApplyMapStreamEvent env current event trust now = (Some (cloneNetworkMapSnapshot current), None)"
  proof (cases "already_applied current event")
    case True
    then show ?thesis using Apply_repeated [OF v True] by (simp only: if_True)
  next
    case False
    show ?thesis unfolding if_not_P [OF False] by (rule Apply_outcome [OF v False])
  qed
qed (simp add: ApplyMapStreamEvent_def)

definition sample_heartbeat :: MapStreamEvent where
  "sample_heartbeat = \<lparr>ev_Type = ''heartbeat'', ev_ProtocolVersion = 1, ev_Capabilities = None, ev_EventID = ''event-2'',
     ev_From = \<lparr>rev_Network = 0, rev_Global = 0\<rparr>, ev_To = \<lparr>rev_Network = 8, rev_Global = 9\<rparr>, ev_BaseHash = [], ev_Reason = [],
     ev_Snapshot = None, ev_Delta = None, ev_ResultSignature = None\<rparr>"

section \<open>Runs\<close>

text \<open>
  A client that follows the contract of \<open>ApplyMapStreamEvent\<close>: it replaces its cache after
  success and keeps it after an error.
\<close>

inductive stream_run ::
  "env \<Rightarrow> SigningTrustBundle \<Rightarrow> NetworkMapSnapshot \<Rightarrow> (MapStreamEvent \<times> gotime) list \<Rightarrow> NetworkMapSnapshot \<Rightarrow> bool"
  for env :: env and trust :: SigningTrustBundle and c :: NetworkMapSnapshot where
  start: "stream_run env trust c [] c"
| install: "stream_run env trust c evs d \<Longrightarrow> ApplyMapStreamEvent env d event trust now = (Some s, None) \<Longrightarrow>
    stream_run env trust c (evs @ [(event, now)]) s"
| keep: "stream_run env trust c evs d \<Longrightarrow> ApplyMapStreamEvent env d event trust now = (x, Some e) \<Longrightarrow>
    stream_run env trust c (evs @ [(event, now)]) d"

inductive_cases stream_run_snocE: "stream_run env trust c (evs @ [(event, now)]) s"

text \<open>A map that an event of the run has installed: validated, and authentic when the event was applied.\<close>

definition installed_by :: "env \<Rightarrow> SigningTrustBundle \<Rightarrow> NetworkMapSnapshot \<Rightarrow> MapStreamEvent \<times> gotime \<Rightarrow> bool" where
  "installed_by env trust s step \<longleftrightarrow>
     carries_map (fst step) \<and> ValidateNetworkMapSnapshot (env_relay_ok env) s = None \<and> authentic_at env trust (snd step) s \<and>
     snap_Revision s = ev_To (fst step) \<and> snap_MapSignature s = ev_ResultSignature (fst step)"

lemma Apply_installs:
  assumes "ApplyMapStreamEvent env d event trust now = (Some s, None)"
  shows "installed_by env trust s (event, now) \<and> compact s \<or> s = cloneNetworkMapSnapshot d"
proof (cases "carries_map event")
  case True
  then show ?thesis using assms proposed_compact by (auto simp: Apply_success installed_by_def)
qed (use assms in \<open>simp add: Apply_success\<close>)

lemma run_origin:
  assumes "stream_run env trust c evs s"
  shows "s \<in> {c, cloneNetworkMapSnapshot c} \<or> (\<exists>step \<in> set evs. installed_by env trust s step) \<and> compact s"
  using assms
proof induction
  case (install evs d event now s)
  have "cloneNetworkMapSnapshot d \<in> {c, cloneNetworkMapSnapshot c} \<or> (\<exists>step \<in> set evs. installed_by env trust (cloneNetworkMapSnapshot d) step) \<and> compact (cloneNetworkMapSnapshot d)"
    using install.IH clone_iff [of d] clone_exact [of c] by auto
  then show ?case using Apply_installs [OF install.hyps(2)] by auto
qed auto

text \<open>
  C2. Whatever events arrive, in whatever order and from whomever, the cache is never a map of unknown
  origin: it is the map the client started with or a copy of it, or it was installed by an event of
  the run that carried a map, and then it passes the map validation, has the revision and the
  signature that event announced, and carries a signature over its own payload by a key of the trust
  bundle, with key, signature and sharing grants current at the time that event was applied. A
  cache that starts validated and authentic stays so, if copying the map it starts with does not change it.
\<close>

theorem stream_cache_authentic:
  assumes "stream_run env trust c evs s"
  shows "(s \<in> {c, cloneNetworkMapSnapshot c} \<or> (\<exists>step \<in> set evs. installed_by env trust s step)) \<and>
    (ValidateNetworkMapSnapshot (env_relay_ok env) c = None \<and> authentic env trust c \<and> cloneNetworkMapSnapshot c = c \<longrightarrow>
     ValidateNetworkMapSnapshot (env_relay_ok env) s = None \<and> authentic env trust s)"
  using run_origin [OF assms] authentic_at_authentic by (auto simp: installed_by_def)

text \<open>
  C30. Delivering an event twice is harmless: after an event that carries a map was applied, the same
  event, at any later time, is reported as already applied, and the copy returned with it is the
  cached map itself.
\<close>

theorem reapply_is_noop:
  assumes "ApplyMapStreamEvent env current event trust now = (Some s, None)" and "carries_map event"
  shows "ApplyMapStreamEvent env s event trust later = (Some s, Some ErrMapStreamEventAlreadyApplied)"
proof -
  obtain m where m: "proposed current event m" "authentic_at env trust now s"
    "s = m\<lparr>snap_Revision := ev_To event, snap_MapSignature := ev_ResultSignature event\<rparr>" "validateMapStreamEvent event = None"
    using assms by (auto simp: Apply_success)
  then have "compact s" "snap_Revision s = ev_To event" "snap_MapSignature s = ev_ResultSignature event"
    using proposed_compact by simp_all
  moreover from this have "already_applied s event" using m(2) by (auto simp: already_applied_def authentic_at_def)
  ultimately show ?thesis using m(4) clone_iff [of s] by (simp add: ApplyMapStreamEvent_def)
qed

end
