(* ===== verification/Publication.thy ===== *)
theory Publication
  imports Stream_Trace
begin

text \<open>
  The two ends of the stream together: a map signed by \<open>mapsign.go\<close> and sent as a snapshot
  event is accepted by \<open>ApplyMapStreamEvent\<close>, and the maps for which it is not.
\<close>

section \<open>Validation does not read the signature's claims\<close>

lemma bound_hosts_ignore_signature [simp]:
  "bound_hosts (s\<lparr>snap_MapSignature := x\<rparr>) msg seen hs = bound_hosts s msg seen hs"
  by (induction hs arbitrary: seen) (simp_all add: identities_def)

lemma signature_texts:
  assumes "SignNetworkMapSnapshotWithProvider sha256 rj pub s issued ttl (Some signer) = Inr sig"
  shows "list_all graphic (sig_Algorithm sig)" and "list_all graphic (sig_KeyID sig)"
    and "list_all graphic (sig_PayloadHash sig)" and "list_all graphic (sig_Signature sig)"
proof -
  have a: "list_all graphic mapSignatureAlgorithm" by code_simp
  show "list_all graphic (sig_Algorithm sig)" "list_all graphic (sig_KeyID sig)"
    "list_all graphic (sig_PayloadHash sig)" "list_all graphic (sig_Signature sig)"
    using assms a SigningKeyID_graphic hex_graphic rawurl.lax.enc_graphic
    by (auto simp: SignNetworkMapSnapshotWithProvider_def Let_def split: if_splits sum.splits)
qed

lemma check_route_cidrs_ignore_signature [simp]:
  "check_route_cidrs (s\<lparr>snap_MapSignature := x\<rparr>) target seen cidrs = check_route_cidrs s target seen cidrs"
  by (induction cidrs arbitrary: seen) (simp_all cong: option.case_cong)

lemma check_routes_ignore_signature [simp]:
  "check_routes (s\<lparr>snap_MapSignature := x\<rparr>) app target seen routes = check_routes s app target seen routes"
  by (induction routes arbitrary: seen) simp_all

lemma validators_ignore_signature [simp]:
  "validateServiceHosts (s\<lparr>snap_MapSignature := x\<rparr>) = validateServiceHosts s"
  "validateApplicationBindings (s\<lparr>snap_MapSignature := x\<rparr>) = validateApplicationBindings s"
  "validateSharePeerGrants (s\<lparr>snap_MapSignature := x\<rparr>) = validateSharePeerGrants s"
  "check_relay_credential (s\<lparr>snap_MapSignature := x\<rparr>) = check_relay_credential s"
proof -
  have "check_application (s\<lparr>snap_MapSignature := x\<rparr>) = check_application s"
    by (rule ext) (simp add: check_application_def range_err_def)
  then show "validateApplicationBindings (s\<lparr>snap_MapSignature := x\<rparr>) = validateApplicationBindings s"
    by (simp add: validateApplicationBindings_def range_err_def)
qed (simp_all add: validateServiceHosts_def validateSharePeerGrants_def check_relay_credential_def fun_eq_iff)

lemma validateMapTexts_graphic: "list_all (\<lambda>(f, v). list_all graphic v) kvs \<Longrightarrow> validateMapTexts kvs = None"
  by (auto simp: validateMapTexts_def validateMapText_def list_all_iff intro!: ValidateSafeText_graphic)

lemma Validate_with_signature:
  assumes "ValidateNetworkMapSnapshot relay_ok s = None"
    and "list_all (list_all graphic) [sig_Algorithm sig, sig_KeyID sig, sig_PayloadHash sig, sig_Signature sig]"
  shows "ValidateNetworkMapSnapshot relay_ok (s\<lparr>snap_MapSignature := Some sig\<rparr>) = None"
proof -
  have "validateMapTexts [(''map_signature.algorithm'', sig_Algorithm sig), (''map_signature.key_id'', sig_KeyID sig),
      (''map_signature.payload_hash'', sig_PayloadHash sig), (''map_signature.signature'', sig_Signature sig)] = None"
    using assms(2) by (intro validateMapTexts_graphic) simp
  then show ?thesis
    using assms(1)
    by (cases "snap_RelayCredential s") (simp_all add: ValidateNetworkMapSnapshot_def Let_def)
qed

section \<open>A published map is accepted\<close>

lemma published_event_valid:
  assumes "ValidateNetworkMapSnapshot relay_ok s = None"
    and "ev_Type event = ''snapshot'' \<or> ev_Type event = ''resync''" "ev_Snapshot event = Some s" "ev_Delta event = None"
      "ev_ResultSignature event = Some sig" "TrimSpace (ev_EventID event) \<noteq> []"
  shows "validateMapStreamEvent event = None"
proof -
  have "TrimSpace (net_ID (snap_Network s)) \<noteq> []" "TrimSpace (node_ID (snap_Node s)) \<noteq> []"
    using assms(1) by (simp_all add: ValidateNetworkMapSnapshot_def validateMapNode_def Let_def)
  then show ?thesis using assms(2-) by (auto simp: validateMapStreamEvent_def HasFullMap_def)
qed

lemma snapshot_event_installs:
  assumes signed: "SignNetworkMapSnapshotAt (env_sha256 env) (env_relay_json env) public sign priv s issued ttl = Inr sig"
    and ed25519: "\<And>m. env_verify env (public priv) m (sign priv m)"
    and window: "second \<le> t_ns issued" "t_ns issued \<le> t_ns now + 300 * 1000000000" "t_ns now < t_ns (sig_ExpiresAt sig)"
    and grants: "ValidateSharePeerGrantsAt s now = None"
    and valid: "ValidateNetworkMapSnapshot (env_relay_ok env) s = None" and compact: "compact s"
    and resolves: "Resolve (env_sha256 env) trust (sig_KeyID sig) now = Inr key"
      "key_PublicKey key = EncodeToString RawURLEncoding (public priv)"
    and event: "ev_Type event = ''snapshot'' \<or> ev_Type event = ''resync''" "ev_Snapshot event = Some s" "ev_Delta event = None"
      "ev_ResultSignature event = Some sig" "ev_To event = snap_Revision s" "TrimSpace (ev_EventID event) \<noteq> []"
    and fresh: "\<not> already_applied current event"
  shows "ApplyMapStreamEvent env current event trust now = (Some (s\<lparr>snap_MapSignature := Some sig\<rparr>), None)"
proof -
  let ?m = "s\<lparr>snap_MapSignature := Some sig\<rparr>"
  have sp: "SignNetworkMapSnapshotWithProvider (env_sha256 env) (env_relay_json env) (public priv) s issued ttl
      (Some (\<lambda>payload. Inr (sign priv payload))) = Inr sig"
    using signed by (simp add: SignNetworkMapSnapshotAt_def split: if_splits)
  have v: "ValidateNetworkMapSnapshot (env_relay_ok env) ?m = None"
    using Validate_with_signature [OF valid] signature_texts [OF sp] by simp
  have "VerifyNetworkMapSnapshotSignatureAt (env_sha256 env) (env_relay_json env) (env_verify env) ?m (key_PublicKey key) now = None"
    using signed_map_verifies [where verify = "env_verify env", OF signed _ window grants] ed25519 resolves(2) by simp
  then have by': "signed_by (env_sha256 env) (env_relay_json env) (env_verify env) ?m sig (key_PublicKey key)"
    "in_signature_window sig now" "ValidateSharePeerGrantsAt ?m now = None"
    by (auto simp: Verify_None)
  then have "sig_KeyID sig = key_KeyID key"
    using resolves(1) SigningKeyID_trimmed by (auto simp: Resolve_Inr signed_by_def)
  then have auth: "authentic_at env trust now ?m"
    using by' resolves(1) by (auto simp: authentic_at_def Resolve_Inr)
  have "validateMapStreamEvent event = None" by (rule published_event_valid [OF valid event(1-4,6)])
  moreover have "proposed current event s" "carries_map event"
    using event compact clone_iff [of s] by (auto simp: proposed_def carries_map_def)
  moreover have "?m = s\<lparr>snap_Revision := ev_To event, snap_MapSignature := ev_ResultSignature event\<rparr>"
    using event by simp
  ultimately show ?thesis using fresh v auth unfolding Apply_success by metis
qed

text \<open>
  C3. What the server publishes, the client installs: a valid map that copying does not change, signed with
  the private key of a resolvable key of the client's bundle and sent as a snapshot or resync event
  with its own revision and that signature, becomes the client's map while the signature and the sharing
  grants are current, whatever the client had cached. The one exception is a cached map that
  already has that revision and payload hash: then the event is reported as already applied. The one
  fact used of Ed25519 is that its signatures verify.
\<close>

theorem published_map_installed:
  assumes signed: "SignNetworkMapSnapshotAt (env_sha256 env) (env_relay_json env) public sign priv s issued ttl = Inr sig"
    and ed25519: "\<And>m. env_verify env (public priv) m (sign priv m)"
    and window: "second \<le> t_ns issued" "t_ns issued \<le> t_ns now + 300 * 1000000000" "t_ns now < t_ns (sig_ExpiresAt sig)"
    and grants: "ValidateSharePeerGrantsAt s now = None"
    and valid: "ValidateNetworkMapSnapshot (env_relay_ok env) s = None" and copied: "cloneNetworkMapSnapshot s = s"
    and resolves: "Resolve (env_sha256 env) trust (sig_KeyID sig) now = Inr key"
      "key_PublicKey key = EncodeToString RawURLEncoding (public priv)"
    and event: "ev_Type event = ''snapshot'' \<or> ev_Type event = ''resync''" "ev_Snapshot event = Some s" "ev_Delta event = None"
      "ev_ResultSignature event = Some sig" "ev_To event = snap_Revision s" "TrimSpace (ev_EventID event) \<noteq> []"
  shows "ApplyMapStreamEvent env current event trust now =
    (if snap_Revision current = snap_Revision s \<and> (\<exists>m. snap_MapSignature current = Some m \<and> sig_PayloadHash m = sig_PayloadHash sig)
     then (Some (cloneNetworkMapSnapshot current), Some ErrMapStreamEventAlreadyApplied)
     else (Some (s\<lparr>snap_MapSignature := Some sig\<rparr>), None))"
proof -
  have a: "already_applied current event \<longleftrightarrow>
      snap_Revision current = snap_Revision s \<and> (\<exists>m. snap_MapSignature current = Some m \<and> sig_PayloadHash m = sig_PayloadHash sig)"
    using event(4,5) by (auto simp: already_applied_def split: option.splits)
  have c: "compact s" using copied clone_iff by blast
  show ?thesis
  proof (cases "already_applied current event")
    case True
    then show ?thesis using published_event_valid [OF valid event(1-4,6)] a by (simp add: ApplyMapStreamEvent_def)
  next
    case False
    then show ?thesis using snapshot_event_installs [OF signed ed25519 window grants valid c resolves event False] a by simp
  qed
qed

section \<open>A published map that is refused\<close>

text \<open>
  \<open>cloneNetworkMapSnapshot\<close> turns an empty list of allowed addresses into a nil one, which
  JSON writes differently, and \<open>ApplyMapStreamEvent\<close> verifies the copy: a snapshot event with a
  correctly signed map is refused whenever the digests of the two payloads differ.
\<close>

theorem uncompact_map_refused:
  assumes "signed_by (env_sha256 env) (env_relay_json env) (env_verify env) s sig pk"
    and "ev_Type event = ''snapshot'' \<or> ev_Type event = ''resync''" and "ev_Snapshot event = Some s"
    and "ev_ResultSignature event = Some sig" and "ev_To event = snap_Revision s" and "\<not> already_applied current event"
    and "canonicalNetworkMapPayload (env_relay_json env) s (sig_KeyID sig) (sig_IssuedAt sig) (sig_ExpiresAt sig) = Inr p"
    and "\<And>q. canonicalNetworkMapPayload (env_relay_json env) (cloneNetworkMapSnapshot s)
        (sig_KeyID sig) (sig_IssuedAt sig) (sig_ExpiresAt sig) = Inr q \<Longrightarrow> env_sha256 env q \<noteq> env_sha256 env p"
  shows "\<exists>e. ApplyMapStreamEvent env current event trust now = (None, Some e)"
proof -
  have h: "sig_PayloadHash sig = hex_EncodeToString (env_sha256 env p)"
    using assms(1,7) by (auto simp: signed_by_def)
  have "ApplyMapStreamEvent env current event trust now \<noteq> (Some t, None)" for t
  proof
    assume "ApplyMapStreamEvent env current event trust now = (Some t, None)"
    moreover have "carries_map event" "ev_Type event \<noteq> ''delta''" using assms(2) by (auto simp: carries_map_def)
    ultimately have "authentic_at env trust now
        ((cloneNetworkMapSnapshot s)\<lparr>snap_Revision := snap_Revision s, snap_MapSignature := Some sig\<rparr>)"
      using assms(3-5) by (auto simp: Apply_success proposed_def)
    moreover have "(cloneNetworkMapSnapshot s)\<lparr>snap_Revision := snap_Revision s\<rparr> = cloneNetworkMapSnapshot s"
      by (simp add: cloneNetworkMapSnapshot_def)
    ultimately obtain q where "canonicalNetworkMapPayload (env_relay_json env) (cloneNetworkMapSnapshot s)
        (sig_KeyID sig) (sig_IssuedAt sig) (sig_ExpiresAt sig) = Inr q" "sig_PayloadHash sig = hex_EncodeToString (env_sha256 env q)"
      by (auto simp: authentic_at_def signed_by_def)
    then show False using h assms(8) hex.enc_inj by metis
  qed
  then show ?thesis
    using Apply_either [OF assms(6), of env trust now]
    by (cases "ApplyMapStreamEvent env current event trust now") (metis fst_conv option.exhaust snd_conv)
qed

section \<open>Witnesses\<close>

definition sample_env :: env where
  "sample_env = \<lparr>env_sha256 = sample_sha256, env_relay_json = (\<lambda>_. JNull), env_verify = sample_verify, env_relay_ok = (\<lambda>_. None)\<rparr>"

definition sample_event :: "MapSignature \<Rightarrow> MapStreamEvent" where
  "sample_event sig = \<lparr>ev_Type = ''snapshot'', ev_ProtocolVersion = 1, ev_Capabilities = None, ev_EventID = ''event-1'',
     ev_From = \<lparr>rev_Network = 0, rev_Global = 0\<rparr>, ev_To = \<lparr>rev_Network = 7, rev_Global = 9\<rparr>, ev_BaseHash = [], ev_Reason = [],
     ev_Snapshot = Some sample_map, ev_Delta = None, ev_ResultSignature = Some sig\<rparr>"

lemma sample_compact: "compact sample_map"
  by (simp add: compact_def compact_peer_def sample_map_def zero_Snapshot_def sample_application_def sample_service_def
      sample_peer_p_def sample_peer_s_def zero_Peer_def)

lemma sample_published:
  obtains sig b key where
    "SignNetworkMapSnapshotAt (env_sha256 sample_env) (env_relay_json sample_env) sample_public sample_sign sample_priv sample_map
       sample_issued (60 * second) = Inr sig"
    and "\<And>m. env_verify sample_env (sample_public sample_priv) m (sample_sign sample_priv m)"
    and "second \<le> t_ns sample_issued" and "t_ns sample_issued \<le> t_ns sample_now + 300 * 1000000000"
    and "t_ns sample_now < t_ns (sig_ExpiresAt sig)"
    and "ValidateSharePeerGrantsAt sample_map sample_now = None"
    and "ValidateNetworkMapSnapshot (env_relay_ok sample_env) sample_map = None"
    and "Resolve (env_sha256 sample_env) b (sig_KeyID sig) sample_now = Inr key"
    and "key_PublicKey key = EncodeToString RawURLEncoding (sample_public sample_priv)"
proof -
  obtain sig where sig: "SignNetworkMapSnapshotAt sample_sha256 (\<lambda>_. JNull) sample_public sample_sign sample_priv sample_map
       sample_issued (60 * second) = Inr sig" "sig_KeyID sig = sample_key_id" "t_ns (sig_ExpiresAt sig) = 61000000000"
    using sample_signs by blast
  obtain b key where b: "Resolve sample_sha256 b sample_key_id sample_now = Inr key"
    "key_PublicKey key = EncodeToString RawURLEncoding (sample_public sample_priv)"
    using sample_bundle by blast
  have g: "ValidateSharePeerGrantsAt sample_map sample_now = None" by code_simp
  have t: "second \<le> t_ns sample_issued" "t_ns sample_issued \<le> t_ns sample_now + 300 * 1000000000"
    "t_ns sample_now < 61000000000"
    by (simp_all add: sample_issued_def sample_now_def second_def)
  show ?thesis
    by (rule that [of sig b key]) (use t in \<open>simp_all add: sample_env_def sig b g sample_verifies sample_map_valid\<close>)
qed

lemma sample_event_fields:
  "ev_Type (sample_event sig) = ''snapshot'' \<or> ev_Type (sample_event sig) = ''resync''"
  "ev_Snapshot (sample_event sig) = Some sample_map" "ev_Delta (sample_event sig) = None"
  "ev_ResultSignature (sample_event sig) = Some sig" "ev_To (sample_event sig) = snap_Revision sample_map"
  "TrimSpace (ev_EventID (sample_event sig)) \<noteq> []" "\<not> already_applied zero_Snapshot (sample_event sig)"
  "carries_map (sample_event sig)"
proof -
  have "TrimSpace ''event-1'' \<noteq> []" by code_simp
  then show "TrimSpace (ev_EventID (sample_event sig)) \<noteq> []" by (simp add: sample_event_def)
qed (simp_all add: sample_event_def sample_map_def already_applied_def zero_Snapshot_def carries_map_def)

theorem published_map_installed_witness:
  "\<exists>sig b. ApplyMapStreamEvent sample_env zero_Snapshot (sample_event sig) b sample_now =
     (Some (sample_map\<lparr>snap_MapSignature := Some sig\<rparr>), None)"
proof (rule sample_published)
  fix sig b key
  assume a: "SignNetworkMapSnapshotAt (env_sha256 sample_env) (env_relay_json sample_env) sample_public sample_sign sample_priv sample_map
       sample_issued (60 * second) = Inr sig"
    "\<And>m. env_verify sample_env (sample_public sample_priv) m (sample_sign sample_priv m)"
    "second \<le> t_ns sample_issued" "t_ns sample_issued \<le> t_ns sample_now + 300 * 1000000000"
    "t_ns sample_now < t_ns (sig_ExpiresAt sig)" "ValidateSharePeerGrantsAt sample_map sample_now = None"
    "ValidateNetworkMapSnapshot (env_relay_ok sample_env) sample_map = None"
    "Resolve (env_sha256 sample_env) b (sig_KeyID sig) sample_now = Inr key"
    "key_PublicKey key = EncodeToString RawURLEncoding (sample_public sample_priv)"
  have c: "cloneNetworkMapSnapshot sample_map = sample_map" using clone_iff sample_compact by blast
  show ?thesis
    using published_map_installed [where current = zero_Snapshot, OF a(1-7) c a(8,9) sample_event_fields(1-6)]
    by (intro exI [of _ sig] exI [of _ b]) (simp add: zero_Snapshot_def)
qed

lemma sample_installs:
  obtains sig b where "ApplyMapStreamEvent sample_env zero_Snapshot (sample_event sig) b sample_now =
     (Some (sample_map\<lparr>snap_MapSignature := Some sig\<rparr>), None)"
proof (rule sample_published, goal_cases)
  case (1 sig b key)
  show ?case
    by (rule 1(1), rule snapshot_event_installs [OF 1(2-8) sample_compact 1(9,10) sample_event_fields(1-7)])
qed

theorem ApplyMapStreamEvent_authentic_witness:
  "\<exists>sig b. authentic_at sample_env b sample_now (sample_map\<lparr>snap_MapSignature := Some sig\<rparr>)"
proof -
  obtain sig b where i: "ApplyMapStreamEvent sample_env zero_Snapshot (sample_event sig) b sample_now =
     (Some (sample_map\<lparr>snap_MapSignature := Some sig\<rparr>), None)"
    by (rule sample_installs)
  show ?thesis using ApplyMapStreamEvent_authentic [OF i sample_event_fields(8)] by blast
qed

theorem reapply_is_noop_witness:
  "\<exists>sig b. ApplyMapStreamEvent sample_env (sample_map\<lparr>snap_MapSignature := Some sig\<rparr>) (sample_event sig) b sample_now =
     (Some (sample_map\<lparr>snap_MapSignature := Some sig\<rparr>), Some ErrMapStreamEventAlreadyApplied)"
proof -
  obtain sig b where i: "ApplyMapStreamEvent sample_env zero_Snapshot (sample_event sig) b sample_now =
     (Some (sample_map\<lparr>snap_MapSignature := Some sig\<rparr>), None)"
    by (rule sample_installs)
  show ?thesis using reapply_is_noop [OF i sample_event_fields(8)] by blast
qed

text \<open>A heartbeat for the sample map.\<close>

definition sample_beat :: MapStreamEvent where
  "sample_beat = sample_heartbeat\<lparr>ev_To := snap_Revision sample_map\<rparr>"

theorem stream_cache_authentic_witness:
  "\<exists>sig b. stream_run sample_env b zero_Snapshot [(sample_event sig, sample_now), (sample_beat, sample_now)]
       (sample_map\<lparr>snap_MapSignature := Some sig\<rparr>) \<and>
     authentic_at sample_env b sample_now (sample_map\<lparr>snap_MapSignature := Some sig\<rparr>)"
proof -
  obtain sig b where i: "ApplyMapStreamEvent sample_env zero_Snapshot (sample_event sig) b sample_now =
     (Some (sample_map\<lparr>snap_MapSignature := Some sig\<rparr>), None)"
    by (rule sample_installs)
  let ?c = "sample_map\<lparr>snap_MapSignature := Some sig\<rparr>"
  have "validateMapStreamEvent sample_beat = None" by code_simp
  moreover have "cloneNetworkMapSnapshot ?c = ?c" using clone_iff [of ?c] sample_compact by simp
  ultimately have h: "ApplyMapStreamEvent sample_env ?c sample_beat b sample_now = (Some ?c, None)"
    unfolding Apply_success by (simp add: sample_beat_def sample_heartbeat_def already_applied_def carries_map_def)
  have r: "stream_run sample_env b zero_Snapshot [(sample_event sig, sample_now), (sample_beat, sample_now)] ?c"
    using stream_run.install [OF stream_run.install [OF stream_run.start i] h] by simp
  have "?c \<notin> {zero_Snapshot, cloneNetworkMapSnapshot zero_Snapshot}"
  proof
    assume "?c \<in> {zero_Snapshot, cloneNetworkMapSnapshot zero_Snapshot}"
    then have "snap_MapSignature ?c = snap_MapSignature zero_Snapshot" by (metis clone_fields(4) insertE singletonD)
    then show False by (simp add: zero_Snapshot_def)
  qed
  then have "\<exists>step \<in> set [(sample_event sig, sample_now), (sample_beat, sample_now)]. installed_by sample_env b ?c step"
    using stream_cache_authentic [OF r] by blast
  then have "authentic_at sample_env b sample_now ?c" by (auto simp: installed_by_def)
  then show ?thesis using r by blast
qed

text \<open>The smallest map with an empty list of addresses; the payload of its copy is two bytes longer.\<close>

definition empty_ips_map :: NetworkMapSnapshot where
  "empty_ips_map = zero_Snapshot\<lparr>snap_Peers := Some [zero_Peer\<lparr>peer_AllowedIPs := Some []\<rparr>]\<rparr>"

definition empty_ips_payload :: "NetworkMapSnapshot \<Rightarrow> string result" where
  "empty_ips_payload s =
     canonicalNetworkMapPayload (\<lambda>_. JNull) s ''ed25519:'' \<lparr>t_ns = 1000000000, t_offset = 0\<rparr> \<lparr>t_ns = 61000000000, t_offset = 0\<rparr>"

definition empty_ips_sig :: MapSignature where
  "empty_ips_sig = \<lparr>sig_Version = 5, sig_KeyID = ''ed25519:'', sig_Algorithm = mapSignatureAlgorithm,
     sig_IssuedAt = \<lparr>t_ns = 1000000000, t_offset = 0\<rparr>, sig_ExpiresAt = \<lparr>t_ns = 61000000000, t_offset = 0\<rparr>,
     sig_PayloadHash = hex_EncodeToString ''h'', sig_Signature = EncodeToString RawURLEncoding (replicate 64 (CHR ''s''))\<rparr>"

definition empty_ips_env :: env where
  "empty_ips_env = \<lparr>env_sha256 = (\<lambda>m. if len m = 586 then ''h'' else []), env_relay_json = (\<lambda>_. JNull),
     env_verify = (\<lambda>_ _ _. True), env_relay_ok = (\<lambda>_. None)\<rparr>"

lemma empty_ips_payloads:
  "(case empty_ips_payload empty_ips_map of Inl _ \<Rightarrow> 0 | Inr p \<Rightarrow> len p) = 586"
  "(case empty_ips_payload (cloneNetworkMapSnapshot empty_ips_map) of Inl _ \<Rightarrow> 0 | Inr p \<Rightarrow> len p) = 588"
  by code_simp+

lemma EncodeToString_Nil: "EncodeToString RawURLEncoding [] = []"
  by code_simp

theorem uncompact_map_refused_witness:
  "\<exists>e (b :: SigningTrustBundle). signed_by (env_sha256 empty_ips_env) (env_relay_json empty_ips_env) (env_verify empty_ips_env)
       empty_ips_map empty_ips_sig (EncodeToString RawURLEncoding (replicate 32 (CHR ''k''))) \<and>
     ApplyMapStreamEvent empty_ips_env zero_Snapshot
       ((sample_event empty_ips_sig)\<lparr>ev_Snapshot := Some empty_ips_map, ev_To := snap_Revision empty_ips_map\<rparr>) b sample_now = (None, Some e)"
proof -
  obtain p where p: "empty_ips_payload empty_ips_map = Inr p" "len p = 586"
    using empty_ips_payloads(1) by (cases "empty_ips_payload empty_ips_map") auto
  have k: "SigningKeyID (env_sha256 empty_ips_env) (EncodeToString RawURLEncoding (replicate 32 (CHR ''k''))) = Inr ''ed25519:''"
    using EncodeToString_Nil by (simp add: SigningKeyID_encode empty_ips_env_def len_def)
  have s: "signed_by (env_sha256 empty_ips_env) (env_relay_json empty_ips_env) (env_verify empty_ips_env)
       empty_ips_map empty_ips_sig (EncodeToString RawURLEncoding (replicate 32 (CHR ''k'')))"
    unfolding signed_by_def k
    using p rawurl.lax.dec_enc rawurl.lax.enc_trimmed
    by (simp add: empty_ips_sig_def empty_ips_env_def empty_ips_payload_def mapSignatureVersion_def)
  let ?e = "(sample_event empty_ips_sig)\<lparr>ev_Snapshot := Some empty_ips_map, ev_To := snap_Revision empty_ips_map\<rparr>"
  have "\<exists>e. ApplyMapStreamEvent empty_ips_env zero_Snapshot ?e b sample_now = (None, Some e)" for b
  proof (rule uncompact_map_refused [OF s])
    show "canonicalNetworkMapPayload (env_relay_json empty_ips_env) empty_ips_map (sig_KeyID empty_ips_sig)
        (sig_IssuedAt empty_ips_sig) (sig_ExpiresAt empty_ips_sig) = Inr p"
      using p(1) by (simp add: empty_ips_payload_def empty_ips_sig_def empty_ips_env_def)
  next
    fix q
    assume "canonicalNetworkMapPayload (env_relay_json empty_ips_env) (cloneNetworkMapSnapshot empty_ips_map) (sig_KeyID empty_ips_sig)
        (sig_IssuedAt empty_ips_sig) (sig_ExpiresAt empty_ips_sig) = Inr q"
    then have "len q = 588"
      using empty_ips_payloads(2) by (simp add: empty_ips_payload_def empty_ips_sig_def empty_ips_env_def)
    then show "env_sha256 empty_ips_env q \<noteq> env_sha256 empty_ips_env p" using p(2) by (simp add: empty_ips_env_def)
  qed (simp_all add: sample_event_def already_applied_def zero_Snapshot_def)
  then show ?thesis using s by blast
qed

end
