(* ===== verification/Json_Parse.thy ===== *)
theory Json_Parse
  imports Json
begin

text \<open>
  What the API uses of \<open>encoding/json\<close> when it reads: the values a \<open>json.Decoder\<close> accepts,
  the strings they stand for, times, and the decoding of an object into a struct with
  \<open>DisallowUnknownFields\<close>.
\<close>

section \<open>Syntax\<close>

text \<open>A string keeps the text between its quotes: \<open>time.Time\<close> reads it without unquoting.\<close>

datatype jval =
    VNull
  | VBool bool
  | VNum string
  | VStr string
  | VArr "jval list"
  | VObj "(string \<times> jval) list"

definition is_json_space :: "char \<Rightarrow> bool" where
  "is_json_space c \<longleftrightarrow> c = CHR '' '' \<or> c = CHR 0x09 \<or> c = CHR 0x0A \<or> c = CHR 0x0D"

definition skip_space :: "string \<Rightarrow> string" where
  "skip_space s = dropWhile is_json_space s"

definition is_hex :: "char \<Rightarrow> bool" where
  "is_hex c \<longleftrightarrow> hex_value c \<noteq> None"

text \<open>The text of a string after its opening quote, and what follows the closing quote.\<close>

fun scan_string :: "string \<Rightarrow> (string \<times> string) option" where
  "scan_string [] = None"
| "scan_string (c # s) =
     (if c = CHR 0x22 then Some ([], s)
      else if c = CHR 0x5C then
        (case s of
           [] \<Rightarrow> None
         | e # s1 \<Rightarrow>
             if e \<in> {CHR ''b'', CHR ''f'', CHR ''n'', CHR ''r'', CHR ''t'', CHR 0x5C, CHR ''/'', CHR 0x22}
             then map_option (apfst (append [c, e])) (scan_string s1)
             else if e = CHR ''u'' then
               (case s1 of
                  h1 # h2 # h3 # h4 # s2 \<Rightarrow>
                    if is_hex h1 \<and> is_hex h2 \<and> is_hex h3 \<and> is_hex h4
                    then map_option (apfst (append [c, e, h1, h2, h3, h4])) (scan_string s2) else None
                | _ \<Rightarrow> None)
             else None)
      else if c < CHR '' '' then None
      else map_option (apfst (Cons c)) (scan_string s))"

definition scan_digits :: "string \<Rightarrow> (string \<times> string) option" where
  "scan_digits s = (if takeWhile is_digit s = [] then None else Some (takeWhile is_digit s, dropWhile is_digit s))"

definition scan_fraction :: "string \<Rightarrow> (string \<times> string) option" where
  "scan_fraction s =
     (case s of
        c # r \<Rightarrow> if c = CHR ''.'' then map_option (apfst (Cons c)) (scan_digits r) else Some ([], s)
      | [] \<Rightarrow> Some ([], s))"

definition scan_exponent :: "string \<Rightarrow> (string \<times> string) option" where
  "scan_exponent s =
     (case s of
        c # r \<Rightarrow>
          if c = CHR ''e'' \<or> c = CHR ''E'' then
            (case r of
               g # r1 \<Rightarrow>
                 if g = CHR ''+'' \<or> g = CHR ''-'' then map_option (apfst (append [c, g])) (scan_digits r1)
                 else map_option (apfst (Cons c)) (scan_digits r)
             | [] \<Rightarrow> None)
          else Some ([], s)
      | [] \<Rightarrow> Some ([], s))"

definition scan_number :: "string \<Rightarrow> (string \<times> string) option" where
  "scan_number s =
     (let (sign, s1) = (case s of c # r \<Rightarrow> if c = CHR ''-'' then ([c], r) else ([], s) | [] \<Rightarrow> ([], s))
      in case s1 of
           [] \<Rightarrow> None
         | c # r \<Rightarrow>
             (case (if c = CHR ''0'' then Some ([c], r) else scan_digits s1) of
                None \<Rightarrow> None
              | Some (whole, s2) \<Rightarrow>
                  (case scan_fraction s2 of
                     None \<Rightarrow> None
                   | Some (frac, s3) \<Rightarrow> map_option (apfst (\<lambda>e. sign @ whole @ frac @ e)) (scan_exponent s3))))"

definition maxNestingDepth :: int where "maxNestingDepth = 10000"

text \<open>
  One value at the front of a text; the first argument bounds the recursion and the second is the
  number of open brackets.
\<close>

fun parse_value :: "nat \<Rightarrow> int \<Rightarrow> string \<Rightarrow> (jval \<times> string) option"
and parse_items :: "nat \<Rightarrow> int \<Rightarrow> string \<Rightarrow> (jval list \<times> string) option"
and parse_members :: "nat \<Rightarrow> int \<Rightarrow> string \<Rightarrow> ((string \<times> jval) list \<times> string) option" where
  "parse_value 0 d s = None"
| "parse_value (Suc n) d s =
     (case skip_space s of
        [] \<Rightarrow> None
      | c # r \<Rightarrow>
          if c = CHR ''{'' then
            (if maxNestingDepth \<le> d then None
             else case skip_space r of
               [] \<Rightarrow> None
             | e # r1 \<Rightarrow> if e = CHR ''}'' then Some (VObj [], r1) else map_option (apfst VObj) (parse_members n (d + 1) r))
          else if c = CHR ''['' then
            (if maxNestingDepth \<le> d then None
             else case skip_space r of
               [] \<Rightarrow> None
             | e # r1 \<Rightarrow> if e = CHR '']'' then Some (VArr [], r1) else map_option (apfst VArr) (parse_items n (d + 1) r))
          else if c = CHR 0x22 then map_option (apfst VStr) (scan_string r)
          else if HasPrefix (c # r) ''null'' then Some (VNull, drop 4 (c # r))
          else if HasPrefix (c # r) ''true'' then Some (VBool True, drop 4 (c # r))
          else if HasPrefix (c # r) ''false'' then Some (VBool False, drop 5 (c # r))
          else map_option (apfst VNum) (scan_number (c # r)))"
| "parse_items 0 d s = None"
| "parse_items (Suc n) d s =
     (case parse_value n d s of
        None \<Rightarrow> None
      | Some (v, r) \<Rightarrow>
          (case skip_space r of
             [] \<Rightarrow> None
           | c # r1 \<Rightarrow>
               if c = CHR '','' then map_option (apfst (Cons v)) (parse_items n d r1)
               else if c = CHR '']'' then Some ([v], r1) else None))"
| "parse_members 0 d s = None"
| "parse_members (Suc n) d s =
     (case skip_space s of
        [] \<Rightarrow> None
      | q # r \<Rightarrow>
          if q \<noteq> CHR 0x22 then None
          else case scan_string r of
            None \<Rightarrow> None
          | Some (k, r1) \<Rightarrow>
              (case skip_space r1 of
                 [] \<Rightarrow> None
               | c # r2 \<Rightarrow>
                   if c \<noteq> CHR '':'' then None
                   else case parse_value n d r2 of
                     None \<Rightarrow> None
                   | Some (v, r3) \<Rightarrow>
                       (case skip_space r3 of
                          [] \<Rightarrow> None
                        | e # r4 \<Rightarrow>
                            if e = CHR '','' then map_option (apfst (Cons (k, v))) (parse_members n d r4)
                            else if e = CHR ''}'' then Some ([(k, v)], r4) else None)))"

text \<open>Every call consumes a byte, so twice the length of the text bounds the recursion.\<close>

definition read_value :: "string \<Rightarrow> (jval \<times> string) option" where
  "read_value s = parse_value (2 * length s + 2) 0 s"

section \<open>Strings\<close>

definition hex4 :: "int list \<Rightarrow> int" where
  "hex4 ds = horner 16 (map (\<lambda>b. case hex_value (char_of b) of None \<Rightarrow> 0 | Some v \<Rightarrow> int v) (take 4 ds))"

text \<open>\<open>utf8.AppendRune\<close>; a surrogate half is written as U+FFFD.\<close>

definition encode_rune :: "int \<Rightarrow> int list" where
  "encode_rune rn =
     (let r = (if rn < 0 \<or> 0x10FFFF < rn \<or> (0xD800 \<le> rn \<and> rn \<le> 0xDFFF) then RuneError else rn)
      in if r < 0x80 then [r]
         else if r < 0x800 then [0xC0 + r div 64, 0x80 + r mod 64]
         else if r < 0x10000 then [0xE0 + r div 4096, 0x80 + r div 64 mod 64, 0x80 + r mod 64]
         else [0xF0 + r div 262144, 0x80 + r div 4096 mod 64, 0x80 + r div 64 mod 64, 0x80 + r mod 64])"

definition escaped_byte :: "int \<Rightarrow> int" where
  "escaped_byte e =
     (if e = of_char (CHR ''b'') then 8 else if e = of_char (CHR ''f'') then 12 else if e = of_char (CHR ''n'') then 10
      else if e = of_char (CHR ''r'') then 13 else if e = of_char (CHR ''t'') then 9 else e)"

definition high_surrogate :: "int \<Rightarrow> bool" where "high_surrogate r \<longleftrightarrow> 0xD800 \<le> r \<and> r < 0xDC00"
definition low_surrogate :: "int \<Rightarrow> bool" where "low_surrogate r \<longleftrightarrow> 0xDC00 \<le> r \<and> r < 0xE000"

function unquote_bytes :: "int list \<Rightarrow> int list" where
  "unquote_bytes [] = []"
| "unquote_bytes (b # bs) =
     (if b = 0x5C then
        (case bs of
           [] \<Rightarrow> []
         | e # rest \<Rightarrow>
             if e = 0x75 then
               (let r = hex4 rest; next = drop 4 rest
                in if high_surrogate r \<and> take 2 next = [0x5C, 0x75] \<and> low_surrogate (hex4 (drop 2 next))
                   then encode_rune (0x10000 + (r - 0xD800) * 1024 + (hex4 (drop 2 next) - 0xDC00)) @
                        unquote_bytes (drop 6 next)
                   else encode_rune r @ unquote_bytes next)
             else escaped_byte e # unquote_bytes rest)
      else let r = fst (decode_rune (b # bs)); n = snd (decode_rune (b # bs))
           in (if r = RuneError \<and> n = 1 then [0xEF, 0xBF, 0xBD] else take n (b # bs)) @
              unquote_bytes (drop (n - 1) bs))"
  by pat_completeness auto
termination
  by (relation "measure length") auto

definition unquote :: "string \<Rightarrow> string" where
  "unquote s = map char_of (unquote_bytes (map of_char s))"

section \<open>Times\<close>

definition is_leap :: "int \<Rightarrow> bool" where
  "is_leap y \<longleftrightarrow> y mod 4 = 0 \<and> (y mod 100 \<noteq> 0 \<or> y mod 400 = 0)"

definition days_in :: "int \<Rightarrow> int \<Rightarrow> int" where
  "days_in m y =
     (if m = 2 then (if is_leap y then 29 else 28) else if m \<in> {4, 6, 9, 11} then 30 else 31)"

text \<open>The day number of a date, the inverse of \<open>civil\<close>.\<close>

definition day_number :: "int \<Rightarrow> int \<Rightarrow> int \<Rightarrow> int" where
  "day_number y m d =
     (let y' = (if m \<le> 2 then y - 1 else y); era = y' div 400; yoe = y' mod 400;
          mp = (if m \<le> 2 then m + 9 else m - 3);
          doy = (153 * mp + 2) div 5 + d - 1;
          doe = 365 * yoe + yoe div 4 - yoe div 100 + doy
      in era * 146097 + doe - 306)"

text \<open>\<open>getnum\<close> of package \<open>time\<close>: two digits, or one where the layout allows it.\<close>

definition getnum :: "bool \<Rightarrow> string \<Rightarrow> (int \<times> string) option" where
  "getnum fixed s =
     (case s of
        a # b # r \<Rightarrow>
          if \<not> is_digit a then None
          else if is_digit b then Some (dec_value [a, b], r)
          else if fixed then None else Some (dec_value [a], b # r)
      | [a] \<Rightarrow> if is_digit a \<and> \<not> fixed then Some (dec_value [a], []) else None
      | [] \<Rightarrow> None)"

definition expect :: "char \<Rightarrow> string \<Rightarrow> string option" where
  "expect c s = (case s of d # r \<Rightarrow> if c = d then Some r else None | [] \<Rightarrow> None)"

definition in_range :: "int \<Rightarrow> int \<Rightarrow> (int \<times> string) option \<Rightarrow> (int \<times> string) option" where
  "in_range lo hi r = (case r of None \<Rightarrow> None | Some (n, s) \<Rightarrow> if lo \<le> n \<and> n \<le> hi then Some (n, s) else None)"

text \<open>A fraction, if there is one: at most nine digits count.\<close>

definition nanoseconds :: "string \<Rightarrow> int \<times> string" where
  "nanoseconds s =
     (case s of
        c # d # r \<Rightarrow>
          if (c = CHR ''.'' \<or> c = CHR '','') \<and> is_digit d
          then let ds = take 9 (takeWhile is_digit (d # r))
               in (dec_value ds * 10 ^ (9 - length ds), dropWhile is_digit (d # r))
          else (0, s)
      | _ \<Rightarrow> (0, s))"

text \<open>\<open>Z07:00\<close>: the offset in seconds.\<close>

definition zone_offset :: "string \<Rightarrow> int option" where
  "zone_offset s =
     (if s = ''Z'' then Some 0
      else case s of
        sign # rest \<Rightarrow>
          (case in_range 0 24 (getnum True rest) of
             None \<Rightarrow> None
           | Some (hr, r1) \<Rightarrow>
               (case expect (CHR '':'') r1 of
                  None \<Rightarrow> None
                | Some r2 \<Rightarrow>
                    (case in_range 0 60 (getnum True r2) of
                       Some (mm, []) \<Rightarrow>
                         if sign = CHR ''+'' then Some ((hr * 60 + mm) * 60)
                         else if sign = CHR ''-'' then Some (- ((hr * 60 + mm) * 60)) else None
                     | _ \<Rightarrow> None)))
      | [] \<Rightarrow> None)"

text \<open>The clock part, \<open>15:04:05\<close> with an optional fraction, in nanoseconds.\<close>

definition parse_clock :: "string \<Rightarrow> (int \<times> string) option" where
  "parse_clock s =
     (case in_range 0 23 (getnum False s) of
        None \<Rightarrow> None
      | Some (h, s1) \<Rightarrow>
          (case expect (CHR '':'') s1 of
             None \<Rightarrow> None
           | Some s2 \<Rightarrow>
               (case in_range 0 59 (getnum True s2) of
                  None \<Rightarrow> None
                | Some (mi, s3) \<Rightarrow>
                    (case expect (CHR '':'') s3 of
                       None \<Rightarrow> None
                     | Some s4 \<Rightarrow>
                         (case in_range 0 59 (getnum True s4) of
                            None \<Rightarrow> None
                          | Some (sec, s5) \<Rightarrow>
                              (let (ns, s6) = nanoseconds s5
                               in Some (h * hour + mi * minute + sec * second + ns, s6)))))))"

text \<open>\<open>Time.UnmarshalJSON\<close> on the text between the quotes: RFC 3339 as \<open>time.Parse\<close> reads it.\<close>

definition parse_time :: "string \<Rightarrow> gotime option" where
  "parse_time s =
     (if length (takeWhile is_digit (take 4 s)) < 4 then None
      else let y = dec_value (take 4 s)
       in case expect (CHR ''-'') (drop 4 s) of
            None \<Rightarrow> None
          | Some s1 \<Rightarrow>
              (case in_range 1 12 (getnum True s1) of
                 None \<Rightarrow> None
               | Some (m, s2) \<Rightarrow>
                   (case expect (CHR ''-'') s2 of
                      None \<Rightarrow> None
                    | Some s3 \<Rightarrow>
                        (case in_range 1 (days_in m y) (getnum True s3) of
                           None \<Rightarrow> None
                         | Some (d, s4) \<Rightarrow>
                             (case expect (CHR ''T'') s4 of
                                None \<Rightarrow> None
                              | Some s5 \<Rightarrow>
                                  (case parse_clock s5 of
                                     None \<Rightarrow> None
                                   | Some (ns, s6) \<Rightarrow>
                                       map_option
                                         (\<lambda>z. \<lparr>t_ns = day_number y m d * (24 * hour) + ns - z * second, t_offset = z\<rparr>)
                                         (zone_offset s6)))))))"

lemma parse_time_examples:
  "parse_time ''2024-02-29T23:59:59.5Z'' = Some \<lparr>t_ns = 63844847999500000000, t_offset = 0\<rparr>"
  "parse_time ''2024-02-29T20:29:59-03:30'' = Some \<lparr>t_ns = 63844847999000000000, t_offset = - 12600\<rparr>"
  "parse_time ''0001-01-01T00:00:00Z'' = Some \<lparr>t_ns = 0, t_offset = 0\<rparr>"
  "parse_time ''2023-02-29T00:00:00Z'' = None"
  by code_simp+

section \<open>Decoding into Go values\<close>

text \<open>
  A decoder reads a value into a variable that already has one: \<open>null\<close> leaves a scalar or a
  struct as it is, and a key that occurs twice is decoded twice into the same field. \<open>None\<close> is an
  error; what Go has stored by then is not used by any caller.
\<close>

type_synonym 'a decoder = "jval \<Rightarrow> 'a \<Rightarrow> 'a option"

definition dec_str :: "string decoder" where
  "dec_str v old = (case v of VNull \<Rightarrow> Some old | VStr raw \<Rightarrow> Some (unquote raw) | _ \<Rightarrow> None)"

definition dec_bool :: "bool decoder" where
  "dec_bool v old = (case v of VNull \<Rightarrow> Some old | VBool b \<Rightarrow> Some b | _ \<Rightarrow> None)"

definition digits_value :: "string \<Rightarrow> int option" where
  "digits_value s = (if s \<noteq> [] \<and> list_all is_digit s then Some (dec_value s) else None)"

definition signed_value :: "string \<Rightarrow> int option" where
  "signed_value s =
     (case s of c # r \<Rightarrow> if c = CHR ''-'' then map_option uminus (digits_value r) else digits_value s | [] \<Rightarrow> None)"

text \<open>\<open>int\<close> and the unsigned types: an integer literal in the range of the type.\<close>

definition dec_int :: "int decoder" where
  "dec_int v old =
     (case v of
        VNull \<Rightarrow> Some old
      | VNum s \<Rightarrow>
          (case signed_value s of
             Some n \<Rightarrow> if - 0x8000000000000000 \<le> n \<and> n \<le> 0x7FFFFFFFFFFFFFFF then Some n else None
           | None \<Rightarrow> None)
      | _ \<Rightarrow> None)"

definition dec_word :: "'a::len word decoder" where
  "dec_word v old =
     (case v of
        VNull \<Rightarrow> Some old
      | VNum s \<Rightarrow>
          (case digits_value s of
             Some n \<Rightarrow> if n < 2 ^ LENGTH('a) then Some (word_of_int n) else None
           | None \<Rightarrow> None)
      | _ \<Rightarrow> None)"

definition dec_time :: "gotime decoder" where
  "dec_time v old = (case v of VNull \<Rightarrow> Some old | VStr raw \<Rightarrow> parse_time raw | _ \<Rightarrow> None)"

text \<open>Element \<open>i\<close> is decoded over the old element \<open>i\<close> where there was one.\<close>

fun dec_elems :: "'a decoder \<Rightarrow> 'a \<Rightarrow> jval list \<Rightarrow> 'a list \<Rightarrow> 'a list option" where
  "dec_elems dec zero [] old = Some []"
| "dec_elems dec zero (v # vs) old =
     (case dec v (case old of x # _ \<Rightarrow> x | [] \<Rightarrow> zero) of
        None \<Rightarrow> None
      | Some x \<Rightarrow> map_option (Cons x) (dec_elems dec zero vs (drop 1 old)))"

definition dec_slice :: "'a decoder \<Rightarrow> 'a \<Rightarrow> 'a slice decoder" where
  "dec_slice dec zero v old =
     (case v of
        VNull \<Rightarrow> Some None
      | VArr vs \<Rightarrow> map_option Some (dec_elems dec zero vs (elems old))
      | _ \<Rightarrow> None)"

text \<open>A slice whose nil-ness nobody observes.\<close>

definition dec_list :: "'a decoder \<Rightarrow> 'a \<Rightarrow> 'a list decoder" where
  "dec_list dec zero v old = map_option elems (dec_slice dec zero v (Some old))"

definition dec_ptr :: "'a decoder \<Rightarrow> 'a \<Rightarrow> 'a option decoder" where
  "dec_ptr dec zero v old =
     (case v of
        VNull \<Rightarrow> Some None
      | _ \<Rightarrow> map_option Some (dec v (case old of None \<Rightarrow> zero | Some x \<Rightarrow> x)))"

text \<open>
  Field names match exactly or else after case folding. The runes that fold to an ASCII letter
  are the letter in both cases, the Kelvin sign and the long s.
\<close>

definition fold_rune :: "int \<Rightarrow> int" where
  "fold_rune r =
     (if of_char (CHR ''a'') \<le> r \<and> r \<le> of_char (CHR ''z'') then r - 32
      else if r = 0x212A then of_char (CHR ''K'') else if r = 0x17F then of_char (CHR ''S'') else r)"

definition find_field :: "(string \<times> 'f) list \<Rightarrow> string \<Rightarrow> 'f option" where
  "find_field fs k =
     (case map_of fs k of
        Some f \<Rightarrow> Some f
      | None \<Rightarrow> map_of (map (\<lambda>(n, f). (map fold_rune (runes n), f)) fs) (map fold_rune (runes k)))"

type_synonym 's fields = "(string \<times> (jval \<Rightarrow> 's \<Rightarrow> 's option)) list"

definition field :: "'a decoder \<Rightarrow> ('s \<Rightarrow> 'a) \<Rightarrow> ('a \<Rightarrow> 's \<Rightarrow> 's) \<Rightarrow> jval \<Rightarrow> 's \<Rightarrow> 's option" where
  "field dec get put v s = map_option (\<lambda>x. put x s) (dec v (get s))"

text \<open>Unknown fields are refused (\<open>DisallowUnknownFields\<close>).\<close>

fun dec_members :: "'s fields \<Rightarrow> (string \<times> jval) list \<Rightarrow> 's \<Rightarrow> 's option" where
  "dec_members fs [] s = Some s"
| "dec_members fs ((k, v) # kvs) s =
     (case find_field fs (unquote k) of
        None \<Rightarrow> None
      | Some f \<Rightarrow> (case f v s of None \<Rightarrow> None | Some s' \<Rightarrow> dec_members fs kvs s'))"

definition dec_struct :: "'s fields \<Rightarrow> 's decoder" where
  "dec_struct fs v s = (case v of VNull \<Rightarrow> Some s | VObj kvs \<Rightarrow> dec_members fs kvs s | _ \<Rightarrow> None)"

text \<open>\<open>decoder.Decode(&x)\<close> followed by a \<open>Decode\<close> that must meet the end of the input.\<close>

definition decode_only :: "'a decoder \<Rightarrow> 'a \<Rightarrow> string \<Rightarrow> 'a option" where
  "decode_only dec zero s =
     (case read_value s of
        None \<Rightarrow> None
      | Some (v, rest) \<Rightarrow> (case dec v zero of None \<Rightarrow> None | Some x \<Rightarrow> if skip_space rest = [] then Some x else None))"

lemmas dec_defs = dec_str_def dec_bool_def dec_int_def dec_word_def dec_time_def dec_slice_def dec_list_def dec_ptr_def
  field_def dec_struct_def

end
