(* ===== verification/Go_Time.thy ===== *)
theory Go_Time
  imports Json_Parse
begin

text \<open>
  Package \<open>time\<close>: a day number and its date, and the RFC 3339 text of an instant, which
  \<open>Time.UnmarshalJSON\<close> reads back.
\<close>

section \<open>Dates\<close>

text \<open>
  A day of a 400 year cycle that starts in March: \<open>a\<close> centuries, \<open>q\<close> spans of four years,
  \<open>k\<close> years and \<open>t\<close> days. Day 365 exists in leap years only.
\<close>

definition cycle_year :: "int \<Rightarrow> int" where
  "cycle_year doe = (doe - doe div 1460 + doe div 36524 - doe div 146096) div 365"

lemma cycle_parts:
  assumes "0 \<le> doe" "doe \<le> (146096 :: int)"
  obtains a q k t where "doe = 36524 * a + 1461 * q + 365 * k + t"
    and "0 \<le> a" "a \<le> 3" "0 \<le> q" "q \<le> 24" "0 \<le> k" "k \<le> 3" "0 \<le> t" "t \<le> 365"
    and "t = 365 \<Longrightarrow> k = 3 \<and> (q = 24 \<longrightarrow> a = 3)"
proof -
  define a where "a = min 3 (doe div 36524)"
  define rem where "rem = doe - 36524 * a"
  define q r where "q = rem div 1461" and "r = rem mod 1461"
  define k where "k = min 3 (r div 365)"
  have a: "0 \<le> a" "a \<le> 3" "0 \<le> rem" "rem \<le> 36524" "a \<noteq> 3 \<longrightarrow> rem < 36524"
    using assms unfolding rem_def a_def by linarith+
  have r: "rem = 1461 * q + r" "0 \<le> r" "r \<le> 1460" by (simp_all add: q_def r_def)
  have q: "0 \<le> q" "q \<le> 24" using a r by linarith+
  have k: "0 \<le> k" "k \<le> 3" "0 \<le> r - 365 * k" "r - 365 * k \<le> 365" "r - 365 * k = 365 \<longrightarrow> k = 3 \<and> r = 1460"
    using r unfolding k_def by linarith+
  show ?thesis
    by (rule that [of a q k "r - 365 * k"]) (use a r q k rem_def in auto)
qed

lemma cycle_year_parts:
  assumes "0 \<le> a" "a \<le> 3" "0 \<le> q" "q \<le> 24" "0 \<le> k" "k \<le> 3" "0 \<le> t" "t \<le> 365" "t = 365 \<longrightarrow> k = 3 \<and> (q = 24 \<longrightarrow> a = 3)"
  shows "cycle_year (36524 * a + 1461 * q + 365 * k + t) = 100 * a + 4 * q + k"
proof -
  let ?x = "36524 * a + 1461 * q + 365 * k + t" and ?e = "(24 * a + q + 365 * k + t) div 1460"
  have "?x = 1460 * (25 * a + q) + (24 * a + q + 365 * k + t)" by simp
  then have x: "?x div 1460 = 25 * a + q + ?e" by (metis div_mult_self4 add.commute zero_neq_numeral)
  have c: "?x div 36524 - ?x div 146096 = a"
  proof (cases "?x = 146096")
    case False
    then have "1461 * q + 365 * k + t < 36524" using assms by (cases "t = 365"; cases "q = 24"; cases "a = 3") auto
    then have "?x div 36524 = a" "?x div 146096 = 0" using assms by linarith+
    then show ?thesis by simp
  next
    case True
    then have "a = 3" using assms by linarith
    then show ?thesis unfolding True by simp
  qed
  have e: "0 \<le> t - ?e" "t - ?e < 365"
    using assms by (cases "t = 365"; cases "k = 3"; linarith)+
  have "?x - ?x div 1460 + (?x div 36524 - ?x div 146096) = 365 * (100 * a + 4 * q + k) + (t - ?e)"
    unfolding x c by simp
  then have "cycle_year ?x = (365 * (100 * a + 4 * q + k) + (t - ?e)) div 365"
    unfolding cycle_year_def by (simp only: add_diff_eq)
  then show ?thesis using e by simp
qed

definition year_start :: "int \<Rightarrow> int" where
  "year_start y = 365 * y + y div 4 - y div 100"

lemma cycle_year_spec:
  assumes "0 \<le> doe" "doe \<le> 146096"
  shows "0 \<le> cycle_year doe" "cycle_year doe < 400" "0 \<le> doe - year_start (cycle_year doe)"
    "doe - year_start (cycle_year doe) \<le> 365" "doe - year_start (cycle_year doe) = 365 \<Longrightarrow> is_leap (cycle_year doe + 1)"
proof -
  obtain a q k t where doe: "doe = 36524 * a + 1461 * q + 365 * k + t"
    and b: "0 \<le> a" "a \<le> 3" "0 \<le> q" "q \<le> 24" "0 \<le> k" "k \<le> 3" "0 \<le> t" "t \<le> 365" "t = 365 \<longrightarrow> k = 3 \<and> (q = 24 \<longrightarrow> a = 3)"
    using cycle_parts [OF assms] by metis
  have y: "cycle_year doe = 100 * a + 4 * q + k" using cycle_year_parts [OF b] doe by simp
  then show "0 \<le> cycle_year doe" "cycle_year doe < 400" using b by linarith+
  have "(100 * a + 4 * q + k) div 4 = 25 * a + q" "(100 * a + 4 * q + k) div 100 = a" using b by linarith+
  then have "year_start (100 * a + 4 * q + k) = 36524 * a + 1461 * q + 365 * k"
    unfolding year_start_def by (simp only:) simp
  then have t: "doe - year_start (cycle_year doe) = t" unfolding y by (simp add: doe)
  then show "0 \<le> doe - year_start (cycle_year doe)" "doe - year_start (cycle_year doe) \<le> 365" using b by simp_all
  assume "doe - year_start (cycle_year doe) = 365"
  then have "k = 3" "q = 24 \<longrightarrow> a = 3" using b t by simp_all
  then have n: "100 * a + 4 * q + k + 1 = 4 * (25 * a + q + 1)" "q = 24 \<longrightarrow> a = 3" by simp_all
  have "(100 * a + 4 * q + k + 1) mod 4 = 0" unfolding n by (rule mod_mult_self1_is_0)
  moreover have "(100 * a + 4 * q + k + 1) mod 100 \<noteq> 0 \<or> (100 * a + 4 * q + k + 1) mod 400 = 0"
  proof (cases "q = 24")
    case True
    then show ?thesis using n by simp
  next
    case False
    then have "(4 * q + 4) mod 100 = 4 * q + 4" using b by (intro mod_pos_pos_trivial) simp_all
    moreover have "(100 * a + 4 * q + k + 1) mod 100 = (4 * q + 4) mod 100"
      using mod_mult_self1 [of "4 * q + 4" a 100] \<open>k = 3\<close> by (simp add: algebra_simps)
    ultimately show ?thesis using b by simp
  qed
  ultimately show "is_leap (cycle_year doe + 1)" by (simp add: is_leap_def y)
qed

text \<open>Month and day of a day of such a year.\<close>

lemma month_of_day:
  assumes "0 \<le> doy" "doy \<le> (365 :: int)" "mp = (5 * doy + 2) div 153" "m = (if mp < 10 then mp + 3 else mp - 9)"
    "d = doy - (153 * mp + 2) div 5 + 1"
  shows "0 \<le> mp" "mp \<le> 11" "1 \<le> d"
    "d \<le> (if m = 2 then (if doy = 365 then 29 else 28) else if m \<in> {4, 6, 9, 11} then 30 else 31)"
proof -
  have mp: "0 \<le> mp" "mp \<le> 11" "153 * mp \<le> 5 * doy + 2" "5 * doy + 2 < 153 * mp + 153" using assms by linarith+
  show "0 \<le> mp" "mp \<le> 11" by (fact mp)+
  have "mp = 0 \<or> mp = 1 \<or> mp = 2 \<or> mp = 3 \<or> mp = 4 \<or> mp = 5 \<or> mp = 6 \<or> mp = 7 \<or> mp = 8 \<or> mp = 9 \<or> mp = 10 \<or> mp = 11"
    using mp(1,2) by presburger
  then show "1 \<le> d" "d \<le> (if m = 2 then (if doy = 365 then 29 else 28) else if m \<in> {4, 6, 9, 11} then 30 else 31)"
    using mp(3,4) assms(2,4,5) by (elim disjE; simp)+
qed

lemma civil_alt:
  "civil days =
     (let z = days + 306; era = z div 146097; doe = z mod 146097; yoe = cycle_year doe; doy = doe - year_start yoe;
          mp = (5 * doy + 2) div 153; d = doy - (153 * mp + 2) div 5 + 1; m = (if mp < 10 then mp + 3 else mp - 9);
          y = yoe + era * 400 + (if m \<le> 2 then 1 else 0)
      in (y, m, d))"
  unfolding civil_def cycle_year_def year_start_def Let_def by (rule refl)

lemma civil_date:
  assumes "civil days = (y, m, d)"
  shows "day_number y m d = days" "1 \<le> m" "m \<le> 12" "1 \<le> d" "d \<le> days_in m y"
proof -
  define era doe where "era = (days + 306) div 146097" and "doe = (days + 306) mod 146097"
  define yoe where "yoe = cycle_year doe"
  define doy where "doy = doe - year_start yoe"
  define mp where "mp = (5 * doy + 2) div 153"
  have doe: "0 \<le> doe" "doe \<le> 146096" using pos_mod_bound [of 146097 "days + 306"] by (simp_all add: doe_def)
  note Y = cycle_year_spec [OF doe, folded yoe_def]
  have doy: "0 \<le> doy" "doy \<le> 365" "doy = 365 \<longrightarrow> is_leap (yoe + 1)" using Y(3-5) by (simp_all add: doy_def)
  note e = assms [unfolded civil_alt Let_def prod.inject, folded era_def doe_def, folded yoe_def, folded doy_def, folded mp_def]
  have c: "m = (if mp < 10 then mp + 3 else mp - 9)" "d = doy - (153 * mp + 2) div 5 + 1"
    "y = yoe + era * 400 + (if m \<le> 2 then 1 else 0)"
    using e by blast+
  note t = month_of_day [OF doy(1,2) mp_def c(1,2)]
  show "1 \<le> m" "m \<le> 12" "1 \<le> d" using t c by auto
  have "is_leap (yoe + era * 400 + 1) = is_leap (yoe + 1)"
  proof -
    have "yoe + era * 400 + 1 = (yoe + 1) + era * 400" "yoe + era * 400 + 1 = (yoe + 1) + (era * 4) * 100"
      "yoe + era * 400 + 1 = (yoe + 1) + (era * 100) * 4"
      by simp_all
    then have "(yoe + era * 400 + 1) mod 400 = (yoe + 1) mod 400" "(yoe + era * 400 + 1) mod 100 = (yoe + 1) mod 100"
      "(yoe + era * 400 + 1) mod 4 = (yoe + 1) mod 4"
      by (metis mod_mult_self1)+
    then show ?thesis by (simp only: is_leap_def)
  qed
  then have "m = 2 \<Longrightarrow> is_leap y = is_leap (yoe + 1)" using c(3) by simp
  then show "d \<le> days_in m y"
    using t(4) doy(3) by (auto simp: days_in_def split: if_splits)
  have "(if m \<le> 2 then y - 1 else y) = yoe + era * 400" "(if m \<le> 2 then m + 9 else m - 3) = mp"
    using t(1,2) c(1,3) by auto
  moreover have "(yoe + era * 400) div 400 = era" "(yoe + era * 400) mod 400 = yoe" using Y(1,2) by auto
  moreover have "era * 146097 + doe = days + 306" by (simp add: era_def doe_def)
  ultimately show "day_number y m d = days"
    by (simp add: day_number_def Let_def c(2) doy_def year_start_def)
qed

section \<open>Decimal fields\<close>

lemma length_Itoa: "0 \<le> n \<Longrightarrow> n < 10 ^ w \<Longrightarrow> 0 < w \<Longrightarrow> length (Itoa n) \<le> w"
proof (induction w arbitrary: n)
  case (Suc w)
  show ?case
  proof (cases "n < 10")
    case False
    then have "0 < w" using Suc.prems by (cases w) auto
    moreover have "n div 10 < 10 ^ w" using Suc.prems by (simp add: div_less_iff_less_mult ac_simps)
    ultimately show ?thesis using Suc.IH [of "n div 10"] Suc.prems False by (simp add: Itoa.simps [of n])
  qed (simp add: Itoa.simps [of n])
qed simp

lemma dec_value_zeros: "dec_value (replicate k (CHR ''0'') @ s) = dec_value s"
  by (induction k) (simp_all add: dec_value_Cons)

lemma pad_int_props:
  assumes "0 \<le> n" "n < 10 ^ w" "0 < w"
  shows "length (pad_int w n) = w" "list_all is_digit (pad_int w n)" "dec_value (pad_int w n) = n"
proof -
  have z: "is_digit (CHR ''0'')" by code_simp
  show "length (pad_int w n) = w" using length_Itoa [OF assms] by (simp add: pad_int_def Let_def)
  show "list_all is_digit (pad_int w n)" using Itoa_props [OF assms(1)] z by (auto simp: pad_int_def Let_def list_all_iff)
  show "dec_value (pad_int w n) = n" using Itoa_props [OF assms(1)] by (simp add: pad_int_def Let_def dec_value_zeros)
qed

lemma getnum_pad:
  assumes "0 \<le> n" "n < 100"
  shows "getnum fixed (pad_int 2 n @ rest) = Some (n, rest)"
proof -
  note p = pad_int_props [of n 2]
  then have "length (pad_int 2 n) = 2" using assms by simp
  then obtain a b where "pad_int 2 n = [a, b]" by (auto simp: length_Suc_conv numeral_2_eq_2)
  then show ?thesis using p assms by (simp add: getnum_def)
qed

lemma TrimRight_split: "s = TrimRight s c @ replicate (length s - length (TrimRight s c)) c"
proof -
  have "takeWhile (\<lambda>x. x = c) (rev s) = replicate (length (takeWhile (\<lambda>x. x = c) (rev s))) c"
    by (metis (mono_tags, lifting) replicate_length_same set_takeWhileD)
  moreover have "rev s = takeWhile (\<lambda>x. x = c) (rev s) @ dropWhile (\<lambda>x. x = c) (rev s)" by simp
  ultimately have "s = rev (dropWhile (\<lambda>x. x = c) (rev s)) @ replicate (length (takeWhile (\<lambda>x. x = c) (rev s))) c"
    by (metis rev_append rev_replicate rev_rev_ident)
  then show ?thesis unfolding TrimRight_def by (metis add_diff_cancel_left' length_append length_replicate)
qed

lemma dec_value_scale: "dec_value (s @ replicate k (CHR ''0'')) = dec_value s * 10 ^ k"
  by (induction k) (simp_all add: replicate_append_same [symmetric] dec_value_append flip: append_assoc)

text \<open>A text that begins with a sign or with \<open>Z\<close>: what follows the seconds.\<close>

definition zone_text :: "string \<Rightarrow> bool" where
  "zone_text z \<longleftrightarrow> (\<exists>c r. z = c # r \<and> \<not> is_digit c \<and> c \<noteq> CHR ''.'' \<and> c \<noteq> CHR '','')"

lemma nanoseconds_text:
  assumes "0 \<le> ns" "ns < 1000000000" "zone_text z" "frac = TrimRight (pad_int 9 ns) (CHR ''0'')"
  shows "nanoseconds ((if frac = [] then [] else ''.'' @ frac) @ z) = (ns, z)"
proof -
  have "ns < 10 ^ 9" using assms(2) by simp
  note p = pad_int_props [OF assms(1) this zero_less_numeral]
  have split: "pad_int 9 ns = frac @ replicate (9 - length frac) (CHR ''0'')"
    using TrimRight_split [of "pad_int 9 ns" "CHR ''0''"] unfolding p(1) assms(4) [symmetric] .
  have v: "dec_value frac * 10 ^ (9 - length frac) = ns"
    using p(3) unfolding split dec_value_scale .
  have l: "length frac \<le> 9" using p(1) unfolding split by simp
  have dg: "list_all is_digit frac" using p(2) unfolding split by simp
  obtain c r where z: "z = c # r" "\<not> is_digit c" "c \<noteq> CHR ''.''" "c \<noteq> CHR '',''" using assms(3) by (auto simp: zone_text_def)
  show ?thesis
  proof (cases frac)
    case Nil
    then show ?thesis using v z by (cases r) (auto simp: nanoseconds_def)
  next
    case (Cons d ds)
    have "takeWhile is_digit (frac @ z) = frac" "dropWhile is_digit (frac @ z) = z"
      using dg z by (auto simp: list_all_iff takeWhile_append2 dropWhile_append2)
    then show ?thesis using Cons dg v l by (simp add: nanoseconds_def Let_def)
  qed
qed

lemma clock_parts:
  fixes r :: int
  assumes "0 \<le> r" "r < 24 * hour"
  shows "r = (r div hour) * hour + (r div minute mod 60) * minute + (r div second mod 60) * second + r mod second"
    and "0 \<le> r div hour" "r div hour < 24" "0 \<le> r mod second" "r mod second < 1000000000"
proof -
  have h: "r div minute = r div second div 60" "r div hour = r div second div 60 div 60"
    using zdiv_zmult2_eq [of 60 r second] zdiv_zmult2_eq [of 60 r "second * 60"]
    by (simp_all add: minute_def hour_def mult.commute)
  have "r = (r div second) * second + r mod second" by simp
  moreover have "r div second = (r div second div 60 div 60) * 3600 + (r div second div 60 mod 60) * 60 + r div second mod 60"
  proof -
    have "n = (n div 60 div 60) * 3600 + (n div 60 mod 60) * 60 + n mod 60" for n :: int by presburger
    then show ?thesis .
  qed
  then have "(r div second) * second =
      ((r div second div 60 div 60) * 3600 + (r div second div 60 mod 60) * 60 + r div second mod 60) * second"
    by (rule arg_cong)
  ultimately show "r = (r div hour) * hour + (r div minute mod 60) * minute + (r div second mod 60) * second + r mod second"
    unfolding h unfolding hour_def minute_def by (simp only: ring_distribs mult.assoc)
  show "0 \<le> r div hour" "r div hour < 24" "0 \<le> r mod second" "r mod second < 1000000000"
    using assms pos_mod_bound [of second r] by (simp_all add: duration_defs)
qed

lemma parse_clock_text:
  assumes "0 \<le> r" "r < 24 * hour" "zone_text z" "frac = TrimRight (pad_int 9 (r mod second)) (CHR ''0'')"
  shows "parse_clock (pad_int 2 (r div hour) @ '':'' @ pad_int 2 (r div minute mod 60) @ '':'' @ pad_int 2 (r div second mod 60) @
    (if frac = [] then [] else ''.'' @ frac) @ z) = Some (r, z)"
proof -
  note c = clock_parts [OF assms(1,2)]
  have "getnum False (pad_int 2 (r div hour) @ s) = Some (r div hour, s)"
    "getnum True (pad_int 2 (r div minute mod 60) @ s) = Some (r div minute mod 60, s)"
    "getnum True (pad_int 2 (r div second mod 60) @ s) = Some (r div second mod 60, s)" for s
    using c(2,3) by (simp_all add: getnum_pad)
  moreover have "nanoseconds ((if frac = [] then [] else ''.'' @ frac) @ z) = (r mod second, z)"
    using nanoseconds_text [OF c(4,5) assms(3,4)] .
  moreover have m: "0 \<le> n mod 60" "n mod 60 \<le> 59" for n :: int using pos_mod_bound [of 60 n] by simp_all
  ultimately show ?thesis
    using c(1) c(2,3) m by (simp add: parse_clock_def in_range_def expect_def)
qed

section \<open>The text of an instant\<close>

definition zone_string :: "gotime \<Rightarrow> string" where
  "zone_string t =
     (if t_offset t = 0 then ''Z''
      else (if zone_minutes t < 0 then ''-'' else ''+'') @ pad_int 2 (\<bar>zone_minutes t\<bar> div 60) @ '':'' @ pad_int 2 (\<bar>zone_minutes t\<bar> mod 60))"

lemma zone_text_string: "zone_text (zone_string t)"
proof -
  have "\<not> is_digit (CHR ''Z'')" "\<not> is_digit (CHR ''-'')" "\<not> is_digit (CHR ''+'')" by code_simp+
  then show ?thesis by (auto simp: zone_text_def zone_string_def)
qed

lemma zone_offset_string:
  assumes "t_offset t mod 60 = 0" and "\<bar>zone_minutes t\<bar> div 60 < 24"
  shows "zone_offset (zone_string t) = Some (t_offset t)"
proof (cases "t_offset t = 0")
  case False
  define hr mm where "hr = \<bar>zone_minutes t\<bar> div 60" and "mm = \<bar>zone_minutes t\<bar> mod 60"
  have o: "t_offset t = 60 * zone_minutes t" "zone_minutes t \<noteq> 0"
    using assms(1) False unfolding zone_minutes_def by (auto simp: zmod_zminus1_eq_if)
  have h: "0 \<le> hr" "hr < 24" "0 \<le> mm" "mm < 60" "\<bar>zone_minutes t\<bar> = 60 * hr + mm"
    using assms(2) pos_mod_bound [of 60 "\<bar>zone_minutes t\<bar>"] by (simp_all add: hr_def mm_def)
  have g: "getnum True (pad_int 2 hr @ s) = Some (hr, s)" "getnum True (pad_int 2 mm) = Some (mm, [])" for s
    using h getnum_pad [of mm True "[]"] by (simp_all add: getnum_pad)
  have "zone_string t = (if zone_minutes t < 0 then CHR ''-'' else CHR ''+'') # pad_int 2 hr @ '':'' @ pad_int 2 mm"
    using False by (simp add: zone_string_def hr_def mm_def)
  then have "zone_offset (zone_string t) = Some (if zone_minutes t < 0 then - ((hr * 60 + mm) * 60) else (hr * 60 + mm) * 60)"
    using g h by (simp add: zone_offset_def in_range_def expect_def)
  then show ?thesis using o h(5) by (auto split: if_splits)
qed (simp add: zone_string_def zone_offset_def)

lemma rfc3339_split:
  "civil (local_ns t div (24 * hour)) = (y, m, d) \<Longrightarrow> r = local_ns t mod (24 * hour) \<Longrightarrow>
   frac = TrimRight (pad_int 9 (r mod second)) (CHR ''0'') \<Longrightarrow>
   rfc3339 t = pad_int 4 y @ ''-'' @ pad_int 2 m @ ''-'' @ pad_int 2 d @ ''T'' @
     pad_int 2 (r div hour) @ '':'' @ pad_int 2 (r div minute mod 60) @ '':'' @ pad_int 2 (r div second mod 60) @
     (if frac = [] then [] else ''.'' @ frac) @ zone_string t"
  by (simp add: rfc3339_def zone_string_def Let_def)

text \<open>Reading the text of an instant gives the instant back, zone included.\<close>

lemma parse_time_rfc3339:
  assumes "time_err t = None" and "t_offset t mod 60 = 0"
  shows "parse_time (rfc3339 t) = Some t"
proof -
  obtain y m d where c: "civil (local_ns t div (24 * hour)) = (y, m, d)" by (cases "civil (local_ns t div (24 * hour))")
  define r frac where "r = local_ns t mod (24 * hour)" and "frac = TrimRight (pad_int 9 (r mod second)) (CHR ''0'')"
  have r: "0 \<le> r" "r < 24 * hour" using pos_mod_bound [of "24 * hour" "local_ns t"] by (simp_all add: r_def duration_defs)
  have y: "0 \<le> y" "y < 10 ^ 4" and z: "\<bar>zone_minutes t\<bar> div 60 < 24"
    using assms(1) c by (auto simp: time_err_def year_of_def)
  note dt = civil_date [OF c] and py = pad_int_props [OF y zero_less_numeral]
  have dm: "d < 100" using dt(5) by (auto simp: days_in_def split: if_splits)
  have "getnum True (pad_int 2 m @ s) = Some (m, s)" "getnum True (pad_int 2 d @ s) = Some (d, s)" for s
    using dt dm by (simp_all add: getnum_pad)
  moreover have "takeWhile is_digit (pad_int 4 y) = pad_int 4 y"
    unfolding takeWhile_eq_all_conv using py(2) by (simp add: list_all_iff)
  then have "length (takeWhile is_digit (pad_int 4 y)) = 4" using py(1) by argo
  ultimately have "parse_time (rfc3339 t) =
      map_option (\<lambda>z. \<lparr>t_ns = day_number y m d * (24 * hour) + r - z * second, t_offset = z\<rparr>) (zone_offset (zone_string t))"
    using parse_clock_text [OF r zone_text_string frac_def] dt py
    unfolding rfc3339_split [OF c r_def frac_def] by (simp add: parse_time_def in_range_def expect_def)
  moreover have "day_number y m d * (24 * hour) + r = local_ns t" unfolding dt(1) r_def by (rule div_mult_mod_eq)
  ultimately show ?thesis
    using zone_offset_string [OF assms(2) z] by (cases t) (simp add: local_ns_def)
qed

end
