(* ===== verification/Json_Roundtrip.thy ===== *)
theory Json_Roundtrip
  imports Go_Time
begin

text \<open>
  Reading back what \<open>json.Marshal\<close> wrote: strings through their escapes, numbers, values, and
  times in the RFC 3339 format.
\<close>

section \<open>Strings\<close>

definition byte_list :: "int list \<Rightarrow> bool" where
  "byte_list bs \<longleftrightarrow> (\<forall>b \<in> set bs. 0 \<le> b \<and> b < 256)"

lemma byte_list_simps [simp]:
  "byte_list []" "byte_list (b # bs) \<longleftrightarrow> 0 \<le> b \<and> b < 256 \<and> byte_list bs"
  "byte_list (xs @ ys) \<longleftrightarrow> byte_list xs \<and> byte_list ys"
  by (auto simp: byte_list_def)

lemma byte_list_of_char [simp]: "byte_list (map of_char s)"
proof -
  have "(of_char c :: int) < 256" for c :: char
    by (metis of_char_mod_256 pos_mod_bound zero_less_numeral)
  then show ?thesis by (auto simp: byte_list_def)
qed

lemma byte_list_sub: "byte_list bs \<Longrightarrow> byte_list (take n bs)" "byte_list bs \<Longrightarrow> byte_list (drop n bs)"
  by (auto simp: byte_list_def dest: in_set_takeD in_set_dropD)

lemma of_char_bytes: "byte_list bs \<Longrightarrow> map of_char (map char_of bs :: string) = bs"
  by (induction bs) auto

lemma char_bytes: "map char_of (map of_char s :: int list) = s"
  by (simp add: comp_def)

text \<open>The piece that \<open>escape_bytes\<close> writes for the rune at the front.\<close>

definition escape_rune :: "int \<Rightarrow> int list \<Rightarrow> string" where
  "escape_rune b bs =
     (let r = fst (decode_rune (b # bs)); n = snd (decode_rune (b # bs))
      in if b < 0x80 then escape_ascii b
         else if r = RuneError \<and> n = 1 then CHR 0x5C # ''ufffd''
         else if r = 0x2028 then CHR 0x5C # ''u2028''
         else if r = 0x2029 then CHR 0x5C # ''u2029''
         else map char_of (take n (b # bs)))"

lemma escape_step: "escape_bytes (b # bs) = escape_rune b bs @ escape_bytes (drop (snd (decode_rune (b # bs)) - 1) bs)"
  by (simp only: escape_bytes.simps escape_rune_def Let_def)

subsection \<open>Scanning\<close>

definition quoted :: "string \<Rightarrow> bool" where
  "quoted raw \<longleftrightarrow> (\<forall>rest. scan_string (raw @ CHR 0x22 # rest) = Some (raw, rest))"

definition plain :: "char \<Rightarrow> bool" where
  "plain c \<longleftrightarrow> c \<noteq> CHR 0x22 \<and> c \<noteq> CHR 0x5C \<and> \<not> c < CHR '' ''"

lemma quoted_Nil: "quoted []"
  by (simp add: quoted_def)

lemma quoted_plain: "list_all plain cs \<Longrightarrow> quoted raw \<Longrightarrow> quoted (cs @ raw)"
  by (induction cs) (auto simp: quoted_def plain_def)

lemma quoted_escape:
  "e \<in> {CHR ''b'', CHR ''f'', CHR ''n'', CHR ''r'', CHR ''t'', CHR 0x5C, CHR ''/'', CHR 0x22} \<Longrightarrow> quoted raw \<Longrightarrow>
   quoted (CHR 0x5C # e # raw)"
  by (auto simp: quoted_def)

lemma quoted_u:
  "list_all is_hex [a, b, c, d] \<Longrightarrow> quoted raw \<Longrightarrow> quoted (CHR 0x5C # CHR ''u'' # a # b # c # d # raw)"
  by (simp add: quoted_def)

lemma plain_int: "plain c \<longleftrightarrow> (of_char c :: int) \<noteq> 0x22 \<and> (of_char c :: int) \<noteq> 0x5C \<and> 0x20 \<le> (of_char c :: int)"
proof -
  have "c < CHR '' '' \<longleftrightarrow> (of_char c :: nat) < 32" by (simp add: less_char_def)
  also have "\<dots> \<longleftrightarrow> \<not> 32 \<le> int (of_char c)" by linarith
  finally have "\<not> c < CHR '' '' \<longleftrightarrow> 0x20 \<le> (of_char c :: int)" by (simp only: of_nat_of_char not_not)
  moreover have "c = CHR 0x22 \<longleftrightarrow> (of_char c :: int) = of_char (CHR 0x22)" "c = CHR 0x5C \<longleftrightarrow> (of_char c :: int) = of_char (CHR 0x5C)"
    by (simp_all only: of_char_eq_iff)
  ultimately show ?thesis by (simp add: plain_def)
qed

lemma hex_pair_ascii:
  "0 \<le> b \<Longrightarrow> b < 128 \<Longrightarrow> list_all is_hex (hex_pair b) \<and> hex4 (map of_char (''00'' @ hex_pair b)) = b"
proof -
  have "list_all (\<lambda>b. list_all is_hex (hex_pair b) \<and> hex4 (map of_char (''00'' @ hex_pair b)) = b) [0..127]" by code_simp
  then show "0 \<le> b \<Longrightarrow> b < 128 \<Longrightarrow> ?thesis" by (auto simp: list_all_iff)
qed

lemma quoted_escape_ascii:
  assumes "0 \<le> b" "b < 0x80" "quoted raw"
  shows "quoted (escape_ascii b @ raw)"
proof (cases "b < 0x20 \<or> b = 0x3C \<or> b = 0x3E \<or> b = 0x26 \<or> b = 0x22 \<or> b = 0x5C")
  case True
  have "list_all is_hex (''00'' @ hex_pair b)"
    using hex_pair_ascii [OF assms(1,2)] by (simp, code_simp)
  then have "quoted (CHR 0x5C # CHR ''u'' # CHR ''0'' # CHR ''0'' # hex_pair b @ raw)"
    using quoted_u [OF _ assms(3)] by (simp add: hex_pair_def)
  then show ?thesis
    using True quoted_escape [OF _ assms(3)] by (auto simp: escape_ascii_def)
next
  case False
  then have "plain (char_of b)" using assms(1,2) by (simp add: plain_int)
  then show ?thesis using quoted_plain [OF _ assms(3), of "[char_of b]"] False by (auto simp: escape_ascii_def)
qed

lemma plain_high: "(\<And>x. x \<in> set bs \<Longrightarrow> 0x80 \<le> x) \<Longrightarrow> byte_list bs \<Longrightarrow> list_all plain (map char_of bs)"
  by (induction bs) (force simp: plain_int)+

lemma quoted_escape_rune:
  assumes "byte_list (b # bs)" and "quoted raw"
  shows "quoted (escape_rune b bs @ raw)"
proof (cases "b < 0x80")
  case True
  then show ?thesis using quoted_escape_ascii [OF _ _ assms(2)] assms(1) by (simp add: escape_rune_def del: decode_rune.simps)
next
  case False
  let ?n = "snd (decode_rune (b # bs))"
  have "0x80 \<le> x" if "x \<in> set (take ?n (b # bs))" for x
  proof (cases "x = b")
    case False
    then have "x \<in> set (take (?n - 1) bs)" using that by (cases ?n) (auto simp del: decode_rune.simps)
    then show ?thesis using decode_rune_skips by (force simp: cont_byte_def)
  qed (use \<open>\<not> b < 0x80\<close> in simp)
  moreover have "byte_list (take ?n (b # bs))" using assms(1) byte_list_sub by blast
  ultimately have "list_all plain (map char_of (take ?n (b # bs)))"
    by (rule plain_high)
  then have "quoted (map char_of (take ?n (b # bs)) @ raw)" using assms(2) by (rule quoted_plain)
  moreover have "list_all is_hex (''ffd2028'' @ ''9'')" by code_simp
  then have "quoted (CHR 0x5C # ''ufffd'' @ raw)" "quoted (CHR 0x5C # ''u2028'' @ raw)" "quoted (CHR 0x5C # ''u2029'' @ raw)"
    using quoted_u [OF _ assms(2)] by simp_all
  ultimately show ?thesis using False by (simp add: escape_rune_def Let_def del: decode_rune.simps)
qed

lemma quoted_escape_bytes: "byte_list bs \<Longrightarrow> quoted (escape_bytes bs)"
proof (induction bs rule: escape_bytes.induct)
  case (2 b bs)
  then have "quoted (escape_bytes (drop (snd (decode_rune (b # bs)) - 1) bs))"
    using byte_list_sub(2) by (simp del: decode_rune.simps escape_bytes.simps)
  then show ?case unfolding escape_step using "2.prems" by (intro quoted_escape_rune)
qed (simp add: quoted_Nil)

text \<open>The text of a string between its quotes.\<close>

definition escape :: "string \<Rightarrow> string" where
  "escape s = escape_bytes (map of_char s)"

lemma json_quote_escape: "json_quote s = CHR 0x22 # escape s @ [CHR 0x22]"
  by (simp add: json_quote_def escape_def)

lemma scan_string_quote: "scan_string (escape s @ CHR 0x22 # rest) = Some (escape s, rest)"
  using quoted_escape_bytes [OF byte_list_of_char] by (simp add: quoted_def escape_def)

subsection \<open>Unquoting\<close>

lemma hex4_append: "length ds = 4 \<Longrightarrow> hex4 (ds @ rest) = hex4 ds"
  by (simp add: hex4_def)

lemma unquote_u:
  assumes "length ds = 4" and "\<not> high_surrogate (hex4 ds)"
  shows "unquote_bytes (0x5C # 0x75 # ds @ rest) = encode_rune (hex4 ds) @ unquote_bytes rest"
  using assms by (simp add: hex4_append Let_def del: decode_rune.simps)

lemma decode_rune_take:
  assumes "decode_rune (b # bs) = (r, n)" and "\<not> (r = RuneError \<and> n = 1)"
  shows "decode_rune (take n (b # bs) @ rest) = (r, n)" and "n \<le> length (b # bs)" and "0 < n"
  using assms by (auto split: if_splits list.splits)

lemma unquote_ascii:
  assumes "0 \<le> b" "b < 0x80"
  shows "unquote_bytes (map of_char (escape_ascii b) @ rest) = b # unquote_bytes rest"
proof -
  have u: "unquote_bytes (0x5C # 0x75 # map of_char (''00'' @ hex_pair b) @ rest) = b # unquote_bytes rest"
  proof (subst unquote_u)
    have h: "hex4 (map of_char (''00'' @ hex_pair b)) = b" using hex_pair_ascii assms by blast
    show "length (map of_char (''00'' @ hex_pair b) :: int list) = 4" by (simp add: hex_pair_def)
    show "\<not> high_surrogate (hex4 (map of_char (''00'' @ hex_pair b)))" using assms by (simp only: h) (simp add: high_surrogate_def)
    show "encode_rune (hex4 (map of_char (''00'' @ hex_pair b))) @ unquote_bytes rest = b # unquote_bytes rest"
      using assms by (simp only: h) (simp add: encode_rune_def)
  qed
  show ?thesis
    using u assms by (auto simp: escape_ascii_def escaped_byte_def RuneError_def)
qed

lemma separator_three:
  assumes "(b - 0xE0) * 4096 + (x - 0x80) * 64 + (y - 0x80) = (r :: int)" and "0x2028 \<le> r" "r \<le> 0x2029"
    and "0x80 \<le> x" "x \<le> 0xBF" "0x80 \<le> y" "y \<le> 0xBF"
  shows "b = 0xE2 \<and> x = 0x80 \<and> y = r - 0x2028 + 0xA8"
proof -
  note e = assms(1) [unfolded left_diff_distrib]
  have b: "b = 0xE2" using e assms(2-) by linarith
  have "x = 0x80" using e assms(2-) b by linarith
  then show ?thesis using e b by linarith
qed

lemma separator_four:
  assumes "(b - 0xF0) * 262144 + (x - 0x80) * 4096 + (y - 0x80) * 64 + (z - 0x80) = (r :: int)" and "0x2028 \<le> r" "r \<le> 0x2029"
    and "0x80 \<le> x" "x \<le> 0xBF" "0x80 \<le> y" "y \<le> 0xBF" "0x80 \<le> z" "z \<le> 0xBF" "b = 0xF0 \<longrightarrow> 0x90 \<le> x" "0xF0 \<le> b"
  shows False
proof (cases "b = 0xF0")
  case True
  then have "0x90 \<le> x" using assms by simp
  then show ?thesis using True assms(1) [unfolded left_diff_distrib] assms(2-9) by linarith
next
  case False
  then have "0xF1 \<le> b" using assms by simp
  then show ?thesis using assms(1) [unfolded left_diff_distrib] assms(2-9) by linarith
qed

lemma decode_rune_multi:
  assumes "decode_rune (b # bs) = (r, n)" and "r \<noteq> RuneError" and "0x80 \<le> b"
  obtains (two) x ys where "bs = x # ys" "n = 2" "r = (b - 0xC0) * 64 + (x - 0x80)" "b \<le> 0xDF" "x \<le> 0xBF"
  | (three) x y ys where "bs = x # y # ys" "n = 3" "r = (b - 0xE0) * 4096 + (x - 0x80) * 64 + (y - 0x80)"
      "0x80 \<le> x" "x \<le> 0xBF" "0x80 \<le> y" "y \<le> 0xBF"
  | (four) x y z ys where "bs = x # y # z # ys" "n = 4"
      "r = (b - 0xF0) * 262144 + (x - 0x80) * 4096 + (y - 0x80) * 64 + (z - 0x80)"
      "0x80 \<le> x" "x \<le> 0xBF" "0x80 \<le> y" "y \<le> 0xBF" "0x80 \<le> z" "z \<le> 0xBF" "b = 0xF0 \<longrightarrow> 0x90 \<le> x" "0xF0 \<le> b"
  using assms unfolding decode_rune.simps(2) cont_byte_def
  by (simp split: if_split_asm list.split_asm; blast)

lemma separator_bytes:
  assumes d: "decode_rune (b # bs) = (r, n)" and "r = 0x2028 \<or> r = 0x2029"
  shows "take n (b # bs) = [0xE2, 0x80, r - 0x2028 + 0xA8]"
proof -
  have r: "0x2028 \<le> r" "r \<le> 0x2029" using assms(2) by auto
  then have "r \<noteq> RuneError" "0x80 \<le> b" using d by (auto simp: RuneError_def split: if_splits)
  with d show ?thesis
  proof (cases rule: decode_rune_multi)
    case (two x ys)
    then show ?thesis using r by (simp add: algebra_simps)
  next
    case (three x y ys)
    then show ?thesis using separator_three [OF three(3) [symmetric] r] by simp
  next
    case (four x y z ys)
    then show ?thesis using separator_four [OF four(3) [symmetric] r] by blast
  qed
qed

lemma separator_escapes:
  "encode_rune (hex4 (map of_char ''2028'')) = [0xE2, 0x80, 0xA8]" "\<not> high_surrogate (hex4 (map of_char ''2028''))"
  "encode_rune (hex4 (map of_char ''2029'')) = [0xE2, 0x80, 0xA9]" "\<not> high_surrogate (hex4 (map of_char ''2029''))"
  by code_simp+

lemma unquote_rune:
  assumes "byte_list (b # bs)" and "decode_rune (b # bs) = (r, n)" and "\<not> (r = RuneError \<and> n = 1)"
  shows "unquote_bytes (map of_char (escape_rune b bs) @ rest) = take n (b # bs) @ unquote_bytes rest"
proof (cases "b < 0x80")
  case True
  then have "r = b" "n = 1" using assms(2) by auto
  then show ?thesis using True assms(1) unquote_ascii by (simp add: escape_rune_def)
next
  case False
  consider "r = 0x2028" | "r = 0x2029" | "r \<noteq> 0x2028" "r \<noteq> 0x2029" by blast
  then show ?thesis
  proof cases
    case 3
    then have e: "map of_char (escape_rune b bs) = take n (b # bs)"
      using False assms of_char_bytes byte_list_sub(1) [OF assms(1)]
      by (auto simp: escape_rune_def Let_def simp del: decode_rune.simps)
    note d = decode_rune_take [OF assms(2,3)]
    obtain tl where t: "take n (b # bs) = b # tl" using d(3) by (cases n) auto
    have l: "length tl = n - 1" using t d(2) by (metis diff_Suc_1 length_Cons length_take min.absorb2)
    have "unquote_bytes ((b # tl) @ rest) = take n ((b # tl) @ rest) @ unquote_bytes (drop (n - 1) (tl @ rest))"
      using False d(1) assms(3) unfolding t by (simp add: Let_def del: decode_rune.simps)
    then show ?thesis unfolding e t using l d(3) by (simp add: take_Cons')
  next
    case 1
    then have "map of_char (escape_rune b bs) = (0x5C # 0x75 # map of_char ''2028'' :: int list)"
      using False assms(2) by (simp add: escape_rune_def RuneError_def)
    then show ?thesis using separator_bytes [OF assms(2)] 1 separator_escapes unquote_u [of "map of_char ''2028''"] by simp
  next
    case 2
    then have "map of_char (escape_rune b bs) = (0x5C # 0x75 # map of_char ''2029'' :: int list)"
      using False assms(2) by (simp add: escape_rune_def RuneError_def)
    then show ?thesis using separator_bytes [OF assms(2)] 2 separator_escapes unquote_u [of "map of_char ''2029''"] by simp
  qed
qed

lemma unquote_escape_bytes:
  assumes "byte_list bs" and "list_all (\<lambda>rn. rn \<noteq> (RuneError, 1)) (runes_of bs)"
  shows "unquote_bytes (map of_char (escape_bytes bs)) = bs"
  using assms
proof (induction bs rule: runes_of.induct)
  case (2 b bs)
  obtain r n where d: "decode_rune (b # bs) = (r, n)" by (cases "decode_rune (b # bs)")
  have v: "\<not> (r = RuneError \<and> n = 1)" "list_all (\<lambda>rn. rn \<noteq> (RuneError, 1)) (runes_of (drop (n - 1) bs))"
    using "2.prems"(2) unfolding runes_of.simps(2) d by simp_all
  have "byte_list (drop (n - 1) bs)" using "2.prems"(1) byte_list_sub(2) by simp
  then have "unquote_bytes (map of_char (escape_bytes (drop (n - 1) bs))) = drop (n - 1) bs"
    using "2.IH" v(2) unfolding d by simp
  moreover have "take n (b # bs) @ drop (n - 1) bs = b # bs"
    using decode_rune_take(3) [OF d v(1)] by (cases n) auto
  ultimately show ?case
    unfolding escape_step map_append d snd_conv using unquote_rune [OF "2.prems"(1) d v(1)] by simp
qed simp

lemma unquote_quote: "ValidString s \<Longrightarrow> unquote (escape s) = s"
  using unquote_escape_bytes [OF byte_list_of_char] by (simp add: ValidString_def unquote_def escape_def comp_def)

section \<open>Values\<close>

fun jval_of :: "json \<Rightarrow> jval" where
  "jval_of JNull = VNull"
| "jval_of (JBool b) = VBool b"
| "jval_of (JInt n) = VNum (json_text (JInt n))"
| "jval_of (JString s) = VStr (escape s)"
| "jval_of (JTime t) = VStr (rfc3339 t)"
| "jval_of (JArray xs) = VArr (map jval_of xs)"
| "jval_of (JObject kvs) = VObj (map (\<lambda>(k, v). (escape k, jval_of v)) kvs)"

fun json_depth :: "json \<Rightarrow> int" where
  "json_depth (JArray xs) = 1 + fold max (map json_depth xs) 0"
| "json_depth (JObject kvs) = 1 + fold max (map (\<lambda>(k, v). json_depth v) kvs) 0"
| "json_depth _ = 0"

text \<open>The text of a time must not need escapes; it never does.\<close>

fun plain_times :: "json \<Rightarrow> bool" where
  "plain_times (JTime t) = list_all plain (rfc3339 t)"
| "plain_times (JArray xs) = list_all plain_times xs"
| "plain_times (JObject kvs) = list_all (\<lambda>(k, v). plain_times v) kvs"
| "plain_times _ = True"

definition delimited :: "string \<Rightarrow> bool" where
  "delimited rest \<longleftrightarrow> (case rest of [] \<Rightarrow> True | c # _ \<Rightarrow> c = CHR '','' \<or> c = CHR '']'' \<or> c = CHR ''}'')"

lemma delimited_chars:
  "delimited (c # r) \<Longrightarrow> \<not> is_digit c \<and> c \<noteq> CHR ''.'' \<and> c \<noteq> CHR ''e'' \<and> c \<noteq> CHR ''E'' \<and> \<not> is_json_space c"
proof -
  have "\<not> is_digit (CHR '','')" "\<not> is_digit (CHR '']'')" "\<not> is_digit (CHR ''}'')" by code_simp+
  then show "delimited (c # r) \<Longrightarrow> ?thesis" by (auto simp: delimited_def is_json_space_def)
qed

lemma scan_number_digits:
  assumes "list_all is_digit ds" and "ds \<noteq> []" and "hd ds = CHR ''0'' \<longrightarrow> ds = ''0''" and "delimited rest"
  shows "scan_number (ds @ rest) = Some (ds, rest)" and "scan_number (CHR ''-'' # ds @ rest) = Some (CHR ''-'' # ds, rest)"
proof -
  obtain c cs where ds: "ds = c # cs" using assms(2) by (cases ds) auto
  have nd: "\<not> is_digit (CHR ''-'')" by code_simp
  have c: "is_digit c" "c \<noteq> CHR ''-''" using assms(1) nd by (auto simp: ds)
  have span: "takeWhile is_digit (ds @ rest) = ds" "dropWhile is_digit (ds @ rest) = rest"
    using assms(1,4) delimited_chars by (cases rest; auto simp: list_all_iff takeWhile_append2 dropWhile_append2)+
  have whole: "c = CHR ''0'' \<Longrightarrow> cs = []" "c \<noteq> CHR ''0'' \<Longrightarrow> scan_digits (c # cs @ rest) = Some (ds, rest)"
    using assms(3) span by (auto simp: ds scan_digits_def)
  have tail: "scan_fraction rest = Some ([], rest)" "scan_exponent rest = Some ([], rest)"
    using assms(4) delimited_chars by (cases rest; auto simp: scan_fraction_def scan_exponent_def)+
  show "scan_number (ds @ rest) = Some (ds, rest)" "scan_number (CHR ''-'' # ds @ rest) = Some (CHR ''-'' # ds, rest)"
    using c whole tail by (cases "c = CHR ''0''"; simp add: ds scan_number_def)+
qed

lemma scan_number_int:
  assumes "delimited rest"
  shows "scan_number (json_text (JInt n) @ rest) = Some (json_text (JInt n), rest)"
proof -
  have "list_all is_digit (Itoa m) \<and> Itoa m \<noteq> [] \<and> (hd (Itoa m) = CHR ''0'' \<longrightarrow> Itoa m = ''0'')" if "0 \<le> m" for m
    using Itoa_props [OF that] by (auto simp: Itoa.simps [of 0])
  then show ?thesis using scan_number_digits [OF _ _ _ assms] by (auto simp del: append_Cons simp: append_Cons [symmetric])
qed

text \<open>What the text of a value can start with.\<close>

definition starts_value :: "char \<Rightarrow> bool" where
  "starts_value c \<longleftrightarrow> \<not> is_json_space c \<and> c \<noteq> CHR '']'' \<and> c \<noteq> CHR ''}''"

lemma json_text_head: obtains c r where "json_text j = c # r" and "starts_value c"
proof (cases j)
  case (JBool b)
  then show ?thesis using that by (cases b) (auto simp: starts_value_def is_json_space_def)
next
  case (JInt n)
  have d: "starts_value c" if "is_digit c" for c
  proof -
    have "\<not> is_digit (CHR '' '')" "\<not> is_digit (CHR 0x09)" "\<not> is_digit (CHR 0x0A)" "\<not> is_digit (CHR 0x0D)"
      "\<not> is_digit (CHR '']'')" "\<not> is_digit (CHR ''}'')" by code_simp+
    then show ?thesis using that by (auto simp: starts_value_def is_json_space_def)
  qed
  show ?thesis
  proof (cases "n < 0")
    case True
    then show ?thesis using that JInt by (simp add: starts_value_def is_json_space_def)
  next
    case False
    then have "list_all is_digit (Itoa n)" "Itoa n \<noteq> []" using Itoa_props [of n] by auto
    then show ?thesis using that JInt d False by (cases "Itoa n") auto
  qed
qed (use that in \<open>auto simp: starts_value_def is_json_space_def json_quote_escape\<close>)

lemma skip_space_value: "starts_value c \<Longrightarrow> skip_space (c # r) = c # r"
  by (simp add: skip_space_def starts_value_def)

lemma skip_space_delim [simp]:
  "skip_space (CHR '','' # r) = CHR '','' # r" "skip_space (CHR '']'' # r) = CHR '']'' # r"
  "skip_space (CHR ''}'' # r) = CHR ''}'' # r" "skip_space (CHR '':'' # r) = CHR '':'' # r"
  "skip_space (CHR 0x22 # r) = CHR 0x22 # r"
  by (simp_all add: skip_space_def is_json_space_def)

lemma delimited_simps [simp]:
  "delimited []" "delimited (CHR '','' # r)" "delimited (CHR '']'' # r)" "delimited (CHR ''}'' # r)"
  by (simp_all add: delimited_def)

lemma parse_items_text:
  assumes "\<And>x n rest. x \<in> set xs \<Longrightarrow> length (json_text x) \<le> n \<Longrightarrow> delimited rest \<Longrightarrow>
      parse_value n d (json_text x @ rest) = Some (jval_of x, rest)"
    and "xs \<noteq> []" and "length (Join (map json_text xs) '','') < n"
  shows "parse_items n d (Join (map json_text xs) '','' @ CHR '']'' # rest) = Some (map jval_of xs, rest)"
  using assms
proof (induction xs arbitrary: n)
  case (Cons x xs)
  obtain m where n: "n = Suc m" using Cons.prems(3) by (cases n) auto
  show ?case
  proof (cases xs)
    case Nil
    then show ?thesis using Cons.prems n by simp
  next
    case (Cons y ys)
    have "parse_value m d (json_text x @ CHR '','' # Join (map json_text xs) '','' @ CHR '']'' # rest) =
        Some (jval_of x, CHR '','' # Join (map json_text xs) '','' @ CHR '']'' # rest)"
      using Cons.prems n Cons by simp
    moreover have "parse_items m d (Join (map json_text xs) '','' @ CHR '']'' # rest) = Some (map jval_of xs, rest)"
      using Cons.prems n Cons by (intro Cons.IH) auto
    ultimately show ?thesis using Cons n by simp
  qed
qed simp

abbreviation member_text :: "string \<times> json \<Rightarrow> string" where
  "member_text \<equiv> \<lambda>(k, v). json_quote k @ '':'' @ json_text v"

abbreviation member_val :: "string \<times> json \<Rightarrow> string \<times> jval" where
  "member_val \<equiv> \<lambda>(k, v). (escape k, jval_of v)"

lemma parse_members_text:
  assumes "\<And>k v n rest. (k, v) \<in> set kvs \<Longrightarrow> length (json_text v) \<le> n \<Longrightarrow> delimited rest \<Longrightarrow>
      parse_value n d (json_text v @ rest) = Some (jval_of v, rest)"
    and "kvs \<noteq> []" and "length (Join (map member_text kvs) '','') < n"
  shows "parse_members n d (Join (map member_text kvs) '','' @ CHR ''}'' # rest) = Some (map member_val kvs, rest)"
  using assms
proof (induction kvs arbitrary: n)
  case (Cons kv kvs)
  obtain k v where kv: "kv = (k, v)" by (cases kv)
  obtain m where n: "n = Suc m" using Cons.prems(3) by (cases n) auto
  have q: "json_quote k @ r = CHR 0x22 # escape k @ CHR 0x22 # r" for r
    by (simp add: json_quote_escape)
  show ?case
  proof (cases kvs)
    case Nil
    have "parse_value m d (json_text v @ CHR ''}'' # rest) = Some (jval_of v, CHR ''}'' # rest)"
      using Cons.prems n Nil by (intro Cons.prems(1)) (auto simp: kv json_quote_escape)
    then show ?thesis using n Nil by (simp add: kv q scan_string_quote)
  next
    case (Cons y ys)
    let ?rest = "Join (map member_text kvs) '','' @ CHR ''}'' # rest"
    have j: "Join (map member_text (kv # kvs)) '','' @ CHR ''}'' # rest = json_quote k @ '':'' @ json_text v @ CHR '','' # ?rest"
      using Cons by (simp add: kv)
    have l: "length (json_text v) + length (Join (map member_text kvs) '','') < m"
      using Cons.prems(3) n Cons by (simp add: kv json_quote_escape)
    have "parse_value m d (json_text v @ CHR '','' # ?rest) = Some (jval_of v, CHR '','' # ?rest)"
      using l by (intro Cons.prems(1)) (auto simp: kv)
    moreover have "parse_members m d ?rest = Some (map member_val kvs, rest)"
      using Cons.prems(1) l Cons by (intro Cons.IH) auto
    ultimately show ?thesis unfolding j q n by (simp add: scan_string_quote kv)
  qed
qed simp

lemma fold_max_le: "fold max xs a \<le> (b :: int) \<longleftrightarrow> a \<le> b \<and> (\<forall>x \<in> set xs. x \<le> b)"
  by (induction xs arbitrary: a) auto

lemma parse_array_text:
  assumes "\<And>x n rest. x \<in> set xs \<Longrightarrow> length (json_text x) \<le> n \<Longrightarrow> delimited rest \<Longrightarrow>
      parse_value n (d + 1) (json_text x @ rest) = Some (jval_of x, rest)"
    and "d < maxNestingDepth" and "length (json_text (JArray xs)) \<le> n"
  shows "parse_value n d (json_text (JArray xs) @ rest) = Some (jval_of (JArray xs), rest)"
proof -
  obtain m where n: "n = Suc m" using assms(3) by (cases n) auto
  have sp: "skip_space (CHR ''['' # r) = CHR ''['' # r" for r by (simp add: skip_space_def is_json_space_def)
  show ?thesis
  proof (cases xs)
    case Nil
    then show ?thesis using assms(2) by (simp add: n sp)
  next
    case (Cons y ys)
    have "parse_items m (d + 1) (Join (map json_text xs) '','' @ CHR '']'' # rest) = Some (map jval_of xs, rest)"
      using assms(1,3) n Cons by (intro parse_items_text) auto
    moreover obtain c r where t: "json_text y = c # r" "starts_value c" by (rule json_text_head)
    moreover have "\<exists>r'. Join (map json_text xs) '','' = c # r'" using t(1) Cons by (cases ys) auto
    ultimately show ?thesis using assms(2) by (auto simp: n sp skip_space_value starts_value_def)
  qed
qed

lemma parse_object_text:
  assumes "\<And>k v n rest. (k, v) \<in> set kvs \<Longrightarrow> length (json_text v) \<le> n \<Longrightarrow> delimited rest \<Longrightarrow>
      parse_value n (d + 1) (json_text v @ rest) = Some (jval_of v, rest)"
    and "d < maxNestingDepth" and "length (json_text (JObject kvs)) \<le> n"
  shows "parse_value n d (json_text (JObject kvs) @ rest) = Some (jval_of (JObject kvs), rest)"
proof -
  obtain m where n: "n = Suc m" using assms(3) by (cases n) auto
  have sp: "skip_space (CHR ''{'' # r) = CHR ''{'' # r" for r by (simp add: skip_space_def is_json_space_def)
  show ?thesis
  proof (cases kvs)
    case Nil
    then show ?thesis using assms(2) by (simp add: n sp)
  next
    case (Cons kv ys)
    have "parse_members m (d + 1) (Join (map member_text kvs) '','' @ CHR ''}'' # rest) = Some (map member_val kvs, rest)"
      using assms(1,3) n Cons by (intro parse_members_text) auto
    moreover have "\<exists>r'. Join (map member_text kvs) '','' = CHR 0x22 # r'"
      using Cons by (cases kv; cases ys) (auto simp: json_quote_escape)
    ultimately show ?thesis using assms(2) by (auto simp: n sp)
  qed
qed

lemma parse_int_text:
  assumes "length (json_text (JInt i)) \<le> n" and "delimited rest"
  shows "parse_value n d (json_text (JInt i) @ rest) = Some (jval_of (JInt i), rest)"
proof -
  obtain c r where t: "json_text (JInt i) = c # r" "starts_value c" by (rule json_text_head)
  have "c = CHR ''-'' \<or> is_digit c"
    using t(1) Itoa_props [of i] by (cases "i < 0") auto
  moreover have "\<not> is_digit (CHR ''{'')" "\<not> is_digit (CHR ''['')" "\<not> is_digit (CHR 0x22)" "\<not> is_digit (CHR ''n'')"
    "\<not> is_digit (CHR ''t'')" "\<not> is_digit (CHR ''f'')" by code_simp+
  ultimately have c: "c \<noteq> CHR ''{''" "c \<noteq> CHR ''[''" "c \<noteq> CHR 0x22" "c \<noteq> CHR ''n''" "c \<noteq> CHR ''t''" "c \<noteq> CHR ''f''" by auto
  obtain m where n: "n = Suc m" using assms(1) t by (cases n) auto
  have "scan_number (c # r @ rest) = Some (c # r, rest)"
    using scan_number_int [OF assms(2), of i] unfolding t(1) by simp
  then show ?thesis
    unfolding jval_of.simps t(1) n using c by (simp add: skip_space_value [OF t(2)] HasPrefix_def)
qed

lemma parse_json_text:
  assumes "length (json_text j) \<le> n" and "d + json_depth j \<le> maxNestingDepth" and "plain_times j" and "delimited rest"
  shows "parse_value n d (json_text j @ rest) = Some (jval_of j, rest)"
  using assms
proof (induction j arbitrary: n d rest)
  case JNull
  then show ?case by (cases n) (auto simp: skip_space_def is_json_space_def HasPrefix_def)
next
  case (JBool b)
  then show ?case by (cases n; cases b) (auto simp: skip_space_def is_json_space_def HasPrefix_def)
next
  case (JInt i)
  then show ?case by (intro parse_int_text)
next
  case (JString s)
  then show ?case by (cases n) (auto simp: json_quote_escape scan_string_quote)
next
  case (JTime t)
  then have "scan_string (rfc3339 t @ CHR 0x22 # rest) = Some (rfc3339 t, rest)"
    using quoted_plain [OF _ quoted_Nil] by (simp add: quoted_def)
  then show ?case using JTime.prems(1) by (cases n) auto
next
  case (JArray xs)
  have "fold max (map json_depth xs) 0 \<le> maxNestingDepth - d - 1" using JArray.prems(2) by simp
  then have nd: "d < maxNestingDepth" and depth: "\<And>x. x \<in> set xs \<Longrightarrow> (d + 1) + json_depth x \<le> maxNestingDepth"
    unfolding fold_max_le by auto
  have "parse_value k (d + 1) (json_text x @ r) = Some (jval_of x, r)"
    if "x \<in> set xs" "length (json_text x) \<le> k" "delimited r" for x k r
    using JArray.IH [OF that(1,2) _ _ that(3)] depth [OF that(1)] JArray.prems(3) that(1) by (simp add: list_all_iff)
  then show ?case using nd JArray.prems(1) by (rule parse_array_text)
next
  case (JObject kvs)
  have "fold max (map (\<lambda>(k, v). json_depth v) kvs) 0 \<le> maxNestingDepth - d - 1" using JObject.prems(2) by simp
  then have nd: "d < maxNestingDepth" and depth: "\<And>k v. (k, v) \<in> set kvs \<Longrightarrow> (d + 1) + json_depth v \<le> maxNestingDepth"
    unfolding fold_max_le by fastforce+
  have "parse_value l (d + 1) (json_text v @ r) = Some (jval_of v, r)"
    if "(k, v) \<in> set kvs" "length (json_text v) \<le> l" "delimited r" for k v l r
    using JObject.IH [OF that(1) _ that(2) _ _ that(3)] depth [OF that(1)] JObject.prems(3) that(1)
    by (auto simp: list_all_iff)
  then show ?case using nd JObject.prems(1) by (rule parse_object_text)
qed

text \<open>The times that \<open>Marshal\<close> accepts are written without escapes.\<close>

lemma plain_digit: "is_digit c \<Longrightarrow> plain c"
  by (auto simp: is_digit_int plain_int)

lemma plain_pad: "0 \<le> n \<Longrightarrow> n < 10 ^ w \<Longrightarrow> 0 < w \<Longrightarrow> list_all plain (pad_int w n)"
  using pad_int_props(2) plain_digit by (auto simp: list_all_iff)

lemma plain_zone:
  assumes "\<bar>zone_minutes t\<bar> div 60 < 24"
  shows "list_all plain (zone_string t)"
proof -
  have "plain (CHR ''Z'')" "plain (CHR ''-'')" "plain (CHR ''+'')" "plain (CHR '':'')" by code_simp+
  then show ?thesis
    using assms pos_mod_bound [of 60 "\<bar>zone_minutes t\<bar>"] by (auto simp: zone_string_def intro!: plain_pad)
qed

lemma plain_rfc3339:
  assumes "time_err t = None"
  shows "list_all plain (rfc3339 t)"
proof -
  obtain y m d where c: "civil (local_ns t div (24 * hour)) = (y, m, d)" by (cases "civil (local_ns t div (24 * hour))")
  define r frac where "r = local_ns t mod (24 * hour)" and "frac = TrimRight (pad_int 9 (r mod second)) (CHR ''0'')"
  have r: "0 \<le> r" "r < 24 * hour" using pos_mod_bound [of "24 * hour" "local_ns t"] by (simp_all add: r_def duration_defs)
  note p = clock_parts [OF r] and dt = civil_date [OF c]
  have "list_all plain (pad_int 9 (r mod second))" using p(4,5) by (intro plain_pad) auto
  then have "list_all plain frac" unfolding frac_def by (metis TrimRight_split list_all_append)
  moreover have "d < 100" using dt(5) by (auto simp: days_in_def split: if_splits)
  moreover have "0 \<le> y" "y < 10 ^ 4" "\<bar>zone_minutes t\<bar> div 60 < 24"
    using assms c by (auto simp: time_err_def year_of_def)
  moreover have "0 \<le> n mod 60" "n mod 60 < 100" for n :: int using pos_mod_bound [of 60 n] by simp_all
  moreover have "plain (CHR ''-'')" "plain (CHR ''T'')" "plain (CHR ''.'')" "plain (CHR '':'')" by code_simp+
  ultimately show ?thesis
    unfolding rfc3339_split [OF c r_def frac_def] using p(2,3) dt by (auto intro!: plain_pad plain_zone)
qed

lemma plain_times: "range_err time_err (json_times j) = None \<Longrightarrow> plain_times j"
  by (induction j) (auto simp: list_all_iff plain_rfc3339 [unfolded list_all_iff] split: prod.splits)

text \<open>What \<open>Marshal\<close> writes is read back as the same value.\<close>

lemma read_marshal:
  assumes "Marshal j = Inr s" and "json_depth j \<le> maxNestingDepth"
  shows "read_value s = Some (jval_of j, [])"
  using assms parse_json_text [of j "2 * length (json_text j) + 2" 0 "[]"] plain_times [of j]
  by (simp add: Marshal_def read_value_def del: range_err_None)

section \<open>Scalars and slices\<close>

lemma signed_value_int [simp]: "signed_value (json_text (JInt n)) = Some n"
proof -
  have d: "digits_value (Itoa m) = Some m" if "0 \<le> m" for m
    using Itoa_props [OF that] by (simp add: digits_value_def)
  have "\<not> is_digit (CHR ''-'')" by code_simp
  then show ?thesis
    using d [of n] d [of "- n"] Itoa_props [of n]
    by (cases "n < 0"; cases "Itoa n") (auto simp: signed_value_def)
qed

lemma dec_int_text [simp]:
  "dec_int (VNum (json_text (JInt n))) old = (if - 0x8000000000000000 \<le> n \<and> n \<le> 0x7FFFFFFFFFFFFFFF then Some n else None)"
  by (simp add: dec_int_def del: json_text.simps)

lemma dec_str_text: "ValidString s \<Longrightarrow> dec_str (VStr (escape s)) old = Some s"
  by (simp add: dec_str_def unquote_quote)

lemma dec_time_text: "time_err t = None \<Longrightarrow> t_offset t mod 60 = 0 \<Longrightarrow> dec_time (VStr (rfc3339 t)) old = Some t"
  by (simp add: dec_time_def parse_time_rfc3339)

lemma dec_elems_strings: "list_all ValidString xs \<Longrightarrow> dec_elems dec_str z (map (\<lambda>s. jval_of (JString s)) xs) old = Some xs"
  by (induction xs arbitrary: old) (simp_all add: dec_str_text)

lemma dec_slice_strings:
  "list_all ValidString (elems s) \<Longrightarrow>
   dec_slice dec_str z (jval_of (case s of None \<Rightarrow> JNull | Some xs \<Rightarrow> JArray (map JString xs))) old = Some s"
  using dec_elems_strings [of "elems s" z "elems old"] by (cases s) (simp_all add: dec_slice_def comp_def)

lemma dec_members_text:
  "ValidString k \<Longrightarrow> find_field fs k = Some f \<Longrightarrow> f (jval_of v) s = Some s' \<Longrightarrow>
   dec_members fs ((escape k, jval_of v) # kvs) s = dec_members fs kvs s'"
  by (simp add: unquote_quote)

section \<open>Texts determine values\<close>

text \<open>The strings and keys of a value, and when its text determines it.\<close>

fun json_texts :: "json \<Rightarrow> string list" where
  "json_texts (JString s) = [s]"
| "json_texts (JArray xs) = concat (map json_texts xs)"
| "json_texts (JObject kvs) = concat (map (\<lambda>(k, v). k # json_texts v) kvs)"
| "json_texts _ = []"

lemma Marshal_no_times: "json_times j = [] \<Longrightarrow> Marshal j = Inr (json_text j)"
  by (simp add: Marshal_def range_err_def)

lemma escape_inj: "ValidString s \<Longrightarrow> ValidString t \<Longrightarrow> escape s = escape t \<Longrightarrow> s = t"
  by (metis unquote_quote)

lemma map_inj_list: "map f xs = map f ys \<Longrightarrow> (\<And>x y. x \<in> set xs \<Longrightarrow> y \<in> set ys \<Longrightarrow> f x = f y \<Longrightarrow> x = y) \<Longrightarrow> xs = ys"
  by (induction xs arbitrary: ys) (auto simp: Cons_eq_map_conv)

lemma jval_of_inj:
  assumes "jval_of j = jval_of k" and "list_all ValidString (json_texts j)" "list_all ValidString (json_texts k)"
    and "json_times j = []" "json_times k = []"
  shows "j = k"
  using assms
proof (induction j arbitrary: k)
  case (JInt n)
  then obtain m where k: "k = JInt m" "json_text (JInt n) = json_text (JInt m)" by (cases k) (auto simp del: json_text.simps)
  then show ?case by (metis option.inject signed_value_int)
next
  case (JString s)
  then show ?case by (cases k) (auto intro: escape_inj)
next
  case (JArray xs)
  then obtain ys where k: "k = JArray ys" "map jval_of xs = map jval_of ys" by (cases k) auto
  have "x = y" if "x \<in> set xs" "y \<in> set ys" "jval_of x = jval_of y" for x y
    using JArray.IH [OF that(1,3)] JArray.prems(2-5) that by (auto simp: k list_all_iff)
  then show ?case using k map_inj_list by blast
next
  case (JObject kvs)
  then obtain lws where k: "k = JObject lws" "map (\<lambda>(k, v). (escape k, jval_of v)) kvs = map (\<lambda>(k, v). (escape k, jval_of v)) lws"
    by (cases k) auto
  have "p = q" if "p \<in> set kvs" "q \<in> set lws" "member_val p = member_val q" for p q
  proof (cases p; cases q)
    fix a v b w assume pq: "p = (a, v)" "q = (b, w)"
    then have "list_all ValidString (a # json_texts v)" "list_all ValidString (b # json_texts w)" "json_times v = []" "json_times w = []"
      using that(1,2) JObject.prems(2-5) by (auto simp: k list_all_iff)
    then show "p = q" using JObject.IH [of p v w] that pq by (auto intro: escape_inj)
  qed
  then show ?case using k map_inj_list by blast
qed (case_tac k, auto)+

lemma json_text_inj:
  assumes "json_text j = json_text k" and "list_all ValidString (json_texts j)" "list_all ValidString (json_texts k)"
    and "json_times j = []" "json_times k = []" and "json_depth j \<le> maxNestingDepth" "json_depth k \<le> maxNestingDepth"
  shows "j = k"
proof -
  have "Some (jval_of j, [] :: string) = Some (jval_of k, [])"
    using read_marshal [OF Marshal_no_times [OF assms(4)] assms(6)] read_marshal [OF Marshal_no_times [OF assms(5)] assms(7)] assms(1) by simp
  then show ?thesis using assms by (intro jval_of_inj) simp_all
qed

lemma slice_field_facts:
  "json_times (case s of None \<Rightarrow> JNull | Some xs \<Rightarrow> JArray (map JString xs)) = []"
  "json_texts (case s of None \<Rightarrow> JNull | Some xs \<Rightarrow> JArray (map JString xs)) = elems s"
  "json_depth (case s of None \<Rightarrow> JNull | Some xs \<Rightarrow> JArray (map JString xs)) \<le> 1"
proof -
  have "fold max (map json_depth (map JString xs)) 0 \<le> 0" for xs by (simp add: fold_max_le del: map_map)
  then show "json_times (case s of None \<Rightarrow> JNull | Some xs \<Rightarrow> JArray (map JString xs)) = []"
    "json_texts (case s of None \<Rightarrow> JNull | Some xs \<Rightarrow> JArray (map JString xs)) = elems s"
    "json_depth (case s of None \<Rightarrow> JNull | Some xs \<Rightarrow> JArray (map JString xs)) \<le> 1"
    by (auto simp: comp_def concat_map_singleton split: option.split)
qed

lemma slice_json_inj:
  "(case s of None \<Rightarrow> JNull | Some xs \<Rightarrow> JArray (map JString xs)) = (case t of None \<Rightarrow> JNull | Some xs \<Rightarrow> JArray (map JString xs)) \<Longrightarrow> s = t"
  by (auto simp: inj_map_eq_map inj_def split: option.splits)

end
