(* ===== verification/Node_Credential.thy ===== *)
theory Node_Credential
  imports Json_Roundtrip Sample_Keys
begin

text \<open>
  Node credentials (\<open>src/clientapi/v1/nodecredential.go\<close>): a signed token that names a node of
  a network and the scopes it may use. SHA-256 and Ed25519 are arguments.
\<close>

section \<open>Claims\<close>

definition nodeCredentialVersion :: int where "nodeCredentialVersion = 3"
definition nodeCredentialAlgorithm :: string where "nodeCredentialAlgorithm = ''ed25519-node-credential-v3''"
definition nodeCredentialPrefix :: string where "nodeCredentialPrefix = ''enc_''"
definition nodeCredentialTTL :: duration where "nodeCredentialTTL = 365 * 24 * hour"
definition nodeCredentialScopeRegister :: string where "nodeCredentialScopeRegister = ''node:register''"
definition nodeCredentialScopeMap :: string where "nodeCredentialScopeMap = ''node:map''"
definition nodeCredentialScopeEndpoint :: string where "nodeCredentialScopeEndpoint = ''node:endpoint''"
definition nodeCredentialScopeDelete :: string where "nodeCredentialScopeDelete = ''node:delete''"

record NodeCredentialClaims =
  ncc_Version :: int
  ncc_KeyID :: string
  ncc_Algorithm :: string
  ncc_NetworkID :: string
  ncc_NodeID :: string
  ncc_Scopes :: "string slice"
  ncc_ExpiresAt :: gotime
  ncc_Signature :: string

definition zero_Claims :: NodeCredentialClaims where
  "zero_Claims = \<lparr>ncc_Version = 0, ncc_KeyID = [], ncc_Algorithm = [], ncc_NetworkID = [], ncc_NodeID = [],
     ncc_Scopes = None, ncc_ExpiresAt = \<lparr>t_ns = 0, t_offset = 0\<rparr>, ncc_Signature = []\<rparr>"

definition json_Claims :: "NodeCredentialClaims \<Rightarrow> json" where
  "json_Claims c = JObject
     ([(''version'', JInt (ncc_Version c))] @ str_field ''key_id'' (ncc_KeyID c) @ str_field ''algorithm'' (ncc_Algorithm c) @
      str_field ''network_id'' (ncc_NetworkID c) @ str_field ''node_id'' (ncc_NodeID c) @
      slice_field JString ''scopes'' (ncc_Scopes c) @ [(''expires_at'', JTime (ncc_ExpiresAt c))] @
      str_field ''signature'' (ncc_Signature c))"

definition claims_fields :: "NodeCredentialClaims fields" where
  "claims_fields =
     [(''version'', field dec_int ncc_Version (\<lambda>x c. c\<lparr>ncc_Version := x\<rparr>)),
      (''key_id'', field dec_str ncc_KeyID (\<lambda>x c. c\<lparr>ncc_KeyID := x\<rparr>)),
      (''algorithm'', field dec_str ncc_Algorithm (\<lambda>x c. c\<lparr>ncc_Algorithm := x\<rparr>)),
      (''network_id'', field dec_str ncc_NetworkID (\<lambda>x c. c\<lparr>ncc_NetworkID := x\<rparr>)),
      (''node_id'', field dec_str ncc_NodeID (\<lambda>x c. c\<lparr>ncc_NodeID := x\<rparr>)),
      (''scopes'', field (dec_slice dec_str []) ncc_Scopes (\<lambda>x c. c\<lparr>ncc_Scopes := x\<rparr>)),
      (''expires_at'', field dec_time ncc_ExpiresAt (\<lambda>x c. c\<lparr>ncc_ExpiresAt := x\<rparr>)),
      (''signature'', field dec_str ncc_Signature (\<lambda>x c. c\<lparr>ncc_Signature := x\<rparr>))]"

record nodeCredentialPayload =
  ncp_Schema :: int
  ncp_KeyID :: string
  ncp_NetworkID :: string
  ncp_NodeID :: string
  ncp_Scopes :: "string slice"
  ncp_ExpiresAt :: gotime

definition json_credential_payload :: "nodeCredentialPayload \<Rightarrow> json" where
  "json_credential_payload p = JObject
     ([(''schema'', JInt (ncp_Schema p))] @ str_field ''key_id'' (ncp_KeyID p) @ str_field ''network_id'' (ncp_NetworkID p) @
      str_field ''node_id'' (ncp_NodeID p) @ slice_field JString ''scopes'' (ncp_Scopes p) @
      [(''expires_at'', JTime (ncp_ExpiresAt p))])"

section \<open>Scopes\<close>

fun clean_loop :: "string list \<Rightarrow> string list \<Rightarrow> string list" where
  "clean_loop out [] = out"
| "clean_loop out (v # vals) =
     (let value = TrimSpace v
      in if value = [] \<or> value \<in> set out then clean_loop out vals else clean_loop (out @ [value]) vals)"

definition cleanStrings :: "string list \<Rightarrow> string list" where
  "cleanStrings vals = clean_loop [] vals"

definition cleanCredentialScopes :: "string list \<Rightarrow> string list" where
  "cleanCredentialScopes scopes = sort (cleanStrings scopes)"

definition CredentialHasScope :: "string list \<Rightarrow> string \<Rightarrow> bool" where
  "CredentialHasScope scopes scope \<longleftrightarrow> list_ex (\<lambda>candidate. candidate = TrimSpace scope) scopes"

section \<open>Signing\<close>

definition nodeCredentialSigningPayload ::
  "string \<Rightarrow> string \<Rightarrow> string \<Rightarrow> string list \<Rightarrow> gotime \<Rightarrow> string result" where
  "nodeCredentialSigningPayload keyID networkID nodeID scopes expiresAt =
     (let cleanScopes = cleanCredentialScopes scopes
      in require (first_err
           [guard (TrimSpace keyID = []) ''node credential key id is required'',
            guard (TrimSpace networkID = [] \<or> TrimSpace nodeID = []) ''node credential identity is required'',
            guard (cleanScopes = []) ''node credential scopes are required''])
         (Marshal (json_credential_payload
            \<lparr>ncp_Schema = nodeCredentialVersion, ncp_KeyID = TrimSpace keyID, ncp_NetworkID = TrimSpace networkID,
             ncp_NodeID = TrimSpace nodeID, ncp_Scopes = Some cleanScopes, ncp_ExpiresAt = UTC expiresAt\<rparr>)))"

definition SignNodeCredentialWithProvider ::
  "(string \<Rightarrow> string) \<Rightarrow> string \<Rightarrow> string \<Rightarrow> string \<Rightarrow> string list \<Rightarrow> gotime \<Rightarrow>
   (string \<Rightarrow> string result) option \<Rightarrow> string result" where
  "SignNodeCredentialWithProvider sha256 publicKey networkID nodeID scopes expiresAt signer =
     (if length publicKey \<noteq> 32 then Inl (Errorf ''invalid node credential public key'')
      else case signer of
        None \<Rightarrow> Inl (Errorf ''node credential signing provider is required'')
      | Some sign \<Rightarrow>
          (case SigningKeyID sha256 (EncodeToString RawURLEncoding publicKey) of
             Inl e \<Rightarrow> Inl e
           | Inr keyID \<Rightarrow>
               (case nodeCredentialSigningPayload keyID networkID nodeID scopes expiresAt of
                  Inl e \<Rightarrow> Inl e
                | Inr payload \<Rightarrow>
                    (case sign payload of
                       Inl e \<Rightarrow> Inl e
                     | Inr signature \<Rightarrow>
                         if length signature \<noteq> 64
                         then Inl (Errorf ''node credential signing provider returned an invalid signature'')
                         else
                           (case Marshal (json_Claims
                                   \<lparr>ncc_Version = nodeCredentialVersion, ncc_KeyID = keyID,
                                    ncc_Algorithm = nodeCredentialAlgorithm, ncc_NetworkID = TrimSpace networkID,
                                    ncc_NodeID = TrimSpace nodeID, ncc_Scopes = Some (cleanCredentialScopes scopes),
                                    ncc_ExpiresAt = UTC expiresAt,
                                    ncc_Signature = EncodeToString RawURLEncoding signature\<rparr>) of
                              Inl e \<Rightarrow> Inl e
                            | Inr raw \<Rightarrow> Inr (nodeCredentialPrefix @ EncodeToString RawURLEncoding raw))))))"

definition SignNodeCredential ::
  "(string \<Rightarrow> string) \<Rightarrow> (string \<Rightarrow> string) \<Rightarrow> (string \<Rightarrow> string \<Rightarrow> string) \<Rightarrow> string \<Rightarrow> string \<Rightarrow> string \<Rightarrow>
   string list \<Rightarrow> gotime \<Rightarrow> string result" where
  "SignNodeCredential sha256 public sign privateKey networkID nodeID scopes expiresAt =
     (if length privateKey \<noteq> 64 then Inl (Errorf ''invalid node credential private key'')
      else SignNodeCredentialWithProvider sha256 (public privateKey) networkID nodeID scopes expiresAt
             (Some (\<lambda>payload. Inr (sign privateKey payload))))"

section \<open>Verification\<close>

definition DecodeNodeCredential :: "string \<Rightarrow> NodeCredentialClaims result" where
  "DecodeNodeCredential credential =
     (let encoded = TrimSpace credential
      in if \<not> HasPrefix encoded nodeCredentialPrefix then Inl (Errorf ''unsupported node credential format'')
         else case DecodeString RawURLEncoding False (TrimPrefix encoded nodeCredentialPrefix) of
           None \<Rightarrow> Inl (Errorf ''invalid node credential encoding'')
         | Some raw \<Rightarrow>
             (case decode_only (dec_struct claims_fields) zero_Claims raw of
                None \<Rightarrow> Inl (Errorf ''invalid node credential payload'')
              | Some claims \<Rightarrow>
                  require (first_err
                    [guard (ncc_Algorithm claims \<noteq> nodeCredentialAlgorithm) ''unsupported node credential algorithm'',
                     guard (ncc_Version claims \<noteq> nodeCredentialVersion) ''unsupported node credential version'',
                     guard (TrimSpace (ncc_KeyID claims) = []) ''node credential key id is missing''])
                  (Inr claims)))"

definition ValidateNodeCredential ::
  "(string \<Rightarrow> string) \<Rightarrow> (string \<Rightarrow> string \<Rightarrow> string \<Rightarrow> bool) \<Rightarrow> string \<Rightarrow> string \<Rightarrow> string \<Rightarrow> gotime \<Rightarrow>
   NodeCredentialClaims result" where
  "ValidateNodeCredential sha256 verify credential trustedPublicKey requiredScope now =
     (case DecodeNodeCredential credential of
        Inl e \<Rightarrow> Inl e
      | Inr claims \<Rightarrow>
          (let required = TrimSpace requiredScope; publicKey = TrimSpace trustedPublicKey
           in require (first_err
                [guard (TrimSpace (ncc_NetworkID claims) = [] \<or> TrimSpace (ncc_NodeID claims) = [])
                   ''node credential is missing identity'',
                 guard (\<not> Before now (ncc_ExpiresAt claims)) ''node credential is expired'',
                 guard (required \<noteq> [] \<and> \<not> CredentialHasScope (elems (ncc_Scopes claims)) required)
                   ''node credential is missing required scope'',
                 guard (publicKey = []) ''node credential trust anchor is required''])
              (case SigningKeyID sha256 publicKey of
                 Inl e \<Rightarrow> Inl e
               | Inr keyID \<Rightarrow>
                   if ncc_KeyID claims \<noteq> keyID then Inl (Errorf ''node credential key id mismatch'')
                   else case DecodeString RawURLEncoding False publicKey of
                     None \<Rightarrow> Inl (Errorf ''invalid node credential public key'')
                   | Some publicKeyRaw \<Rightarrow>
                       if length publicKeyRaw \<noteq> 32 then Inl (Errorf ''invalid node credential public key'')
                       else case DecodeString RawURLEncoding False (ncc_Signature claims) of
                         None \<Rightarrow> Inl (Errorf ''invalid node credential signature'')
                       | Some signatureRaw \<Rightarrow>
                           if length signatureRaw \<noteq> 64 then Inl (Errorf ''invalid node credential signature'')
                           else case nodeCredentialSigningPayload (ncc_KeyID claims) (ncc_NetworkID claims) (ncc_NodeID claims)
                                       (elems (ncc_Scopes claims)) (ncc_ExpiresAt claims) of
                             Inl e \<Rightarrow> Inl e
                           | Inr payload \<Rightarrow>
                               if \<not> verify publicKeyRaw payload signatureRaw
                               then Inl (Errorf ''node credential signature verification failed'')
                               else Inr claims)))"

definition VerifyNodeCredentialWithTrustBundle ::
  "(string \<Rightarrow> string) \<Rightarrow> (string \<Rightarrow> string \<Rightarrow> string \<Rightarrow> bool) \<Rightarrow> string \<Rightarrow> SigningTrustBundle \<Rightarrow> string \<Rightarrow> gotime \<Rightarrow>
   NodeCredentialClaims result" where
  "VerifyNodeCredentialWithTrustBundle sha256 verify credential trust requiredScope now =
     (case DecodeNodeCredential credential of
        Inl e \<Rightarrow> Inl e
      | Inr claims \<Rightarrow>
          (case Resolve sha256 trust (ncc_KeyID claims) now of
             Inl e \<Rightarrow> Inl e
           | Inr key \<Rightarrow> ValidateNodeCredential sha256 verify credential (key_PublicKey key) requiredScope now))"

definition IsSignedNodeCredential :: "string \<Rightarrow> bool" where
  "IsSignedNodeCredential credential = ok (DecodeNodeCredential credential)"

section \<open>Cleaned scopes\<close>

definition clean :: "string list \<Rightarrow> bool" where
  "clean xs \<longleftrightarrow> distinct xs \<and> list_all (\<lambda>v. v \<noteq> [] \<and> TrimSpace v = v) xs"

lemma set_clean_loop: "set (clean_loop out vals) = set out \<union> (TrimSpace ` set vals - {[]})"
  by (induction vals arbitrary: out) (auto simp: Let_def)

lemma clean_clean_loop: "clean out \<Longrightarrow> clean (clean_loop out vals)"
  by (induction vals arbitrary: out) (auto simp: Let_def clean_def)

lemma clean_loop_id: "clean (out @ xs) \<Longrightarrow> clean_loop out xs = out @ xs"
  by (induction xs arbitrary: out) (auto simp: clean_def)

lemma cleanStrings_props: "set (cleanStrings vals) = TrimSpace ` set vals - {[]}" "clean (cleanStrings vals)"
  using set_clean_loop [of "[]"] clean_clean_loop [of "[]"] by (simp_all add: cleanStrings_def clean_def)

lemma cleanCredentialScopes_props:
  "set (cleanCredentialScopes vals) = TrimSpace ` set vals - {[]}" "clean (cleanCredentialScopes vals)"
  "sorted (cleanCredentialScopes vals)"
proof -
  have "list_all P (sort xs) = list_all P xs" for P and xs :: "string list" by (simp only: list_all_iff set_sort)
  then show "clean (cleanCredentialScopes vals)"
    using cleanStrings_props(2) [of vals] by (simp add: cleanCredentialScopes_def clean_def)
qed (simp_all add: cleanCredentialScopes_def cleanStrings_props(1))

lemma cleanCredentialScopes_idem [simp]: "cleanCredentialScopes (cleanCredentialScopes vals) = cleanCredentialScopes vals"
proof -
  have "cleanStrings (cleanCredentialScopes vals) = cleanCredentialScopes vals"
    using clean_loop_id [of "[]"] cleanCredentialScopes_props(2) by (simp add: cleanStrings_def)
  then show ?thesis
    using cleanCredentialScopes_props(3) [of vals] unfolding cleanCredentialScopes_def [of "cleanCredentialScopes vals"]
    by (simp add: sorted_sort_id)
qed

text \<open>
  The scopes a credential is signed over depend only on the set of scopes asked for: they are
  trimmed, non-blank, distinct and sorted, they are exactly the non-blank scopes asked for, and
  cleaning them again changes nothing.
\<close>

theorem cleanCredentialScopes_canonical:
  "set (cleanCredentialScopes vals) = TrimSpace ` set vals - {[]} \<and> distinct (cleanCredentialScopes vals) \<and>
   sorted (cleanCredentialScopes vals) \<and> cleanCredentialScopes (cleanCredentialScopes vals) = cleanCredentialScopes vals \<and>
   (TrimSpace ` set vals - {[]} = TrimSpace ` set other - {[]} \<longleftrightarrow> cleanCredentialScopes vals = cleanCredentialScopes other)"
proof -
  have "cleanCredentialScopes vals = cleanCredentialScopes other"
    if "set (cleanCredentialScopes vals) = set (cleanCredentialScopes other)"
    using that cleanCredentialScopes_props(2,3) by (intro sorted_distinct_set_unique) (simp_all add: clean_def)
  then have "TrimSpace ` set vals - {[]} = TrimSpace ` set other - {[]} \<longleftrightarrow> cleanCredentialScopes vals = cleanCredentialScopes other"
    using cleanCredentialScopes_props(1) [of vals] cleanCredentialScopes_props(1) [of other] by metis
  then show ?thesis
    using cleanCredentialScopes_props [of vals] unfolding clean_def by (intro conjI) (simp_all only: cleanCredentialScopes_idem)
qed

section \<open>What an accepted credential means\<close>

text \<open>The node, the scopes and the expiry that a key has signed.\<close>

definition credential_signed ::
  "(string \<Rightarrow> string) \<Rightarrow> (string \<Rightarrow> string \<Rightarrow> string \<Rightarrow> bool) \<Rightarrow> string \<Rightarrow> NodeCredentialClaims \<Rightarrow> bool" where
  "credential_signed sha256 verify pk c \<longleftrightarrow>
     SigningKeyID sha256 pk = Inr (ncc_KeyID c) \<and>
     (\<exists>raw sigraw payload.
        DecodeString RawURLEncoding False (TrimSpace pk) = Some raw \<and> length raw = 32 \<and>
        DecodeString RawURLEncoding False (ncc_Signature c) = Some sigraw \<and> length sigraw = 64 \<and>
        nodeCredentialSigningPayload (ncc_KeyID c) (ncc_NetworkID c) (ncc_NodeID c) (elems (ncc_Scopes c)) (ncc_ExpiresAt c) =
          Inr payload \<and> verify raw payload sigraw)"

lemma payload_identity:
  "nodeCredentialSigningPayload k net node scopes t = Inr p \<Longrightarrow> TrimSpace net \<noteq> [] \<and> TrimSpace node \<noteq> []"
  by (simp add: nodeCredentialSigningPayload_def Let_def)

lemma ValidateNodeCredential_Inr:
  "ValidateNodeCredential sha256 verify cred pk scope now = Inr c \<longleftrightarrow>
     DecodeNodeCredential cred = Inr c \<and> Before now (ncc_ExpiresAt c) \<and>
     (TrimSpace scope \<noteq> [] \<longrightarrow> TrimSpace scope \<in> set (elems (ncc_Scopes c))) \<and> credential_signed sha256 verify pk c"
proof (cases "DecodeNodeCredential cred")
  case (Inr a)
  show ?thesis
    using payload_identity SigningKeyID_decodes(1)
    by (auto simp: ValidateNodeCredential_def Inr Let_def credential_signed_def CredentialHasScope_def
        list_ex_iff split: option.splits sum.splits)
qed (simp add: ValidateNodeCredential_def)

lemma ValidateNodeCredential_scope:
  assumes "ValidateNodeCredential sha256 verify cred pk scope now = Inr c" and "TrimSpace scope \<noteq> []"
  shows "TrimSpace scope \<in> set (cleanCredentialScopes (elems (ncc_Scopes c)))"
proof -
  have "TrimSpace scope \<in> set (elems (ncc_Scopes c))" using assms by (simp add: ValidateNodeCredential_Inr)
  then have "TrimSpace (TrimSpace scope) \<in> TrimSpace ` set (elems (ncc_Scopes c))" by (rule imageI)
  then show ?thesis using assms(2) by (simp add: cleanCredentialScopes_props(1))
qed

lemma ValidString_graphic: "list_all graphic s \<Longrightarrow> ValidString s"
  using ValidateSafeText_graphic [of s "[]"] by (simp add: ValidateSafeText_def)

text \<open>The payload of the claims, what it says, and the claims whose texts JSON writes without loss.\<close>

definition credential_payload :: "NodeCredentialClaims \<Rightarrow> string result" where
  "credential_payload c =
     nodeCredentialSigningPayload (ncc_KeyID c) (ncc_NetworkID c) (ncc_NodeID c) (elems (ncc_Scopes c)) (ncc_ExpiresAt c)"

definition signed_claims :: "NodeCredentialClaims \<Rightarrow> string \<times> string \<times> string \<times> string list \<times> int" where
  "signed_claims c = (TrimSpace (ncc_KeyID c), TrimSpace (ncc_NetworkID c), TrimSpace (ncc_NodeID c),
     cleanCredentialScopes (elems (ncc_Scopes c)), t_ns (ncc_ExpiresAt c))"

definition utf8_claims :: "NodeCredentialClaims \<Rightarrow> bool" where
  "utf8_claims c \<longleftrightarrow>
     list_all ValidString [TrimSpace (ncc_KeyID c), TrimSpace (ncc_NetworkID c), TrimSpace (ncc_NodeID c)] \<and>
     list_all ValidString (cleanCredentialScopes (elems (ncc_Scopes c)))"

lemma credential_payload_read:
  assumes "credential_payload c = Inr payload"
  shows "time_err (UTC (ncc_ExpiresAt c)) = None"
    and "read_value payload = Some (VObj [(escape ''schema'', VNum (json_text (JInt 3))),
      (escape ''key_id'', VStr (escape (TrimSpace (ncc_KeyID c)))), (escape ''network_id'', VStr (escape (TrimSpace (ncc_NetworkID c)))),
      (escape ''node_id'', VStr (escape (TrimSpace (ncc_NodeID c)))),
      (escape ''scopes'', VArr (map (\<lambda>v. VStr (escape v)) (cleanCredentialScopes (elems (ncc_Scopes c))))),
      (escape ''expires_at'', VStr (rfc3339 (UTC (ncc_ExpiresAt c))))], [])"
proof -
  let ?j = "json_credential_payload \<lparr>ncp_Schema = nodeCredentialVersion, ncp_KeyID = TrimSpace (ncc_KeyID c),
      ncp_NetworkID = TrimSpace (ncc_NetworkID c), ncp_NodeID = TrimSpace (ncc_NodeID c),
      ncp_Scopes = Some (cleanCredentialScopes (elems (ncc_Scopes c))), ncp_ExpiresAt = UTC (ncc_ExpiresAt c)\<rparr>"
  have m: "Marshal ?j = Inr payload"
    using assms by (simp add: credential_payload_def nodeCredentialSigningPayload_def Let_def)
  then show "time_err (UTC (ncc_ExpiresAt c)) = None" by (simp add: Marshal_def json_credential_payload_def field_defs)
  have "json_depth ?j \<le> maxNestingDepth"
    by (auto simp: json_credential_payload_def field_defs maxNestingDepth_def fold_max_le comp_def)
  from read_marshal [OF m this] show "read_value payload = Some (VObj [(escape ''schema'', VNum (json_text (JInt 3))),
      (escape ''key_id'', VStr (escape (TrimSpace (ncc_KeyID c)))), (escape ''network_id'', VStr (escape (TrimSpace (ncc_NetworkID c)))),
      (escape ''node_id'', VStr (escape (TrimSpace (ncc_NodeID c)))),
      (escape ''scopes'', VArr (map (\<lambda>v. VStr (escape v)) (cleanCredentialScopes (elems (ncc_Scopes c))))),
      (escape ''expires_at'', VStr (rfc3339 (UTC (ncc_ExpiresAt c))))], [])"
    by (simp add: json_credential_payload_def field_defs nodeCredentialVersion_def comp_def del: json_text.simps)
qed

lemma UTC_offset: "t_offset (UTC t) = 0"
  by (simp add: UTC_def)

lemma credential_payload_inj:
  assumes "credential_payload c = Inr payload" "credential_payload d = Inr payload" "utf8_claims c" "utf8_claims d"
  shows "signed_claims d = signed_claims c"
proof -
  have r: "escape (TrimSpace (ncc_KeyID d)) = escape (TrimSpace (ncc_KeyID c))"
    "escape (TrimSpace (ncc_NetworkID d)) = escape (TrimSpace (ncc_NetworkID c))"
    "escape (TrimSpace (ncc_NodeID d)) = escape (TrimSpace (ncc_NodeID c))"
    "map (\<lambda>v. VStr (escape v)) (cleanCredentialScopes (elems (ncc_Scopes d))) =
      map (\<lambda>v. VStr (escape v)) (cleanCredentialScopes (elems (ncc_Scopes c)))"
    "rfc3339 (UTC (ncc_ExpiresAt d)) = rfc3339 (UTC (ncc_ExpiresAt c))"
    using credential_payload_read(2) [OF assms(1)] credential_payload_read(2) [OF assms(2)] by (simp_all del: json_text.simps)
  from r(5) have "UTC (ncc_ExpiresAt d) = UTC (ncc_ExpiresAt c)"
    using dec_time_text [OF credential_payload_read(1) [OF assms(1)]] dec_time_text [OF credential_payload_read(1) [OF assms(2)]]
    by (metis UTC_offset mod_0 option.inject)
  then have "t_ns (ncc_ExpiresAt d) = t_ns (ncc_ExpiresAt c)" by (metis t_ns_UTC)
  moreover have "cleanCredentialScopes (elems (ncc_Scopes d)) = cleanCredentialScopes (elems (ncc_Scopes c))"
    using r(4) assms(3,4) by (intro map_inj_list [of "\<lambda>v. VStr (escape v)"]) (auto simp: utf8_claims_def list_all_iff intro: escape_inj)
  ultimately show ?thesis
    using r(1-3) assms(3,4) by (auto simp: signed_claims_def utf8_claims_def intro: escape_inj)
qed

text \<open>
  C18. A credential accepted under a trust bundle is authentic: a key of the bundle that is valid at that
  instant and whose id the credential names has signed a payload that says what the credential
  claims; the credential has not expired, and the required scope is one of the signed scopes. The
  payload determines the claims up to white space around ids and scopes and the order and repetition
  of scopes: claims with the same payload have the same key id, network, node, scopes and expiry,
  when their texts are valid UTF-8, which JSON does not preserve otherwise.
\<close>

theorem credential_authentic:
  assumes "VerifyNodeCredentialWithTrustBundle sha256 verify cred trust scope now = Inr c"
  shows "\<exists>key raw sigraw payload. SigningTrustBundle_Validate sha256 trust = None \<and> key \<in> set (elems (tb_Keys trust)) \<and>
    trusted_at key now \<and> ncc_KeyID c = key_KeyID key \<and> SigningKeyID sha256 (key_PublicKey key) = Inr (ncc_KeyID c) \<and>
    DecodeString RawURLEncoding False (TrimSpace (key_PublicKey key)) = Some raw \<and> length raw = 32 \<and>
    DecodeString RawURLEncoding False (ncc_Signature c) = Some sigraw \<and> length sigraw = 64 \<and>
    credential_payload c = Inr payload \<and> verify raw payload sigraw \<and>
    (\<forall>d. utf8_claims c \<and> utf8_claims d \<and> credential_payload d = Inr payload \<longrightarrow> signed_claims d = signed_claims c) \<and>
    t_ns now < t_ns (ncc_ExpiresAt c) \<and> TrimSpace (ncc_NetworkID c) \<noteq> [] \<and> TrimSpace (ncc_NodeID c) \<noteq> [] \<and>
    (TrimSpace scope \<noteq> [] \<longrightarrow> TrimSpace scope \<in> set (cleanCredentialScopes (elems (ncc_Scopes c))))"
proof -
  obtain key where v: "ValidateNodeCredential sha256 verify cred (key_PublicKey key) scope now = Inr c"
    and r: "Resolve sha256 trust (ncc_KeyID c) now = Inr key"
    using assms by (auto simp: VerifyNodeCredentialWithTrustBundle_def ValidateNodeCredential_Inr split: sum.splits)
  have k: "ncc_KeyID c = key_KeyID key"
    using v r SigningKeyID_trimmed by (auto simp: ValidateNodeCredential_Inr credential_signed_def Resolve_Inr)
  obtain raw sigraw payload where p: "SigningKeyID sha256 (key_PublicKey key) = Inr (ncc_KeyID c)"
    "DecodeString RawURLEncoding False (TrimSpace (key_PublicKey key)) = Some raw" "length raw = 32"
    "DecodeString RawURLEncoding False (ncc_Signature c) = Some sigraw" "length sigraw = 64"
    "credential_payload c = Inr payload" "verify raw payload sigraw"
    using v unfolding ValidateNodeCredential_Inr credential_signed_def credential_payload_def by blast
  have "\<forall>d. utf8_claims c \<and> utf8_claims d \<and> credential_payload d = Inr payload \<longrightarrow> signed_claims d = signed_claims c"
    using credential_payload_inj [OF p(6)] by blast
  moreover have "TrimSpace (ncc_NetworkID c) \<noteq> [] \<and> TrimSpace (ncc_NodeID c) \<noteq> []"
    using p(6) payload_identity unfolding credential_payload_def by blast
  moreover have "SigningTrustBundle_Validate sha256 trust = None" "key \<in> set (elems (tb_Keys trust))" "trusted_at key now"
    using r by (simp_all add: Resolve_Inr)
  moreover have "t_ns now < t_ns (ncc_ExpiresAt c)" using v by (simp add: ValidateNodeCredential_Inr Before_def)
  ultimately show ?thesis using p k ValidateNodeCredential_scope [OF v] by blast
qed

section \<open>Issued credentials\<close>

definition text_claims :: "NodeCredentialClaims \<Rightarrow> bool" where
  "text_claims c \<longleftrightarrow>
     list_all ValidString [ncc_KeyID c, ncc_Algorithm c, ncc_NetworkID c, ncc_NodeID c, ncc_Signature c] \<and>
     list_all ValidString (elems (ncc_Scopes c)) \<and> ncc_Version c = 3 \<and> t_offset (ncc_ExpiresAt c) = 0"

lemma claims_keys:
  "list_all ValidString [''version'', ''key_id'', ''algorithm'', ''network_id'', ''node_id'', ''scopes'', ''expires_at'', ''signature'']"
  by code_simp

lemma Marshal_claims: "time_err (ncc_ExpiresAt c) = None \<Longrightarrow> Marshal (json_Claims c) = Inr (json_text (json_Claims c))"
  by (cases "ncc_Scopes c") (simp_all add: Marshal_def json_Claims_def field_defs range_err_def first_err.simps comp_def)

lemma decode_claims:
  assumes "Marshal (json_Claims c) = Inr raw" and "text_claims c"
  shows "decode_only (dec_struct claims_fields) zero_Claims raw = Some c"
proof -
  have "json_depth (json_Claims c) \<le> maxNestingDepth"
    by (cases "ncc_Scopes c") (auto simp: json_Claims_def field_defs maxNestingDepth_def fold_max_le comp_def)
  then have r: "read_value raw = Some (jval_of (json_Claims c), [])" using assms(1) read_marshal by blast
  have t: "time_err (ncc_ExpiresAt c) = None"
    using assms(1) by (simp add: Marshal_def json_Claims_def field_defs)
  have "dec_struct claims_fields (jval_of (json_Claims c)) zero_Claims = Some c"
    using assms(2) claims_keys t
    by (simp add: dec_struct_def json_Claims_def field_defs unquote_quote claims_fields_def find_field_def field_def
        text_claims_def dec_str_text dec_time_text dec_slice_strings zero_Claims_def del: json_text.simps)
  then show ?thesis by (simp add: decode_only_def r skip_space_def)
qed

lemma decode_prefixed:
  assumes "decode_only (dec_struct claims_fields) zero_Claims raw = Some c"
    and "ncc_Algorithm c = nodeCredentialAlgorithm" "ncc_Version c = nodeCredentialVersion" "TrimSpace (ncc_KeyID c) \<noteq> []"
  shows "DecodeNodeCredential (nodeCredentialPrefix @ EncodeToString RawURLEncoding raw) = Inr c"
proof -
  have "list_all graphic nodeCredentialPrefix" by code_simp
  then have "list_all graphic (nodeCredentialPrefix @ EncodeToString RawURLEncoding raw)"
    using rawurl.lax.enc_graphic by simp
  then have "TrimSpace (nodeCredentialPrefix @ EncodeToString RawURLEncoding raw) = nodeCredentialPrefix @ EncodeToString RawURLEncoding raw"
    using trimmed_graphic TrimSpace_eq_iff by blast
  then show ?thesis
    using assms rawurl.lax.dec_enc
    by (simp add: DecodeNodeCredential_def Let_def HasPrefix_def TrimPrefix_def)
qed

text \<open>The claims of a credential that was issued.\<close>

lemma issued_claims:
  assumes "SignNodeCredentialWithProvider sha256 pub networkID nodeID scopes expiresAt (Some signer) = Inr cred"
    and "ValidString (TrimSpace networkID)" "ValidString (TrimSpace nodeID)" "list_all ValidString (cleanCredentialScopes scopes)"
  obtains c payload sg where "DecodeNodeCredential cred = Inr c" "signer payload = Inr sg" "length sg = 64" "length pub = 32"
    "nodeCredentialSigningPayload (ncc_KeyID c) networkID nodeID scopes expiresAt = Inr payload"
    "SigningKeyID sha256 (EncodeToString RawURLEncoding pub) = Inr (ncc_KeyID c)"
    "ncc_NetworkID c = TrimSpace networkID" "ncc_NodeID c = TrimSpace nodeID" "ncc_Scopes c = Some (cleanCredentialScopes scopes)"
    "ncc_ExpiresAt c = UTC expiresAt" "ncc_Signature c = EncodeToString RawURLEncoding sg"
proof -
  obtain keyID payload sg raw where k: "SigningKeyID sha256 (EncodeToString RawURLEncoding pub) = Inr keyID" and pub: "length pub = 32"
    and p: "nodeCredentialSigningPayload keyID networkID nodeID scopes expiresAt = Inr payload"
    and g: "signer payload = Inr sg" "length sg = 64"
    and m: "Marshal (json_Claims \<lparr>ncc_Version = nodeCredentialVersion, ncc_KeyID = keyID,
        ncc_Algorithm = nodeCredentialAlgorithm, ncc_NetworkID = TrimSpace networkID,
        ncc_NodeID = TrimSpace nodeID, ncc_Scopes = Some (cleanCredentialScopes scopes),
        ncc_ExpiresAt = UTC expiresAt, ncc_Signature = EncodeToString RawURLEncoding sg\<rparr>) = Inr raw" (is "Marshal (json_Claims ?c) = _")
    and cred: "cred = nodeCredentialPrefix @ EncodeToString RawURLEncoding raw"
    using assms(1) by (auto simp: SignNodeCredentialWithProvider_def split: if_splits sum.splits)
  have "ValidString nodeCredentialAlgorithm" by code_simp
  then have "text_claims ?c"
    using assms(2-4) SigningKeyID_graphic [OF k] rawurl.lax.enc_graphic ValidString_graphic
    by (simp add: text_claims_def nodeCredentialVersion_def UTC_def)
  then have "decode_only (dec_struct claims_fields) zero_Claims raw = Some ?c" using m by (intro decode_claims)
  moreover have "TrimSpace keyID \<noteq> []" using SigningKeyID_decodes(2) [OF k] .
  ultimately have "DecodeNodeCredential cred = Inr ?c" unfolding cred by (intro decode_prefixed) simp_all
  then show ?thesis using that [of ?c payload sg] k p g pub by simp
qed

lemma issued_accepted:
  assumes "SignNodeCredential sha256 public sign priv networkID nodeID scopes expiresAt = Inr cred"
    and ed25519: "\<And>m. verify (public priv) m (sign priv m)"
    and "ValidString (TrimSpace networkID)" "ValidString (TrimSpace nodeID)" "list_all ValidString (cleanCredentialScopes scopes)"
    and "t_ns now < t_ns expiresAt" and "TrimSpace scope = [] \<or> TrimSpace scope \<in> set (cleanCredentialScopes scopes)"
  shows "\<exists>c. ValidateNodeCredential sha256 verify cred (EncodeToString RawURLEncoding (public priv)) scope now = Inr c \<and>
    ncc_NetworkID c = TrimSpace networkID \<and> ncc_NodeID c = TrimSpace nodeID \<and>
    ncc_Scopes c = Some (cleanCredentialScopes scopes) \<and> ncc_ExpiresAt c = UTC expiresAt"
proof -
  have s: "SignNodeCredentialWithProvider sha256 (public priv) networkID nodeID scopes expiresAt
      (Some (\<lambda>payload. Inr (sign priv payload))) = Inr cred"
    using assms(1) by (simp add: SignNodeCredential_def split: if_splits)
  obtain c payload sg where c: "DecodeNodeCredential cred = Inr c" "Inr (sign priv payload) = (Inr sg :: string result)" "length sg = 64" "length (public priv) = 32"
    "nodeCredentialSigningPayload (ncc_KeyID c) networkID nodeID scopes expiresAt = Inr payload"
    "SigningKeyID sha256 (EncodeToString RawURLEncoding (public priv)) = Inr (ncc_KeyID c)"
    "ncc_NetworkID c = TrimSpace networkID" "ncc_NodeID c = TrimSpace nodeID" "ncc_Scopes c = Some (cleanCredentialScopes scopes)"
    "ncc_ExpiresAt c = UTC expiresAt" "ncc_Signature c = EncodeToString RawURLEncoding sg"
    by (rule issued_claims [OF s assms(3-5)])
  have "nodeCredentialSigningPayload (ncc_KeyID c) (ncc_NetworkID c) (ncc_NodeID c) (elems (ncc_Scopes c)) (ncc_ExpiresAt c) = Inr payload"
    using c(5,7-10) by (simp add: nodeCredentialSigningPayload_def Let_def)
  moreover have "verify (public priv) payload sg" using ed25519 [of payload] c(2) by simp
  ultimately have "credential_signed sha256 verify (EncodeToString RawURLEncoding (public priv)) c"
    using c(3,4,6,11) rawurl.lax.dec_enc rawurl.lax.enc_trimmed by (simp add: credential_signed_def)
  then show ?thesis
    using c assms(6,7) by (auto simp: ValidateNodeCredential_Inr Before_def)
qed

text \<open>
  C19. A credential that was issued is accepted: signed with a private key, it validates against the
  matching public key until it expires, for every scope it was issued for, and its claims are the
  trimmed identity, the cleaned scopes and the expiry it was issued with. The texts must be valid
  UTF-8, which JSON does not preserve otherwise; of Ed25519 only that its signatures verify is used.
\<close>

theorem issued_credential_validates:
  assumes "SignNodeCredential sha256 public sign priv networkID nodeID scopes expiresAt = Inr cred"
    and ed25519: "\<And>m. verify (public priv) m (sign priv m)"
    and "ValidString (TrimSpace networkID)" "ValidString (TrimSpace nodeID)" "list_all ValidString (cleanCredentialScopes scopes)"
    and "t_ns now < t_ns expiresAt" and "TrimSpace scope = [] \<or> TrimSpace scope \<in> set (cleanCredentialScopes scopes)"
  shows "\<exists>c. ValidateNodeCredential sha256 verify cred (EncodeToString RawURLEncoding (public priv)) scope now = Inr c \<and>
    ncc_NetworkID c = TrimSpace networkID \<and> ncc_NodeID c = TrimSpace nodeID \<and>
    ncc_Scopes c = Some (cleanCredentialScopes scopes) \<and> ncc_ExpiresAt c = UTC expiresAt"
  using assms by (rule issued_accepted)

definition sample_scopes :: "string list" where
  "sample_scopes = ['' node:map'', ''node:endpoint'', ''node:map'']"

lemma sample_credential:
  obtains cred where "SignNodeCredential sample_sha256 sample_public sample_sign sample_priv ''net-r'' ''node-r '' sample_scopes
      \<lparr>t_ns = 61000000000, t_offset = 3600\<rparr> = Inr cred"
    and "ValidString (TrimSpace ''net-r'')" "ValidString (TrimSpace ''node-r '')" "list_all ValidString (cleanCredentialScopes sample_scopes)"
    and "TrimSpace ''node:map'' \<in> set (cleanCredentialScopes sample_scopes)"
proof -
  have t: "TrimSpace ''net-r'' = ''net-r''" "TrimSpace ''node-r '' = ''node-r''" "TrimSpace ''node:map'' = ''node:map''"
    "cleanCredentialScopes sample_scopes = [''node:endpoint'', ''node:map'']" "UTC \<lparr>t_ns = 61000000000, t_offset = 3600\<rparr> = \<lparr>t_ns = 61000000000, t_offset = 0\<rparr>"
    "time_err \<lparr>t_ns = 61000000000, t_offset = 0\<rparr> = None"
    by code_simp+
  have v: "ValidString ''net-r''" "ValidString ''node-r''" "list_all ValidString [''node:endpoint'', ''node:map'']" by code_simp+
  have k: "SigningKeyID sample_sha256 (EncodeToString RawURLEncoding (sample_public sample_priv)) = Inr sample_key_id"
    by (simp add: SigningKeyID_encode sample_public_priv sample_key_id_def sample_sha256_def)
  have l: "length (sample_public sample_priv) = 32" by (simp add: sample_public_priv)
  have l': "length sample_priv = 64" by (simp add: sample_priv_def)
  have "\<exists>payload. nodeCredentialSigningPayload sample_key_id ''net-r'' ''node-r '' sample_scopes \<lparr>t_ns = 61000000000, t_offset = 3600\<rparr> = Inr payload"
    using SigningKeyID_decodes(2) [OF k]
    by (simp add: nodeCredentialSigningPayload_def Let_def t Marshal_def json_credential_payload_def field_defs)
  then have "\<exists>cred. SignNodeCredential sample_sha256 sample_public sample_sign sample_priv ''net-r'' ''node-r '' sample_scopes
      \<lparr>t_ns = 61000000000, t_offset = 3600\<rparr> = Inr cred"
    by (auto simp: SignNodeCredential_def SignNodeCredentialWithProvider_def l l' k t Marshal_claims sample_sign_def)
  then show ?thesis using that v t by auto
qed

theorem issued_credential_validates_witness:
  "\<exists>cred c. ValidateNodeCredential sample_sha256 sample_verify cred (EncodeToString RawURLEncoding (sample_public sample_priv))
     ''node:map'' sample_now = Inr c \<and> ncc_NodeID c = TrimSpace ''node-r ''"
proof (rule sample_credential, goal_cases)
  case (1 cred)
  show ?case
    using issued_credential_validates [OF 1(1), of sample_verify sample_now "''node:map''"] sample_verifies 1(2-5)
    by (auto simp: sample_now_def)
qed

theorem credential_authentic_witness:
  "\<exists>cred c (b :: SigningTrustBundle) payload.
     VerifyNodeCredentialWithTrustBundle sample_sha256 sample_verify cred b ''node:map'' sample_now = Inr c \<and>
     credential_payload c = Inr payload \<and> credential_payload (c\<lparr>ncc_Scopes := Some [''node:delete'']\<rparr>) \<noteq> Inr payload"
proof -
  obtain cred where cred: "SignNodeCredential sample_sha256 sample_public sample_sign sample_priv ''net-r'' ''node-r '' sample_scopes
      \<lparr>t_ns = 61000000000, t_offset = 3600\<rparr> = Inr cred" "ValidString (TrimSpace ''net-r'')" "ValidString (TrimSpace ''node-r '')"
    "list_all ValidString (cleanCredentialScopes sample_scopes)" "TrimSpace ''node:map'' \<in> set (cleanCredentialScopes sample_scopes)"
    by (rule sample_credential)
  obtain c where c: "ValidateNodeCredential sample_sha256 sample_verify cred (EncodeToString RawURLEncoding (sample_public sample_priv))
      ''node:map'' sample_now = Inr c" "ncc_NetworkID c = TrimSpace ''net-r''" "ncc_NodeID c = TrimSpace ''node-r ''"
      "ncc_Scopes c = Some (cleanCredentialScopes sample_scopes)"
    using issued_accepted [OF cred(1), of sample_verify sample_now "''node:map''"] sample_verifies cred(2-5)
    by (auto simp: sample_now_def)
  obtain b key where b: "Resolve sample_sha256 b sample_key_id sample_now = Inr key"
    "key_PublicKey key = EncodeToString RawURLEncoding (sample_public sample_priv)"
    using sample_bundle by blast
  have k: "SigningKeyID sample_sha256 (EncodeToString RawURLEncoding (sample_public sample_priv)) = Inr sample_key_id"
    by (simp add: SigningKeyID_encode sample_public_priv sample_key_id_def sample_sha256_def)
  then have d: "ncc_KeyID c = sample_key_id" "DecodeNodeCredential cred = Inr c"
    using c(1) by (auto simp: ValidateNodeCredential_Inr credential_signed_def)
  then have v: "VerifyNodeCredentialWithTrustBundle sample_sha256 sample_verify cred b ''node:map'' sample_now = Inr c"
    using b c(1) d by (simp add: VerifyNodeCredentialWithTrustBundle_def)
  have "ValidString (TrimSpace sample_key_id)"
    using SigningKeyID_graphic [OF k] SigningKeyID_trimmed [OF k] ValidString_graphic by simp
  then have u: "utf8_claims c" using c(2-4) d(1) cred(2-4) by (simp add: utf8_claims_def)
  obtain payload where p: "credential_payload c = Inr payload"
    "\<forall>d. utf8_claims c \<and> utf8_claims d \<and> credential_payload d = Inr payload \<longrightarrow> signed_claims d = signed_claims c"
    using credential_authentic [OF v] by blast
  have t: "cleanCredentialScopes [''node:delete''] = [''node:delete'']" "cleanCredentialScopes (cleanCredentialScopes sample_scopes) = [''node:endpoint'', ''node:map'']"
    "ValidString ''node:delete''" by code_simp+
  let ?d = "c\<lparr>ncc_Scopes := Some [''node:delete'']\<rparr>"
  have "utf8_claims ?d" "signed_claims ?d \<noteq> signed_claims c" using u c(4) t by (simp_all add: utf8_claims_def signed_claims_def del: cleanCredentialScopes_idem)
  then have "credential_payload ?d \<noteq> Inr payload" using p(2) u by blast
  then show ?thesis using v p(1) by blast
qed

end
