(* ===== verification/Go_Duration.thy ===== *)
theory Go_Duration
  imports Go_Time
begin

text \<open>
  \<open>Duration.String\<close> and \<open>time.ParseDuration\<close>, in nanoseconds. A fraction is computed exactly
  here and in \<open>float64\<close> by Go; the two agree on every text that \<open>Duration.String\<close> prints, and the
  API compares with that text.
\<close>

section \<open>Printing\<close>

text \<open>\<open>fmtFrac\<close>: the decimals of \<open>v / 10^prec\<close> without trailing zeros, with the point if any are left.\<close>

definition fmtFrac :: "int \<Rightarrow> nat \<Rightarrow> string" where
  "fmtFrac v prec =
     (let ds = TrimRight (pad_int prec (v mod 10 ^ prec)) (CHR ''0'')
      in if prec = 0 \<or> ds = [] then [] else ''.'' @ ds)"

definition micro_sign :: string where "micro_sign = [CHR 0xC2, CHR 0xB5]"

definition duration_String :: "duration \<Rightarrow> string" where
  "duration_String d =
     (let u = \<bar>d\<bar>;
          text =
            (if u = 0 then ''0s''
             else if u < 1000 then Itoa u @ ''ns''
             else if u < 1000000 then Itoa (u div 1000) @ fmtFrac u 3 @ micro_sign @ ''s''
             else if u < second then Itoa (u div 1000000) @ fmtFrac u 6 @ ''ms''
             else let sec = u div second
               in (if hour \<le> u then Itoa (sec div 3600) @ ''h'' else []) @
                  (if minute \<le> u then Itoa (sec div 60 mod 60) @ ''m'' else []) @
                  Itoa (sec mod 60) @ fmtFrac u 9 @ ''s'')
      in if d < 0 then CHR ''-'' # text else text)"

section \<open>Parsing\<close>

definition unitMap :: "(string \<times> int) list" where
  "unitMap =
     [(''ns'', 1), (''us'', 1000), (micro_sign @ ''s'', 1000), ([CHR 0xCE, CHR 0xBC] @ ''s'', 1000),
      (''ms'', 1000000), (''s'', second), (''m'', minute), (''h'', hour)]"

definition number_char :: "char \<Rightarrow> bool" where
  "number_char c \<longleftrightarrow> c = CHR ''.'' \<or> is_digit c"

text \<open>One number with its unit: the nanoseconds and the rest of the text.\<close>

definition parse_term :: "string \<Rightarrow> (int \<times> string) option" where
  "parse_term s =
     (let whole = takeWhile is_digit s; s1 = dropWhile is_digit s;
          (frac, s2) = (case s1 of c # r \<Rightarrow> if c = CHR ''.'' then (takeWhile is_digit r, dropWhile is_digit r) else ([], s1)
                                 | [] \<Rightarrow> ([], s1));
          u = takeWhile (\<lambda>c. \<not> number_char c) s2; s3 = dropWhile (\<lambda>c. \<not> number_char c) s2
      in if 2 ^ 63 < dec_value whole \<or> (whole = [] \<and> frac = []) then None
         else case map_of unitMap u of
           None \<Rightarrow> None
         | Some unit \<Rightarrow>
             if 2 ^ 63 div unit < dec_value whole then None
             else let v = dec_value whole * unit + dec_value frac * unit div 10 ^ length frac
               in if 2 ^ 63 < v then None else Some (v, s3))"

text \<open>Every term takes at least a digit and a unit, so the length of the text bounds the loop.\<close>

fun parse_terms :: "nat \<Rightarrow> int \<Rightarrow> string \<Rightarrow> int option" where
  "parse_terms n d [] = Some d"
| "parse_terms 0 d (c # s) = None"
| "parse_terms (Suc n) d (c # s) =
     (case parse_term (c # s) of
        None \<Rightarrow> None
      | Some (v, r) \<Rightarrow> if 2 ^ 63 < d + v then None else parse_terms n (d + v) r)"

definition ParseDuration :: "string \<Rightarrow> duration option" where
  "ParseDuration text =
     (let neg = (text \<noteq> [] \<and> hd text = CHR ''-'');
          s = (if text \<noteq> [] \<and> (hd text = CHR ''-'' \<or> hd text = CHR ''+'') then tl text else text)
      in if s = ''0'' then Some 0
         else if s = [] then None
         else case parse_terms (length s) 0 s of
           None \<Rightarrow> None
         | Some d \<Rightarrow> if neg then Some (- d) else if 2 ^ 63 - 1 < d then None else Some d)"

lemma duration_examples:
  "duration_String (90 * minute) = ''1h30m0s''" "ParseDuration ''1h30m0s'' = Some (90 * minute)"
  "duration_String 1500000 = ''1.5ms''" "ParseDuration ''1.5ms'' = Some 1500000"
  "duration_String (24 * hour) = ''24h0m0s''" "ParseDuration ''1.5h'' = Some (90 * minute)"
  "duration_String 2000000001 = ''2.000000001s''" "ParseDuration ''2.000000001s'' = Some 2000000001"
  "ParseDuration ''5'' = None" "ParseDuration ''1x'' = None"
  by code_simp+

section \<open>Printing and parsing\<close>

lemma fmtFrac_text:
  assumes "0 < prec"
  obtains ds where "fmtFrac u prec = (if ds = [] then [] else ''.'' @ ds)" "list_all is_digit ds"
    "dec_value ds * 10 ^ prec div 10 ^ length ds = u mod 10 ^ prec"
proof -
  define ds where "ds = TrimRight (pad_int prec (u mod 10 ^ prec)) (CHR ''0'')"
  have "0 \<le> u mod 10 ^ prec" "u mod 10 ^ prec < 10 ^ prec" by simp_all
  note p = pad_int_props [OF this assms]
  have split: "pad_int prec (u mod 10 ^ prec) = ds @ replicate (prec - length ds) (CHR ''0'')"
    using TrimRight_split [of "pad_int prec (u mod 10 ^ prec)" "CHR ''0''"] unfolding p(1) ds_def [symmetric] .
  have l: "length ds \<le> prec" using p(1) unfolding split by simp
  have "dec_value ds * 10 ^ (prec - length ds) = u mod 10 ^ prec" using p(3) unfolding split dec_value_scale .
  moreover have "(10 :: int) ^ prec = 10 ^ (prec - length ds) * 10 ^ length ds" using l by (simp flip: power_add)
  ultimately have "dec_value ds * 10 ^ prec div 10 ^ length ds = u mod 10 ^ prec" by (simp add: mult.assoc [symmetric])
  moreover have "list_all is_digit ds" using p(2) unfolding split by simp
  ultimately show ?thesis using assms by (intro that) (simp_all add: fmtFrac_def ds_def Let_def)
qed

definition unit_name :: "string \<Rightarrow> int \<Rightarrow> bool" where
  "unit_name un unit \<longleftrightarrow> un \<noteq> [] \<and> list_all (\<lambda>c. \<not> number_char c) un \<and> map_of unitMap un = Some unit"

lemma unit_names:
  "unit_name ''ns'' 1" "unit_name (micro_sign @ ''s'') 1000" "unit_name ''ms'' 1000000"
  "unit_name ''s'' second" "unit_name ''m'' minute" "unit_name ''h'' hour"
  by code_simp+

lemma parse_term_text:
  assumes n: "0 \<le> n" and ds: "list_all is_digit ds" and un: "unit_name un unit"
    and rest: "rest = [] \<or> number_char (hd rest)"
    and v: "v = n * unit + dec_value ds * unit div 10 ^ length ds" "v \<le> 2 ^ 63" and unit: "0 < unit"
  shows "parse_term (Itoa n @ (if ds = [] then [] else ''.'' @ ds) @ un @ rest) = Some (v, rest)"
proof -
  note i = Itoa_props [OF n]
  obtain c us where u: "un = c # us" "\<not> is_digit c" "c \<noteq> CHR ''.''"
    using un by (cases un) (auto simp: unit_name_def number_char_def)
  have dot: "\<not> is_digit (CHR ''.'')" by code_simp
  have w: "takeWhile (\<lambda>c. \<not> number_char c) (un @ rest) = un" "dropWhile (\<lambda>c. \<not> number_char c) (un @ rest) = rest"
    using un rest by (cases rest; simp add: unit_name_def list_all_iff takeWhile_append2 dropWhile_append2)+
  have f: "takeWhile is_digit (Itoa n @ (if ds = [] then [] else ''.'' @ ds) @ un @ rest) = Itoa n"
    "dropWhile is_digit (Itoa n @ (if ds = [] then [] else ''.'' @ ds) @ un @ rest) = (if ds = [] then [] else ''.'' @ ds) @ un @ rest"
    using i u dot by (simp_all add: list_all_iff takeWhile_append2 dropWhile_append2)
  have g: "takeWhile is_digit (ds @ un @ rest) = ds" "dropWhile is_digit (ds @ un @ rest) = un @ rest"
    using ds u by (simp_all add: list_all_iff takeWhile_append2 dropWhile_append2)
  have f0: "0 \<le> dec_value ds * unit div 10 ^ length ds"
    using dec_value_bounds [OF ds] unit by (simp add: pos_imp_zdiv_nonneg_iff)
  have b: "n * unit \<le> 2 ^ 63" using v f0 by linarith
  then have b1: "n \<le> 2 ^ 63 div unit" using zdiv_mono1 [OF b unit] unit by simp
  have "n * 1 \<le> n * unit" using n unit by (intro mult_left_mono) simp_all
  then have b2: "n \<le> 2 ^ 63" using b by linarith
  have m: "map_of unitMap un = Some unit" using un by (simp add: unit_name_def)
  show ?thesis
  proof (cases "ds = []")
    case True
    then show ?thesis
      using i u b1 b2 v m f w unfolding parse_term_def Let_def by (simp del: power_numeral)
  next
    case False
    then show ?thesis
      using i b1 b2 v m f w g unfolding parse_term_def Let_def by (simp del: power_numeral)
  qed
qed

lemma Itoa_number: "0 \<le> n \<Longrightarrow> number_char (hd (Itoa n @ s)) \<and> Itoa n @ s \<noteq> []"
  using Itoa_props [of n] by (cases "Itoa n") (auto simp: number_char_def)

lemma parse_terms_step:
  assumes "parse_term s = Some (v, r)" and "s \<noteq> []" and "d + v \<le> 2 ^ 63"
  shows "parse_terms (Suc n) d s = parse_terms n (d + v) r"
  using assms by (cases s) simp_all

lemma ParseDuration_terms:
  assumes "parse_terms (length text) 0 text = Some d" and "d < 2 ^ 63" and "text = Itoa n @ c # r" and "0 \<le> n"
  shows "ParseDuration text = Some d"
proof -
  obtain a as where a: "Itoa n = a # as" "is_digit a" using Itoa_props [OF assms(4)] by (cases "Itoa n") auto
  have "\<not> is_digit (CHR ''-'')" "\<not> is_digit (CHR ''+'')" by code_simp+
  then have "a \<noteq> CHR ''-''" "a \<noteq> CHR ''+''" using a by auto
  moreover have "text \<noteq> ''0''" using a assms(3) by auto
  ultimately show ?thesis using assms(1-3) a(1) by (simp add: ParseDuration_def Let_def)
qed

text \<open>The last term of a duration, a number with a fraction, and a term without one in front of others.\<close>

lemma parse_last_term:
  assumes "0 \<le> n" "unit_name un (10 ^ prec)" "0 < prec" "n * 10 ^ prec + u mod 10 ^ prec \<le> 2 ^ 63"
  shows "parse_term (Itoa n @ fmtFrac u prec @ un) = Some (n * 10 ^ prec + u mod 10 ^ prec, [])"
proof -
  obtain ds where ds: "fmtFrac u prec = (if ds = [] then [] else ''.'' @ ds)" "list_all is_digit ds"
    "dec_value ds * 10 ^ prec div 10 ^ length ds = u mod 10 ^ prec"
    using assms(3) by (rule fmtFrac_text)
  show ?thesis using parse_term_text [OF assms(1) ds(2) assms(2), of "[]"] assms(4) unfolding ds(1) by (simp add: ds(3))
qed

lemma parse_front_term:
  assumes "0 \<le> n" "unit_name un unit" "0 < unit" "n * unit \<le> 2 ^ 63" "rest = [] \<or> number_char (hd rest)"
  shows "parse_term (Itoa n @ un @ rest) = Some (n * unit, rest)"
  using parse_term_text [of n "[]" un unit rest] assms by (simp add: dec_value_Nil)

lemma length_term: "0 \<le> n \<Longrightarrow> un \<noteq> [] \<Longrightarrow> Suc (length s) \<le> length (Itoa n @ un @ s)"
  by (cases un) simp_all

lemma parse_terms_mono: "parse_terms n d s = Some v \<Longrightarrow> n \<le> m \<Longrightarrow> parse_terms m d s = Some v"
proof (induction n d s arbitrary: m rule: parse_terms.induct)
  case (3 n d c s)
  then obtain k where "m = Suc k" "n \<le> k" by (cases m) auto
  then show ?case using 3 by (auto split: option.splits if_splits)
qed simp_all

lemma parse_one:
  assumes "parse_term s = Some (v, [])" "s \<noteq> []" "d + v \<le> 2 ^ 63"
  shows "parse_terms (length s) d s = Some (d + v)"
  using parse_terms_step [OF assms, of "length s - 1"] assms(2) by (cases s) simp_all

lemma parse_more:
  assumes "parse_terms (length r) (d + n * unit) r = Some v" and "0 \<le> n" "unit_name un unit" "0 < unit"
    and "n * unit \<le> 2 ^ 63" "d + n * unit \<le> 2 ^ 63" "r = [] \<or> number_char (hd r)"
  shows "parse_terms (length (Itoa n @ un @ r)) d (Itoa n @ un @ r) = Some v"
proof -
  have "un \<noteq> []" using assms(3) by (simp add: unit_name_def)
  then obtain k where k: "length (Itoa n @ un @ r) = Suc k" "length r \<le> k"
    using length_term [OF assms(2), of un r] by (cases "length (Itoa n @ un @ r)") auto
  have "parse_terms k (d + n * unit) r = Some v" using parse_terms_mono assms(1) k(2) .
  then show ?thesis
    unfolding k(1) using parse_terms_step [OF parse_front_term [OF assms(2-5,7)], of d k] assms(6) Itoa_number [OF assms(2)]
    by simp
qed

lemma hms:
  fixes u :: int
  defines "sec \<equiv> u div second"
  assumes "0 \<le> u"
  shows "u = sec div 3600 * hour + (sec div 60 mod 60) * minute + (sec mod 60 * second + u mod second)"
    and "sec div 3600 = u div hour" "sec div 60 = u div minute"
proof -
  have n: "n = (n div 3600) * 3600 + (n div 60 mod 60) * 60 + n mod 60" for n :: int
  proof -
    have "n div 3600 = n div 60 div 60" using zdiv_zmult2_eq [of 60 n 60] by simp
    moreover have "n = n div 60 * 60 + n mod 60" "n div 60 = n div 60 div 60 * 60 + n div 60 mod 60"
      by (rule div_mult_mod_eq [symmetric])+
    ultimately show ?thesis by linarith
  qed
  have "u = sec * second + u mod second" by (simp add: sec_def)
  also have "sec * second = ((sec div 3600) * 3600 + (sec div 60 mod 60) * 60 + sec mod 60) * second" using n [of sec] by simp
  finally show "u = sec div 3600 * hour + (sec div 60 mod 60) * minute + (sec mod 60 * second + u mod second)"
    by (simp add: hour_def minute_def algebra_simps)
  show "sec div 3600 = u div hour" "sec div 60 = u div minute"
    using zdiv_zmult2_eq [of 3600 u second] zdiv_zmult2_eq [of 60 u second]
    by (simp_all add: sec_def hour_def minute_def mult.commute)
qed

text \<open>The text of a duration is read back as the duration.\<close>

lemma ParseDuration_single:
  assumes "0 \<le> d" "d < 2 ^ 63" "unit_name un (10 ^ prec)" "0 < prec"
  shows "ParseDuration (Itoa (d div 10 ^ prec) @ fmtFrac d prec @ un) = Some d"
proof -
  have n: "0 \<le> d div 10 ^ prec" "d div 10 ^ prec * 10 ^ prec + d mod 10 ^ prec = d"
    using assms(1) by (simp add: pos_imp_zdiv_nonneg_iff, intro div_mult_mod_eq)
  have "parse_term (Itoa (d div 10 ^ prec) @ fmtFrac d prec @ un) = Some (d, [])"
    using parse_last_term [OF n(1) assms(3,4), of d] assms(2) unfolding n(2) by linarith
  from parse_one [OF this, of 0]
  have "parse_terms (length (Itoa (d div 10 ^ prec) @ fmtFrac d prec @ un)) 0 (Itoa (d div 10 ^ prec) @ fmtFrac d prec @ un) = Some d"
    using assms(2) Itoa_number [OF n(1)] by simp
  moreover obtain c r where "fmtFrac d prec @ un = c # r"
    using assms(3) by (cases "fmtFrac d prec @ un") (auto simp: unit_name_def)
  ultimately show ?thesis using assms(2) n(1) by (intro ParseDuration_terms [of _ _ "d div 10 ^ prec" c r]) simp_all
qed

lemma ParseDuration_clock:
  assumes "second \<le> d" "d < 2 ^ 63"
  shows "ParseDuration (duration_String d) = Some d"
proof -
  define sec where "sec = d div second"
  define last where "last = Itoa (sec mod 60) @ fmtFrac d 9 @ ''s''"
  define mid where "mid = (if minute \<le> d then Itoa (sec div 60 mod 60) @ ''m'' @ last else last)"
  have d: "0 \<le> d" "\<not> d < 1000" "\<not> d < 1000000" "\<not> d < second" using assms by (simp_all add: duration_defs)
  note h = hms [OF d(1), folded sec_def]
  have pos: "0 \<le> sec" "0 \<le> sec div 3600 * hour" "0 \<le> (sec div 60 mod 60) * minute" "0 \<le> sec mod 60 * second" "0 \<le> d mod second"
    using d(1) by (simp_all add: sec_def duration_defs pos_imp_zdiv_nonneg_iff)
  have t: "duration_String d = (if hour \<le> d then Itoa (sec div 3600) @ ''h'' @ mid else mid)"
    using d by (simp add: duration_String_def mid_def last_def sec_def Let_def duration_defs)
  have s9: "(10 :: int) ^ 9 = second" "0 < second" "0 < minute" "0 < hour" by (simp_all add: duration_defs)
  have sum: "sec mod 60 * second + d mod second \<le> 2 ^ 63" "(sec div 60 mod 60) * minute \<le> 2 ^ 63" "sec div 3600 * hour \<le> 2 ^ 63"
    "sec div 3600 * hour + (sec div 60 mod 60) * minute \<le> 2 ^ 63"
    using h(1) pos assms(2) by linarith+
  have "parse_term last = Some (sec mod 60 * second + d mod second, [])"
    using parse_last_term [of "sec mod 60" "''s''" 9 d, unfolded s9(1)] sum(1) unit_names(4) by (simp add: last_def)
  from parse_one [OF this, of "sec div 3600 * hour + (sec div 60 mod 60) * minute"]
  have l: "parse_terms (length last) (sec div 3600 * hour + (sec div 60 mod 60) * minute) last = Some d"
    using h(1) assms(2) Itoa_number [of "sec mod 60"] by (simp add: last_def)
  have nl: "number_char (hd last)" using Itoa_number [of "sec mod 60"] by (simp add: last_def)
  have nm: "number_char (hd mid)" using nl Itoa_number [of "sec div 60 mod 60"] by (simp add: mid_def)
  have "parse_terms (length mid) (sec div 3600 * hour) mid = Some d"
  proof (cases "minute \<le> d")
    case True
    then show ?thesis
      using parse_more [OF l, of "''m''"] unit_names(5) sum nl s9 by (simp add: mid_def)
  next
    case False
    then have "sec div 60 = 0" using h(3) d(1) by (simp add: div_pos_pos_trivial)
    then show ?thesis using l False by (simp add: mid_def)
  qed
  then have m: "parse_terms (length mid) (0 + sec div 3600 * hour) mid = Some d" by simp
  have "parse_terms (length (duration_String d)) 0 (duration_String d) = Some d"
  proof (cases "hour \<le> d")
    case True
    then show ?thesis
      using parse_more [OF m, of "''h''"] unit_names(6) sum nm s9 pos(1) by (simp add: t pos_imp_zdiv_nonneg_iff)
  next
    case False
    then have "sec div 3600 = 0" using h(2) d(1) by (simp add: div_pos_pos_trivial)
    then show ?thesis using m False by (simp add: t)
  qed
  moreover have "\<exists>n c r. duration_String d = Itoa n @ c # r \<and> 0 \<le> n"
  proof -
    have "\<exists>c r. fmtFrac d 9 @ ''s'' = c # r" by (cases "fmtFrac d 9") auto
    then have "\<exists>c r. last = Itoa (sec mod 60) @ c # r" by (simp add: last_def)
    then have "\<exists>n c r. mid = Itoa n @ c # r \<and> 0 \<le> n" by (cases "minute \<le> d") (force simp: mid_def)+
    then show ?thesis using pos(1) by (cases "hour \<le> d") (force simp: t pos_imp_zdiv_nonneg_iff)+
  qed
  ultimately show ?thesis using ParseDuration_terms assms(2) by blast
qed

lemma ParseDuration_String:
  assumes "0 < d" "d < 2 ^ 63"
  shows "ParseDuration (duration_String d) = Some d"
proof -
  consider "d < 1000" | "1000 \<le> d" "d < 1000000" | "1000000 \<le> d" "d < second" | "second \<le> d" by linarith
  then show ?thesis
  proof cases
    case 1
    then have t: "duration_String d = Itoa d @ ''ns'' @ []" using assms by (simp add: duration_String_def)
    have "parse_term (duration_String d) = Some (d, [])"
      unfolding t using parse_front_term [of d "''ns''" 1 "[]"] assms unit_names by simp
    then show ?thesis using parse_one [of "duration_String d" d 0] assms
      by (intro ParseDuration_terms [of _ _ d "CHR ''n''" "''s''"]) (simp_all add: t)
  next
    case 2
    then have "duration_String d = Itoa (d div 10 ^ 3) @ fmtFrac d 3 @ micro_sign @ ''s''" by (simp add: duration_String_def)
    then show ?thesis using ParseDuration_single [of d "micro_sign @ ''s''" 3] assms unit_names by simp
  next
    case 3
    then have "duration_String d = Itoa (d div 10 ^ 6) @ fmtFrac d 6 @ ''ms''" by (simp add: duration_String_def second_def)
    then show ?thesis using ParseDuration_single [of d "''ms''" 6] assms unit_names by simp
  next
    case 4
    then show ?thesis using ParseDuration_clock assms by blast
  qed
qed

end
