(* ===== verification/Registration.thy ===== *)
theory Registration
  imports Node_Credential Go_Duration Map_Validate
begin

text \<open>
  Registration of a node (\<open>src/clientapi/v1/registration.go\<close>, \<open>identityproof.go\<close>,
  \<open>idempotency.go\<close>): the device identity proof over a canonical payload, the checks of the
  request and of the response, and the binding of a response to the request it answers. SHA-256
  and Ed25519 are arguments; so is the random source, the 32 bytes \<open>rand.Read\<close> delivers or its
  error.
\<close>

section \<open>Operation identities\<close>

definition registrationProofDomain :: string where "registrationProofDomain = ''endlessnet-register-identity-v3''"
definition idempotencyEntropyBytes :: nat where "idempotencyEntropyBytes = 32"
definition createIdempotencyKeyBytes :: nat where "createIdempotencyKeyBytes = 32"
definition maxEndpointCandidates :: int where "maxEndpointCandidates = 32"
definition maxAdvertisedIPs :: int where "maxAdvertisedIPs = 256"
definition maxTags :: int where "maxTags = 256"
definition maxEndpointTTL :: duration where "maxEndpointTTL = 24 * hour"

definition NewRegistrationIdempotencyID :: "string result \<Rightarrow> string result" where
  "NewRegistrationIdempotencyID random =
     (case random of Inl e \<Rightarrow> Inl e | Inr raw \<Rightarrow> Inr (''reg_'' @ EncodeToString RawURLEncoding raw))"

definition NewCreateIdempotencyKey :: "string result \<Rightarrow> string result" where
  "NewCreateIdempotencyKey random =
     (case random of Inl e \<Rightarrow> Inl e | Inr raw \<Rightarrow> Inr (EncodeToString RawURLEncoding raw))"

section \<open>The identity proof\<close>

definition IdentityPublicKeyPrefix :: string where "IdentityPublicKeyPrefix = ''enp_''"

definition DecodeIdentityPublicKey :: "string \<Rightarrow> string result" where
  "DecodeIdentityPublicKey v =
     (let value = TrimSpace v
      in if \<not> HasPrefix value IdentityPublicKeyPrefix then Inl (Errorf ''invalid identity public key'')
         else let encoded = TrimPrefix value IdentityPublicKeyPrefix
           in case DecodeString RawURLEncoding True encoded of
                None \<Rightarrow> Inl (Errorf ''invalid identity public key'')
              | Some raw \<Rightarrow>
                  if length raw \<noteq> 32 \<or> EncodeToString RawURLEncoding raw \<noteq> encoded
                  then Inl (Errorf ''invalid identity public key'') else Inr raw)"

definition proof_json :: "(string \<Rightarrow> string) \<Rightarrow> RegisterNodeRequest \<Rightarrow> json" where
  "proof_json sha256 req = JObject
     ([(''schema_version'', JInt (req_SchemaVersion req))] @ str_field ''proof'' registrationProofDomain @
      str_field ''idempotency_id'' (TrimSpace (req_IdempotencyID req)) @
      str_field ''network_id'' (TrimSpace (req_NetworkID req)) @
      str_field ''network_name'' (TrimSpace (req_NetworkName req)) @
      str_field ''account_id'' (TrimSpace (req_AccountID req)) @
      str_field ''cell_id'' (TrimSpace (req_CellID req)) @
      str_field ''join_token_binding'' (secretBinding sha256 (req_JoinToken req)) @
      str_field ''node_credential_binding'' (secretBinding sha256 (req_NodeCredential req)) @
      str_field ''registration_binding'' (TrimSpace (req_RegistrationBinding req)) @
      str_field ''session_token_binding'' (TrimSpace (req_SessionTokenBinding req)) @
      str_field ''hostname'' (TrimSpace (req_Hostname req)) @
      str_field ''client_version'' (TrimSpace (req_ClientVersion req)) @
      str_field ''identity_public_key'' (TrimSpace (req_IdentityPublicKey req)) @
      str_field ''public_key'' (TrimSpace (req_PublicKey req)) @
      str_field ''device_fingerprint'' (TrimSpace (req_DeviceFingerprint req)) @
      str_field ''endpoint'' (TrimSpace (req_Endpoint req)) @
      word_field ''endpoint_generation'' (req_EndpointGeneration req) @
      slice_field JString ''endpoint_candidates'' (append_to_nil (Some (req_EndpointCandidates req))) @
      str_field ''endpoint_ttl'' (TrimSpace (req_EndpointTTL req)) @
      slice_field JString ''advertised_ips'' (append_to_nil (req_AdvertisedIPs req)) @
      slice_field JString ''tags'' (append_to_nil (req_Tags req)))"

text \<open>The error of \<open>json.Marshal\<close> is dropped, and the bytes are then nil.\<close>

definition RegistrationIdentityProofPayload :: "(string \<Rightarrow> string) \<Rightarrow> RegisterNodeRequest \<Rightarrow> string" where
  "RegistrationIdentityProofPayload sha256 req =
     (case Marshal (proof_json sha256 req) of Inl _ \<Rightarrow> [] | Inr raw \<Rightarrow> raw)"

definition RegistrationIdentityProofBinding :: "(string \<Rightarrow> string) \<Rightarrow> RegisterNodeRequest \<Rightarrow> string" where
  "RegistrationIdentityProofBinding sha256 req =
     EncodeToString RawURLEncoding (sha256 (RegistrationIdentityProofPayload sha256 req))"

text \<open>The request that the pointer leads to is returned updated; a nil pointer is \<open>None\<close>.\<close>

definition SetRegisterNodeIdentityProof ::
  "(string \<Rightarrow> string) \<Rightarrow> (string \<Rightarrow> string) \<Rightarrow> (string \<Rightarrow> string \<Rightarrow> string) \<Rightarrow> RegisterNodeRequest option \<Rightarrow> string \<Rightarrow>
   RegisterNodeRequest result" where
  "SetRegisterNodeIdentityProof sha256 public sign request privateKey =
     (case request of
        None \<Rightarrow> Inl (Errorf ''register node request is required'')
      | Some req \<Rightarrow>
          if length privateKey \<noteq> 64 then Inl (Errorf ''invalid identity private key'')
          else let keyed = req\<lparr>req_IdentityPublicKey :=
                     IdentityPublicKeyPrefix @ EncodeToString RawURLEncoding (public privateKey)\<rparr>
            in Inr (keyed\<lparr>req_IdentitySignature :=
                 EncodeToString RawURLEncoding (sign privateKey (RegistrationIdentityProofPayload sha256 keyed))\<rparr>))"

definition VerifyRegisterNodeIdentityProof ::
  "(string \<Rightarrow> string) \<Rightarrow> (string \<Rightarrow> string \<Rightarrow> string \<Rightarrow> bool) \<Rightarrow> RegisterNodeRequest \<Rightarrow> err" where
  "VerifyRegisterNodeIdentityProof sha256 verify req =
     (case DecodeIdentityPublicKey (req_IdentityPublicKey req) of
        Inl e \<Rightarrow> Some e
      | Inr publicKey \<Rightarrow>
          (let encoded = TrimSpace (req_IdentitySignature req)
           in case DecodeString RawURLEncoding True encoded of
                None \<Rightarrow> Some (Errorf ''invalid identity signature'')
              | Some signature \<Rightarrow>
                  first_err
                    [guard (length signature \<noteq> 64 \<or> EncodeToString RawURLEncoding signature \<noteq> encoded)
                       ''invalid identity signature'',
                     guard (\<not> verify publicKey (RegistrationIdentityProofPayload sha256 req) signature)
                       ''invalid identity signature'']))"

section \<open>The request\<close>

text \<open>The fields that are ranged over as a Go map; their order decides only which error is reported.\<close>

definition safe_fields :: "RegisterNodeRequest \<Rightarrow> (string \<times> string) list" where
  "safe_fields r =
     [(''network_id'', req_NetworkID r), (''network_name'', req_NetworkName r), (''account_id'', req_AccountID r),
      (''cell_id'', req_CellID r), (''client_version'', req_ClientVersion r), (''device_fingerprint'', req_DeviceFingerprint r)]"

definition check_ttl :: "string \<Rightarrow> err" where
  "check_ttl text =
     (if text = [] then None
      else guard (case ParseDuration text of
                    None \<Rightarrow> True
                  | Some ttl \<Rightarrow> ttl \<le> 0 \<or> maxEndpointTTL < ttl \<or> duration_String ttl \<noteq> text)
             ''ttl must be a canonical positive duration no greater than %s'')"

definition check_authorization :: "RegisterNodeRequest \<Rightarrow> err" where
  "check_authorization r =
     (if IsCredentialRenewal r
      then first_err
        [guard (TrimSpace (req_NetworkID r) = []) ''network_id is required for credential renewal'',
         guard (req_JoinToken r \<noteq> [] \<or> req_SessionTokenBinding r \<noteq> [])
           ''credential renewal must not mix node credential with enrollment authorization'',
         validateDigest ''registration_binding'' (req_RegistrationBinding r) True]
      else first_err
        [guard (req_RegistrationBinding r \<noteq> []) ''registration_binding is only valid for credential renewal'',
         guard (req_JoinToken r = [] \<and> req_SessionTokenBinding r = [])
           ''join_token or session_token_binding is required for enrollment''])"

definition RegisterNodeRequest_Validate ::
  "(string \<Rightarrow> string) \<Rightarrow> (string \<Rightarrow> string \<Rightarrow> string \<Rightarrow> bool) \<Rightarrow> RegisterNodeRequest \<Rightarrow> err" where
  "RegisterNodeRequest_Validate sha256 verify r =
     first_err
       [guard (req_SchemaVersion r \<noteq> SchemaVersion) ''register request schema_version = %d, want %d'',
        validateIdentifier ''idempotency_id'' (req_IdempotencyID r) 16 maxIdentifierBytes,
        guard (TrimSpace (req_NetworkID r) = [] \<and> TrimSpace (req_NetworkName r) = [])
          ''network_id or network_name is required'',
        range_err (\<lambda>(field, value). validateSafeString field value 0 maxSafeFieldBytes) (safe_fields r),
        guard (TrimSpace (req_DeviceFingerprint r) = []) ''device_fingerprint is required'',
        wrap ''hostname'' (ValidateHostname (req_Hostname r)),
        wrap ''public_key'' (ValidatePublicKey (req_PublicKey r)),
        (if req_Endpoint r \<noteq> [] then wrap ''endpoint'' (ValidateEndpoint (req_Endpoint r)) else None),
        guard (maxEndpointCandidates < len (req_EndpointCandidates r)) ''candidates contains %d values, maximum is %d'',
        range_err (\<lambda>endpoint. wrap ''candidates[%d]'' (ValidateEndpoint endpoint)) (req_EndpointCandidates r),
        check_ttl (req_EndpointTTL r),
        guard (maxAdvertisedIPs < len (elems (req_AdvertisedIPs r))) ''advertised_ips contains %d values, maximum is %d'',
        range_err (\<lambda>prefix. ValidatePrefix ''advertised_ips[%d]'' prefix) (elems (req_AdvertisedIPs r)),
        guard (maxTags < len (elems (req_Tags r))) ''tags contains %d values, maximum is %d'',
        range_err (\<lambda>tag. validateSafeString ''tags[%d]'' tag 1 maxSafeFieldBytes) (elems (req_Tags r)),
        validateOpaqueCredential ''join_token'' (req_JoinToken r),
        validateOpaqueCredential ''node_credential'' (req_NodeCredential r),
        check_authorization r,
        validateDigest ''session_token_binding'' (req_SessionTokenBinding r) False,
        (case DecodeIdentityPublicKey (req_IdentityPublicKey r) of Inl e \<Rightarrow> Some e | Inr _ \<Rightarrow> None),
        VerifyRegisterNodeIdentityProof sha256 verify r]"

section \<open>The response\<close>

definition RegisterNodeResponse_Validate :: "(relay_endpoint list \<Rightarrow> err) \<Rightarrow> RegisterNodeResponse \<Rightarrow> err" where
  "RegisterNodeResponse_Validate relay_ok r =
     first_err
       [guard (rsp_SchemaVersion r \<noteq> SchemaVersion) ''register response schema_version = %d, want %d'',
        validateIdentifier ''idempotency_id'' (rsp_IdempotencyID r) 16 maxIdentifierBytes,
        validateDigest ''registration_binding'' (rsp_RegistrationBinding r) True,
        validateOpaqueCredential ''node_credential'' (rsp_NodeCredential r),
        guard (rsp_NodeCredential r = []) ''node_credential is required'',
        (case DecodeNodeCredential (rsp_NodeCredential r) of
           Inl e \<Rightarrow> wrap ''node_credential'' (Some e)
         | Inr claims \<Rightarrow>
             guard (ncc_NetworkID claims \<noteq> TrimSpace (net_ID (rsp_Network r)) \<or> ncc_NodeID claims \<noteq> TrimSpace (node_ID (rsp_Node r)))
               ''node_credential identity does not match registration result''),
        guard (rsp_MapSignature r = None) ''map_signature is required'',
        wrap ''network map'' (ValidateNetworkMap relay_ok r)]"

definition ValidateForRequest ::
  "(string \<Rightarrow> string) \<Rightarrow> (string \<Rightarrow> string \<Rightarrow> string \<Rightarrow> bool) \<Rightarrow> (relay_endpoint list \<Rightarrow> err) \<Rightarrow>
   RegisterNodeResponse \<Rightarrow> RegisterNodeRequest \<Rightarrow> err" where
  "ValidateForRequest sha256 verify relay_ok r req =
     first_err
       [wrap ''request'' (RegisterNodeRequest_Validate sha256 verify req),
        RegisterNodeResponse_Validate relay_ok r,
        guard (rsp_IdempotencyID r \<noteq> req_IdempotencyID req) ''response idempotency_id does not match request'',
        guard (rsp_RegistrationBinding r \<noteq> RegistrationIdentityProofBinding sha256 req)
          ''response registration_binding does not match request proof'',
        guard (req_NetworkID req \<noteq> [] \<and> net_ID (rsp_Network r) \<noteq> req_NetworkID req)
          ''response network does not match request'',
        guard (node_NetworkID (rsp_Node r) \<noteq> net_ID (rsp_Network r) \<or>
               node_IdentityPublicKey (rsp_Node r) \<noteq> req_IdentityPublicKey req \<or>
               node_PublicKey (rsp_Node r) \<noteq> req_PublicKey req \<or>
               node_DeviceFingerprint (rsp_Node r) \<noteq> req_DeviceFingerprint req)
          ''response node binding does not match request'']"


section \<open>Proofs of identity\<close>

lemma DecodeIdentityPublicKey_Inr:
  "DecodeIdentityPublicKey v = Inr raw \<longleftrightarrow>
     length raw = 32 \<and> TrimSpace v = IdentityPublicKeyPrefix @ EncodeToString RawURLEncoding raw"
proof
  assume "DecodeIdentityPublicKey v = Inr raw"
  then show "length raw = 32 \<and> TrimSpace v = IdentityPublicKeyPrefix @ EncodeToString RawURLEncoding raw"
    by (auto simp: DecodeIdentityPublicKey_def Let_def HasPrefix_def TrimPrefix_def prefix_def
        split: if_splits option.splits)
next
  assume "length raw = 32 \<and> TrimSpace v = IdentityPublicKeyPrefix @ EncodeToString RawURLEncoding raw"
  then show "DecodeIdentityPublicKey v = Inr raw"
    using rawurl.strict.dec_enc by (simp add: DecodeIdentityPublicKey_def HasPrefix_def TrimPrefix_def)
qed

lemma VerifyProof_None:
  "VerifyRegisterNodeIdentityProof sha256 verify req = None \<longleftrightarrow>
     (\<exists>pub sg. DecodeIdentityPublicKey (req_IdentityPublicKey req) = Inr pub \<and> length sg = 64 \<and>
        TrimSpace (req_IdentitySignature req) = EncodeToString RawURLEncoding sg \<and>
        verify pub (RegistrationIdentityProofPayload sha256 req) sg)"
  using rawurl.strict.dec_enc
  by (auto simp: VerifyRegisterNodeIdentityProof_def Let_def split: sum.splits option.splits)


text \<open>The payload of a request.\<close>

lemma proof_json_facts:
  "json_times (proof_json sha256 req) = []" "json_depth (proof_json sha256 req) \<le> maxNestingDepth"
proof -
  show "json_times (proof_json sha256 req) = []" by (simp add: proof_json_def field_defs slice_field_facts)
  have m: "max (a::int) b \<le> 1" if "a \<le> 1" "b \<le> 1" for a b using that by simp
  have "json_depth (proof_json sha256 req) \<le> 2" unfolding proof_json_def json_depth.simps
    by (simp add: field_defs m slice_field_facts)
  then show "json_depth (proof_json sha256 req) \<le> maxNestingDepth" by (simp add: maxNestingDepth_def)
qed

lemma payload_text: "RegistrationIdentityProofPayload sha256 req = json_text (proof_json sha256 req)"
  by (simp add: RegistrationIdentityProofPayload_def Marshal_no_times proof_json_facts)


section \<open>Accepted texts\<close>

text \<open>Text that JSON preserves and that trimming leaves alone: what every accepted field is.\<close>

definition clean_text :: "string \<Rightarrow> bool" where
  "clean_text s \<longleftrightarrow> ValidString s \<and> TrimSpace s = s"

lemma clean_Nil [simp]: "clean_text []"
  by (simp add: clean_text_def ValidString_def)

lemma clean_graphic: "list_all graphic s \<Longrightarrow> clean_text s"
  by (simp add: clean_text_def ValidString_graphic TrimSpace_eq_iff trimmed_graphic)

lemma ValidString_graphic_append: "list_all graphic s \<Longrightarrow> ValidString (s @ t) = ValidString t"
proof (induction s)
  case (Cons c s)
  then have "0 \<le> (of_char c :: int)" "(of_char c :: int) < 0x80" using graphic_int [of c] by auto
  then show ?case using Cons by (simp add: ValidString_def RuneError_def)
qed simp

lemma trimmed_ends:
  assumes "s \<noteq> []" "graphic (hd s)" "graphic (last s)"
  shows "trimmed s"
proof -
  have e: "\<not> graphic (hd e) \<and> \<not> graphic (last e) \<and> e \<noteq> []" if "e \<in> set space_encodings" for e
    using that by (auto simp: space_encodings_def graphic_def less_eq_char_def)
  show ?thesis unfolding trimmed_def
  proof (intro ballI conjI notI)
    fix e assume m: "e \<in> set space_encodings"
    show False if "prefix e s" using that e [OF m] assms by (auto simp: prefix_def)
    show False if "suffix e s" using that e [OF m] assms by (auto simp: suffix_def)
  qed
qed

lemma fmtFrac_graphic: "list_all graphic (fmtFrac u prec)"
proof (cases "prec = 0")
  case False
  then obtain ds where ds: "fmtFrac u prec = (if ds = [] then [] else ''.'' @ ds)" "list_all is_digit ds"
    using fmtFrac_text [of prec u] by blast
  have "graphic (CHR ''.'')" by code_simp
  then show ?thesis using ds digits_graphic by (simp add: list_all_iff)
qed (simp add: fmtFrac_def)

lemma clean_duration:
  assumes "0 < d"
  shows "clean_text (duration_String d)"
proof -
  have i: "list_all graphic (Itoa n)" "Itoa n \<noteq> []" if "0 \<le> n" for n
    using Itoa_props [OF that] by (auto intro: digits_graphic)
  have g: "graphic (CHR ''n'')" "graphic (CHR ''s'')" "graphic (CHR ''m'')" "graphic (CHR ''h'')" "list_all graphic ''s''" by code_simp+
  show ?thesis
  proof (cases "1000 \<le> d \<and> d < 1000000")
    case True
    then have t: "duration_String d = Itoa (d div 1000) @ fmtFrac d 3 @ micro_sign @ ''s''" by (simp add: duration_String_def)
    have n: "0 \<le> d div 1000" using assms by (simp add: pos_imp_zdiv_nonneg_iff)
    have "ValidString (micro_sign @ ''s'')" by code_simp
    then have "ValidString (duration_String d)" using t i [OF n] fmtFrac_graphic by (simp add: ValidString_graphic_append)
    moreover have "trimmed (duration_String d)" using t i [OF n] g
      by (intro trimmed_ends) (auto simp: list_all_iff)
    ultimately show ?thesis by (simp add: clean_text_def TrimSpace_eq_iff)
  next
    case False
    then have "list_all graphic (duration_String d)"
      using assms i g fmtFrac_graphic by (auto simp: duration_String_def Let_def pos_imp_zdiv_nonneg_iff duration_defs)
    then show ?thesis by (rule clean_graphic)
  qed
qed

lemma clean_std: "clean_text (EncodeToString StdEncoding raw)" "clean_text (EncodeToString RawURLEncoding raw)"
  using std.lax.enc_graphic rawurl.lax.enc_graphic by (intro clean_graphic, blast)+

lemma clean_fields:
  "validateSafeString f s lo hi = None \<Longrightarrow> clean_text s" "validateOpaqueCredential f s = None \<Longrightarrow> clean_text s"
  "validateIdentifier f s lo hi = None \<Longrightarrow> clean_text s" "validateDigest f s req = None \<Longrightarrow> clean_text s"
  "ValidateHostname s = None \<Longrightarrow> clean_text s" "ValidateEndpoint s = None \<Longrightarrow> clean_text s"
  "ValidatePrefix f s = None \<Longrightarrow> clean_text s" "ValidatePublicKey s = None \<Longrightarrow> clean_text s"
proof -
  show "validateIdentifier f s lo hi = None \<Longrightarrow> clean_text s"
    using identifier_char_graphic by (intro clean_graphic) (auto simp: validateIdentifier_iff list_all_iff)
  show "validateDigest f s req = None \<Longrightarrow> clean_text s" using clean_std by (auto simp: validateDigest_iff)
  show "ValidatePublicKey s = None \<Longrightarrow> clean_text s" using clean_std by (auto simp: ValidatePublicKey_def validateKey_iff)
qed (auto simp: clean_text_def validateSafeString_def validateOpaqueCredential_def ValidateHostname_def ValidateEndpoint_def
      ValidatePrefix_def ValidateSafeText_def)

text \<open>The lifetime of an endpoint is the canonical text of a positive duration of at most a day.\<close>

lemma check_ttl_None: "check_ttl t = None \<longleftrightarrow> t = [] \<or> (\<exists>d. 0 < d \<and> d \<le> maxEndpointTTL \<and> t = duration_String d)"
proof -
  have "ParseDuration (duration_String d) = Some d" if "0 < d" "d \<le> maxEndpointTTL" for d
    using that by (intro ParseDuration_String) (simp_all add: maxEndpointTTL_def duration_defs)
  then show ?thesis by (auto simp: check_ttl_def not_le not_less split: option.splits if_splits)
qed

lemma clean_ttl: "check_ttl t = None \<Longrightarrow> clean_text t"
  using clean_duration by (auto simp: check_ttl_None)

lemma check_authorization_None:
  "check_authorization r = None \<longleftrightarrow>
     (if IsCredentialRenewal r
      then TrimSpace (req_NetworkID r) \<noteq> [] \<and> req_JoinToken r = [] \<and> req_SessionTokenBinding r = [] \<and>
        validateDigest ''registration_binding'' (req_RegistrationBinding r) True = None
      else req_RegistrationBinding r = [] \<and> (req_JoinToken r \<noteq> [] \<or> req_SessionTokenBinding r \<noteq> []))"
  by (auto simp: check_authorization_def)

lemma accepted_request_checks:
  assumes "RegisterNodeRequest_Validate sha256 verify r = None"
  shows "req_SchemaVersion r = SchemaVersion" "validateIdentifier ''idempotency_id'' (req_IdempotencyID r) 16 maxIdentifierBytes = None"
    "\<forall>x \<in> set (safe_fields r). validateSafeString (fst x) (snd x) 0 maxSafeFieldBytes = None"
    "ValidateHostname (req_Hostname r) = None" "ValidatePublicKey (req_PublicKey r) = None"
    "req_Endpoint r \<noteq> [] \<longrightarrow> ValidateEndpoint (req_Endpoint r) = None"
    "\<forall>e \<in> set (req_EndpointCandidates r). ValidateEndpoint e = None" "check_ttl (req_EndpointTTL r) = None"
    "\<forall>p \<in> set (elems (req_AdvertisedIPs r)). ValidatePrefix ''advertised_ips[%d]'' p = None"
    "\<forall>t \<in> set (elems (req_Tags r)). validateSafeString ''tags[%d]'' t 1 maxSafeFieldBytes = None"
    "validateOpaqueCredential ''join_token'' (req_JoinToken r) = None" "validateOpaqueCredential ''node_credential'' (req_NodeCredential r) = None"
    "check_authorization r = None" "validateDigest ''session_token_binding'' (req_SessionTokenBinding r) False = None"
    "VerifyRegisterNodeIdentityProof sha256 verify r = None"
    "len (req_EndpointCandidates r) \<le> maxEndpointCandidates" "len (elems (req_AdvertisedIPs r)) \<le> maxAdvertisedIPs"
    "len (elems (req_Tags r)) \<le> maxTags" "TrimSpace (req_DeviceFingerprint r) \<noteq> []"
  using assms unfolding RegisterNodeRequest_Validate_def by (simp_all add: not_less split_def split: if_splits)

lemma accepted_request_texts:
  assumes "RegisterNodeRequest_Validate sha256 verify r = None"
  shows "clean_text (req_IdempotencyID r)" "clean_text (req_NetworkID r)" "clean_text (req_NetworkName r)"
    "clean_text (req_AccountID r)" "clean_text (req_CellID r)" "clean_text (req_JoinToken r)" "clean_text (req_NodeCredential r)"
    "clean_text (req_RegistrationBinding r)" "clean_text (req_SessionTokenBinding r)" "clean_text (req_Hostname r)"
    "clean_text (req_ClientVersion r)" "clean_text (req_PublicKey r)" "clean_text (req_DeviceFingerprint r)"
    "clean_text (req_Endpoint r)" "clean_text (req_EndpointTTL r)"
    "list_all clean_text (req_EndpointCandidates r)" "list_all clean_text (elems (req_AdvertisedIPs r))" "list_all clean_text (elems (req_Tags r))"
proof -
  note v = accepted_request_checks [OF assms]
  have "list_all clean_text (map snd (safe_fields r))" unfolding list_all_iff using v(3) clean_fields(1) by auto
  then show "clean_text (req_NetworkID r)" "clean_text (req_NetworkName r)" "clean_text (req_AccountID r)" "clean_text (req_CellID r)"
    "clean_text (req_ClientVersion r)" "clean_text (req_DeviceFingerprint r)"
    by (simp_all add: safe_fields_def)
  show "clean_text (req_RegistrationBinding r)"
    using v(13) by (cases "IsCredentialRenewal r") (auto simp: check_authorization_None intro: clean_fields(4))
  show "clean_text (req_Endpoint r)" using v(6) clean_fields(6) clean_Nil by metis
  show "list_all clean_text (req_EndpointCandidates r)" "list_all clean_text (elems (req_AdvertisedIPs r))" "list_all clean_text (elems (req_Tags r))"
    unfolding list_all_iff using v(7,9,10) clean_fields(1,6,7) by blast+
  show "clean_text (req_IdempotencyID r)" "clean_text (req_JoinToken r)" "clean_text (req_NodeCredential r)" "clean_text (req_SessionTokenBinding r)"
    "clean_text (req_Hostname r)" "clean_text (req_PublicKey r)" "clean_text (req_EndpointTTL r)"
    by (fact clean_fields(3) [OF v(2)] clean_fields(2) [OF v(11)] clean_fields(2) [OF v(12)] clean_fields(4) [OF v(14)]
        clean_fields(5) [OF v(4)] clean_fields(8) [OF v(5)] clean_ttl [OF v(8)])+
qed

section \<open>What a proof binds\<close>

text \<open>
  A request up to what the canonical payload does not see: the signature itself, white space around
  the identity key, and the difference between a nil and an empty list.
\<close>

definition normal_request :: "RegisterNodeRequest \<Rightarrow> RegisterNodeRequest" where
  "normal_request r = r\<lparr>req_IdentitySignature := [], req_IdentityPublicKey := TrimSpace (req_IdentityPublicKey r),
     req_AdvertisedIPs := append_to_nil (req_AdvertisedIPs r), req_Tags := append_to_nil (req_Tags r)\<rparr>"

text \<open>The digests do not collide on the secrets of the two requests.\<close>

definition collision_free :: "('a \<Rightarrow> 'b) \<Rightarrow> 'a \<Rightarrow> 'a \<Rightarrow> bool" where
  "collision_free h x y \<longleftrightarrow> (h x = h y \<longrightarrow> x = y)"

lemma clean_secretBinding: "clean_text (secretBinding sha256 v)"
  using clean_std by (simp add: secretBinding_def Let_def)

lemma secret_binds:
  assumes "clean_text v" "clean_text w" "\<And>m. length (sha256 m) = 32" "collision_free sha256 v w"
    and "secretBinding sha256 v = secretBinding sha256 w"
  shows "v = w"
  using secretBinding_inj [of sha256 v w] assms by (simp add: clean_text_def collision_free_def)

lemma accepted_identity_key:
  "RegisterNodeRequest_Validate sha256 verify r = None \<Longrightarrow> clean_text (TrimSpace (req_IdentityPublicKey r))"
proof -
  assume "RegisterNodeRequest_Validate sha256 verify r = None"
  then obtain raw where "TrimSpace (req_IdentityPublicKey r) = IdentityPublicKeyPrefix @ EncodeToString RawURLEncoding raw"
    using accepted_request_checks(15) [of sha256 verify r] by (auto simp: VerifyProof_None DecodeIdentityPublicKey_Inr)
  moreover have "list_all graphic IdentityPublicKeyPrefix" by code_simp
  ultimately show ?thesis using rawurl.lax.enc_graphic by (intro clean_graphic) simp
qed

lemma accepted_payload_texts:
  assumes "RegisterNodeRequest_Validate sha256 verify r = None"
  shows "list_all ValidString (json_texts (proof_json sha256 r))"
proof -
  have k: "list_all ValidString [''schema_version'', ''proof'', ''idempotency_id'', ''network_id'', ''network_name'', ''account_id'', ''cell_id'',
    ''join_token_binding'', ''node_credential_binding'', ''registration_binding'', ''session_token_binding'', ''hostname'', ''client_version'',
    ''identity_public_key'', ''public_key'', ''device_fingerprint'', ''endpoint'', ''endpoint_generation'', ''endpoint_candidates'',
    ''endpoint_ttl'', ''advertised_ips'', ''tags'', registrationProofDomain]" by code_simp
  show ?thesis
    using accepted_request_texts [OF assms] accepted_identity_key [OF assms] clean_secretBinding k
    by (simp add: proof_json_def field_defs slice_field_facts clean_text_def list_all_iff ball_Un)
qed

lemma payload_binds:
  assumes "RegisterNodeRequest_Validate sha256 verify r = None" "RegisterNodeRequest_Validate sha256 verify q = None"
    and "RegistrationIdentityProofPayload sha256 r = RegistrationIdentityProofPayload sha256 q"
    and "\<And>m. length (sha256 m) = 32"
    and "collision_free sha256 (req_JoinToken r) (req_JoinToken q)" "collision_free sha256 (req_NodeCredential r) (req_NodeCredential q)"
  shows "normal_request r = normal_request q"
proof -
  have "proof_json sha256 r = proof_json sha256 q"
    using assms(1-3) accepted_payload_texts proof_json_facts by (intro json_text_inj) (simp_all add: payload_text)
  note e = this [unfolded proof_json_def field_defs, simplified]
  have "secretBinding sha256 (req_JoinToken r) = secretBinding sha256 (req_JoinToken q)"
    "secretBinding sha256 (req_NodeCredential r) = secretBinding sha256 (req_NodeCredential q)" using e by simp_all
  note j = secret_binds [OF accepted_request_texts(6) [OF assms(1)] accepted_request_texts(6) [OF assms(2)] assms(4,5) this(1)]
    secret_binds [OF accepted_request_texts(7) [OF assms(1)] accepted_request_texts(7) [OF assms(2)] assms(4,6) this(2)]
  have "(case append_to_nil (req_AdvertisedIPs r) of None \<Rightarrow> JNull | Some xs \<Rightarrow> JArray (map JString xs)) =
      (case append_to_nil (req_AdvertisedIPs q) of None \<Rightarrow> JNull | Some xs \<Rightarrow> JArray (map JString xs))"
    "(case append_to_nil (req_Tags r) of None \<Rightarrow> JNull | Some xs \<Rightarrow> JArray (map JString xs)) =
      (case append_to_nil (req_Tags q) of None \<Rightarrow> JNull | Some xs \<Rightarrow> JArray (map JString xs))"
    "(case append_to_nil (Some (req_EndpointCandidates r)) of None \<Rightarrow> JNull | Some xs \<Rightarrow> JArray (map JString xs)) =
      (case append_to_nil (Some (req_EndpointCandidates q)) of None \<Rightarrow> JNull | Some xs \<Rightarrow> JArray (map JString xs))"
    using e by simp_all
  note c = this [THEN slice_json_inj]
  have c3: "req_EndpointCandidates r = req_EndpointCandidates q" using arg_cong [OF c(3), of elems] by simp
  have g: "req_EndpointGeneration r = req_EndpointGeneration q" using e by (simp add: word_uint_eq_iff)
  show ?thesis
    using e j c(1,2) c3 g accepted_request_texts [OF assms(1)] accepted_request_texts [OF assms(2)]
    by (intro RegisterNodeRequest.equality) (simp_all add: normal_request_def clean_text_def)
qed

section \<open>Properties\<close>

lemma ValidateForRequest_None:
  "ValidateForRequest sha256 verify relay_ok rsp r = None \<longleftrightarrow>
     RegisterNodeRequest_Validate sha256 verify r = None \<and> RegisterNodeResponse_Validate relay_ok rsp = None \<and>
     rsp_IdempotencyID rsp = req_IdempotencyID r \<and> rsp_RegistrationBinding rsp = RegistrationIdentityProofBinding sha256 r \<and>
     (req_NetworkID r \<noteq> [] \<longrightarrow> net_ID (rsp_Network rsp) = req_NetworkID r) \<and>
     node_NetworkID (rsp_Node rsp) = net_ID (rsp_Network rsp) \<and> node_IdentityPublicKey (rsp_Node rsp) = req_IdentityPublicKey r \<and>
     node_PublicKey (rsp_Node rsp) = req_PublicKey r \<and> node_DeviceFingerprint (rsp_Node rsp) = req_DeviceFingerprint r"
  by (auto simp: ValidateForRequest_def)

text \<open>
  C12. A registration result answers one request. When the client accepts a result for two requests,
  the requests ask for the same in every field: the operation, the network, the authorization, the
  keys, the endpoints, the addresses and the tags; only the signature and nil against empty lists
  may differ. SHA-256 is used as a function to 32 bytes
  that does not collide on the two payloads and on their secrets.
\<close>

theorem response_binds_request:
  assumes "ValidateForRequest sha256 verify relay_ok rsp r = None" "ValidateForRequest sha256 verify relay_ok rsp q = None"
    and "\<And>m. length (sha256 m) = 32"
    and "collision_free sha256 (RegistrationIdentityProofPayload sha256 r) (RegistrationIdentityProofPayload sha256 q)"
    and "collision_free sha256 (req_JoinToken r) (req_JoinToken q)" "collision_free sha256 (req_NodeCredential r) (req_NodeCredential q)"
  shows "normal_request r = normal_request q \<and> req_IdentityPublicKey r = req_IdentityPublicKey q"
proof -
  have "RegistrationIdentityProofBinding sha256 r = RegistrationIdentityProofBinding sha256 q"
    using assms(1,2) by (simp add: ValidateForRequest_None)
  then have "RegistrationIdentityProofPayload sha256 r = RegistrationIdentityProofPayload sha256 q"
    using assms(4) rawurl.lax.enc_inj by (auto simp: RegistrationIdentityProofBinding_def collision_free_def)
  then have "normal_request r = normal_request q"
    using assms by (intro payload_binds [of sha256 verify]) (simp_all add: ValidateForRequest_None)
  then show ?thesis using assms(1,2) by (simp add: ValidateForRequest_None)
qed

text \<open>
  C13. What a client may commit after registration: the request was signed by the device key it
  names, over its canonical payload; the result carries the operation id, the binding, the keys and
  the fingerprint of that request; its node belongs to its network, which is the one asked for; its
  credential names that network and node; and its map is signed and passes every map check.
\<close>

theorem accepted_registration:
  assumes "ValidateForRequest sha256 verify relay_ok rsp r = None"
  shows "\<exists>pub sg claims. DecodeIdentityPublicKey (node_IdentityPublicKey (rsp_Node rsp)) = Inr pub \<and>
      TrimSpace (req_IdentitySignature r) = EncodeToString RawURLEncoding sg \<and>
      verify pub (RegistrationIdentityProofPayload sha256 r) sg \<and>
      rsp_IdempotencyID rsp = req_IdempotencyID r \<and> rsp_RegistrationBinding rsp = RegistrationIdentityProofBinding sha256 r \<and>
      node_PublicKey (rsp_Node rsp) = req_PublicKey r \<and> node_DeviceFingerprint (rsp_Node rsp) = req_DeviceFingerprint r \<and>
      node_NetworkID (rsp_Node rsp) = net_ID (rsp_Network rsp) \<and>
      (req_NetworkID r = [] \<or> net_ID (rsp_Network rsp) = req_NetworkID r) \<and>
      DecodeNodeCredential (rsp_NodeCredential rsp) = Inr claims \<and> ncc_NetworkID claims = TrimSpace (net_ID (rsp_Network rsp)) \<and>
      ncc_NodeID claims = TrimSpace (node_ID (rsp_Node rsp)) \<and> rsp_MapSignature rsp \<noteq> None \<and>
      ValidateNetworkMapSnapshot relay_ok (Snapshot rsp) = None"
proof -
  note v = assms [unfolded ValidateForRequest_None]
  obtain pub sg where "DecodeIdentityPublicKey (req_IdentityPublicKey r) = Inr pub"
    "TrimSpace (req_IdentitySignature r) = EncodeToString RawURLEncoding sg" "verify pub (RegistrationIdentityProofPayload sha256 r) sg"
    using v accepted_request_checks(15) [of sha256 verify r] by (auto simp: VerifyProof_None)
  moreover obtain claims where "DecodeNodeCredential (rsp_NodeCredential rsp) = Inr claims" "ncc_NetworkID claims = TrimSpace (net_ID (rsp_Network rsp))"
    "ncc_NodeID claims = TrimSpace (node_ID (rsp_Node rsp))" "rsp_MapSignature rsp \<noteq> None" "ValidateNetworkMap relay_ok rsp = None"
    using v by (auto simp: RegisterNodeResponse_Validate_def split: sum.splits)
  ultimately show ?thesis using v by (auto simp: ValidateNetworkMap_def)
qed

text \<open>
  C14. An accepted request has one kind of authorization: a renewal has a node credential, a network
  and the digest of the earlier registration and no enrollment secret; an enrollment has a join
  token or a session digest and no registration digest. Its lists are bounded, its operation id has
  16 to 128 characters, and its endpoint lifetime, if any, is the canonical text of a positive
  duration of at most a day.
\<close>

theorem accepted_request_shape:
  assumes "RegisterNodeRequest_Validate sha256 verify r = None"
  shows "(if IsCredentialRenewal r
      then req_NetworkID r \<noteq> [] \<and> req_JoinToken r = [] \<and> req_SessionTokenBinding r = [] \<and>
        (\<exists>digest. length digest = 32 \<and> req_RegistrationBinding r = EncodeToString RawURLEncoding digest)
      else req_RegistrationBinding r = [] \<and>
        (req_JoinToken r \<noteq> [] \<or> (\<exists>digest. length digest = 32 \<and> req_SessionTokenBinding r = EncodeToString RawURLEncoding digest))) \<and>
    length (req_EndpointCandidates r) \<le> 32 \<and> length (elems (req_AdvertisedIPs r)) \<le> 256 \<and> length (elems (req_Tags r)) \<le> 256 \<and>
    length (req_IdempotencyID r) \<in> {16..128} \<and>
    (req_EndpointTTL r = [] \<or> (\<exists>d. 0 < d \<and> d \<le> 24 * hour \<and> req_EndpointTTL r = duration_String d))"
proof -
  note v = accepted_request_checks [OF assms]
  have t: "TrimSpace [] = []" by simp
  have "length (req_EndpointCandidates r) \<le> 32" "length (elems (req_AdvertisedIPs r)) \<le> 256" "length (elems (req_Tags r)) \<le> 256"
    using v(16-18) by (simp_all add: len_def maxEndpointCandidates_def maxAdvertisedIPs_def maxTags_def)
  moreover have "length (req_IdempotencyID r) \<in> {16..128}"
    using v(2) by (auto simp: validateIdentifier_iff len_def maxIdentifierBytes_def)
  moreover have "req_EndpointTTL r = [] \<or> (\<exists>d. 0 < d \<and> d \<le> 24 * hour \<and> req_EndpointTTL r = duration_String d)"
    using v(8) by (simp add: check_ttl_None maxEndpointTTL_def)
  ultimately show ?thesis
    using v(13,14) t by (auto simp: check_authorization_None validateDigest_iff)
qed

lemma signed_request_verifies:
  assumes "SetRegisterNodeIdentityProof sha256 public sign (Some r) priv = Inr q"
    and "length (public priv) = 32" "\<And>m. length (sign priv m) = 64" "\<And>m. verify (public priv) m (sign priv m)"
  shows "VerifyRegisterNodeIdentityProof sha256 verify q = None \<and>
    DecodeIdentityPublicKey (req_IdentityPublicKey q) = Inr (public priv) \<and>
    q\<lparr>req_IdentityPublicKey := req_IdentityPublicKey r, req_IdentitySignature := req_IdentitySignature r\<rparr> = r"
proof -
  let ?k = "r\<lparr>req_IdentityPublicKey := IdentityPublicKeyPrefix @ EncodeToString RawURLEncoding (public priv)\<rparr>"
  have q: "q = ?k\<lparr>req_IdentitySignature := EncodeToString RawURLEncoding (sign priv (RegistrationIdentityProofPayload sha256 ?k))\<rparr>"
    using assms(1) by (simp add: SetRegisterNodeIdentityProof_def Let_def split: if_splits)
  have "RegistrationIdentityProofPayload sha256 q = RegistrationIdentityProofPayload sha256 ?k"
    by (simp add: RegistrationIdentityProofPayload_def proof_json_def q)
  moreover have "list_all graphic (IdentityPublicKeyPrefix @ EncodeToString RawURLEncoding (public priv))"
    using rawurl.lax.enc_graphic by (simp, code_simp)
  then have "TrimSpace (req_IdentityPublicKey q) = IdentityPublicKeyPrefix @ EncodeToString RawURLEncoding (public priv)"
    using trimmed_graphic TrimSpace_eq_iff by (simp add: q)
  then have "DecodeIdentityPublicKey (req_IdentityPublicKey q) = Inr (public priv)" using assms(2) by (simp add: DecodeIdentityPublicKey_Inr)
  ultimately show ?thesis
    using assms(3,4) rawurl.lax.enc_trimmed by (auto simp: VerifyProof_None q)
qed


text \<open>
  C15. A request signed with a device key verifies: the proof that \<open>SetRegisterNodeIdentityProof\<close>
  fills in is accepted, it names the public key of the device, and nothing else of the request is
  changed. Of Ed25519, the sizes of keys and signatures and that its signatures verify are used.
\<close>

theorem identity_proof_verifies:
  assumes "SetRegisterNodeIdentityProof sha256 public sign (Some r) priv = Inr q"
    and "length (public priv) = 32" "\<And>m. length (sign priv m) = 64" "\<And>m. verify (public priv) m (sign priv m)"
  shows "VerifyRegisterNodeIdentityProof sha256 verify q = None \<and>
    DecodeIdentityPublicKey (req_IdentityPublicKey q) = Inr (public priv) \<and>
    q\<lparr>req_IdentityPublicKey := req_IdentityPublicKey r, req_IdentitySignature := req_IdentitySignature r\<rparr> = r"
  using assms by (rule signed_request_verifies)

end
