(* ===== verification/Wire_Codec.thy ===== *)
theory Wire_Codec
  imports Map_Sign Public_Errors Json_Parse
begin

text \<open>
  The JSON of the HTTP contract: for every struct that a response or an event carries, the table
  of its fields as \<open>encoding/json\<close> derives it from the struct tags, and for every struct that a
  request carries its encoder; the request and response structs of \<open>types.go\<close> that only the
  calls of \<open>api.go\<close> use are declared here. The relay types of the relay module are decoded and
  encoded by arguments.
\<close>

record relay_wire =
  rl_zero_endpoint :: relay_endpoint
  rl_zero_credential :: relay_credential
  rl_dec_endpoint :: "relay_endpoint decoder"
  rl_dec_credential :: "relay_credential decoder"
  rl_json_endpoint :: "relay_endpoint \<Rightarrow> json"
  rl_json_credential :: "relay_credential \<Rightarrow> json"

section \<open>Structs of the calls\<close>

record CreateNetworkRequest =
  cn_Name :: string
  cn_CIDR :: string
  cn_IPv6CIDR :: string
  cn_DNS :: "string slice"
  cn_CellID :: string
  cn_AccountID :: string
  cn_IdempotencyKey :: string

record CreateJoinTokenRequest =
  jt_NetworkID :: string
  jt_NetworkName :: string
  jt_AccountID :: string
  jt_TTL :: string
  jt_Reusable :: bool
  jt_Ephemeral :: bool
  jt_Preauthorized :: bool
  jt_Tags :: "string list"
  jt_IdempotencyKey :: string

record CreateJoinTokenResponse =
  jtr_ID :: string
  jtr_Token :: string
  jtr_AccountID :: string
  jtr_NetworkID :: string
  jtr_NetworkName :: string
  jtr_Reusable :: bool
  jtr_Ephemeral :: bool
  jtr_Preauthorized :: bool
  jtr_Tags :: "string list"
  jtr_ExpiresAt :: gotime

record NodeEnrollmentRequest =
  er_ID :: string
  er_Status :: string
  er_AccountID :: string
  er_NetworkID :: string
  er_NetworkName :: string
  er_Hostname :: string
  er_PublicKey :: string
  er_IdentityPublicKey :: string
  er_DeviceFingerprint :: string
  er_Tags :: "string list"
  er_ApprovalURL :: string
  er_ApprovedByUserID :: string
  er_RejectedByUserID :: string
  er_RejectionReason :: string
  er_NodeID :: string
  er_CreatedAt :: gotime
  er_ExpiresAt :: gotime
  er_ApprovedAt :: "gotime option"
  er_RejectedAt :: "gotime option"
  er_CompletedAt :: "gotime option"

record CreateNodeEnrollmentRequestResponse =
  cer_Request :: NodeEnrollmentRequest
  cer_PollToken :: string
  cer_PollAfterSeconds :: int

record NodeEnrollmentRequestStatusResponse =
  ers_Request :: NodeEnrollmentRequest
  ers_PollAfterSeconds :: int

record CompleteNodeEnrollmentRequestResponse =
  cmp_Request :: NodeEnrollmentRequest
  cmp_Registration :: "RegisterNodeResponse option"

record UpdateNodeEndpointRequest =
  ue_Endpoint :: string
  ue_Generation :: "64 word"
  ue_Candidates :: "string list"
  ue_TTL :: string
  ue_Status :: string
  ue_ClientVersion :: string

section \<open>Zero values\<close>

definition zero_ServiceHost :: ServiceHost where
  "zero_ServiceHost = \<lparr>
     sh_NodeID = [], sh_PublicKey = []\<rparr>"

definition zero_ServicePort :: ServicePort where
  "zero_ServicePort = \<lparr>
     sp_Protocol = [], sp_Port = 0\<rparr>"

definition zero_ApplicationRoute :: ApplicationRoute where
  "zero_ApplicationRoute = \<lparr>
     ar_Connector = zero_ServiceHost, ar_CIDRs = None, ar_ExpiresAt = zero_time\<rparr>"

definition zero_Application :: Application where
  "zero_Application = \<lparr>
     app_ID = [], app_Name = [], app_Target = [], app_TargetType = [], app_DNSEnabled = False, app_PolicyHash = [],
     app_Sources = [], app_Connectors = [], app_Routes = []\<rparr>"

definition zero_AdvertisedService :: AdvertisedService where
  "zero_AdvertisedService = \<lparr>
     svc_ID = [], svc_Name = [], svc_Description = [], svc_DNSName = [], svc_Ports = None, svc_Tags = [],
     svc_EligibleTags = [], svc_ApprovalMode = [], svc_ApprovalStatus = [], svc_Health = [], svc_Hosts = []\<rparr>"

definition zero_DNSNameserver :: DNSNameserver where
  "zero_DNSNameserver = \<lparr>
     ns_ID = [], ns_Address = [], ns_Scope = [], ns_Priority = 0, ns_SplitDomains = []\<rparr>"

definition zero_DNSConfig :: DNSConfig where
  "zero_DNSConfig = \<lparr>
     dns_MagicDNSEnabled = False, dns_HTTPSCertsEnabled = False, dns_OverrideLocalDNS = False, dns_Suffix = [],
     dns_Nameservers = [], dns_SearchDomains = []\<rparr>"

definition zero_ShareTraffic :: ShareTraffic where
  "zero_ShareTraffic = \<lparr>
     st_Protocol = [], st_FirstPort = 0, st_LastPort = 0\<rparr>"

definition zero_SharePeerGrant :: SharePeerGrant where
  "zero_SharePeerGrant = \<lparr>
     g_GrantID = [], g_RecipientNetworkID = [], g_RecipientNodeID = [], g_RecipientPublicKey = [],
     g_RecipientAllowedIPs = None, g_SourceNetworkID = [], g_SourceNodeID = [], g_SourcePublicKey = [],
     g_SourceAllowedIPs = None, g_Rights = None, g_Initiation = [], g_Revision = 0, g_IssuedAt = zero_time,
     g_ExpiresAt = zero_time\<rparr>"

definition zero_ACLPort :: ACLPort where
  "zero_ACLPort = \<lparr>
     acl_Protocol = [], acl_Port = 0\<rparr>"

definition zero_ACLGrant :: ACLGrant where
  "zero_ACLGrant = \<lparr>
     ag_DestinationCIDRs = None, ag_AllowedPorts = []\<rparr>"

definition zero_STUNEndpoint :: STUNEndpoint where
  "zero_STUNEndpoint = \<lparr>
     stun_ID = [], stun_Addr = []\<rparr>"

definition zero_MapRevision :: MapRevision where
  "zero_MapRevision = \<lparr>
     rev_Network = 0, rev_Global = 0\<rparr>"

definition zero_MapSignature :: MapSignature where
  "zero_MapSignature = \<lparr>
     sig_Version = 0, sig_KeyID = [], sig_Algorithm = [], sig_IssuedAt = zero_time, sig_ExpiresAt = zero_time,
     sig_PayloadHash = [], sig_Signature = []\<rparr>"

definition zero_RegisterNodeResponse :: RegisterNodeResponse where
  "zero_RegisterNodeResponse = \<lparr>
     rsp_SchemaVersion = 0, rsp_IdempotencyID = [], rsp_Revision = zero_MapRevision, rsp_Network = zero_Network,
     rsp_Node = zero_Node, rsp_Peers = None, rsp_RegistrationBinding = [], rsp_NodeCredential = [], rsp_STUNEndpoints = [],
     rsp_Relays = None, rsp_RelayCredential = None, rsp_MapSignature = None\<rparr>"

definition zero_MapDelta :: MapDelta where
  "zero_MapDelta = \<lparr>
     delta_Network = None, delta_Node = None, delta_PeerUpserts = [], delta_PeerRemoveIDs = [], delta_STUNEndpoints = None,
     delta_RelayUpserts = [], delta_RelayRemoveIDs = [], delta_RelayCredential = None\<rparr>"

definition zero_MapStreamEvent :: MapStreamEvent where
  "zero_MapStreamEvent = \<lparr>
     ev_Type = [], ev_ProtocolVersion = 0, ev_Capabilities = None, ev_EventID = [], ev_From = zero_MapRevision,
     ev_To = zero_MapRevision, ev_BaseHash = [], ev_Reason = [], ev_Snapshot = None, ev_Delta = None, ev_ResultSignature = None\<rparr>"

definition zero_RegisterNodeRequest :: RegisterNodeRequest where
  "zero_RegisterNodeRequest = \<lparr>
     req_SchemaVersion = 0, req_IdempotencyID = [], req_NetworkID = [], req_NetworkName = [], req_AccountID = [],
     req_CellID = [], req_JoinToken = [], req_NodeCredential = [], req_RegistrationBinding = [], req_SessionTokenBinding = [],
     req_Hostname = [], req_ClientVersion = [], req_IdentityPublicKey = [], req_IdentitySignature = [], req_PublicKey = [],
     req_DeviceFingerprint = [], req_Endpoint = [], req_EndpointGeneration = 0, req_EndpointCandidates = [],
     req_EndpointTTL = [], req_AdvertisedIPs = None, req_Tags = None\<rparr>"

definition zero_PublicError :: PublicError where
  "zero_PublicError = \<lparr>
     pe_SchemaVersion = 0, pe_ErrorCode = [], pe_DiagnosticMessage = [], pe_RequestID = []\<rparr>"

definition zero_SigningTrustKey :: SigningTrustKey where
  "zero_SigningTrustKey = \<lparr>
     key_KeyID = [], key_Algorithm = [], key_PublicKey = [], key_Provider = [], key_ProviderKey = [], key_ProviderVersion = 0,
     key_NotBefore = None, key_NotAfter = None\<rparr>"

definition zero_SigningTrustBundle :: SigningTrustBundle where
  "zero_SigningTrustBundle = \<lparr>
     tb_Version = 0, tb_ActiveKeyID = [], tb_Keys = None\<rparr>"

definition zero_ServerKeyResponse :: ServerKeyResponse where
  "zero_ServerKeyResponse = \<lparr>
     sk_TrustBundle = zero_SigningTrustBundle, sk_NodeCredentialTrustBundle = zero_SigningTrustBundle,
     sk_RelayTrustBundle = zero_SigningTrustBundle\<rparr>"

definition zero_CreateJoinTokenResponse :: CreateJoinTokenResponse where
  "zero_CreateJoinTokenResponse = \<lparr>
     jtr_ID = [], jtr_Token = [], jtr_AccountID = [], jtr_NetworkID = [], jtr_NetworkName = [], jtr_Reusable = False,
     jtr_Ephemeral = False, jtr_Preauthorized = False, jtr_Tags = [], jtr_ExpiresAt = zero_time\<rparr>"

definition zero_NodeEnrollmentRequest :: NodeEnrollmentRequest where
  "zero_NodeEnrollmentRequest = \<lparr>
     er_ID = [], er_Status = [], er_AccountID = [], er_NetworkID = [], er_NetworkName = [], er_Hostname = [],
     er_PublicKey = [], er_IdentityPublicKey = [], er_DeviceFingerprint = [], er_Tags = [], er_ApprovalURL = [],
     er_ApprovedByUserID = [], er_RejectedByUserID = [], er_RejectionReason = [], er_NodeID = [], er_CreatedAt = zero_time,
     er_ExpiresAt = zero_time, er_ApprovedAt = None, er_RejectedAt = None, er_CompletedAt = None\<rparr>"

definition zero_CreateNodeEnrollmentRequestResponse :: CreateNodeEnrollmentRequestResponse where
  "zero_CreateNodeEnrollmentRequestResponse = \<lparr>
     cer_Request = zero_NodeEnrollmentRequest, cer_PollToken = [], cer_PollAfterSeconds = 0\<rparr>"

definition zero_NodeEnrollmentRequestStatusResponse :: NodeEnrollmentRequestStatusResponse where
  "zero_NodeEnrollmentRequestStatusResponse = \<lparr>
     ers_Request = zero_NodeEnrollmentRequest, ers_PollAfterSeconds = 0\<rparr>"

definition zero_CompleteNodeEnrollmentRequestResponse :: CompleteNodeEnrollmentRequestResponse where
  "zero_CompleteNodeEnrollmentRequestResponse = \<lparr>
     cmp_Request = zero_NodeEnrollmentRequest, cmp_Registration = None\<rparr>"

section \<open>Field tables\<close>

definition ServiceHost_fields :: "ServiceHost fields" where
  "ServiceHost_fields =
     [(''node_id'', field dec_str sh_NodeID (\<lambda>x r. r\<lparr>sh_NodeID := x\<rparr>)),
      (''public_key'', field dec_str sh_PublicKey (\<lambda>x r. r\<lparr>sh_PublicKey := x\<rparr>))]"

definition ServicePort_fields :: "ServicePort fields" where
  "ServicePort_fields =
     [(''protocol'', field dec_str sp_Protocol (\<lambda>x r. r\<lparr>sp_Protocol := x\<rparr>)),
      (''port'', field dec_word sp_Port (\<lambda>x r. r\<lparr>sp_Port := x\<rparr>))]"

definition ApplicationRoute_fields :: "ApplicationRoute fields" where
  "ApplicationRoute_fields =
     [(''connector'', field (dec_struct ServiceHost_fields) ar_Connector (\<lambda>x r. r\<lparr>ar_Connector := x\<rparr>)),
      (''cidrs'', field (dec_slice dec_str []) ar_CIDRs (\<lambda>x r. r\<lparr>ar_CIDRs := x\<rparr>)),
      (''expires_at'', field dec_time ar_ExpiresAt (\<lambda>x r. r\<lparr>ar_ExpiresAt := x\<rparr>))]"

definition Application_fields :: "Application fields" where
  "Application_fields =
     [(''id'', field dec_str app_ID (\<lambda>x r. r\<lparr>app_ID := x\<rparr>)),
      (''name'', field dec_str app_Name (\<lambda>x r. r\<lparr>app_Name := x\<rparr>)),
      (''target'', field dec_str app_Target (\<lambda>x r. r\<lparr>app_Target := x\<rparr>)),
      (''target_type'', field dec_str app_TargetType (\<lambda>x r. r\<lparr>app_TargetType := x\<rparr>)),
      (''dns_enabled'', field dec_bool app_DNSEnabled (\<lambda>x r. r\<lparr>app_DNSEnabled := x\<rparr>)),
      (''policy_hash'', field dec_str app_PolicyHash (\<lambda>x r. r\<lparr>app_PolicyHash := x\<rparr>)),
      (''sources'', field (dec_list (dec_struct ServiceHost_fields) zero_ServiceHost) app_Sources (\<lambda>x r. r\<lparr>app_Sources := x\<rparr>)),
      (''connectors'', field (dec_list (dec_struct ServiceHost_fields) zero_ServiceHost) app_Connectors (\<lambda>x r. r\<lparr>app_Connectors := x\<rparr>)),
      (''routes'', field (dec_list (dec_struct ApplicationRoute_fields) zero_ApplicationRoute) app_Routes (\<lambda>x r. r\<lparr>app_Routes := x\<rparr>))]"

definition AdvertisedService_fields :: "AdvertisedService fields" where
  "AdvertisedService_fields =
     [(''id'', field dec_str svc_ID (\<lambda>x r. r\<lparr>svc_ID := x\<rparr>)),
      (''name'', field dec_str svc_Name (\<lambda>x r. r\<lparr>svc_Name := x\<rparr>)),
      (''description'', field dec_str svc_Description (\<lambda>x r. r\<lparr>svc_Description := x\<rparr>)),
      (''dns_name'', field dec_str svc_DNSName (\<lambda>x r. r\<lparr>svc_DNSName := x\<rparr>)),
      (''ports'', field (dec_slice (dec_struct ServicePort_fields) zero_ServicePort) svc_Ports (\<lambda>x r. r\<lparr>svc_Ports := x\<rparr>)),
      (''tags'', field (dec_list dec_str []) svc_Tags (\<lambda>x r. r\<lparr>svc_Tags := x\<rparr>)),
      (''eligible_tags'', field (dec_list dec_str []) svc_EligibleTags (\<lambda>x r. r\<lparr>svc_EligibleTags := x\<rparr>)),
      (''approval_mode'', field dec_str svc_ApprovalMode (\<lambda>x r. r\<lparr>svc_ApprovalMode := x\<rparr>)),
      (''approval_status'', field dec_str svc_ApprovalStatus (\<lambda>x r. r\<lparr>svc_ApprovalStatus := x\<rparr>)),
      (''health'', field dec_str svc_Health (\<lambda>x r. r\<lparr>svc_Health := x\<rparr>)),
      (''hosts'', field (dec_list (dec_struct ServiceHost_fields) zero_ServiceHost) svc_Hosts (\<lambda>x r. r\<lparr>svc_Hosts := x\<rparr>))]"

definition DNSNameserver_fields :: "DNSNameserver fields" where
  "DNSNameserver_fields =
     [(''id'', field dec_str ns_ID (\<lambda>x r. r\<lparr>ns_ID := x\<rparr>)),
      (''address'', field dec_str ns_Address (\<lambda>x r. r\<lparr>ns_Address := x\<rparr>)),
      (''scope'', field dec_str ns_Scope (\<lambda>x r. r\<lparr>ns_Scope := x\<rparr>)),
      (''priority'', field dec_word ns_Priority (\<lambda>x r. r\<lparr>ns_Priority := x\<rparr>)),
      (''split_domains'', field (dec_list dec_str []) ns_SplitDomains (\<lambda>x r. r\<lparr>ns_SplitDomains := x\<rparr>))]"

definition DNSConfig_fields :: "DNSConfig fields" where
  "DNSConfig_fields =
     [(''magicdns_enabled'', field dec_bool dns_MagicDNSEnabled (\<lambda>x r. r\<lparr>dns_MagicDNSEnabled := x\<rparr>)),
      (''https_certs_enabled'', field dec_bool dns_HTTPSCertsEnabled (\<lambda>x r. r\<lparr>dns_HTTPSCertsEnabled := x\<rparr>)),
      (''override_local_dns'', field dec_bool dns_OverrideLocalDNS (\<lambda>x r. r\<lparr>dns_OverrideLocalDNS := x\<rparr>)),
      (''suffix'', field dec_str dns_Suffix (\<lambda>x r. r\<lparr>dns_Suffix := x\<rparr>)),
      (''nameservers'', field (dec_list (dec_struct DNSNameserver_fields) zero_DNSNameserver) dns_Nameservers (\<lambda>x r. r\<lparr>dns_Nameservers := x\<rparr>)),
      (''search_domains'', field (dec_list dec_str []) dns_SearchDomains (\<lambda>x r. r\<lparr>dns_SearchDomains := x\<rparr>))]"

definition ShareTraffic_fields :: "ShareTraffic fields" where
  "ShareTraffic_fields =
     [(''protocol'', field dec_str st_Protocol (\<lambda>x r. r\<lparr>st_Protocol := x\<rparr>)),
      (''first_port'', field dec_word st_FirstPort (\<lambda>x r. r\<lparr>st_FirstPort := x\<rparr>)),
      (''last_port'', field dec_word st_LastPort (\<lambda>x r. r\<lparr>st_LastPort := x\<rparr>))]"

definition SharePeerGrant_fields :: "SharePeerGrant fields" where
  "SharePeerGrant_fields =
     [(''grant_id'', field dec_str g_GrantID (\<lambda>x r. r\<lparr>g_GrantID := x\<rparr>)),
      (''recipient_network_id'', field dec_str g_RecipientNetworkID (\<lambda>x r. r\<lparr>g_RecipientNetworkID := x\<rparr>)),
      (''recipient_node_id'', field dec_str g_RecipientNodeID (\<lambda>x r. r\<lparr>g_RecipientNodeID := x\<rparr>)),
      (''recipient_public_key'', field dec_str g_RecipientPublicKey (\<lambda>x r. r\<lparr>g_RecipientPublicKey := x\<rparr>)),
      (''recipient_allowed_ips'', field (dec_slice dec_str []) g_RecipientAllowedIPs (\<lambda>x r. r\<lparr>g_RecipientAllowedIPs := x\<rparr>)),
      (''source_network_id'', field dec_str g_SourceNetworkID (\<lambda>x r. r\<lparr>g_SourceNetworkID := x\<rparr>)),
      (''source_node_id'', field dec_str g_SourceNodeID (\<lambda>x r. r\<lparr>g_SourceNodeID := x\<rparr>)),
      (''source_public_key'', field dec_str g_SourcePublicKey (\<lambda>x r. r\<lparr>g_SourcePublicKey := x\<rparr>)),
      (''source_allowed_ips'', field (dec_slice dec_str []) g_SourceAllowedIPs (\<lambda>x r. r\<lparr>g_SourceAllowedIPs := x\<rparr>)),
      (''rights'', field (dec_slice (dec_struct ShareTraffic_fields) zero_ShareTraffic) g_Rights (\<lambda>x r. r\<lparr>g_Rights := x\<rparr>)),
      (''initiation'', field dec_str g_Initiation (\<lambda>x r. r\<lparr>g_Initiation := x\<rparr>)),
      (''revision'', field dec_word g_Revision (\<lambda>x r. r\<lparr>g_Revision := x\<rparr>)),
      (''issued_at'', field dec_time g_IssuedAt (\<lambda>x r. r\<lparr>g_IssuedAt := x\<rparr>)),
      (''expires_at'', field dec_time g_ExpiresAt (\<lambda>x r. r\<lparr>g_ExpiresAt := x\<rparr>))]"

definition Network_fields :: "Network fields" where
  "Network_fields =
     [(''id'', field dec_str net_ID (\<lambda>x r. r\<lparr>net_ID := x\<rparr>)),
      (''name'', field dec_str net_Name (\<lambda>x r. r\<lparr>net_Name := x\<rparr>)),
      (''cidr'', field dec_str net_CIDR (\<lambda>x r. r\<lparr>net_CIDR := x\<rparr>)),
      (''ipv6_cidr'', field dec_str net_IPv6CIDR (\<lambda>x r. r\<lparr>net_IPv6CIDR := x\<rparr>)),
      (''dns'', field (dec_list dec_str []) net_DNS (\<lambda>x r. r\<lparr>net_DNS := x\<rparr>)),
      (''dns_config'', field (dec_ptr (dec_struct DNSConfig_fields) zero_DNSConfig) net_DNSConfig (\<lambda>x r. r\<lparr>net_DNSConfig := x\<rparr>)),
      (''applications'', field (dec_list (dec_struct Application_fields) zero_Application) net_Applications (\<lambda>x r. r\<lparr>net_Applications := x\<rparr>)),
      (''services'', field (dec_list (dec_struct AdvertisedService_fields) zero_AdvertisedService) net_Services (\<lambda>x r. r\<lparr>net_Services := x\<rparr>)),
      (''share_peer_grants'', field (dec_list (dec_struct SharePeerGrant_fields) zero_SharePeerGrant) net_SharePeerGrants (\<lambda>x r. r\<lparr>net_SharePeerGrants := x\<rparr>)),
      (''cell_id'', field dec_str net_CellID (\<lambda>x r. r\<lparr>net_CellID := x\<rparr>)),
      (''authoritative_cell_id'', field dec_str net_AuthoritativeCellID (\<lambda>x r. r\<lparr>net_AuthoritativeCellID := x\<rparr>)),
      (''migrating_to_cell_id'', field dec_str net_MigratingToCellID (\<lambda>x r. r\<lparr>net_MigratingToCellID := x\<rparr>)),
      (''revision'', field dec_word net_Revision (\<lambda>x r. r\<lparr>net_Revision := x\<rparr>)),
      (''owner_id'', field dec_str net_OwnerID (\<lambda>x r. r\<lparr>net_OwnerID := x\<rparr>)),
      (''account_id'', field dec_str net_AccountID (\<lambda>x r. r\<lparr>net_AccountID := x\<rparr>)),
      (''created_at'', field dec_time net_CreatedAt (\<lambda>x r. r\<lparr>net_CreatedAt := x\<rparr>))]"

definition Node_fields :: "Node fields" where
  "Node_fields =
     [(''id'', field dec_str node_ID (\<lambda>x r. r\<lparr>node_ID := x\<rparr>)),
      (''network_id'', field dec_str node_NetworkID (\<lambda>x r. r\<lparr>node_NetworkID := x\<rparr>)),
      (''user_id'', field dec_str node_UserID (\<lambda>x r. r\<lparr>node_UserID := x\<rparr>)),
      (''hostname'', field dec_str node_Hostname (\<lambda>x r. r\<lparr>node_Hostname := x\<rparr>)),
      (''identity_public_key'', field dec_str node_IdentityPublicKey (\<lambda>x r. r\<lparr>node_IdentityPublicKey := x\<rparr>)),
      (''public_key'', field dec_str node_PublicKey (\<lambda>x r. r\<lparr>node_PublicKey := x\<rparr>)),
      (''device_fingerprint'', field dec_str node_DeviceFingerprint (\<lambda>x r. r\<lparr>node_DeviceFingerprint := x\<rparr>)),
      (''assigned_ip'', field dec_str node_AssignedIP (\<lambda>x r. r\<lparr>node_AssignedIP := x\<rparr>)),
      (''assigned_ipv6'', field dec_str node_AssignedIPv6 (\<lambda>x r. r\<lparr>node_AssignedIPv6 := x\<rparr>)),
      (''endpoint'', field dec_str node_Endpoint (\<lambda>x r. r\<lparr>node_Endpoint := x\<rparr>)),
      (''endpoint_generation'', field dec_word node_EndpointGeneration (\<lambda>x r. r\<lparr>node_EndpointGeneration := x\<rparr>)),
      (''endpoint_candidates'', field (dec_list dec_str []) node_EndpointCandidates (\<lambda>x r. r\<lparr>node_EndpointCandidates := x\<rparr>)),
      (''endpoint_expires_at'', field (dec_ptr dec_time zero_time) node_EndpointExpiresAt (\<lambda>x r. r\<lparr>node_EndpointExpiresAt := x\<rparr>)),
      (''status'', field dec_str node_Status (\<lambda>x r. r\<lparr>node_Status := x\<rparr>)),
      (''advertised_ips'', field (dec_list dec_str []) node_AdvertisedIPs (\<lambda>x r. r\<lparr>node_AdvertisedIPs := x\<rparr>)),
      (''requested_tags'', field (dec_list dec_str []) node_RequestedTags (\<lambda>x r. r\<lparr>node_RequestedTags := x\<rparr>)),
      (''tags'', field (dec_list dec_str []) node_Tags (\<lambda>x r. r\<lparr>node_Tags := x\<rparr>)),
      (''approval_state'', field dec_str node_ApprovalState (\<lambda>x r. r\<lparr>node_ApprovalState := x\<rparr>)),
      (''ephemeral'', field dec_bool node_Ephemeral (\<lambda>x r. r\<lparr>node_Ephemeral := x\<rparr>)),
      (''key_expiry_enabled'', field dec_bool node_KeyExpiryEnabled (\<lambda>x r. r\<lparr>node_KeyExpiryEnabled := x\<rparr>)),
      (''key_expires_at'', field (dec_ptr dec_time zero_time) node_KeyExpiresAt (\<lambda>x r. r\<lparr>node_KeyExpiresAt := x\<rparr>)),
      (''created_at'', field dec_time node_CreatedAt (\<lambda>x r. r\<lparr>node_CreatedAt := x\<rparr>)),
      (''updated_at'', field dec_time node_UpdatedAt (\<lambda>x r. r\<lparr>node_UpdatedAt := x\<rparr>)),
      (''last_seen'', field dec_time node_LastSeen (\<lambda>x r. r\<lparr>node_LastSeen := x\<rparr>))]"

definition ACLPort_fields :: "ACLPort fields" where
  "ACLPort_fields =
     [(''protocol'', field dec_str acl_Protocol (\<lambda>x r. r\<lparr>acl_Protocol := x\<rparr>)),
      (''port'', field dec_int acl_Port (\<lambda>x r. r\<lparr>acl_Port := x\<rparr>))]"

definition ACLGrant_fields :: "ACLGrant fields" where
  "ACLGrant_fields =
     [(''destination_cidrs'', field (dec_slice dec_str []) ag_DestinationCIDRs (\<lambda>x r. r\<lparr>ag_DestinationCIDRs := x\<rparr>)),
      (''allowed_ports'', field (dec_list (dec_struct ACLPort_fields) zero_ACLPort) ag_AllowedPorts (\<lambda>x r. r\<lparr>ag_AllowedPorts := x\<rparr>))]"

definition Peer_fields :: "Peer fields" where
  "Peer_fields =
     [(''id'', field dec_str peer_ID (\<lambda>x r. r\<lparr>peer_ID := x\<rparr>)),
      (''network_id'', field dec_str peer_NetworkID (\<lambda>x r. r\<lparr>peer_NetworkID := x\<rparr>)),
      (''hostname'', field dec_str peer_Hostname (\<lambda>x r. r\<lparr>peer_Hostname := x\<rparr>)),
      (''public_key'', field dec_str peer_PublicKey (\<lambda>x r. r\<lparr>peer_PublicKey := x\<rparr>)),
      (''endpoint'', field dec_str peer_Endpoint (\<lambda>x r. r\<lparr>peer_Endpoint := x\<rparr>)),
      (''endpoint_generation'', field dec_word peer_EndpointGeneration (\<lambda>x r. r\<lparr>peer_EndpointGeneration := x\<rparr>)),
      (''endpoint_candidates'', field (dec_list dec_str []) peer_EndpointCandidates (\<lambda>x r. r\<lparr>peer_EndpointCandidates := x\<rparr>)),
      (''endpoint_expires_at'', field (dec_ptr dec_time zero_time) peer_EndpointExpiresAt (\<lambda>x r. r\<lparr>peer_EndpointExpiresAt := x\<rparr>)),
      (''status'', field dec_str peer_Status (\<lambda>x r. r\<lparr>peer_Status := x\<rparr>)),
      (''allowed_ips'', field (dec_slice dec_str []) peer_AllowedIPs (\<lambda>x r. r\<lparr>peer_AllowedIPs := x\<rparr>)),
      (''allowed_ports'', field (dec_list (dec_struct ACLPort_fields) zero_ACLPort) peer_AllowedPorts (\<lambda>x r. r\<lparr>peer_AllowedPorts := x\<rparr>)),
      (''acl_restricted'', field dec_bool peer_ACLRestricted (\<lambda>x r. r\<lparr>peer_ACLRestricted := x\<rparr>)),
      (''acl_grants'', field (dec_list (dec_struct ACLGrant_fields) zero_ACLGrant) peer_ACLGrants (\<lambda>x r. r\<lparr>peer_ACLGrants := x\<rparr>)),
      (''tags'', field (dec_list dec_str []) peer_Tags (\<lambda>x r. r\<lparr>peer_Tags := x\<rparr>))]"

definition STUNEndpoint_fields :: "STUNEndpoint fields" where
  "STUNEndpoint_fields =
     [(''id'', field dec_str stun_ID (\<lambda>x r. r\<lparr>stun_ID := x\<rparr>)),
      (''addr'', field dec_str stun_Addr (\<lambda>x r. r\<lparr>stun_Addr := x\<rparr>))]"

definition MapRevision_fields :: "MapRevision fields" where
  "MapRevision_fields =
     [(''network'', field dec_word rev_Network (\<lambda>x r. r\<lparr>rev_Network := x\<rparr>)),
      (''global'', field dec_word rev_Global (\<lambda>x r. r\<lparr>rev_Global := x\<rparr>))]"

definition MapSignature_fields :: "MapSignature fields" where
  "MapSignature_fields =
     [(''version'', field dec_int sig_Version (\<lambda>x r. r\<lparr>sig_Version := x\<rparr>)),
      (''key_id'', field dec_str sig_KeyID (\<lambda>x r. r\<lparr>sig_KeyID := x\<rparr>)),
      (''algorithm'', field dec_str sig_Algorithm (\<lambda>x r. r\<lparr>sig_Algorithm := x\<rparr>)),
      (''issued_at'', field dec_time sig_IssuedAt (\<lambda>x r. r\<lparr>sig_IssuedAt := x\<rparr>)),
      (''expires_at'', field dec_time sig_ExpiresAt (\<lambda>x r. r\<lparr>sig_ExpiresAt := x\<rparr>)),
      (''payload_hash'', field dec_str sig_PayloadHash (\<lambda>x r. r\<lparr>sig_PayloadHash := x\<rparr>)),
      (''signature'', field dec_str sig_Signature (\<lambda>x r. r\<lparr>sig_Signature := x\<rparr>))]"

definition NetworkMapSnapshot_fields :: "relay_wire \<Rightarrow> NetworkMapSnapshot fields" where
  "NetworkMapSnapshot_fields rl =
     [(''revision'', field (dec_struct MapRevision_fields) snap_Revision (\<lambda>x r. r\<lparr>snap_Revision := x\<rparr>)),
      (''network'', field (dec_struct Network_fields) snap_Network (\<lambda>x r. r\<lparr>snap_Network := x\<rparr>)),
      (''node'', field (dec_struct Node_fields) snap_Node (\<lambda>x r. r\<lparr>snap_Node := x\<rparr>)),
      (''peers'', field (dec_slice (dec_struct Peer_fields) zero_Peer) snap_Peers (\<lambda>x r. r\<lparr>snap_Peers := x\<rparr>)),
      (''registration_binding'', field dec_str snap_RegistrationBinding (\<lambda>x r. r\<lparr>snap_RegistrationBinding := x\<rparr>)),
      (''stun_endpoints'', field (dec_list (dec_struct STUNEndpoint_fields) zero_STUNEndpoint) snap_STUNEndpoints (\<lambda>x r. r\<lparr>snap_STUNEndpoints := x\<rparr>)),
      (''relays'', field (dec_slice (rl_dec_endpoint rl) (rl_zero_endpoint rl)) snap_Relays (\<lambda>x r. r\<lparr>snap_Relays := x\<rparr>)),
      (''relay_credential'', field (dec_ptr (rl_dec_credential rl) (rl_zero_credential rl)) snap_RelayCredential (\<lambda>x r. r\<lparr>snap_RelayCredential := x\<rparr>)),
      (''map_signature'', field (dec_ptr (dec_struct MapSignature_fields) zero_MapSignature) snap_MapSignature (\<lambda>x r. r\<lparr>snap_MapSignature := x\<rparr>))]"

definition RegisterNodeResponse_fields :: "relay_wire \<Rightarrow> RegisterNodeResponse fields" where
  "RegisterNodeResponse_fields rl =
     [(''schema_version'', field dec_int rsp_SchemaVersion (\<lambda>x r. r\<lparr>rsp_SchemaVersion := x\<rparr>)),
      (''idempotency_id'', field dec_str rsp_IdempotencyID (\<lambda>x r. r\<lparr>rsp_IdempotencyID := x\<rparr>)),
      (''revision'', field (dec_struct MapRevision_fields) rsp_Revision (\<lambda>x r. r\<lparr>rsp_Revision := x\<rparr>)),
      (''network'', field (dec_struct Network_fields) rsp_Network (\<lambda>x r. r\<lparr>rsp_Network := x\<rparr>)),
      (''node'', field (dec_struct Node_fields) rsp_Node (\<lambda>x r. r\<lparr>rsp_Node := x\<rparr>)),
      (''peers'', field (dec_slice (dec_struct Peer_fields) zero_Peer) rsp_Peers (\<lambda>x r. r\<lparr>rsp_Peers := x\<rparr>)),
      (''registration_binding'', field dec_str rsp_RegistrationBinding (\<lambda>x r. r\<lparr>rsp_RegistrationBinding := x\<rparr>)),
      (''node_credential'', field dec_str rsp_NodeCredential (\<lambda>x r. r\<lparr>rsp_NodeCredential := x\<rparr>)),
      (''stun_endpoints'', field (dec_list (dec_struct STUNEndpoint_fields) zero_STUNEndpoint) rsp_STUNEndpoints (\<lambda>x r. r\<lparr>rsp_STUNEndpoints := x\<rparr>)),
      (''relays'', field (dec_slice (rl_dec_endpoint rl) (rl_zero_endpoint rl)) rsp_Relays (\<lambda>x r. r\<lparr>rsp_Relays := x\<rparr>)),
      (''relay_credential'', field (dec_ptr (rl_dec_credential rl) (rl_zero_credential rl)) rsp_RelayCredential (\<lambda>x r. r\<lparr>rsp_RelayCredential := x\<rparr>)),
      (''map_signature'', field (dec_ptr (dec_struct MapSignature_fields) zero_MapSignature) rsp_MapSignature (\<lambda>x r. r\<lparr>rsp_MapSignature := x\<rparr>))]"

definition MapDelta_fields :: "relay_wire \<Rightarrow> MapDelta fields" where
  "MapDelta_fields rl =
     [(''network'', field (dec_ptr (dec_struct Network_fields) zero_Network) delta_Network (\<lambda>x r. r\<lparr>delta_Network := x\<rparr>)),
      (''node'', field (dec_ptr (dec_struct Node_fields) zero_Node) delta_Node (\<lambda>x r. r\<lparr>delta_Node := x\<rparr>)),
      (''peer_upserts'', field (dec_list (dec_struct Peer_fields) zero_Peer) delta_PeerUpserts (\<lambda>x r. r\<lparr>delta_PeerUpserts := x\<rparr>)),
      (''peer_remove_ids'', field (dec_list dec_str []) delta_PeerRemoveIDs (\<lambda>x r. r\<lparr>delta_PeerRemoveIDs := x\<rparr>)),
      (''stun_endpoints'', field (dec_ptr (dec_list (dec_struct STUNEndpoint_fields) zero_STUNEndpoint) []) delta_STUNEndpoints (\<lambda>x r. r\<lparr>delta_STUNEndpoints := x\<rparr>)),
      (''relay_upserts'', field (dec_list (rl_dec_endpoint rl) (rl_zero_endpoint rl)) delta_RelayUpserts (\<lambda>x r. r\<lparr>delta_RelayUpserts := x\<rparr>)),
      (''relay_remove_ids'', field (dec_list dec_str []) delta_RelayRemoveIDs (\<lambda>x r. r\<lparr>delta_RelayRemoveIDs := x\<rparr>)),
      (''relay_credential'', field (dec_ptr (rl_dec_credential rl) (rl_zero_credential rl)) delta_RelayCredential (\<lambda>x r. r\<lparr>delta_RelayCredential := x\<rparr>))]"

definition MapStreamEvent_fields :: "relay_wire \<Rightarrow> MapStreamEvent fields" where
  "MapStreamEvent_fields rl =
     [(''type'', field dec_str ev_Type (\<lambda>x r. r\<lparr>ev_Type := x\<rparr>)),
      (''protocol_version'', field dec_int ev_ProtocolVersion (\<lambda>x r. r\<lparr>ev_ProtocolVersion := x\<rparr>)),
      (''capabilities'', field (dec_slice dec_str []) ev_Capabilities (\<lambda>x r. r\<lparr>ev_Capabilities := x\<rparr>)),
      (''event_id'', field dec_str ev_EventID (\<lambda>x r. r\<lparr>ev_EventID := x\<rparr>)),
      (''from'', field (dec_struct MapRevision_fields) ev_From (\<lambda>x r. r\<lparr>ev_From := x\<rparr>)),
      (''to'', field (dec_struct MapRevision_fields) ev_To (\<lambda>x r. r\<lparr>ev_To := x\<rparr>)),
      (''base_hash'', field dec_str ev_BaseHash (\<lambda>x r. r\<lparr>ev_BaseHash := x\<rparr>)),
      (''reason'', field dec_str ev_Reason (\<lambda>x r. r\<lparr>ev_Reason := x\<rparr>)),
      (''snapshot'', field (dec_ptr (dec_struct (NetworkMapSnapshot_fields rl)) zero_Snapshot) ev_Snapshot (\<lambda>x r. r\<lparr>ev_Snapshot := x\<rparr>)),
      (''delta'', field (dec_ptr (dec_struct (MapDelta_fields rl)) zero_MapDelta) ev_Delta (\<lambda>x r. r\<lparr>ev_Delta := x\<rparr>)),
      (''result_signature'', field (dec_ptr (dec_struct MapSignature_fields) zero_MapSignature) ev_ResultSignature (\<lambda>x r. r\<lparr>ev_ResultSignature := x\<rparr>))]"

definition RegisterNodeRequest_fields :: "RegisterNodeRequest fields" where
  "RegisterNodeRequest_fields =
     [(''schema_version'', field dec_int req_SchemaVersion (\<lambda>x r. r\<lparr>req_SchemaVersion := x\<rparr>)),
      (''idempotency_id'', field dec_str req_IdempotencyID (\<lambda>x r. r\<lparr>req_IdempotencyID := x\<rparr>)),
      (''network_id'', field dec_str req_NetworkID (\<lambda>x r. r\<lparr>req_NetworkID := x\<rparr>)),
      (''network_name'', field dec_str req_NetworkName (\<lambda>x r. r\<lparr>req_NetworkName := x\<rparr>)),
      (''account_id'', field dec_str req_AccountID (\<lambda>x r. r\<lparr>req_AccountID := x\<rparr>)),
      (''cell_id'', field dec_str req_CellID (\<lambda>x r. r\<lparr>req_CellID := x\<rparr>)),
      (''join_token'', field dec_str req_JoinToken (\<lambda>x r. r\<lparr>req_JoinToken := x\<rparr>)),
      (''node_credential'', field dec_str req_NodeCredential (\<lambda>x r. r\<lparr>req_NodeCredential := x\<rparr>)),
      (''registration_binding'', field dec_str req_RegistrationBinding (\<lambda>x r. r\<lparr>req_RegistrationBinding := x\<rparr>)),
      (''session_token_binding'', field dec_str req_SessionTokenBinding (\<lambda>x r. r\<lparr>req_SessionTokenBinding := x\<rparr>)),
      (''hostname'', field dec_str req_Hostname (\<lambda>x r. r\<lparr>req_Hostname := x\<rparr>)),
      (''client_version'', field dec_str req_ClientVersion (\<lambda>x r. r\<lparr>req_ClientVersion := x\<rparr>)),
      (''identity_public_key'', field dec_str req_IdentityPublicKey (\<lambda>x r. r\<lparr>req_IdentityPublicKey := x\<rparr>)),
      (''identity_signature'', field dec_str req_IdentitySignature (\<lambda>x r. r\<lparr>req_IdentitySignature := x\<rparr>)),
      (''public_key'', field dec_str req_PublicKey (\<lambda>x r. r\<lparr>req_PublicKey := x\<rparr>)),
      (''device_fingerprint'', field dec_str req_DeviceFingerprint (\<lambda>x r. r\<lparr>req_DeviceFingerprint := x\<rparr>)),
      (''endpoint'', field dec_str req_Endpoint (\<lambda>x r. r\<lparr>req_Endpoint := x\<rparr>)),
      (''generation'', field dec_word req_EndpointGeneration (\<lambda>x r. r\<lparr>req_EndpointGeneration := x\<rparr>)),
      (''candidates'', field (dec_list dec_str []) req_EndpointCandidates (\<lambda>x r. r\<lparr>req_EndpointCandidates := x\<rparr>)),
      (''ttl'', field dec_str req_EndpointTTL (\<lambda>x r. r\<lparr>req_EndpointTTL := x\<rparr>)),
      (''advertised_ips'', field (dec_slice dec_str []) req_AdvertisedIPs (\<lambda>x r. r\<lparr>req_AdvertisedIPs := x\<rparr>)),
      (''tags'', field (dec_slice dec_str []) req_Tags (\<lambda>x r. r\<lparr>req_Tags := x\<rparr>))]"

definition PublicError_fields :: "PublicError fields" where
  "PublicError_fields =
     [(''schema_version'', field dec_int pe_SchemaVersion (\<lambda>x r. r\<lparr>pe_SchemaVersion := x\<rparr>)),
      (''error_code'', field dec_str pe_ErrorCode (\<lambda>x r. r\<lparr>pe_ErrorCode := x\<rparr>)),
      (''diagnostic_message'', field dec_str pe_DiagnosticMessage (\<lambda>x r. r\<lparr>pe_DiagnosticMessage := x\<rparr>)),
      (''request_id'', field dec_str pe_RequestID (\<lambda>x r. r\<lparr>pe_RequestID := x\<rparr>))]"

definition SigningTrustKey_fields :: "SigningTrustKey fields" where
  "SigningTrustKey_fields =
     [(''key_id'', field dec_str key_KeyID (\<lambda>x r. r\<lparr>key_KeyID := x\<rparr>)),
      (''algorithm'', field dec_str key_Algorithm (\<lambda>x r. r\<lparr>key_Algorithm := x\<rparr>)),
      (''public_key'', field dec_str key_PublicKey (\<lambda>x r. r\<lparr>key_PublicKey := x\<rparr>)),
      (''provider'', field dec_str key_Provider (\<lambda>x r. r\<lparr>key_Provider := x\<rparr>)),
      (''provider_key'', field dec_str key_ProviderKey (\<lambda>x r. r\<lparr>key_ProviderKey := x\<rparr>)),
      (''provider_version'', field dec_int key_ProviderVersion (\<lambda>x r. r\<lparr>key_ProviderVersion := x\<rparr>)),
      (''not_before'', field (dec_ptr dec_time zero_time) key_NotBefore (\<lambda>x r. r\<lparr>key_NotBefore := x\<rparr>)),
      (''not_after'', field (dec_ptr dec_time zero_time) key_NotAfter (\<lambda>x r. r\<lparr>key_NotAfter := x\<rparr>))]"

definition SigningTrustBundle_fields :: "SigningTrustBundle fields" where
  "SigningTrustBundle_fields =
     [(''version'', field dec_int tb_Version (\<lambda>x r. r\<lparr>tb_Version := x\<rparr>)),
      (''active_key_id'', field dec_str tb_ActiveKeyID (\<lambda>x r. r\<lparr>tb_ActiveKeyID := x\<rparr>)),
      (''keys'', field (dec_slice (dec_struct SigningTrustKey_fields) zero_SigningTrustKey) tb_Keys (\<lambda>x r. r\<lparr>tb_Keys := x\<rparr>))]"

definition ServerKeyResponse_fields :: "ServerKeyResponse fields" where
  "ServerKeyResponse_fields =
     [(''trust_bundle'', field (dec_struct SigningTrustBundle_fields) sk_TrustBundle (\<lambda>x r. r\<lparr>sk_TrustBundle := x\<rparr>)),
      (''node_credential_trust_bundle'', field (dec_struct SigningTrustBundle_fields) sk_NodeCredentialTrustBundle (\<lambda>x r. r\<lparr>sk_NodeCredentialTrustBundle := x\<rparr>)),
      (''relay_trust_bundle'', field (dec_struct SigningTrustBundle_fields) sk_RelayTrustBundle (\<lambda>x r. r\<lparr>sk_RelayTrustBundle := x\<rparr>))]"

definition CreateJoinTokenResponse_fields :: "CreateJoinTokenResponse fields" where
  "CreateJoinTokenResponse_fields =
     [(''id'', field dec_str jtr_ID (\<lambda>x r. r\<lparr>jtr_ID := x\<rparr>)),
      (''token'', field dec_str jtr_Token (\<lambda>x r. r\<lparr>jtr_Token := x\<rparr>)),
      (''account_id'', field dec_str jtr_AccountID (\<lambda>x r. r\<lparr>jtr_AccountID := x\<rparr>)),
      (''network_id'', field dec_str jtr_NetworkID (\<lambda>x r. r\<lparr>jtr_NetworkID := x\<rparr>)),
      (''network_name'', field dec_str jtr_NetworkName (\<lambda>x r. r\<lparr>jtr_NetworkName := x\<rparr>)),
      (''reusable'', field dec_bool jtr_Reusable (\<lambda>x r. r\<lparr>jtr_Reusable := x\<rparr>)),
      (''ephemeral'', field dec_bool jtr_Ephemeral (\<lambda>x r. r\<lparr>jtr_Ephemeral := x\<rparr>)),
      (''preauthorized'', field dec_bool jtr_Preauthorized (\<lambda>x r. r\<lparr>jtr_Preauthorized := x\<rparr>)),
      (''tags'', field (dec_list dec_str []) jtr_Tags (\<lambda>x r. r\<lparr>jtr_Tags := x\<rparr>)),
      (''expires_at'', field dec_time jtr_ExpiresAt (\<lambda>x r. r\<lparr>jtr_ExpiresAt := x\<rparr>))]"

definition NodeEnrollmentRequest_fields :: "NodeEnrollmentRequest fields" where
  "NodeEnrollmentRequest_fields =
     [(''id'', field dec_str er_ID (\<lambda>x r. r\<lparr>er_ID := x\<rparr>)),
      (''status'', field dec_str er_Status (\<lambda>x r. r\<lparr>er_Status := x\<rparr>)),
      (''account_id'', field dec_str er_AccountID (\<lambda>x r. r\<lparr>er_AccountID := x\<rparr>)),
      (''network_id'', field dec_str er_NetworkID (\<lambda>x r. r\<lparr>er_NetworkID := x\<rparr>)),
      (''network_name'', field dec_str er_NetworkName (\<lambda>x r. r\<lparr>er_NetworkName := x\<rparr>)),
      (''hostname'', field dec_str er_Hostname (\<lambda>x r. r\<lparr>er_Hostname := x\<rparr>)),
      (''public_key'', field dec_str er_PublicKey (\<lambda>x r. r\<lparr>er_PublicKey := x\<rparr>)),
      (''identity_public_key'', field dec_str er_IdentityPublicKey (\<lambda>x r. r\<lparr>er_IdentityPublicKey := x\<rparr>)),
      (''device_fingerprint'', field dec_str er_DeviceFingerprint (\<lambda>x r. r\<lparr>er_DeviceFingerprint := x\<rparr>)),
      (''tags'', field (dec_list dec_str []) er_Tags (\<lambda>x r. r\<lparr>er_Tags := x\<rparr>)),
      (''approval_url'', field dec_str er_ApprovalURL (\<lambda>x r. r\<lparr>er_ApprovalURL := x\<rparr>)),
      (''approved_by_user_id'', field dec_str er_ApprovedByUserID (\<lambda>x r. r\<lparr>er_ApprovedByUserID := x\<rparr>)),
      (''rejected_by_user_id'', field dec_str er_RejectedByUserID (\<lambda>x r. r\<lparr>er_RejectedByUserID := x\<rparr>)),
      (''rejection_reason'', field dec_str er_RejectionReason (\<lambda>x r. r\<lparr>er_RejectionReason := x\<rparr>)),
      (''node_id'', field dec_str er_NodeID (\<lambda>x r. r\<lparr>er_NodeID := x\<rparr>)),
      (''created_at'', field dec_time er_CreatedAt (\<lambda>x r. r\<lparr>er_CreatedAt := x\<rparr>)),
      (''expires_at'', field dec_time er_ExpiresAt (\<lambda>x r. r\<lparr>er_ExpiresAt := x\<rparr>)),
      (''approved_at'', field (dec_ptr dec_time zero_time) er_ApprovedAt (\<lambda>x r. r\<lparr>er_ApprovedAt := x\<rparr>)),
      (''rejected_at'', field (dec_ptr dec_time zero_time) er_RejectedAt (\<lambda>x r. r\<lparr>er_RejectedAt := x\<rparr>)),
      (''completed_at'', field (dec_ptr dec_time zero_time) er_CompletedAt (\<lambda>x r. r\<lparr>er_CompletedAt := x\<rparr>))]"

definition CreateNodeEnrollmentRequestResponse_fields :: "CreateNodeEnrollmentRequestResponse fields" where
  "CreateNodeEnrollmentRequestResponse_fields =
     [(''request'', field (dec_struct NodeEnrollmentRequest_fields) cer_Request (\<lambda>x r. r\<lparr>cer_Request := x\<rparr>)),
      (''poll_token'', field dec_str cer_PollToken (\<lambda>x r. r\<lparr>cer_PollToken := x\<rparr>)),
      (''poll_after_seconds'', field dec_int cer_PollAfterSeconds (\<lambda>x r. r\<lparr>cer_PollAfterSeconds := x\<rparr>))]"

definition NodeEnrollmentRequestStatusResponse_fields :: "NodeEnrollmentRequestStatusResponse fields" where
  "NodeEnrollmentRequestStatusResponse_fields =
     [(''request'', field (dec_struct NodeEnrollmentRequest_fields) ers_Request (\<lambda>x r. r\<lparr>ers_Request := x\<rparr>)),
      (''poll_after_seconds'', field dec_int ers_PollAfterSeconds (\<lambda>x r. r\<lparr>ers_PollAfterSeconds := x\<rparr>))]"

definition CompleteNodeEnrollmentRequestResponse_fields :: "relay_wire \<Rightarrow> CompleteNodeEnrollmentRequestResponse fields" where
  "CompleteNodeEnrollmentRequestResponse_fields rl =
     [(''request'', field (dec_struct NodeEnrollmentRequest_fields) cmp_Request (\<lambda>x r. r\<lparr>cmp_Request := x\<rparr>)),
      (''registration'', field (dec_ptr (dec_struct (RegisterNodeResponse_fields rl)) zero_RegisterNodeResponse) cmp_Registration (\<lambda>x r. r\<lparr>cmp_Registration := x\<rparr>))]"

section \<open>Encoders\<close>

definition json_MapSignature :: "MapSignature \<Rightarrow> json" where
  "json_MapSignature v = JObject
     ([(''version'', JInt (sig_Version v))] @ str_field ''key_id'' (sig_KeyID v) @ str_field ''algorithm'' (sig_Algorithm v) @
      [(''issued_at'', JTime (sig_IssuedAt v))] @ [(''expires_at'', JTime (sig_ExpiresAt v))] @
      str_field ''payload_hash'' (sig_PayloadHash v) @ str_field ''signature'' (sig_Signature v))"

definition json_PublicError :: "PublicError \<Rightarrow> json" where
  "json_PublicError v = JObject
     ([(''schema_version'', JInt (pe_SchemaVersion v))] @ str_field ''error_code'' (pe_ErrorCode v) @
      str_field ''diagnostic_message'' (pe_DiagnosticMessage v) @ str_field ''request_id'' (pe_RequestID v))"

definition json_RegisterNodeRequest :: "RegisterNodeRequest \<Rightarrow> json" where
  "json_RegisterNodeRequest v = JObject
     ([(''schema_version'', JInt (req_SchemaVersion v))] @ str_field ''idempotency_id'' (req_IdempotencyID v) @
      str_field ''network_id'' (req_NetworkID v) @ str_field ''network_name'' (req_NetworkName v) @
      opt_str_field ''account_id'' (req_AccountID v) @ opt_str_field ''cell_id'' (req_CellID v) @
      opt_str_field ''join_token'' (req_JoinToken v) @ opt_str_field ''node_credential'' (req_NodeCredential v) @
      opt_str_field ''registration_binding'' (req_RegistrationBinding v) @
      opt_str_field ''session_token_binding'' (req_SessionTokenBinding v) @ str_field ''hostname'' (req_Hostname v) @
      opt_str_field ''client_version'' (req_ClientVersion v) @ str_field ''identity_public_key'' (req_IdentityPublicKey v) @
      str_field ''identity_signature'' (req_IdentitySignature v) @ str_field ''public_key'' (req_PublicKey v) @
      str_field ''device_fingerprint'' (req_DeviceFingerprint v) @ opt_str_field ''endpoint'' (req_Endpoint v) @
      opt_word_field ''generation'' (req_EndpointGeneration v) @ list_field JString ''candidates'' (req_EndpointCandidates v) @
      opt_str_field ''ttl'' (req_EndpointTTL v) @ slice_field JString ''advertised_ips'' (req_AdvertisedIPs v) @
      slice_field JString ''tags'' (req_Tags v))"

definition json_RegisterNodeResponse :: "relay_wire \<Rightarrow> RegisterNodeResponse \<Rightarrow> json" where
  "json_RegisterNodeResponse rl v = JObject
     ([(''schema_version'', JInt (rsp_SchemaVersion v))] @ str_field ''idempotency_id'' (rsp_IdempotencyID v) @
      [(''revision'', json_MapRevision (rsp_Revision v))] @ [(''network'', json_Network (rsp_Network v))] @
      [(''node'', json_Node (rsp_Node v))] @ slice_field json_Peer ''peers'' (rsp_Peers v) @
      str_field ''registration_binding'' (rsp_RegistrationBinding v) @ str_field ''node_credential'' (rsp_NodeCredential v) @
      list_field json_STUNEndpoint ''stun_endpoints'' (rsp_STUNEndpoints v) @
      slice_field (rl_json_endpoint rl) ''relays'' (rsp_Relays v) @
      ptr_field (rl_json_credential rl) ''relay_credential'' (rsp_RelayCredential v) @
      [(''map_signature'', case (rsp_MapSignature v) of None \<Rightarrow> JNull | Some x \<Rightarrow> json_MapSignature x)])"

definition json_CreateNetworkRequest :: "CreateNetworkRequest \<Rightarrow> json" where
  "json_CreateNetworkRequest v = JObject
     (str_field ''name'' (cn_Name v) @ str_field ''cidr'' (cn_CIDR v) @ opt_str_field ''ipv6_cidr'' (cn_IPv6CIDR v) @
      slice_field JString ''dns'' (cn_DNS v) @ opt_str_field ''cell_id'' (cn_CellID v) @
      opt_str_field ''account_id'' (cn_AccountID v) @ opt_str_field ''idempotency_key'' (cn_IdempotencyKey v))"

definition json_CreateJoinTokenRequest :: "CreateJoinTokenRequest \<Rightarrow> json" where
  "json_CreateJoinTokenRequest v = JObject
     (str_field ''network_id'' (jt_NetworkID v) @ str_field ''network_name'' (jt_NetworkName v) @
      opt_str_field ''account_id'' (jt_AccountID v) @ str_field ''ttl'' (jt_TTL v) @
      omitempty (\<not> (jt_Reusable v)) ''reusable'' (JBool (jt_Reusable v)) @
      omitempty (\<not> (jt_Ephemeral v)) ''ephemeral'' (JBool (jt_Ephemeral v)) @
      omitempty (\<not> (jt_Preauthorized v)) ''preauthorized'' (JBool (jt_Preauthorized v)) @
      list_field JString ''tags'' (jt_Tags v) @ opt_str_field ''idempotency_key'' (jt_IdempotencyKey v))"

definition json_UpdateNodeEndpointRequest :: "UpdateNodeEndpointRequest \<Rightarrow> json" where
  "json_UpdateNodeEndpointRequest v = JObject
     (str_field ''endpoint'' (ue_Endpoint v) @ opt_word_field ''generation'' (ue_Generation v) @
      list_field JString ''candidates'' (ue_Candidates v) @ opt_str_field ''ttl'' (ue_TTL v) @
      opt_str_field ''status'' (ue_Status v) @ opt_str_field ''client_version'' (ue_ClientVersion v))"

end
