(* ===== verification/Codec.thy ===== *)
theory Codec
  imports Registration Wire_Codec
begin

text \<open>
  Strict bounded decoding and validated encoding (\<open>src/clientapi/v1/codec.go\<close>): at most a
  fixed number of bytes is read, the text must be one JSON value of the struct with no unknown
  field and nothing behind it, and the value must pass its \<open>Validate\<close>. On an error Go also
  returns the partly filled value; it is not part of the result here.
\<close>

definition maxPublicErrorBytes :: nat where "maxPublicErrorBytes = 16 * 1024"
definition maxRegisterNodeRequestBytes :: nat where "maxRegisterNodeRequestBytes = 64 * 1024"
definition maxRegisterNodeResponseBytes :: nat where "maxRegisterNodeResponseBytes = 4 * 1024 * 1024"

text \<open>
  A reader is the bytes it delivers and the error it ends with, \<open>None\<close> at the end of the input.
  \<open>io.ReadAll\<close> of a \<open>LimitedReader\<close> does not see the end of a longer input.
\<close>

type_synonym reader = "string \<times> err"

definition read_all_limited :: "nat \<Rightarrow> reader \<Rightarrow> string result" where
  "read_all_limited n rd =
     (if n \<le> length (fst rd) then Inr (take n (fst rd)) else case snd rd of Some e \<Rightarrow> Inl e | None \<Rightarrow> Inr (fst rd))"

definition decodeStrict :: "'a decoder \<Rightarrow> 'a \<Rightarrow> nat \<Rightarrow> reader option \<Rightarrow> 'a result" where
  "decodeStrict dec zero limit reader =
     (case reader of
        None \<Rightarrow> Inl (Errorf ''JSON reader is required'')
      | Some rd \<Rightarrow>
          (case read_all_limited (limit + 1) rd of
             Inl e \<Rightarrow> Inl e
           | Inr raw \<Rightarrow>
               if limit < length raw then Inl (Errorf ''JSON body exceeds %d bytes'')
               else case decode_only dec zero raw of
                 None \<Rightarrow> Inl (Errorf ''invalid JSON body'')
               | Some value \<Rightarrow> Inr value))"

definition marshalValidated :: "json \<Rightarrow> err \<Rightarrow> string result" where
  "marshalValidated value validate = require validate (Marshal value)"

definition decode_validated :: "'a decoder \<Rightarrow> 'a \<Rightarrow> nat \<Rightarrow> ('a \<Rightarrow> err) \<Rightarrow> reader option \<Rightarrow> 'a result" where
  "decode_validated dec zero limit validate reader =
     (case decodeStrict dec zero limit reader of Inl e \<Rightarrow> Inl e | Inr value \<Rightarrow> require (validate value) (Inr value))"

definition MarshalPublicError :: "PublicError \<Rightarrow> string result" where
  "MarshalPublicError value = marshalValidated (json_PublicError value) (PublicError_Validate value)"

definition DecodePublicError :: "reader option \<Rightarrow> PublicError result" where
  "DecodePublicError = decode_validated (dec_struct PublicError_fields) zero_PublicError maxPublicErrorBytes PublicError_Validate"

definition MarshalRegisterNodeRequest ::
  "(string \<Rightarrow> string) \<Rightarrow> (string \<Rightarrow> string \<Rightarrow> string \<Rightarrow> bool) \<Rightarrow> RegisterNodeRequest \<Rightarrow> string result" where
  "MarshalRegisterNodeRequest sha256 verify value =
     marshalValidated (json_RegisterNodeRequest value) (RegisterNodeRequest_Validate sha256 verify value)"

definition DecodeRegisterNodeRequest ::
  "(string \<Rightarrow> string) \<Rightarrow> (string \<Rightarrow> string \<Rightarrow> string \<Rightarrow> bool) \<Rightarrow> reader option \<Rightarrow> RegisterNodeRequest result" where
  "DecodeRegisterNodeRequest sha256 verify =
     decode_validated (dec_struct RegisterNodeRequest_fields) zero_RegisterNodeRequest maxRegisterNodeRequestBytes
       (RegisterNodeRequest_Validate sha256 verify)"

definition MarshalRegisterNodeResponse ::
  "relay_wire \<Rightarrow> (relay_endpoint list \<Rightarrow> err) \<Rightarrow> RegisterNodeResponse \<Rightarrow> string result" where
  "MarshalRegisterNodeResponse rl relay_ok value =
     marshalValidated (json_RegisterNodeResponse rl value) (RegisterNodeResponse_Validate relay_ok value)"

definition DecodeRegisterNodeResponse ::
  "relay_wire \<Rightarrow> (relay_endpoint list \<Rightarrow> err) \<Rightarrow> reader option \<Rightarrow> RegisterNodeResponse result" where
  "DecodeRegisterNodeResponse rl relay_ok =
     decode_validated (dec_struct (RegisterNodeResponse_fields rl)) zero_RegisterNodeResponse maxRegisterNodeResponseBytes
       (RegisterNodeResponse_Validate relay_ok)"

section \<open>Bounds\<close>

lemma decodeStrict_Inr:
  "decodeStrict dec zero limit reader = Inr v \<longleftrightarrow>
     (\<exists>raw. reader = Some (raw, None) \<and> length raw \<le> limit \<and> decode_only dec zero raw = Some v)"
proof
  assume "decodeStrict dec zero limit reader = Inr v"
  then show "\<exists>raw. reader = Some (raw, None) \<and> length raw \<le> limit \<and> decode_only dec zero raw = Some v"
    by (cases reader) (auto simp: decodeStrict_def read_all_limited_def split: option.splits if_splits prod.splits)
qed (auto simp: decodeStrict_def read_all_limited_def)

lemma decode_validated_Inr:
  "decode_validated dec zero limit validate reader = Inr v \<longleftrightarrow>
     validate v = None \<and> (\<exists>raw. reader = Some (raw, None) \<and> length raw \<le> limit \<and> decode_only dec zero raw = Some v)"
proof -
  have "decode_validated dec zero limit validate reader = Inr v \<longleftrightarrow> decodeStrict dec zero limit reader = Inr v \<and> validate v = None"
    by (auto simp: decode_validated_def split: sum.splits)
  then show ?thesis by (auto simp: decodeStrict_Inr)
qed

section \<open>Round trips\<close>

text \<open>Decoding the members of an encoded struct, one field at a time.\<close>

definition dec_encoded :: "'s fields \<Rightarrow> (string \<times> json) list \<Rightarrow> 's \<Rightarrow> 's option" where
  "dec_encoded fs kvs s = dec_members fs (map member_val kvs) s"

lemma dec_encoded_Nil [simp]: "dec_encoded fs [] s = Some s"
  by (simp add: dec_encoded_def)

lemma dec_encoded_object: "dec_struct fs (jval_of (JObject kvs)) s = dec_encoded fs kvs s"
  by (simp add: dec_struct_def dec_encoded_def)

definition step :: "'s fields \<Rightarrow> string \<Rightarrow> jval \<Rightarrow> 's \<Rightarrow> ('s \<Rightarrow> 's option) \<Rightarrow> 's option" where
  "step fs k v s cont = (case find_field fs k of None \<Rightarrow> None | Some f \<Rightarrow> (case f v s of None \<Rightarrow> None | Some s' \<Rightarrow> cont s'))"

lemma dec_encoded_Cons: "ValidString k \<Longrightarrow> dec_encoded fs ((k, v) # kvs) s = step fs k (jval_of v) s (dec_encoded fs kvs)"
  by (simp add: dec_encoded_def [abs_def] step_def unquote_quote)

text \<open>A field that was left out because it is empty has the zero value already.\<close>

lemma dec_encoded_omit:
  assumes "ValidString k" and "e \<Longrightarrow> step fs k (jval_of v) s Some = Some s"
  shows "dec_encoded fs (omitempty e k v @ kvs) s = step fs k (jval_of v) s (dec_encoded fs kvs)"
proof (cases e)
  case True
  then show ?thesis using assms(2) by (auto simp: omitempty_def step_def split: option.splits)
qed (simp add: omitempty_def dec_encoded_Cons assms(1))

lemma step_field: "find_field fs k = Some (field dec get put) \<Longrightarrow> dec v (get s) = Some x \<Longrightarrow> step fs k v s cont = cont (put x s)"
  by (simp add: step_def field_def)

lemma dec_list_strings:
  "list_all ValidString xs \<Longrightarrow> dec_list dec_str z (jval_of (JArray (map JString xs))) old = Some xs"
  using dec_elems_strings [of xs z old] by (simp add: dec_list_def dec_slice_def comp_def)

lemma dec_word_text: "dec_word (VNum (json_text (JInt (uint w)))) old = Some (w :: 'a::len word)"
proof -
  have "digits_value (Itoa (uint w)) = Some (uint w)" using Itoa_props [of "uint w"] by (simp add: digits_value_def)
  moreover have "\<not> uint w < 0" "uint w < 2 ^ LENGTH('a)" by simp_all
  ultimately show ?thesis by (simp add: dec_word_def)
qed


lemma request_keys: "list_all ValidString (map fst RegisterNodeRequest_fields)"
  by code_simp

definition text_request :: "RegisterNodeRequest \<Rightarrow> bool" where
  "text_request r \<longleftrightarrow>
     list_all ValidString [req_IdempotencyID r, req_NetworkID r, req_NetworkName r, req_AccountID r, req_CellID r, req_JoinToken r,
       req_NodeCredential r, req_RegistrationBinding r, req_SessionTokenBinding r, req_Hostname r, req_ClientVersion r,
       req_IdentityPublicKey r, req_IdentitySignature r, req_PublicKey r, req_DeviceFingerprint r, req_Endpoint r, req_EndpointTTL r] \<and>
     list_all ValidString (req_EndpointCandidates r) \<and> list_all ValidString (elems (req_AdvertisedIPs r)) \<and>
     list_all ValidString (elems (req_Tags r)) \<and> req_SchemaVersion r = 2"

lemma step_str: "ValidString s \<Longrightarrow> field dec_str get put (jval_of (JString s)) st = Some (put s st)"
  by (simp add: field_def dec_str_text)

lemma step_word: "field dec_word get put (jval_of (JInt (uint w))) st = Some (put w st)"
  by (simp add: field_def dec_word_text del: json_text.simps)

lemma step_int:
  "- 0x8000000000000000 \<le> n \<Longrightarrow> n \<le> 0x7FFFFFFFFFFFFFFF \<Longrightarrow> field dec_int get put (jval_of (JInt n)) st = Some (put n st)"
  by (simp add: field_def del: json_text.simps)

lemma step_list: "list_all ValidString xs \<Longrightarrow> field (dec_list dec_str z) get put (jval_of (JArray (map JString xs))) st = Some (put xs st)"
  by (simp add: field_def dec_list_strings del: jval_of.simps)

lemma step_slice:
  "list_all ValidString (elems s) \<Longrightarrow>
   field (dec_slice dec_str z) get put (jval_of (case s of None \<Rightarrow> JNull | Some xs \<Rightarrow> JArray (map JString xs))) st = Some (put s st)"
  by (simp add: field_def dec_slice_strings del: jval_of.simps)

lemma ValidString_Nil [simp]: "ValidString []"
  by (simp add: ValidString_def)

lemma step_list_Nil: "field (dec_list dec_str z) get put (jval_of (JArray [])) st = Some (put [] st)"
  using step_list [of "[]"] by (simp del: jval_of.simps)

lemmas step_fields = step_str step_word step_int step_list step_slice step_word [of _ _ 0, unfolded uint_0_eq] step_list_Nil

lemma decode_request:
  assumes "text_request r"
  shows "dec_struct RegisterNodeRequest_fields (jval_of (json_RegisterNodeRequest r)) zero_RegisterNodeRequest = Some r"
  using assms request_keys [unfolded RegisterNodeRequest_fields_def, simplified]
  unfolding json_RegisterNodeRequest_def dec_encoded_object str_field_def opt_str_field_def opt_word_field_def list_field_def slice_field_def
  by (simp add: dec_encoded_Cons dec_encoded_omit text_request_def step_def find_field_def RegisterNodeRequest_fields_def step_fields
      zero_RegisterNodeRequest_def del: json_text.simps jval_of.simps)


lemma error_keys: "list_all ValidString (map fst PublicError_fields)"
  by code_simp

lemma decode_error:
  assumes "list_all ValidString [pe_ErrorCode e, pe_DiagnosticMessage e, pe_RequestID e]" "pe_SchemaVersion e = 2"
  shows "dec_struct PublicError_fields (jval_of (json_PublicError e)) zero_PublicError = Some e"
  using assms error_keys [unfolded PublicError_fields_def, simplified]
  unfolding json_PublicError_def dec_encoded_object str_field_def
  by (simp add: dec_encoded_Cons step_def find_field_def PublicError_fields_def step_fields zero_PublicError_def
      del: json_text.simps jval_of.simps)

section \<open>Trimming and UTF-8\<close>

text \<open>White space around a valid text leaves it valid.\<close>

lemma runes_of_append:
  "list_all (\<lambda>rn. rn \<noteq> (RuneError, 1)) (runes_of xs) \<Longrightarrow> runes_of (xs @ ys) = runes_of xs @ runes_of ys"
proof (induction xs rule: runes_of.induct)
  case (2 b bs)
  obtain r n where d: "decode_rune (b # bs) = (r, n)" by (cases "decode_rune (b # bs)")
  have v: "\<not> (r = RuneError \<and> n = 1)" using "2.prems" d by auto
  note t = decode_rune_take [OF d v]
  have "decode_rune (take n (b # bs) @ drop n (b # bs) @ ys) = (r, n)" using t(1) .
  then have e: "decode_rune (b # bs @ ys) = (r, n)" by (metis append_Cons append_assoc append_take_drop_id)
  have "drop (n - 1) (bs @ ys) = drop (n - 1) bs @ ys" using t(2,3) by simp
  then show ?case using 2 d e by (simp del: decode_rune.simps)
qed simp

lemma ValidString_append: "ValidString s \<Longrightarrow> ValidString t \<Longrightarrow> ValidString (s @ t)"
  by (simp add: ValidString_def runes_of_append)

lemma strip_split: "\<exists>ps. set ps \<subseteq> set es \<and> s = concat ps @ strip es s"
proof (induction "length s" arbitrary: s rule: less_induct)
  case less
  consider "strip es s = s"
    | e r where "e \<in> set es" "e \<noteq> []" "s = e @ r" "strip es s = strip es r"
    using strip_cases [of es s] by (auto simp: prefix_def)
  then show ?case
  proof cases
    case 1
    then have "set [] \<subseteq> set es \<and> s = concat [] @ strip es s" by simp
    then show ?thesis by blast
  next
    case 2
    then obtain ps where "set ps \<subseteq> set es" "r = concat ps @ strip es r" using less [of r] by auto
    then have "set (e # ps) \<subseteq> set es \<and> s = concat (e # ps) @ strip es s" using 2 by simp
    then show ?thesis by blast
  qed
qed

lemma ValidString_TrimSpace: "ValidString (TrimSpace s) \<Longrightarrow> ValidString s"
proof -
  assume v: "ValidString (TrimSpace s)"
  have c: "ValidString (concat ps)" if "set ps \<subseteq> set space_encodings" for ps
  proof -
    have "list_all ValidString space_encodings" by code_simp
    then show ?thesis using that by (induction ps) (auto simp: list_all_iff intro: ValidString_append)
  qed
  let ?t = "strip space_encodings s"
  obtain ps where ps: "set ps \<subseteq> set space_encodings" "s = concat ps @ ?t" using strip_split by blast
  obtain qs where qs: "set qs \<subseteq> set (map rev space_encodings)" "rev ?t = concat qs @ strip (map rev space_encodings) (rev ?t)"
    using strip_split by blast
  have "?t = TrimSpace s @ concat (map rev (rev qs))"
    using arg_cong [OF qs(2), of rev] by (simp add: TrimSpace_def rev_concat)
  moreover have "set (map rev (rev qs)) \<subseteq> set space_encodings" using qs(1) by auto
  ultimately have "ValidString ?t" using v c ValidString_append by metis
  then show "ValidString s" using ps c ValidString_append by metis
qed

section \<open>Messages that are their own encoding\<close>

text \<open>
  What a message type promises: an accepted value is decoded from its own JSON, which is not deeper
  than the decoder allows.
\<close>

locale wire_codec =
  fixes enc :: "'a \<Rightarrow> json"
    and dec :: "'a decoder"
    and zero :: 'a
    and validate :: "'a \<Rightarrow> err"
  assumes decodes: "validate v = None \<Longrightarrow> dec (jval_of (enc v)) zero = Some v"
    and shallow: "json_depth (enc v) \<le> maxNestingDepth"
begin

lemma roundtrip:
  assumes "marshalValidated (enc v) (validate v) = Inr raw" and "length raw \<le> limit"
  shows "decode_validated dec zero limit validate (Some (raw, None)) = Inr v"
proof -
  have m: "validate v = None" "Marshal (enc v) = Inr raw" using assms(1) by (simp_all add: marshalValidated_def)
  have "decode_only dec zero raw = Some v"
    using read_marshal [OF m(2) shallow] decodes [OF m(1)] by (simp add: decode_only_def skip_space_def)
  then show ?thesis using m(1) assms(2) by (simp add: decode_validated_Inr)
qed

text \<open>A text is the encoding of at most one message.\<close>

lemma marshal_inj:
  assumes "marshalValidated (enc v) (validate v) = Inr raw" "marshalValidated (enc w) (validate w) = Inr raw"
  shows "v = w"
  using roundtrip [OF assms(1) order.refl] roundtrip [OF assms(2) order.refl] by simp

end

lemma accepted_text_request:
  assumes "RegisterNodeRequest_Validate sha256 verify r = None"
  shows "text_request r"
proof -
  have "clean_text (TrimSpace (req_IdentitySignature r))"
    using accepted_request_checks(15) [OF assms] clean_std(2) by (auto simp: VerifyProof_None)
  then have "ValidString (req_IdentitySignature r)" "ValidString (req_IdentityPublicKey r)"
    using accepted_identity_key [OF assms] ValidString_TrimSpace by (auto simp: clean_text_def)
  then show ?thesis
    using accepted_request_texts [OF assms] accepted_request_checks(1) [OF assms]
    by (simp add: text_request_def clean_text_def list_all_iff SchemaVersion_def)
qed

lemma accepted_text_error:
  assumes "PublicError_Validate e = None"
  shows "list_all ValidString [pe_ErrorCode e, pe_DiagnosticMessage e, pe_RequestID e]" "pe_SchemaVersion e = 2"
proof -
  have v: "pe_ErrorCode e \<in> set KnownErrorCodes" "validateSafeString ''diagnostic_message'' (pe_DiagnosticMessage e) 1 maxDiagnosticMessageBytes = None"
    "validateIdentifier ''request_id'' (pe_RequestID e) 1 maxRequestIDBytes = None"
    using assms by (simp_all add: PublicError_Validate_def ErrorCode_Valid_iff)
  have "list_all ValidString KnownErrorCodes" by code_simp
  then show "list_all ValidString [pe_ErrorCode e, pe_DiagnosticMessage e, pe_RequestID e]"
    using v clean_fields(1) [OF v(2)] clean_fields(3) [OF v(3)] by (simp add: list_all_iff clean_text_def)
  show "pe_SchemaVersion e = 2" using assms by (simp add: PublicError_Validate_def SchemaVersion_def)
qed

lemma json_depth_strings: "json_depth (JArray (map JString xs)) \<le> 1"
  using slice_field_facts(3) [of "Some xs"] by simp

lemma json_depth_request: "json_depth (json_RegisterNodeRequest r) \<le> maxNestingDepth"
proof -
  have o: "(k, v) \<in> set (omitempty e k' v') \<Longrightarrow> v = v'" for k v e k' v' by (simp add: omitempty_def split: if_splits)
  have "fold max (map (\<lambda>(k, v). json_depth v) kvs) 0 \<le> 1" if "\<And>k v. (k, v) \<in> set kvs \<Longrightarrow> json_depth v \<le> 1" for kvs
    using that by (auto simp: fold_max_le)
  note d = this
  have "json_depth (json_RegisterNodeRequest r) \<le> 2"
    unfolding json_RegisterNodeRequest_def json_depth.simps
    by (intro order.trans [OF add_left_mono [OF d]])
      (auto simp: str_field_def opt_str_field_def opt_word_field_def list_field_def slice_field_def slice_field_facts json_depth_strings
        simp del: json_depth.simps(1) dest!: o)
  then show ?thesis by (simp add: maxNestingDepth_def)
qed

interpretation public_error: wire_codec json_PublicError "dec_struct PublicError_fields" zero_PublicError PublicError_Validate
proof
  show "dec_struct PublicError_fields (jval_of (json_PublicError e)) zero_PublicError = Some e" if "PublicError_Validate e = None" for e
    using accepted_text_error [OF that] by (rule decode_error)
qed (simp add: json_PublicError_def str_field_def maxNestingDepth_def)

interpretation register_request: wire_codec json_RegisterNodeRequest "dec_struct RegisterNodeRequest_fields" zero_RegisterNodeRequest
  "RegisterNodeRequest_Validate sha256 verify" for sha256 verify
  by unfold_locales (rule decode_request accepted_text_request json_depth_request | assumption)+

text \<open>
  C16. Registration requests and public errors survive the wire: what \<open>Marshal\<close> writes for a request
  or an error is read back by \<open>Decode\<close> as the same value, whenever it is within the limit on the
  body; and a body is the encoding of no other request.
\<close>

theorem wire_roundtrip:
  assumes "MarshalRegisterNodeRequest sha256 verify r = Inr raw" and "length raw \<le> 65536"
    and "MarshalPublicError e = Inr body" and "length body \<le> 16384"
  shows "DecodeRegisterNodeRequest sha256 verify (Some (raw, None)) = Inr r \<and> DecodePublicError (Some (body, None)) = Inr e \<and>
    (MarshalRegisterNodeRequest sha256 verify q = Inr raw \<longleftrightarrow> q = r)"
  using assms register_request.roundtrip public_error.roundtrip register_request.marshal_inj
  by (auto simp: MarshalRegisterNodeRequest_def DecodeRegisterNodeRequest_def MarshalPublicError_def DecodePublicError_def
      maxRegisterNodeRequestBytes_def maxPublicErrorBytes_def)

text \<open>
  C17. Decoding is strict and bounded: a request, response or error is accepted only from an input
  that ends without an error after at most 64 KiB, 4 MiB or 16 KiB, that is exactly one JSON value
  with nothing but white space behind it, and that passes its checks; a missing reader is an error.
\<close>

theorem decoding_bounded:
  "(DecodeRegisterNodeRequest sha256 verify reader = Inr r \<longleftrightarrow> RegisterNodeRequest_Validate sha256 verify r = None \<and>
      (\<exists>raw. reader = Some (raw, None) \<and> length raw \<le> 65536 \<and>
         decode_only (dec_struct RegisterNodeRequest_fields) zero_RegisterNodeRequest raw = Some r)) \<and>
   (DecodeRegisterNodeResponse rl relay_ok reader = Inr s \<longleftrightarrow> RegisterNodeResponse_Validate relay_ok s = None \<and>
      (\<exists>raw. reader = Some (raw, None) \<and> length raw \<le> 4194304 \<and>
         decode_only (dec_struct (RegisterNodeResponse_fields rl)) zero_RegisterNodeResponse raw = Some s)) \<and>
   (DecodePublicError reader = Inr e \<longleftrightarrow> PublicError_Validate e = None \<and>
      (\<exists>raw. reader = Some (raw, None) \<and> length raw \<le> 16384 \<and> decode_only (dec_struct PublicError_fields) zero_PublicError raw = Some e))"
  by (simp add: DecodeRegisterNodeRequest_def DecodeRegisterNodeResponse_def DecodePublicError_def decode_validated_Inr
      maxRegisterNodeRequestBytes_def maxRegisterNodeResponseBytes_def maxPublicErrorBytes_def)

end
