(* ===== verification/Line_IO.thy ===== *)
theory Line_IO
  imports Codec
begin

text \<open>
  Bounded line input (\<open>src/clientapi/v1/lineio.go\<close>) over \<open>bufio.Reader\<close>. A reader is what
  it still delivers and how it ends (see \<open>Codec\<close>); the buffer of \<open>bufio\<close> has 4096 bytes.
\<close>

definition MaxControlMapStreamEventBytes :: int where "MaxControlMapStreamEventBytes = 16 * 1024 * 1024"

definition newline :: char where "newline = CHR 0x0A"

definition bufio_size :: nat where "bufio_size = 4096"

datatype slice_err = SliceOk | BufferFull | SliceErr error

definition end_error :: "reader \<Rightarrow> error" where
  "end_error rd = (case snd rd of Some e \<Rightarrow> e | None \<Rightarrow> EOF)"

text \<open>\<open>ReadSlice('\n')\<close>: up to a line feed in the buffer, a full buffer, or the rest of the input.\<close>

definition ReadSlice :: "reader \<Rightarrow> string \<times> slice_err \<times> reader" where
  "ReadSlice rd =
     (let buf = take bufio_size (fst rd); line = takeWhile (\<lambda>c. c \<noteq> newline) buf; n = length line + 1
      in if length line < length buf then (take n buf, SliceOk, (drop n (fst rd), snd rd))
         else if bufio_size \<le> length (fst rd) then (buf, BufferFull, (drop bufio_size (fst rd), snd rd))
         else (fst rd, SliceErr (end_error rd), ([], snd rd)))"

definition boundedLineLabel :: "string \<Rightarrow> string" where
  "boundedLineLabel label = (let l = TrimSpace label in if l = [] then ''line'' else l)"

text \<open>The line or partial line, the error, and what is left. A nil slice is the empty string.\<close>

type_synonym line_result = "string \<times> err \<times> reader"

function read_line_loop :: "int \<Rightarrow> string \<Rightarrow> string \<Rightarrow> reader \<Rightarrow> line_result" where
  "read_line_loop maxBytes label out rd =
     (case ReadSlice rd of
        (part, e, rd') \<Rightarrow>
          if part \<noteq> [] \<and> maxBytes < len out + len part
          then ([], Some (Wrap (label @ '' exceeds %d bytes'') ErrLineTooLarge), rd')
          else (case e of
                  SliceOk \<Rightarrow> (out @ part, None, rd')
                | BufferFull \<Rightarrow> read_line_loop maxBytes label (out @ part) rd'
                | SliceErr err \<Rightarrow> (out @ part, Some err, rd')))"
  by pat_completeness auto
termination
proof (relation "measure (\<lambda>(maxBytes, label, out, rd). length (fst rd))", goal_cases)
  case (2 maxBytes label out rd x xa xb y)
  then show ?case by (auto simp: ReadSlice_def Let_def bufio_size_def split: if_splits)
qed simp

declare read_line_loop.simps [simp del]

definition readBoundedLine :: "reader \<Rightarrow> int \<Rightarrow> string \<Rightarrow> line_result" where
  "readBoundedLine rd maxBytes label =
     (if maxBytes \<le> 0 then ([], Some (Errorf (boundedLineLabel label @ '' limit must be positive'')), rd)
      else read_line_loop maxBytes (boundedLineLabel label) [] rd)"

definition isEOFWithNoData :: "string \<Rightarrow> err \<Rightarrow> bool" where
  "isEOFWithNoData line e \<longleftrightarrow> (case e of None \<Rightarrow> False | Some x \<Rightarrow> errors_Is x EOF) \<and> line = []"

section \<open>The line that is read\<close>

text \<open>The specification: a line ends with its line feed or with the input, whatever the buffer.\<close>

definition next_line :: "string \<Rightarrow> string" where
  "next_line s = (if newline \<in> set s then takeWhile (\<lambda>c. c \<noteq> newline) s @ [newline] else s)"

definition line_spec :: "reader \<Rightarrow> int \<Rightarrow> string \<Rightarrow> string \<Rightarrow> line_result \<Rightarrow> bool" where
  "line_spec rd maxBytes label out r \<longleftrightarrow>
     (let text = next_line (fst rd)
      in if text \<noteq> [] \<and> maxBytes < len out + len text
         then fst r = [] \<and> fst (snd r) = Some (Wrap (label @ '' exceeds %d bytes'') ErrLineTooLarge)
         else r = (out @ text, if newline \<in> set (fst rd) then None else Some (end_error rd), (drop (length text) (fst rd), snd rd)))"

lemma next_line_Nil [simp]: "next_line s = [] \<longleftrightarrow> s = []"
  by (auto simp: next_line_def)

lemma next_line_empty [simp]: "next_line [] = []"
  by simp

lemma next_line_append: "newline \<notin> set a \<Longrightarrow> next_line (a @ b) = a @ next_line b"
proof (induction a)
  case (Cons c a)
  then show ?case by (auto simp: next_line_def)
qed simp

lemma next_line_prefix: "newline \<in> set a \<Longrightarrow> next_line (a @ b) = next_line a"
  by (simp add: next_line_def takeWhile_append1)

lemma takeWhile_found: "newline \<in> set s \<longleftrightarrow> length (takeWhile (\<lambda>c. c \<noteq> newline) s) < length s"
proof -
  have "length (takeWhile (\<lambda>c. c \<noteq> newline) s) < length s \<longleftrightarrow> takeWhile (\<lambda>c. c \<noteq> newline) s \<noteq> s"
    by (metis length_takeWhile_le nat_less_le takeWhile_eq_take take_all order.refl)
  then show ?thesis by (auto simp: takeWhile_eq_all_conv)
qed

lemma take_next_line:
  assumes "newline \<in> set s"
  shows "take (length (takeWhile (\<lambda>c. c \<noteq> newline) s) + 1) s = next_line s"
  using assms
proof (induction s)
  case (Cons c s)
  then show ?case by (cases "c = newline") (auto simp: next_line_def)
qed simp

lemma ReadSlice_cases:
  obtains (line) "newline \<in> set (take bufio_size (fst rd))"
      "ReadSlice rd = (next_line (fst rd), SliceOk, (drop (length (next_line (fst rd))) (fst rd), snd rd))"
  | (full) "newline \<notin> set (take bufio_size (fst rd))" "bufio_size \<le> length (fst rd)"
      "ReadSlice rd = (take bufio_size (fst rd), BufferFull, (drop bufio_size (fst rd), snd rd))"
  | (last) "newline \<notin> set (fst rd)" "ReadSlice rd = (fst rd, SliceErr (end_error rd), ([], snd rd))"
proof (cases "newline \<in> set (take bufio_size (fst rd))")
  case True
  let ?b = "take bufio_size (fst rd)"
  have n: "next_line (fst rd) = next_line ?b" using next_line_prefix [OF True] by (metis append_take_drop_id)
  have "length (next_line ?b) = length (takeWhile (\<lambda>c. c \<noteq> newline) ?b) + 1" using True by (simp add: next_line_def)
  then show ?thesis
    using line True takeWhile_found [of ?b] take_next_line [OF True] by (simp add: ReadSlice_def Let_def n)
next
  case False
  then have "\<not> length (takeWhile (\<lambda>c. c \<noteq> newline) (take bufio_size (fst rd))) < length (take bufio_size (fst rd))"
    using takeWhile_found by blast
  then show ?thesis
    using full last False by (cases "bufio_size \<le> length (fst rd)") (simp_all add: ReadSlice_def Let_def)
qed

lemma read_line_loop_spec: "line_spec rd maxBytes label out (read_line_loop maxBytes label out rd)"
proof (induction maxBytes label out rd rule: read_line_loop.induct)
  case (1 maxBytes label out rd)
  show ?case
  proof (cases rule: ReadSlice_cases [of rd])
    case line
    then have "newline \<in> set (fst rd)" using set_take_subset by fastforce
    then show ?thesis using line by (simp add: read_line_loop.simps [of maxBytes label out rd] line_spec_def Let_def)
  next
    case full
    let ?b = "take bufio_size (fst rd)" and ?r = "drop bufio_size (fst rd)"
    have n: "next_line (fst rd) = ?b @ next_line ?r" using next_line_append [OF full(1), of ?r] by simp
    have m: "newline \<in> set (fst rd) \<longleftrightarrow> newline \<in> set ?r"
      using full(1) by (metis Un_iff append_take_drop_id set_append)
    have e: "end_error (?r, snd rd) = end_error rd" by (simp add: end_error_def)
    show ?thesis
    proof (cases "maxBytes < len out + len ?b")
      case True
      moreover have "?b \<noteq> []" using full(2) by (auto simp: bufio_size_def)
      ultimately have "read_line_loop maxBytes label out rd = ([], Some (Wrap (label @ '' exceeds %d bytes'') ErrLineTooLarge), (?r, snd rd))"
        by (simp only: read_line_loop.simps [of maxBytes label out rd] full(3) prod.case) simp
      moreover have "next_line (fst rd) \<noteq> []" "maxBytes < len out + len (next_line (fst rd))"
        using True \<open>?b \<noteq> []\<close> unfolding n by (auto simp: len_def)
      ultimately show ?thesis by (simp add: line_spec_def)
    next
      case False
      then have "line_spec (?r, snd rd) maxBytes label (out @ ?b) (read_line_loop maxBytes label (out @ ?b) (?r, snd rd))"
        using 1 [OF full(3) [symmetric] refl] by simp
      moreover have "read_line_loop maxBytes label out rd = read_line_loop maxBytes label (out @ ?b) (?r, snd rd)"
        using False by (simp only: read_line_loop.simps [of maxBytes label out rd] full(3) prod.case slice_err.case) simp
      moreover have "len out + len (next_line (fst rd)) = len (out @ ?b) + len (next_line ?r)" unfolding n by (simp add: len_def)
      moreover have "next_line (fst rd) \<noteq> [] \<and> maxBytes < len out + len (next_line (fst rd)) \<longleftrightarrow>
          next_line ?r \<noteq> [] \<and> maxBytes < len out + len (next_line (fst rd))"
        using False unfolding n by (auto simp: len_def)
      moreover have "drop (length (next_line (fst rd))) (fst rd) = drop (length (next_line ?r)) ?r"
        using full(2) unfolding n by (simp add: add.commute)
      ultimately show ?thesis unfolding line_spec_def Let_def m e fst_conv snd_conv n by (simp only: append_assoc)
    qed
  next
    case last
    then have "next_line (fst rd) = fst rd" by (simp add: next_line_def)
    then show ?thesis using last by (simp add: read_line_loop.simps [of maxBytes label out rd] line_spec_def Let_def)
  qed
qed

text \<open>
  Reading a bounded line is independent of the buffer: with a positive limit it returns the
  bytes up to and including the first line feed and leaves the reader behind them, or the rest of
  the input together with the error that ended it; a line that is longer than the limit, with its
  line feed, is refused with \<open>ErrLineTooLarge\<close> and none of it is returned. It always returns.
\<close>

theorem readBoundedLine_exact:
  "let text = next_line (fst rd); r = readBoundedLine rd maxBytes label
   in if maxBytes \<le> 0 then fst r = [] \<and> fst (snd r) \<noteq> None
      else if maxBytes < len text then fst r = [] \<and> (\<exists>m. fst (snd r) = Some (Wrap m ErrLineTooLarge))
      else r = (text, if newline \<in> set (fst rd) then None else Some (end_error rd), (drop (length text) (fst rd), snd rd))"
  using read_line_loop_spec [of rd maxBytes "boundedLineLabel label" "[]"]
  by (auto simp: readBoundedLine_def line_spec_def Let_def len_def split: if_splits)

lemma readBoundedLine_line:
  assumes "readBoundedLine rd maxBytes label = (line, None, rd')"
  shows "fst rd = line @ fst rd'" "line \<noteq> []" "snd rd' = snd rd" "newline \<in> set (fst rd)" "line = next_line (fst rd)" "len line \<le> maxBytes"
proof -
  have "0 < maxBytes" using assms by (auto simp: readBoundedLine_def split: if_splits)
  then have s: "line_spec rd maxBytes (boundedLineLabel label) [] (line, None, rd')"
    using assms read_line_loop_spec [of rd maxBytes "boundedLineLabel label" "[]"] by (simp add: readBoundedLine_def)
  then show n: "newline \<in> set (fst rd)" and t: "line = next_line (fst rd)"
    by (auto simp: line_spec_def Let_def split: if_splits)
  then show "line \<noteq> []" by auto
  show "snd rd' = snd rd" "len line \<le> maxBytes"
    using s t \<open>line \<noteq> []\<close> by (auto simp: line_spec_def Let_def len_def split: if_splits)
  have "rd' = (drop (length line) (fst rd), snd rd)" using s t by (auto simp: line_spec_def Let_def split: if_splits)
  moreover have "take (length line) (fst rd) = line"
    using take_next_line [OF n] t n by (simp add: next_line_def)
  ultimately show "fst rd = line @ fst rd'" by (metis append_take_drop_id fst_conv)
qed

end
