(* ===== verification/Control_Plane.thy ===== *)
theory Control_Plane
  imports Line_IO Map_Stream "HOL-Library.AList"
begin

text \<open>
  The control-plane client (\<open>src/clientapi/v1/api.go\<close>): the configured origins and which of
  them is active, requests with failover, and the calls of the contract. The HTTP client is an
  argument: it answers a request with a response or a transport error; it does not follow
  redirects. Every operation returns the API value it leaves behind, the requests it handed to
  the HTTP client in order, and its result.
\<close>

section \<open>Requests and responses\<close>

record http_request =
  hr_Method :: string
  hr_URL :: string
  hr_Header :: "(string \<times> string) list"
  hr_Body :: "string option"

text \<open>\<open>resp_Header\<close> is \<open>Header.Get\<close>, the empty string for a header that is absent.\<close>

record http_response =
  resp_StatusCode :: int
  resp_Status :: string
  resp_Header :: "string \<Rightarrow> string"
  resp_Body :: reader

type_synonym http_client = "http_request \<Rightarrow> http_response result"

definition Header_Set :: "string \<Rightarrow> string \<Rightarrow> http_request \<Rightarrow> http_request" where
  "Header_Set k v r = r\<lparr>hr_Header := AList.update k v (hr_Header r)\<rparr>"

text \<open>\<open>http.NewRequest\<close> refuses a URL that does not parse.\<close>

definition http_NewRequest :: "string \<Rightarrow> string \<Rightarrow> string option \<Rightarrow> http_request result" where
  "http_NewRequest method url body =
     (case url_Parse url of
        None \<Rightarrow> Inl (Errorf ''parse'')
      | Some _ \<Rightarrow> Inr \<lparr>hr_Method = method, hr_URL = url, hr_Header = [], hr_Body = body\<rparr>)"

text \<open>\<open>url.PathEscape\<close> and \<open>url.QueryEscape\<close>.\<close>

definition upper_hex :: string where "upper_hex = ''0123456789ABCDEF''"

definition unreserved :: "char \<Rightarrow> bool" where
  "unreserved c \<longleftrightarrow> is_alnum c \<or> c = CHR ''-'' \<or> c = CHR ''_'' \<or> c = CHR ''.'' \<or> c = CHR ''~''"

definition percent :: "char \<Rightarrow> string" where
  "percent c = [CHR ''%'', upper_hex ! (of_char c div 16), upper_hex ! (of_char c mod 16)]"

definition PathEscape :: "string \<Rightarrow> string" where
  "PathEscape s = concat (map (\<lambda>c. if unreserved c \<or> c \<in> set ''$&+=:@'' then [c] else percent c) s)"

definition QueryEscape :: "string \<Rightarrow> string" where
  "QueryEscape s = concat (map (\<lambda>c. if unreserved c then [c] else if c = CHR '' '' then ''+'' else percent c) s)"

definition ControlPlaneStatusError_Error :: "error \<Rightarrow> string" where
  "ControlPlaneStatusError_Error e =
     (case e of
        ControlPlaneStatusError method path code status body \<Rightarrow> method @ '' '' @ path @ '' failed: '' @ status @ '': '' @ body
      | _ \<Rightarrow> [])"

text \<open>\<open>errors.As\<close> finds the first status error of the chain.\<close>

fun IsControlPlaneStatus :: "error \<Rightarrow> int \<Rightarrow> bool" where
  "IsControlPlaneStatus (ControlPlaneStatusError m p code s b) statusCode = (code = statusCode)"
| "IsControlPlaneStatus (Wrap m e) statusCode = IsControlPlaneStatus e statusCode"
| "IsControlPlaneStatus _ statusCode = False"

section \<open>The HTTP client\<close>

text \<open>What \<open>NewControlPlaneHTTPClient\<close> configures; the rest of the transport is the default one.\<close>

record 'pool tls_Config =
  tls_RootCAs :: "'pool option"
  tls_MinVersion :: "16 word"

record 'pool http_Client =
  hc_Timeout :: duration
  hc_TLSClientConfig :: "'pool tls_Config"
  hc_FollowRedirects :: bool

definition NewControlPlaneTLSConfig :: "'pool option \<Rightarrow> 'pool tls_Config" where
  "NewControlPlaneTLSConfig rootCAs = \<lparr>tls_RootCAs = rootCAs, tls_MinVersion = 0x0304\<rparr>"

definition NewControlPlaneHTTPClient :: "duration \<Rightarrow> 'pool option \<Rightarrow> 'pool http_Client" where
  "NewControlPlaneHTTPClient timeout rootCAs =
     \<lparr>hc_Timeout = timeout, hc_TLSClientConfig = NewControlPlaneTLSConfig rootCAs, hc_FollowRedirects = False\<rparr>"

section \<open>The API value and its origins\<close>

text \<open>The HTTP client is a separate argument; \<open>nil\<close> and empty \<open>BaseURLs\<close> are not told apart.\<close>

record API =
  api_BaseURL :: string
  api_BaseURLs :: "string list"
  api_Token :: string
  api_NodeCredential :: string

fun normalize_loop :: "string list \<Rightarrow> string list \<Rightarrow> string list" where
  "normalize_loop normalized [] = normalized"
| "normalize_loop normalized (raw # urls) =
     (let value = TrimRight (TrimSpace raw) (CHR ''/'')
      in if value = [] \<or> value \<in> set normalized then normalize_loop normalized urls
         else normalize_loop (normalized @ [value]) urls)"

definition NormalizeControlPlaneURLs :: "string list \<Rightarrow> string list" where
  "NormalizeControlPlaneURLs urls = normalize_loop [] urls"

definition NewAPIWithBaseURLs :: "string list \<Rightarrow> string \<Rightarrow> API" where
  "NewAPIWithBaseURLs baseURLs token =
     (let normalized = NormalizeControlPlaneURLs baseURLs
      in \<lparr>api_BaseURL = (case normalized of u # _ \<Rightarrow> u | [] \<Rightarrow> []), api_BaseURLs = normalized, api_Token = token,
          api_NodeCredential = []\<rparr>)"

definition NewAPI :: "string \<Rightarrow> string \<Rightarrow> API" where
  "NewAPI baseURL token = NewAPIWithBaseURLs [baseURL] token"

definition NewAPIWithNodeCredentialURLs :: "string list \<Rightarrow> string \<Rightarrow> string \<Rightarrow> API" where
  "NewAPIWithNodeCredentialURLs baseURLs token nodeCredential =
     (NewAPIWithBaseURLs baseURLs token)\<lparr>api_NodeCredential := TrimSpace nodeCredential\<rparr>"

definition controlPlaneURLs :: "API \<Rightarrow> string list" where
  "controlPlaneURLs a = NormalizeControlPlaneURLs (api_BaseURL a # api_BaseURLs a)"

definition setActiveBaseURL :: "API \<Rightarrow> string \<Rightarrow> API" where
  "setActiveBaseURL a raw =
     (let baseURL = TrimRight (TrimSpace raw) (CHR ''/'')
      in if baseURL = [] then a
         else a\<lparr>api_BaseURL := baseURL, api_BaseURLs := NormalizeControlPlaneURLs (baseURL # api_BaseURLs a)\<rparr>)"

definition withBearer :: "API \<Rightarrow> string \<Rightarrow> API" where
  "withBearer a token = a\<lparr>api_Token := TrimSpace token, api_NodeCredential := []\<rparr>"

definition validateControlPlaneBaseURL :: "string \<Rightarrow> err" where
  "validateControlPlaneBaseURL raw =
     (case url_Parse (TrimSpace raw) of
        None \<Rightarrow> Some (Errorf ''invalid control-plane URL %q'')
      | Some parsed \<Rightarrow>
          first_err
            [guard (url_Host parsed = [] \<or> url_Hostname parsed = []) ''invalid control-plane URL %q'',
             guard (url_User parsed) ''control-plane URL must not contain user information'',
             (if ToLower (url_Scheme parsed) = ''https'' then None
              else if ToLower (url_Scheme parsed) = ''http'' then
                let host = TrimSuffix (ToLower (url_Hostname parsed)) ''.''
                in guard (\<not> (host = ''localhost'' \<or>
                            (case net_ParseIP host of Some ip \<Rightarrow> IsLoopback ip | None \<Rightarrow> False)))
                     ''control-plane URL must use HTTPS outside loopback development''
              else Some (Errorf ''control-plane URL must use HTTP or HTTPS''))])"

definition shouldFailOverStatus :: "int \<Rightarrow> bool" where
  "shouldFailOverStatus statusCode \<longleftrightarrow> statusCode = 408 \<or> statusCode = 429 \<or> 500 \<le> statusCode"

definition failoverError :: "string \<Rightarrow> string \<Rightarrow> (string \<times> error) list \<Rightarrow> error" where
  "failoverError method path failures =
     (if failures = [] then Errorf ''%s %s failed: control plane URL is required''
      else Errorf ''%s %s failed against all coordinators: %s'')"

section \<open>One request with failover\<close>

definition newRequest :: "API \<Rightarrow> string \<Rightarrow> string \<Rightarrow> string \<Rightarrow> string option \<Rightarrow> http_request result" where
  "newRequest a method baseURL path raw =
     (case validateControlPlaneBaseURL baseURL of
        Some e \<Rightarrow> Inl e
      | None \<Rightarrow>
          (case http_NewRequest method (baseURL @ path) raw of
             Inl e \<Rightarrow> Inl e
           | Inr req \<Rightarrow>
               let req1 = (if TrimSpace (api_Token a) \<noteq> [] then Header_Set ''Authorization'' (''Bearer '' @ api_Token a) req else req);
                   req2 = (if TrimSpace (api_NodeCredential a) \<noteq> []
                           then Header_Set ''X-EndlessNet-Node-Credential'' (TrimSpace (api_NodeCredential a)) req1 else req1)
               in Inr req2))"

definition status_error :: "string \<Rightarrow> string \<Rightarrow> http_response \<Rightarrow> error" where
  "status_error method path resp =
     ControlPlaneStatusError method path (resp_StatusCode resp) (resp_Status resp) (TrimSpace (take 4096 (fst (resp_Body resp))))"

definition decodeStrictAPIResponse :: "'a decoder \<Rightarrow> 'a \<Rightarrow> reader \<Rightarrow> 'a result" where
  "decodeStrictAPIResponse dec zero body =
     (case decode_only dec zero (fst body) of
        None \<Rightarrow> Inl (Errorf ''invalid control-plane response'')
      | Some v \<Rightarrow> (case snd body of Some e \<Rightarrow> Inl e | None \<Rightarrow> Inr v))"

type_synonym 'a outcome = "API \<times> http_request list \<times> 'a result"

text \<open>
  The loop over the origins: \<open>prepare\<close> adds the headers of the call, \<open>accept\<close> reads the response
  of an origin that answered with a 2xx status, after that origin has become the active one.
\<close>

fun failover ::
  "http_client \<Rightarrow> API \<Rightarrow> string \<Rightarrow> string \<Rightarrow> string option \<Rightarrow> (http_request \<Rightarrow> http_request) \<Rightarrow> (http_response \<Rightarrow> 'a result) \<Rightarrow>
   (string \<times> error) list \<Rightarrow> string list \<Rightarrow> 'a outcome" where
  "failover client a method path raw prepare accept failures [] = (a, [], Inl (failoverError method path failures))"
| "failover client a method path raw prepare accept failures (baseURL # urls) =
     (case newRequest a method baseURL path raw of
        Inl e \<Rightarrow> (a, [], Inl e)
      | Inr req0 \<Rightarrow>
          let req = prepare req0;
              again = (\<lambda>e. case failover client a method path raw prepare accept (failures @ [(baseURL, e)]) urls of
                             (a', sent, r) \<Rightarrow> (a', req # sent, r))
          in (case client req of
                Inl e \<Rightarrow> again e
              | Inr resp \<Rightarrow>
                  if resp_StatusCode resp < 200 \<or> 300 \<le> resp_StatusCode resp then
                    (if shouldFailOverStatus (resp_StatusCode resp) then again (status_error method path resp)
                     else (a, [req], Inl (status_error method path resp)))
                  else (setActiveBaseURL a baseURL, [req], accept resp)))"

text \<open>
  \<open>in\<close> is \<open>None\<close> for nil, \<open>out\<close> the decoder and the zero value of the result; \<open>None\<close> decodes
  nothing, as does status 204.
\<close>

definition request :: "http_client \<Rightarrow> API \<Rightarrow> string \<Rightarrow> string \<Rightarrow> json option \<Rightarrow> 'a decoder option \<Rightarrow> 'a \<Rightarrow> 'a outcome" where
  "request client a method path body out zero =
     (case (case body of None \<Rightarrow> Inr None | Some j \<Rightarrow> (case Marshal j of Inl e \<Rightarrow> Inl e | Inr raw \<Rightarrow> Inr (Some raw))) of
        Inl e \<Rightarrow> (a, [], Inl e)
      | Inr raw \<Rightarrow>
          failover client a method path raw
            (\<lambda>req. if body \<noteq> None then Header_Set ''Content-Type'' ''application/json'' req else req)
            (\<lambda>resp. case out of
                      None \<Rightarrow> Inr zero
                    | Some dec \<Rightarrow> if resp_StatusCode resp = 204 then Inr zero else decodeStrictAPIResponse dec zero (resp_Body resp))
            [] (controlPlaneURLs a))"

section \<open>The calls\<close>

definition ServerKey :: "http_client \<Rightarrow> API \<Rightarrow> ServerKeyResponse outcome" where
  "ServerKey client a =
     request client a ''GET'' ''/server-key'' None (Some (dec_struct ServerKeyResponse_fields)) zero_ServerKeyResponse"

text \<open>A missing idempotency key is generated from the random source, for this call only.\<close>

definition CreateNetwork :: "string result \<Rightarrow> http_client \<Rightarrow> API \<Rightarrow> CreateNetworkRequest \<Rightarrow> Network outcome" where
  "CreateNetwork random client a req =
     (case (if TrimSpace (cn_IdempotencyKey req) = []
            then (case NewCreateIdempotencyKey random of Inl e \<Rightarrow> Inl e | Inr key \<Rightarrow> Inr (req\<lparr>cn_IdempotencyKey := key\<rparr>))
            else Inr req) of
        Inl e \<Rightarrow> (a, [], Inl e)
      | Inr r \<Rightarrow>
          request client a ''POST'' ''/networks'' (Some (json_CreateNetworkRequest r)) (Some (dec_struct Network_fields)) zero_Network)"

definition ListNetworksForAccount :: "http_client \<Rightarrow> API \<Rightarrow> string \<Rightarrow> Network slice outcome" where
  "ListNetworksForAccount client a accountID =
     request client a ''GET''
       (''/networks'' @ (if TrimSpace accountID \<noteq> [] then ''?account_id='' @ QueryEscape (TrimSpace accountID) else []))
       None (Some (dec_slice (dec_struct Network_fields) zero_Network)) None"

definition ListNetworks :: "http_client \<Rightarrow> API \<Rightarrow> Network slice outcome" where
  "ListNetworks client a = ListNetworksForAccount client a []"

definition ListNodes :: "http_client \<Rightarrow> API \<Rightarrow> string \<Rightarrow> Node slice outcome" where
  "ListNodes client a network =
     request client a ''GET'' (''/networks/'' @ PathEscape network @ ''/nodes'') None
       (Some (dec_slice (dec_struct Node_fields) zero_Node)) None"

definition CreateJoinToken :: "string result \<Rightarrow> http_client \<Rightarrow> API \<Rightarrow> CreateJoinTokenRequest \<Rightarrow> CreateJoinTokenResponse outcome" where
  "CreateJoinToken random client a req =
     (case (if TrimSpace (jt_IdempotencyKey req) = []
            then (case NewCreateIdempotencyKey random of Inl e \<Rightarrow> Inl e | Inr key \<Rightarrow> Inr (req\<lparr>jt_IdempotencyKey := key\<rparr>))
            else Inr req) of
        Inl e \<Rightarrow> (a, [], Inl e)
      | Inr r \<Rightarrow>
          request client a ''POST'' ''/nodes/join-tokens'' (Some (json_CreateJoinTokenRequest r))
            (Some (dec_struct CreateJoinTokenResponse_fields)) zero_CreateJoinTokenResponse)"

definition RegisterNode ::
  "(string \<Rightarrow> string) \<Rightarrow> (string \<Rightarrow> string \<Rightarrow> string \<Rightarrow> bool) \<Rightarrow> relay_wire \<Rightarrow> (relay_endpoint list \<Rightarrow> err) \<Rightarrow> http_client \<Rightarrow> API \<Rightarrow>
   RegisterNodeRequest \<Rightarrow> RegisterNodeResponse outcome" where
  "RegisterNode sha256 verify rl relay_ok client a req =
     (case RegisterNodeRequest_Validate sha256 verify req of
        Some e \<Rightarrow> (a, [], Inl e)
      | None \<Rightarrow>
          (case request client a ''POST'' ''/nodes/register'' (Some (json_RegisterNodeRequest req))
                  (Some (dec_struct (RegisterNodeResponse_fields rl))) zero_RegisterNodeResponse of
             (a', sent, Inl e) \<Rightarrow> (a', sent, Inl e)
           | (a', sent, Inr out) \<Rightarrow> (a', sent, require (ValidateForRequest sha256 verify relay_ok out req) (Inr out))))"

definition CreateNodeEnrollmentRequest ::
  "http_client \<Rightarrow> API \<Rightarrow> RegisterNodeRequest \<Rightarrow> CreateNodeEnrollmentRequestResponse outcome" where
  "CreateNodeEnrollmentRequest client a req =
     request client a ''POST'' ''/nodes/enrollment-requests'' (Some (json_RegisterNodeRequest req))
       (Some (dec_struct CreateNodeEnrollmentRequestResponse_fields)) zero_CreateNodeEnrollmentRequestResponse"

text \<open>The enrollment calls run on a copy with other credentials; the copy is dropped.\<close>

definition on_copy :: "API \<Rightarrow> 'a outcome \<Rightarrow> 'a outcome" where
  "on_copy a r = (case r of (_, sent, x) \<Rightarrow> (a, sent, x))"

definition NodeEnrollmentRequestStatus ::
  "http_client \<Rightarrow> API \<Rightarrow> string \<Rightarrow> string \<Rightarrow> NodeEnrollmentRequestStatusResponse outcome" where
  "NodeEnrollmentRequestStatus client a reqid pollToken =
     on_copy a (request client (withBearer a pollToken) ''GET'' (''/nodes/enrollment-requests/'' @ PathEscape (TrimSpace reqid)) None
       (Some (dec_struct NodeEnrollmentRequestStatusResponse_fields)) zero_NodeEnrollmentRequestStatusResponse)"

definition CompleteNodeEnrollmentRequest ::
  "relay_wire \<Rightarrow> http_client \<Rightarrow> API \<Rightarrow> string \<Rightarrow> string \<Rightarrow> CompleteNodeEnrollmentRequestResponse outcome" where
  "CompleteNodeEnrollmentRequest rl client a reqid pollToken =
     on_copy a (request client (withBearer a pollToken) ''POST''
       (''/nodes/enrollment-requests/'' @ PathEscape (TrimSpace reqid) @ ''/complete'') None
       (Some (dec_struct (CompleteNodeEnrollmentRequestResponse_fields rl))) zero_CompleteNodeEnrollmentRequestResponse)"

definition UpdateNodeEndpointState ::
  "relay_wire \<Rightarrow> http_client \<Rightarrow> API \<Rightarrow> string \<Rightarrow> UpdateNodeEndpointRequest \<Rightarrow> RegisterNodeResponse outcome" where
  "UpdateNodeEndpointState rl client a nodeID req =
     request client a ''PATCH'' (''/nodes/'' @ PathEscape nodeID @ ''/endpoint'') (Some (json_UpdateNodeEndpointRequest req))
       (Some (dec_struct (RegisterNodeResponse_fields rl))) zero_RegisterNodeResponse"

definition Logout :: "http_client \<Rightarrow> API \<Rightarrow> unit outcome" where
  "Logout client a = request client a ''POST'' ''/auth/logout'' None None ()"

section \<open>Reading the map stream\<close>

definition decodeStrictMapStreamEvent :: "relay_wire \<Rightarrow> string \<Rightarrow> MapStreamEvent result" where
  "decodeStrictMapStreamEvent rl raw =
     (case decode_only (dec_struct (MapStreamEvent_fields rl)) zero_MapStreamEvent raw of
        None \<Rightarrow> Inl (Errorf ''invalid map stream event'')
      | Some event \<Rightarrow> Inr event)"

definition check_event :: "relay_wire \<Rightarrow> string \<Rightarrow> MapStreamEvent result" where
  "check_event rl line =
     (case decodeStrictMapStreamEvent rl line of
        Inl e \<Rightarrow> Inl e
      | Inr event \<Rightarrow>
          require (first_err
            [guard (ev_ProtocolVersion event \<noteq> MapStreamProtocolVersion) ''map stream protocol = %d, want %d'',
             guard (\<not> mapStreamCapabilitiesEqual (elems (ev_Capabilities event)) MapStreamSupportedCapabilities)
               ''map stream event capabilities = %v, want %v'',
             validateMapStreamEvent event])
          (Inr event))"

text \<open>The loop over the lines: heartbeats are skipped. A line that was read takes at least one byte.\<close>

function read_events :: "relay_wire \<Rightarrow> reader \<Rightarrow> MapStreamEvent result" where
  "read_events rl rd =
     (case readBoundedLine rd MaxControlMapStreamEventBytes ''control map stream event'' of
        (line, Some e, rd') \<Rightarrow> if isEOFWithNoData line (Some e) then Inl ErrMapStreamNoEvent else Inl e
      | (line, None, rd') \<Rightarrow>
          (case check_event rl line of
             Inl e \<Rightarrow> Inl e
           | Inr event \<Rightarrow>
               if ev_Type event = ''heartbeat'' then read_events rl rd'
               else if ev_Type event \<in> {''snapshot'', ''delta'', ''checkpoint'', ''resync''} then Inr event
               else Inl (Errorf ''unsupported map stream event type %q'')))"
  by pat_completeness auto
termination
proof (relation "measure (\<lambda>(rl, rd). length (fst rd))", goal_cases)
  case (2 rl rd line y e rd' event)
  then have "readBoundedLine rd MaxControlMapStreamEventBytes ''control map stream event'' = (line, None, rd')" by simp
  note l = readBoundedLine_line(1,2) [OF this]
  then show ?case by (cases line) auto
qed simp

declare read_events.simps [simp del]

definition stream_path :: "string \<Rightarrow> MapCursor \<Rightarrow> duration \<Rightarrow> string" where
  "stream_path nodeID cursor timeout =
     ''/maps/'' @ PathEscape nodeID @ ''/stream?from_network_revision='' @ Itoa (uint (rev_Network (cur_Revision cursor))) @
     ''&from_global_revision='' @ Itoa (uint (rev_Global (cur_Revision cursor))) @
     ''&from_map_hash='' @ QueryEscape (TrimSpace (cur_MapHash cursor)) @ ''&timeout='' @ QueryEscape (duration_String timeout)"

definition stream_accept :: "relay_wire \<Rightarrow> http_response \<Rightarrow> MapStreamEvent result" where
  "stream_accept rl resp =
     require (first_err
       [guard (TrimSpace (resp_Header resp ''X-EndlessNet-Map-Protocol'') \<noteq> Itoa MapStreamProtocolVersion)
          ''map stream response protocol header = %q, want %q'',
        guard (TrimSpace (resp_Header resp ''X-EndlessNet-Map-Capabilities'') \<noteq> Join MapStreamSupportedCapabilities '','')
          ''map stream response capabilities header = %q, want %q''])
     (read_events rl (resp_Body resp))"

definition ReadMapStreamEvent :: "relay_wire \<Rightarrow> http_client \<Rightarrow> API \<Rightarrow> string \<Rightarrow> MapCursor \<Rightarrow> duration \<Rightarrow> MapStreamEvent outcome" where
  "ReadMapStreamEvent rl client a nodeID cursor timeout =
     failover client a ''GET'' (stream_path nodeID cursor timeout) None
       (\<lambda>req. Header_Set ''X-EndlessNet-Map-Capabilities'' (Join MapStreamSupportedCapabilities '','')
                (Header_Set ''X-EndlessNet-Map-Protocol'' (Itoa MapStreamProtocolVersion) req))
       (stream_accept rl) [] (controlPlaneURLs a)"

end
