(* ===== verification/Go_Url.thy ===== *)
theory Go_Url
  imports Go_Net
begin

text \<open>
  Facts about \<open>url.Parse\<close> that the control-plane client relies on: the scheme and the authority of a
  URL, and that appending a path keeps both.
\<close>

text \<open>The scheme, the authority and the path of a URL text, as \<open>url_parse\<close> reads them.\<close>

abbreviation hier :: "string \<Rightarrow> string" where
  "hier s \<equiv> takeWhile (\<lambda>c. c \<noteq> CHR ''?'') s"

lemma fst_query_split:
  "fst (if s \<noteq> [] \<and> last s = CHR ''?'' \<and> count_list s (CHR ''?'') = 1 then (butlast s, []) else Cut s (CHR ''?'')) = hier s"
proof (cases "s \<noteq> [] \<and> last s = CHR ''?'' \<and> count_list s (CHR ''?'') = 1")
  case True
  then obtain t where s: "s = t @ [CHR ''?'']" by (metis append_butlast_last_id)
  then have "CHR ''?'' \<notin> set t" using True by (simp add: count_list_0_iff)
  then have "takeWhile (\<lambda>c. c \<noteq> CHR ''?'') t = t" by (auto simp: takeWhile_eq_all_conv)
  then show ?thesis using s True by (simp add: takeWhile_tail)
qed (auto simp: Cut_def)

lemma url_parse_scheme:
  assumes "url_parse raw = Some u" and "getScheme raw = Some (sch, rest)"
  shows "url_Scheme u = ToLower sch"
    and "url_Host u \<noteq> [] \<Longrightarrow> prefix ''//'' (hier rest)"
    and "prefix ''//'' (hier rest) \<Longrightarrow> ToLower sch \<noteq> [] \<Longrightarrow>
      parseAuthority (takeWhile (\<lambda>c. c \<noteq> CHR ''/'') (drop 2 (hier rest))) = Some (url_User u, url_Host u)"
proof -
  let ?P = "if rest \<noteq> [] \<and> last rest = CHR ''?'' \<and> count_list rest (CHR ''?'') = 1 then (butlast rest, []) else Cut rest (CHR ''?'')"
  obtain x q where p: "?P = (x, q)" by (cases ?P)
  have "x = hier rest" using fst_query_split [of rest] unfolding p by simp
  then have q: "?P = (hier rest, q)" using p by (simp only:)
  have ctl: "list_ex ctl_byte raw = False" using assms(1) by (cases "list_ex ctl_byte raw") (simp_all add: url_parse_def)
  have star: "raw = ''*'' \<Longrightarrow> u = empty_URL\<lparr>url_Path := ''*''\<rparr> \<and> sch = [] \<and> rest = ''*''"
  proof -
    assume r: "raw = ''*''"
    have "getScheme ''*'' = Some ([], ''*'')" "url_parse ''*'' = Some (empty_URL\<lparr>url_Path := ''*''\<rparr>)" by code_simp+
    then show ?thesis using assms r by simp
  qed
  consider "raw = ''*''" | "\<not> prefix ''//'' (hier rest)" "url_Scheme u = ToLower sch" "url_Host u = []"
    | "prefix ''//'' (hier rest)" "url_Scheme u = ToLower sch" "ToLower sch \<noteq> [] \<longrightarrow>
        parseAuthority (takeWhile (\<lambda>c. c \<noteq> CHR ''/'') (drop 2 (hier rest))) = Some (url_User u, url_Host u)"
  proof -
    assume th: "raw = ''*'' \<Longrightarrow> thesis" "\<not> prefix ''//'' (hier rest) \<Longrightarrow> url_Scheme u = ToLower sch \<Longrightarrow> url_Host u = [] \<Longrightarrow> thesis"
      "prefix ''//'' (hier rest) \<Longrightarrow> url_Scheme u = ToLower sch \<Longrightarrow> ToLower sch \<noteq> [] \<longrightarrow>
        parseAuthority (takeWhile (\<lambda>c. c \<noteq> CHR ''/'') (drop 2 (hier rest))) = Some (url_User u, url_Host u) \<Longrightarrow> thesis"
    define h where "h = hier rest"
    have e: "raw \<noteq> ''*'' \<Longrightarrow> (let u0 = empty_URL\<lparr>url_Scheme := ToLower sch, url_RawQuery := q\<rparr>
          in if \<not> prefix ''/'' h \<and> ToLower sch \<noteq> [] then Some u0
             else if \<not> prefix ''/'' h \<and> CHR '':'' \<in> set (fst (Cut h (CHR ''/''))) then None
             else if prefix ''//'' h \<and> (ToLower sch \<noteq> [] \<or> \<not> prefix ''///'' h) then
               let auth = takeWhile (\<lambda>c. c \<noteq> CHR ''/'') (drop 2 h);
                   path = dropWhile (\<lambda>c. c \<noteq> CHR ''/'') (drop 2 h)
               in (case (parseAuthority auth, unescape UrlOther path) of
                     (Some (user, host), Some p) \<Rightarrow>
                       Some (u0\<lparr>url_User := user, url_Host := host, url_Path := p\<rparr>)
                   | _ \<Rightarrow> None)
             else map_option (\<lambda>p. u0\<lparr>url_Path := p\<rparr>) (unescape UrlOther h)) = Some u"
      using assms(1) unfolding url_parse_def assms(2) option.case prod.case q h_def ctl if_False by (simp only: Let_def if_False prod.case)
    have p1: "prefix ''//'' h \<Longrightarrow> prefix ''/'' h" by (auto simp: prefix_def)
    show thesis
    proof (cases "raw = ''*''")
      case False
      note f = e [OF False]
      show thesis
      proof (cases "prefix ''//'' h \<and> (ToLower sch \<noteq> [] \<or> \<not> prefix ''///'' h)")
        case True
        then show thesis using f p1 th(3) unfolding h_def [symmetric]
          by (cases "parseAuthority (takeWhile (\<lambda>c. c \<noteq> CHR ''/'') (drop 2 h))"; cases "unescape UrlOther (dropWhile (\<lambda>c. c \<noteq> CHR ''/'') (drop 2 h))")
            (auto simp: Let_def empty_URL_def)
      next
        case False
        then have "url_Scheme u = ToLower sch \<and> url_Host u = []" using f
          by (cases "\<not> prefix ''/'' h \<and> ToLower sch \<noteq> []"; cases "\<not> prefix ''/'' h \<and> CHR '':'' \<in> set (fst (Cut h (CHR ''/'')))";
              cases "unescape UrlOther h") (auto simp: Let_def empty_URL_def simp del: dropWhile_eq_Nil_conv)
        then show thesis using False th(2,3) unfolding h_def [symmetric] by blast
      qed
    qed (use th(1) in simp)
  qed
  note cs = this
  show "url_Scheme u = ToLower sch" by (rule cs) (use star in \<open>simp_all add: empty_URL_def ToLower_def\<close>)
  show "url_Host u \<noteq> [] \<Longrightarrow> prefix ''//'' (hier rest)" by (rule cs) (use star in \<open>simp_all add: empty_URL_def\<close>)
  show "prefix ''//'' (hier rest) \<Longrightarrow> ToLower sch \<noteq> [] \<Longrightarrow>
      parseAuthority (takeWhile (\<lambda>c. c \<noteq> CHR ''/'') (drop 2 (hier rest))) = Some (url_User u, url_Host u)"
    by (rule cs) (use star in \<open>simp_all add: ToLower_def\<close>)
qed

lemma getScheme_append:
  assumes "getScheme raw = Some (sch, rest)" "sch \<noteq> []"
  shows "getScheme (raw @ s) = Some (sch, rest @ s)"
proof -
  have "dropWhile scheme_char raw \<noteq> []" using assms by (auto simp: getScheme_def Let_def split: if_splits)
  then have "takeWhile scheme_char (raw @ s) = takeWhile scheme_char raw"
    "dropWhile scheme_char (raw @ s) = dropWhile scheme_char raw @ s"
    by (auto simp: takeWhile_append dropWhile_append)
  then show ?thesis using assms by (auto simp: getScheme_def Let_def split: if_splits)
qed

text \<open>Appending a path to a URL changes neither its scheme nor its authority.\<close>

lemma url_parse_append:
  assumes u: "url_parse raw = Some u" and h: "url_Host u \<noteq> []" and s: "url_Scheme u \<noteq> []"
    and v: "url_parse (raw @ CHR ''/'' # p) = Some v"
  shows "url_Scheme v = url_Scheme u \<and> url_User v = url_User u \<and> url_Host v = url_Host u"
proof -
  obtain sch rest where g: "getScheme raw = Some (sch, rest)"
    using u h by (cases "getScheme raw") (auto simp: url_parse_def empty_URL_def split: if_splits)
  have low: "ToLower sch \<noteq> []" using url_parse_scheme(1) [OF u g] s by simp
  then have "sch \<noteq> []" by (auto simp: ToLower_def)
  note ga = getScheme_append [OF g this, of "CHR ''/'' # p"]
  note U = url_parse_scheme [OF u g] and V = url_parse_scheme [OF v ga]
  obtain w where w: "hier rest = ''//'' @ w" using U(2) [OF h] by (auto simp: prefix_def)
  have "\<exists>w'. hier (rest @ CHR ''/'' # p) = ''//'' @ w' \<and>
      takeWhile (\<lambda>c. c \<noteq> CHR ''/'') w' = takeWhile (\<lambda>c. c \<noteq> CHR ''/'') w"
  proof (cases "CHR ''?'' \<in> set rest")
    case True
    then show ?thesis using w by (auto simp: takeWhile_append1)
  next
    case False
    then have r: "hier rest = rest" by (auto simp: takeWhile_eq_all_conv)
    have "hier (rest @ CHR ''/'' # p) = rest @ CHR ''/'' # hier p" using False by (subst takeWhile_append2) auto
    then have "hier (rest @ CHR ''/'' # p) = ''//'' @ (w @ CHR ''/'' # hier p)" using r w by simp
    then show ?thesis by (intro exI [of _ "w @ CHR ''/'' # hier p"]) (simp add: takeWhile_tail)
  qed
  then obtain w' where w': "hier (rest @ CHR ''/'' # p) = ''//'' @ w'" "takeWhile (\<lambda>c. c \<noteq> CHR ''/'') w' = takeWhile (\<lambda>c. c \<noteq> CHR ''/'') w"
    by blast
  show ?thesis using U(1,3) V(1,3) w w' low by simp
qed

lemma url_Parse_append:
  assumes u: "url_Parse raw = Some u" and h: "url_Host u \<noteq> []" and s: "url_Scheme u \<noteq> []"
    and v: "url_Parse (raw @ CHR ''/'' # p) = Some v"
  shows "url_Scheme v = url_Scheme u \<and> url_User v = url_User u \<and> url_Host v = url_Host u"
proof -
  let ?cut = "takeWhile (\<lambda>c. c \<noteq> CHR ''#'')"
  obtain u0 where u0: "url_parse (?cut raw) = Some u0" "u = u0\<lparr>url_Fragment := url_Fragment u\<rparr>"
    using u by (auto simp: url_Parse_def Cut_def split: option.splits)
  obtain v0 where v0: "url_parse (?cut (raw @ CHR ''/'' # p)) = Some v0" "v = v0\<lparr>url_Fragment := url_Fragment v\<rparr>"
    using v by (auto simp: url_Parse_def Cut_def split: option.splits)
  have uv: "url_Scheme u0 = url_Scheme u" "url_Host u0 = url_Host u" "url_User u0 = url_User u"
    "url_Scheme v0 = url_Scheme v" "url_Host v0 = url_Host v" "url_User v0 = url_User v"
    by (subst u0(2), simp)+ (subst v0(2), simp)+
  show ?thesis
  proof (cases "CHR ''#'' \<in> set raw")
    case True
    then have "?cut (raw @ CHR ''/'' # p) = ?cut raw" by (auto simp: takeWhile_append1)
    then show ?thesis using u0 v0 uv by simp
  next
    case False
    then have "?cut raw = raw" "?cut (raw @ CHR ''/'' # p) = raw @ CHR ''/'' # ?cut p"
      by (auto simp: takeWhile_eq_all_conv) (subst takeWhile_append2, auto)
    then show ?thesis using url_parse_append u0(1) v0(1) uv h s by metis
  qed
qed

end
