(* ===== verification/Failover.thy ===== *)
theory Failover
  imports Control_Plane Go_Url
begin

text \<open>
  What the control-plane client guarantees: which origins it asks and in which order, that
  requests leave only for origins that passed the check, that credentials stay apart, and what a
  call leaves behind.
\<close>

section \<open>Normalised origins\<close>

definition origin :: "string \<Rightarrow> string" where
  "origin raw = TrimRight (TrimSpace raw) (CHR ''/'')"

text \<open>The first occurrences of the elements of a list.\<close>

fun firsts :: "'a list \<Rightarrow> 'a list" where
  "firsts [] = []"
| "firsts (x # xs) = x # filter (\<lambda>y. y \<noteq> x) (firsts xs)"

lemma filter_firsts: "filter P (firsts xs) = firsts (filter P xs)"
proof (induction xs)
  case (Cons a xs)
  have "filter P (filter (\<lambda>y. y \<noteq> a) ys) = filter P ys" if "\<not> P a" for ys
    using that by (auto simp: filter_filter intro: filter_cong)
  moreover have "filter P (filter (\<lambda>y. y \<noteq> a) ys) = filter (\<lambda>y. y \<noteq> a) (filter P ys)" for ys
    by (simp add: conj_commute)
  ultimately have "filter P (firsts (a # xs)) = (if P a then a # filter (\<lambda>y. y \<noteq> a) (filter P (firsts xs)) else filter P (firsts xs))"
    by (simp del: filter_filter)
  then show ?case using Cons.IH by simp
qed simp

lemma set_firsts [simp]: "set (firsts xs) = set xs" and distinct_firsts [simp]: "distinct (firsts xs)"
  by (induction xs) auto

lemma firsts_id: "distinct xs \<Longrightarrow> firsts xs = xs"
  by (induction xs) (auto intro: filter_True)

lemma normalize_loop_eq:
  "normalize_loop out urls = out @ firsts (filter (\<lambda>u. u \<noteq> [] \<and> u \<notin> set out) (map origin urls))"
proof (induction urls arbitrary: out)
  case (Cons u urls)
  let ?P = "\<lambda>u. u \<noteq> [] \<and> u \<notin> set out"
  show ?case
  proof (cases "?P (origin u)")
    case True
    have "filter (\<lambda>y. y \<noteq> origin u) (firsts (filter ?P (map origin urls))) =
        firsts (filter (\<lambda>v. v \<noteq> [] \<and> v \<notin> set (out @ [origin u])) (map origin urls))"
      by (simp add: filter_firsts) (rule arg_cong [of _ _ firsts], auto intro: filter_cong)
    then show ?thesis
      using True Cons.IH [of "out @ [origin u]"] unfolding normalize_loop.simps Let_def origin_def [symmetric] by simp
  next
    case False
    then have "filter ?P (map origin (u # urls)) = filter ?P (map origin urls)" by simp
    then show ?thesis using False Cons.IH [of out] unfolding normalize_loop.simps Let_def origin_def [symmetric] by (simp del: list.map)
  qed
qed simp

lemma NormalizeControlPlaneURLs_eq: "NormalizeControlPlaneURLs urls = firsts (filter (\<lambda>u. u \<noteq> []) (map origin urls))"
  by (simp add: NormalizeControlPlaneURLs_def normalize_loop_eq)

section \<open>Failover\<close>

text \<open>An origin is passed over when the transport fails there or it answers 408, 429 or 5xx.\<close>

definition passed_over :: "http_client \<Rightarrow> (http_request \<Rightarrow> http_request) \<Rightarrow> http_request result \<Rightarrow> bool" where
  "passed_over client prepare r =
     (case r of
        Inl _ \<Rightarrow> False
      | Inr req \<Rightarrow> (case client (prepare req) of Inl _ \<Rightarrow> True | Inr resp \<Rightarrow> shouldFailOverStatus (resp_StatusCode resp)))"

text \<open>
  The reference: ask the origins in order, pass over the ones that are unavailable, and let the
  first that is not decide the call.
\<close>

definition failover_spec ::
  "http_client \<Rightarrow> API \<Rightarrow> string \<Rightarrow> string \<Rightarrow> string option \<Rightarrow> (http_request \<Rightarrow> http_request) \<Rightarrow> (http_response \<Rightarrow> 'a result) \<Rightarrow>
   string list \<Rightarrow> 'a outcome" where
  "failover_spec client a method path raw prepare accept urls =
     (let new = (\<lambda>u. newRequest a method u path raw); skip = (\<lambda>u. passed_over client prepare (new u));
          tried = map (\<lambda>u. prepare (projr (new u))) (takeWhile skip urls)
      in case dropWhile skip urls of
           [] \<Rightarrow> (a, tried, Inl (failoverError method path (map (\<lambda>u. (u, EOF)) urls)))
         | u # _ \<Rightarrow>
             (case new u of
                Inl e \<Rightarrow> (a, tried, Inl e)
              | Inr req \<Rightarrow>
                  (case client (prepare req) of
                     Inl e \<Rightarrow> (a, tried, Inl e)
                   | Inr resp \<Rightarrow>
                       if 200 \<le> resp_StatusCode resp \<and> resp_StatusCode resp < 300
                       then (setActiveBaseURL a u, tried @ [prepare req], accept resp)
                       else (a, tried @ [prepare req], Inl (status_error method path resp)))))"

lemma failover_stop:
  assumes "\<not> passed_over client prepare (newRequest a method u path raw)"
  shows "failover client a method path raw prepare accept failures (u # urls) =
    failover_spec client a method path raw prepare accept (u # urls)"
proof -
  have s: "\<not> shouldFailOverStatus n" if "200 \<le> n" "n < 300" for n using that by (simp add: shouldFailOverStatus_def)
  show ?thesis using assms s
    by (cases "newRequest a method u path raw") (auto simp: failover_spec_def passed_over_def Let_def split: sum.splits)
qed

lemma failover_skip:
  assumes "passed_over client prepare (newRequest a method u path raw)"
  obtains req e where "newRequest a method u path raw = Inr req"
    and "failover client a method path raw prepare accept failures (u # urls) =
      (case failover client a method path raw prepare accept (failures @ [(u, e)]) urls of (a', sent, r) \<Rightarrow> (a', prepare req # sent, r))"
proof -
  obtain req where req: "newRequest a method u path raw = Inr req"
    "case client (prepare req) of Inl _ \<Rightarrow> True | Inr resp \<Rightarrow> shouldFailOverStatus (resp_StatusCode resp)"
    using assms by (auto simp: passed_over_def split: sum.splits)
  show ?thesis
  proof (cases "client (prepare req)")
    case (Inl e)
    then show ?thesis using that [of req e] req by simp
  next
    case (Inr resp)
    then have "shouldFailOverStatus (resp_StatusCode resp)" using req by simp
    moreover from this have "resp_StatusCode resp < 200 \<or> 300 \<le> resp_StatusCode resp" by (auto simp: shouldFailOverStatus_def)
    ultimately show ?thesis using that [of req "status_error method path resp"] req Inr by simp
  qed
qed

lemma failover_spec_skip:
  assumes "passed_over client prepare (newRequest a method u path raw)" "newRequest a method u path raw = Inr req"
  shows "failover_spec client a method path raw prepare accept (u # urls) =
    (case failover_spec client a method path raw prepare accept urls of (a', sent, r) \<Rightarrow> (a', prepare req # sent,
       if dropWhile (\<lambda>u. passed_over client prepare (newRequest a method u path raw)) urls = []
       then Inl (failoverError method path [(u, EOF)]) else r))"
proof (cases "dropWhile (\<lambda>u. passed_over client prepare (newRequest a method u path raw)) urls")
  case Nil
  then show ?thesis using assms by (simp add: failover_spec_def Let_def failoverError_def del: dropWhile_eq_Nil_conv)
next
  case (Cons v vs)
  then show ?thesis using assms
    by (cases "newRequest a method v path raw") (auto simp: failover_spec_def Let_def split: sum.splits)
qed

lemma failover_eq:
  "failover client a method path raw prepare accept failures urls =
   (case failover_spec client a method path raw prepare accept urls of
      (a', sent, r) \<Rightarrow>
        (a', sent, if dropWhile (\<lambda>u. passed_over client prepare (newRequest a method u path raw)) urls = []
                   then Inl (failoverError method path (failures @ map (\<lambda>u. (u, EOF)) urls)) else r))"
proof (induction urls arbitrary: failures)
  case (Cons u urls)
  show ?case
  proof (cases "passed_over client prepare (newRequest a method u path raw)")
    case True
    obtain req e where new: "newRequest a method u path raw = Inr req"
      and f: "failover client a method path raw prepare accept failures (u # urls) =
        (case failover client a method path raw prepare accept (failures @ [(u, e)]) urls of (a', sent, r) \<Rightarrow> (a', prepare req # sent, r))"
      using failover_skip [OF True] by blast
    show ?thesis
      unfolding f failover_spec_skip [OF True new] Cons.IH [of "failures @ [(u, e)]"]
      using True by (simp add: failoverError_def split_def del: dropWhile_eq_Nil_conv)
  next
    case False
    then show ?thesis using failover_stop [OF False, of accept failures urls] by (simp split: prod.splits)
  qed
qed (simp add: failover_spec_def)

lemma failover_is_spec:
  "failover client a method path raw prepare accept [] urls = failover_spec client a method path raw prepare accept urls"
proof (cases "dropWhile (\<lambda>u. passed_over client prepare (newRequest a method u path raw)) urls")
  case Nil
  then show ?thesis by (simp add: failover_eq failover_spec_def Let_def del: dropWhile_eq_Nil_conv)
next
  case (Cons u us)
  obtain a' sent r where "failover_spec client a method path raw prepare accept urls = (a', sent, r)"
    by (cases "failover_spec client a method path raw prepare accept urls")
  then show ?thesis unfolding failover_eq Cons by simp
qed

section \<open>Origins that are asked\<close>

text \<open>An origin over TLS, or over plain HTTP on this host, without user information.\<close>

definition protected_url :: "URL \<Rightarrow> bool" where
  "protected_url u \<longleftrightarrow> \<not> url_User u \<and> url_Hostname u \<noteq> [] \<and>
     (ToLower (url_Scheme u) = ''https'' \<or>
      ToLower (url_Scheme u) = ''http'' \<and>
        (let host = TrimSuffix (ToLower (url_Hostname u)) ''.''
         in host = ''localhost'' \<or> (\<exists>ip. net_ParseIP host = Some ip \<and> IsLoopback ip)))"

lemma validateControlPlaneBaseURL_None:
  "validateControlPlaneBaseURL raw = None \<longleftrightarrow>
     (\<exists>u. url_Parse (TrimSpace raw) = Some u \<and> url_Host u \<noteq> [] \<and> protected_url u)"
  by (auto simp: validateControlPlaneBaseURL_def protected_url_def Let_def split: option.splits)

lemma newRequest_Inr:
  assumes "newRequest a method baseURL path raw = Inr req"
  shows "validateControlPlaneBaseURL baseURL = None" "hr_URL req = baseURL @ path" "hr_Method req = method" "hr_Body req = raw"
    "url_Parse (baseURL @ path) \<noteq> None"
    "map_of (hr_Header req) ''Authorization'' = (if TrimSpace (api_Token a) = [] then None else Some (''Bearer '' @ api_Token a))"
    "map_of (hr_Header req) ''X-EndlessNet-Node-Credential'' =
       (if TrimSpace (api_NodeCredential a) = [] then None else Some (TrimSpace (api_NodeCredential a)))"
proof -
  obtain parsed where v: "validateControlPlaneBaseURL baseURL = None" "url_Parse (baseURL @ path) = Some parsed"
    and req: "req = (let r1 = (if TrimSpace (api_Token a) \<noteq> [] then Header_Set ''Authorization'' (''Bearer '' @ api_Token a)
          \<lparr>hr_Method = method, hr_URL = baseURL @ path, hr_Header = [], hr_Body = raw\<rparr>
          else \<lparr>hr_Method = method, hr_URL = baseURL @ path, hr_Header = [], hr_Body = raw\<rparr>)
        in if TrimSpace (api_NodeCredential a) \<noteq> []
           then Header_Set ''X-EndlessNet-Node-Credential'' (TrimSpace (api_NodeCredential a)) r1 else r1)"
    using assms unfolding newRequest_def http_NewRequest_def Let_def by (simp split: option.splits)
  show "validateControlPlaneBaseURL baseURL = None" "url_Parse (baseURL @ path) \<noteq> None" using v by simp_all
  show "hr_URL req = baseURL @ path" "hr_Method req = method" "hr_Body req = raw"
    by (simp_all add: req Let_def Header_Set_def)
  show "map_of (hr_Header req) ''Authorization'' = (if TrimSpace (api_Token a) = [] then None else Some (''Bearer '' @ api_Token a))"
    "map_of (hr_Header req) ''X-EndlessNet-Node-Credential'' =
       (if TrimSpace (api_NodeCredential a) = [] then None else Some (TrimSpace (api_NodeCredential a)))"
    by (simp_all add: req Let_def Header_Set_def)
qed

text \<open>Whatever holds of the request built for any origin holds of every request that is sent.\<close>

lemma failover_sent:
  assumes "failover client a method path raw prepare accept failures urls = (a', sent, r)" and "req \<in> set sent"
  shows "\<exists>u req0. u \<in> set urls \<and> newRequest a method u path raw = Inr req0 \<and> req = prepare req0"
  using assms
proof (induction urls arbitrary: failures a' sent r)
  case (Cons u urls)
  then show ?case
    by (fastforce simp: Let_def split: sum.splits prod.splits if_splits)
qed simp

lemma failover_api:
  assumes "failover client a method path raw prepare accept failures urls = (a', sent, r)"
  shows "a' = a \<or> (\<exists>u \<in> set urls. a' = setActiveBaseURL a u)"
  using assms
proof (induction urls arbitrary: failures a' sent r)
  case (Cons u urls)
  then show ?case
    by (fastforce simp: Let_def split: sum.splits prod.splits if_splits)
qed simp

lemma failover_urls:
  assumes "\<And>q. hr_URL (prepare q) = hr_URL q" and "failover client a method path raw prepare accept failures urls = (a', sent, r)"
  shows "prefix (map hr_URL sent) (map (\<lambda>u. u @ path) urls)"
  using assms(2)
proof (induction urls arbitrary: failures a' sent r)
  case (Cons u urls)
  show ?case
  proof (cases "newRequest a method u path raw")
    case (Inr req)
    have h: "hr_URL (prepare req) = u @ path" using assms(1) newRequest_Inr(2) [OF Inr] by simp
    have "sent = [] \<or> (\<exists>sent'. sent = prepare req # sent' \<and> prefix (map hr_URL sent') (map (\<lambda>u. u @ path) urls))"
      using Cons.prems Cons.IH Inr by (fastforce simp: Let_def split: sum.splits prod.splits if_splits)
    then show ?thesis using h by auto
  qed (use Cons.prems in simp)
qed simp

text \<open>A URL below a protected origin is protected.\<close>

lemma protected_below:
  assumes v: "validateControlPlaneBaseURL base = None" and t: "TrimSpace base = base"
    and u: "url_Parse (base @ CHR ''/'' # path) = Some u"
  shows "protected_url u"
proof -
  obtain b where b: "url_Parse base = Some b" "url_Host b \<noteq> []" "protected_url b"
    using v t by (auto simp: validateControlPlaneBaseURL_None)
  then have "url_Scheme b \<noteq> []" by (auto simp: protected_url_def ToLower_def)
  then have "url_Scheme u = url_Scheme b \<and> url_User u = url_User b \<and> url_Host u = url_Host b"
    using b u by (intro url_Parse_append [of base]) auto
  then show ?thesis using b(3) by (simp add: protected_url_def url_Hostname_def)
qed

section \<open>Calls\<close>

text \<open>
  What every call of the API promises its caller: it asks distinct configured origins that passed the
  check, in their order, each at most once and with the credentials of the API value, and leaves
  behind the API value or the one with another origin moved to the front.
\<close>

definition sent_with :: "API \<Rightarrow> string \<Rightarrow> http_request \<Rightarrow> bool" where
  "sent_with a path req \<longleftrightarrow>
     (\<exists>base \<in> set (controlPlaneURLs a). hr_URL req = base @ path \<and> validateControlPlaneBaseURL base = None \<and>
        url_Parse (base @ path) \<noteq> None) \<and>
     map_of (hr_Header req) ''Authorization'' = (if TrimSpace (api_Token a) = [] then None else Some (''Bearer '' @ api_Token a)) \<and>
     map_of (hr_Header req) ''X-EndlessNet-Node-Credential'' =
       (if TrimSpace (api_NodeCredential a) = [] then None else Some (TrimSpace (api_NodeCredential a)))"

text \<open>
  A request to a configured origin whose trimmed text is a protected URL. The URL that is sent starts
  with the text as it is; it is protected itself when that text has no white space at its ends.
\<close>

definition sent_protected :: "API \<Rightarrow> string \<Rightarrow> http_request \<Rightarrow> bool" where
  "sent_protected a path req \<longleftrightarrow>
     (\<exists>base \<in> set (controlPlaneURLs a). hr_URL req = base @ path \<and>
        (\<exists>u. url_Parse (TrimSpace base) = Some u \<and> protected_url u) \<and>
        (TrimSpace base = base \<longrightarrow> (\<exists>u. url_Parse (hr_URL req) = Some u \<and> protected_url u)))"

locale origin_call =
  fixes call :: "http_client \<Rightarrow> API \<Rightarrow> 'a outcome"
    and path :: string
  assumes sent: "call client a = (a', sent, r) \<Longrightarrow> list_all (sent_with a path) sent"
    and order: "call client a = (a', sent, r) \<Longrightarrow> prefix (map hr_URL sent) (map (\<lambda>u. u @ path) (controlPlaneURLs a))"
    and active: "call client a = (a', sent, r) \<Longrightarrow> a' = a \<or> (\<exists>u \<in> set (controlPlaneURLs a). a' = setActiveBaseURL a u)"
begin

lemma confined:
  assumes "call client a = (a', sent, r)" "path = CHR ''/'' # p"
  shows "list_all (sent_protected a path) sent"
proof -
  have "sent_protected a path req" if q: "req \<in> set sent" for req
  proof -
    obtain base where b: "base \<in> set (controlPlaneURLs a)" "hr_URL req = base @ path" "validateControlPlaneBaseURL base = None"
      "url_Parse (base @ path) \<noteq> None"
      using sent [OF assms(1)] q by (auto simp: list_all_iff sent_with_def)
    then show ?thesis
      using protected_below [OF b(3)] assms(2) by (auto simp: sent_protected_def validateControlPlaneBaseURL_None)
  qed
  then show ?thesis by (simp add: list_all_iff)
qed

lemma once:
  assumes "call client a = (a', sent, r)"
  shows "distinct (map hr_URL sent)"
proof -
  have "distinct (map (\<lambda>u. u @ path) (controlPlaneURLs a))"
    by (simp add: distinct_map inj_on_def controlPlaneURLs_def NormalizeControlPlaneURLs_eq)
  then show ?thesis using order [OF assms] by (auto simp: prefix_def)
qed

end

lemma failover_origin_call:
  assumes p: "\<And>q. hr_URL (prepare q) = hr_URL q"
      "\<And>q. map_of (hr_Header (prepare q)) ''Authorization'' = map_of (hr_Header q) ''Authorization''"
      "\<And>q. map_of (hr_Header (prepare q)) ''X-EndlessNet-Node-Credential'' = map_of (hr_Header q) ''X-EndlessNet-Node-Credential''"
    and f: "failover client a method path raw prepare accept [] (controlPlaneURLs a) = (a', sent, r)"
  shows "list_all (sent_with a path) sent" "prefix (map hr_URL sent) (map (\<lambda>u. u @ path) (controlPlaneURLs a))"
    "a' = a \<or> (\<exists>u \<in> set (controlPlaneURLs a). a' = setActiveBaseURL a u)"
proof -
  have "sent_with a path req" if q: "req \<in> set sent" for req
  proof -
    obtain u req0 where r: "u \<in> set (controlPlaneURLs a)" "newRequest a method u path raw = Inr req0" "req = prepare req0"
      using failover_sent [OF f q] by blast
    show ?thesis using r(1) newRequest_Inr [OF r(2)] p unfolding sent_with_def r(3) by auto
  qed
  then show "list_all (sent_with a path) sent" by (simp add: list_all_iff)
  show "prefix (map hr_URL sent) (map (\<lambda>u. u @ path) (controlPlaneURLs a))" by (rule failover_urls [OF p(1) f])
  show "a' = a \<or> (\<exists>u \<in> set (controlPlaneURLs a). a' = setActiveBaseURL a u)" by (rule failover_api [OF f])
qed

lemma Header_Set_facts [simp]:
  "hr_URL (Header_Set k v q) = hr_URL q" "hr_Body (Header_Set k v q) = hr_Body q" "hr_Method (Header_Set k v q) = hr_Method q"
  "map_of (hr_Header (Header_Set k v q)) k' = (if k = k' then Some v else map_of (hr_Header q) k')"
  by (simp_all add: Header_Set_def update_conv')

interpretation req: origin_call "\<lambda>client a. request client a verb path body out zero" path for verb path body out zero
proof
  fix client a a' sent r
  assume c: "request client a verb path body out zero = (a', sent, r)"
  have "(sent = [] \<and> a' = a) \<or> (\<exists>raw accept. failover client a verb path raw
      (\<lambda>req. if body \<noteq> None then Header_Set ''Content-Type'' ''application/json'' req else req) accept [] (controlPlaneURLs a) = (a', sent, r))"
    using c unfolding request_def by (fastforce split: sum.splits)
  then consider "sent = []" "a' = a" | raw accept where "failover client a verb path raw
      (\<lambda>req. if body \<noteq> None then Header_Set ''Content-Type'' ''application/json'' req else req) accept [] (controlPlaneURLs a) = (a', sent, r)"
    by blast
  then have "list_all (sent_with a path) sent \<and> prefix (map hr_URL sent) (map (\<lambda>u. u @ path) (controlPlaneURLs a)) \<and>
    (a' = a \<or> (\<exists>u \<in> set (controlPlaneURLs a). a' = setActiveBaseURL a u))"
  proof cases
    case 2
    then show ?thesis using failover_origin_call [OF _ _ _ 2] by simp
  qed simp
  then show "list_all (sent_with a path) sent" "prefix (map hr_URL sent) (map (\<lambda>u. u @ path) (controlPlaneURLs a))"
    "a' = a \<or> (\<exists>u \<in> set (controlPlaneURLs a). a' = setActiveBaseURL a u)" by blast+
qed

interpretation stream: origin_call "\<lambda>client a. ReadMapStreamEvent rl client a nodeID cursor timeout" "stream_path nodeID cursor timeout"
  for rl nodeID cursor timeout
proof
  fix client a a' sent r
  assume c: "ReadMapStreamEvent rl client a nodeID cursor timeout = (a', sent, r)"
  note f = failover_origin_call [OF _ _ _ c [unfolded ReadMapStreamEvent_def]]
  show "list_all (sent_with a (stream_path nodeID cursor timeout)) sent" by (rule f) simp_all
  show "prefix (map hr_URL sent) (map (\<lambda>u. u @ stream_path nodeID cursor timeout) (controlPlaneURLs a))" by (rule f) simp_all
  show "a' = a \<or> (\<exists>u \<in> set (controlPlaneURLs a). a' = setActiveBaseURL a u)" by (rule f) simp_all
qed

end
