(* ===== verification/Sample_Registration.thy ===== *)
theory Sample_Registration
  imports Codec Sample_Map
begin

text \<open>
  A registration for the witnesses: a request signed with the key of \<open>Sample_Keys\<close>, and a
  response that the client accepts for it.
\<close>

section \<open>A registration\<close>

definition sample_unsigned :: RegisterNodeRequest where
  "sample_unsigned = \<lparr>req_SchemaVersion = 2, req_IdempotencyID = ''reg_0123456789abcdef'', req_NetworkID = ''net-r'',
     req_NetworkName = [], req_AccountID = [], req_CellID = [], req_JoinToken = ''join-1'', req_NodeCredential = [],
     req_RegistrationBinding = [], req_SessionTokenBinding = [], req_Hostname = ''laptop'', req_ClientVersion = ''1.2.0'',
     req_IdentityPublicKey = [], req_IdentitySignature = [], req_PublicKey = sample_key (CHR ''r''), req_DeviceFingerprint = ''fp-r'',
     req_Endpoint = ''198.51.100.9:51820'', req_EndpointGeneration = 3, req_EndpointCandidates = [''198.51.100.9:51820''],
     req_EndpointTTL = ''1h30m0s'', req_AdvertisedIPs = Some [''10.9.0.0/16''], req_Tags = None\<rparr>"

definition sample_identity :: string where
  "sample_identity = ''enp_a2tra2tra2tra2tra2tra2tra2tra2tra2tra2tra2s''"

definition with_proof :: "RegisterNodeRequest \<Rightarrow> RegisterNodeRequest" where
  "with_proof r = (case SetRegisterNodeIdentityProof sample_sha256 sample_public sample_sign (Some r) sample_priv of Inl _ \<Rightarrow> r | Inr q \<Rightarrow> q)"

lemma sample_identity_eq: "IdentityPublicKeyPrefix @ EncodeToString RawURLEncoding (sample_public sample_priv) = sample_identity"
  by code_simp

lemma with_proof_eq:
  "with_proof r = r\<lparr>req_IdentityPublicKey := sample_identity, req_IdentitySignature := req_IdentitySignature (with_proof r)\<rparr>"
  "SetRegisterNodeIdentityProof sample_sha256 sample_public sample_sign (Some r) sample_priv = Inr (with_proof r)"
  by (simp_all add: with_proof_def SetRegisterNodeIdentityProof_def sample_priv_def Let_def)
    (simp_all add: sample_identity_eq [unfolded sample_priv_def])

lemma with_proof_verifies: "VerifyRegisterNodeIdentityProof sample_sha256 sample_verify (with_proof r) = None"
  "DecodeIdentityPublicKey sample_identity = Inr (sample_public sample_priv)"
proof -
  have "length (sample_public sample_priv) = 32" "\<And>m. length (sample_sign sample_priv m) = 64"
    by (simp_all add: sample_public_priv sample_sign_def)
  note v = signed_request_verifies [where verify = sample_verify, OF with_proof_eq(2) [of r] this sample_verifies]
  show "VerifyRegisterNodeIdentityProof sample_sha256 sample_verify (with_proof r) = None" using v by blast
  have "req_IdentityPublicKey (with_proof r) = sample_identity" by (subst with_proof_eq(1)) simp
  then show "DecodeIdentityPublicKey sample_identity = Inr (sample_public sample_priv)" using v by metis
qed

lemma sample_request_accepted:
  assumes "r = sample_unsigned \<or> r = sample_unsigned\<lparr>req_Tags := Some []\<rparr>"
  shows "RegisterNodeRequest_Validate sample_sha256 sample_verify (with_proof r) = None"
proof -
  obtain sg where sg: "with_proof r = r\<lparr>req_IdentityPublicKey := sample_identity, req_IdentitySignature := sg\<rparr>"
    using with_proof_eq(1) by blast
  let ?q = "r\<lparr>req_IdentityPublicKey := sample_identity, req_IdentitySignature := sg\<rparr>"
  have f: "req_SchemaVersion ?q = SchemaVersion" "req_IdempotencyID ?q = ''reg_0123456789abcdef''" "req_NetworkID ?q = ''net-r''"
    "safe_fields ?q = safe_fields sample_unsigned" "req_DeviceFingerprint ?q = ''fp-r''" "req_Hostname ?q = ''laptop''"
    "req_PublicKey ?q = sample_key (CHR ''r'')" "req_Endpoint ?q = ''198.51.100.9:51820''" "req_EndpointCandidates ?q = [''198.51.100.9:51820'']"
    "req_EndpointTTL ?q = ''1h30m0s''" "req_AdvertisedIPs ?q = Some [''10.9.0.0/16'']" "elems (req_Tags ?q) = []" "req_JoinToken ?q = ''join-1''"
    "req_NodeCredential ?q = []" "req_SessionTokenBinding ?q = []" "check_authorization ?q = None" "req_IdentityPublicKey ?q = sample_identity"
    using assms by (auto simp: sample_unsigned_def safe_fields_def check_authorization_def IsCredentialRenewal_def SchemaVersion_def)
  have "validateIdentifier ''idempotency_id'' ''reg_0123456789abcdef'' 16 maxIdentifierBytes = None" "TrimSpace ''net-r'' \<noteq> []"
    "range_err (\<lambda>(field, value). validateSafeString field value 0 maxSafeFieldBytes) (safe_fields sample_unsigned) = None"
    "TrimSpace ''fp-r'' \<noteq> []" "ValidateHostname ''laptop'' = None" "ValidatePublicKey (sample_key (CHR ''r'')) = None"
    "ValidateEndpoint ''198.51.100.9:51820'' = None" "check_ttl ''1h30m0s'' = None" "ValidatePrefix ''advertised_ips[%d]'' ''10.9.0.0/16'' = None"
    "validateOpaqueCredential ''join_token'' ''join-1'' = None" "validateOpaqueCredential ''node_credential'' [] = None"
    "validateDigest ''session_token_binding'' [] False = None" "len [''198.51.100.9:51820''] \<le> maxEndpointCandidates" "len [''10.9.0.0/16''] \<le> maxAdvertisedIPs"
    "len ([] :: string list) \<le> maxTags"
    by code_simp+
  then show ?thesis
    using with_proof_verifies(1) [of r, unfolded sg] with_proof_verifies(2) unfolding sg RegisterNodeRequest_Validate_def f
    by simp
qed

text \<open>The digest of the witnesses keeps the first 32 bytes, which are the same for every payload of schema 2.\<close>

definition sample_binding :: string where
  "sample_binding = EncodeToString RawURLEncoding (take 32 (json_text (JObject [(''schema_version'', JInt 2), (''proof'', JString registrationProofDomain)])))"

lemma sample_payload_digest:
  assumes "req_SchemaVersion r = 2"
  shows "RegistrationIdentityProofBinding sample_sha256 r = sample_binding"
proof -
  define pre where "pre = ''{'' @ json_quote ''schema_version'' @ '':'' @ ''2'' @ '','' @ json_quote ''proof'' @ '':'' @ json_quote registrationProofDomain"
  have "Itoa 2 = ''2''" by code_simp
  then obtain rest where "RegistrationIdentityProofPayload sample_sha256 r = pre @ rest"
    using assms unfolding payload_text proof_json_def field_defs pre_def by (simp del: json_quote_def)
  moreover have "32 \<le> length pre" unfolding pre_def by code_simp
  moreover have "take 32 pre = take 32 (json_text (JObject [(''schema_version'', JInt 2), (''proof'', JString registrationProofDomain)]))"
    unfolding pre_def by code_simp
  ultimately show ?thesis by (simp add: RegistrationIdentityProofBinding_def sample_sha256_def sample_binding_def)
qed

definition sample_claims :: NodeCredentialClaims where
  "sample_claims = zero_Claims\<lparr>ncc_Version := nodeCredentialVersion, ncc_KeyID := ''k'', ncc_Algorithm := nodeCredentialAlgorithm,
     ncc_NetworkID := ''net-r'', ncc_NodeID := ''node-r'', ncc_Scopes := Some [''node:map'']\<rparr>"

definition sample_token :: string where
  "sample_token = nodeCredentialPrefix @ EncodeToString RawURLEncoding (json_text (json_Claims sample_claims))"

lemma sample_token:
  "DecodeNodeCredential sample_token = Inr sample_claims" "validateOpaqueCredential f sample_token = None" "sample_token \<noteq> []"
proof -
  have t: "text_claims sample_claims" "time_err (ncc_ExpiresAt sample_claims) = None" by code_simp+
  have "TrimSpace (ncc_KeyID sample_claims) \<noteq> []" "ncc_Algorithm sample_claims = nodeCredentialAlgorithm" "ncc_Version sample_claims = nodeCredentialVersion"
    by code_simp+
  then show "DecodeNodeCredential sample_token = Inr sample_claims"
    unfolding sample_token_def using decode_prefixed decode_claims [OF Marshal_claims [OF t(2)] t(1)] by blast
  show "sample_token \<noteq> []" by (simp add: sample_token_def nodeCredentialPrefix_def)
  have "list_all graphic nodeCredentialPrefix" by code_simp
  then have g: "list_all graphic sample_token" using rawurl.lax.enc_graphic by (simp add: sample_token_def)
  have "length (json_text (json_Claims sample_claims)) < 1000" by code_simp
  then have "length (json_text (json_Claims sample_claims)) div 3 \<le> 333" "length (json_text (json_Claims sample_claims)) mod 3 \<le> 2" by linarith+
  then have l: "len sample_token \<le> maxOpaqueCredentialBytes"
    by (auto simp: sample_token_def len_def length_EncodeToString RawURLEncoding_def nodeCredentialPrefix_def maxOpaqueCredentialBytes_def)
  have "\<not> IsControl r" if "r \<in> set (runes sample_token)" for r
    using that g graphic_int unfolding runes_def runes_of_graphic [OF g] by (fastforce simp: list_all_iff IsControl_def)
  then show "validateOpaqueCredential f sample_token = None"
    using clean_graphic [OF g] l by (auto simp: validateOpaqueCredential_def clean_text_def list_ex_iff)
qed

definition sample_response :: RegisterNodeResponse where
  "sample_response = \<lparr>rsp_SchemaVersion = 2, rsp_IdempotencyID = ''reg_0123456789abcdef'', rsp_Revision = \<lparr>rev_Network = 7, rev_Global = 9\<rparr>,
     rsp_Network = zero_Network\<lparr>net_ID := ''net-r'', net_Name := ''office'', net_CIDR := ''10.1.0.0/24'', net_Revision := 7\<rparr>,
     rsp_Node = zero_Node\<lparr>node_ID := ''node-r'', node_NetworkID := ''net-r'', node_Hostname := ''laptop'',
       node_PublicKey := sample_key (CHR ''r''), node_AssignedIP := ''10.1.0.2'', node_IdentityPublicKey := sample_identity,
       node_DeviceFingerprint := ''fp-r''\<rparr>,
     rsp_Peers = None, rsp_RegistrationBinding = sample_binding, rsp_NodeCredential = sample_token,
     rsp_STUNEndpoints = [], rsp_Relays = None, rsp_RelayCredential = None,
     rsp_MapSignature = Some \<lparr>sig_Version = 1, sig_KeyID = ''k'', sig_Algorithm = ''a'', sig_IssuedAt = zero_time,
       sig_ExpiresAt = zero_time, sig_PayloadHash = ''h'', sig_Signature = ''s''\<rparr>\<rparr>"

lemma sample_registration:
  assumes "r = sample_unsigned \<or> r = sample_unsigned\<lparr>req_Tags := Some []\<rparr>"
  shows "ValidateForRequest sample_sha256 sample_verify (\<lambda>_. None) sample_response (with_proof r) = None"
proof -
  obtain sg where sg: "with_proof r = r\<lparr>req_IdentityPublicKey := sample_identity, req_IdentitySignature := sg\<rparr>"
    using with_proof_eq(1) by blast
  have "ValidateNetworkMap (\<lambda>_. None) sample_response = None" by code_simp
  moreover have "validateIdentifier ''idempotency_id'' ''reg_0123456789abcdef'' 16 maxIdentifierBytes = None"
    "TrimSpace ''net-r'' = ''net-r''" "TrimSpace ''node-r'' = ''node-r''" by code_simp+
  moreover have "validateDigest f sample_binding True = None" for f
    unfolding sample_binding_def by (rule validateDigest_encode) code_simp
  moreover have "RegistrationIdentityProofBinding sample_sha256 (with_proof r) = sample_binding"
    using assms by (intro sample_payload_digest) (auto simp: sg sample_unsigned_def)
  moreover have "rsp_SchemaVersion sample_response = SchemaVersion" "rsp_IdempotencyID sample_response = ''reg_0123456789abcdef''"
    "rsp_RegistrationBinding sample_response = sample_binding" "rsp_NodeCredential sample_response = sample_token"
    "net_ID (rsp_Network sample_response) = ''net-r''" "node_ID (rsp_Node sample_response) = ''node-r''" "rsp_MapSignature sample_response \<noteq> None"
    "ncc_NetworkID sample_claims = ''net-r''" "ncc_NodeID sample_claims = ''node-r''"
    by (simp_all add: sample_response_def sample_claims_def SchemaVersion_def)
  moreover have "node_NetworkID (rsp_Node sample_response) = ''net-r''" "node_IdentityPublicKey (rsp_Node sample_response) = req_IdentityPublicKey (with_proof r)"
    "node_PublicKey (rsp_Node sample_response) = req_PublicKey (with_proof r)" "req_NetworkID (with_proof r) = ''net-r''"
    "node_DeviceFingerprint (rsp_Node sample_response) = req_DeviceFingerprint (with_proof r)"
    "req_IdempotencyID (with_proof r) = ''reg_0123456789abcdef''"
    using assms by (auto simp: sample_response_def sg sample_unsigned_def)
  ultimately show ?thesis
    using sample_request_accepted [OF assms] sample_token
    unfolding ValidateForRequest_None RegisterNodeResponse_Validate_def by simp
qed

theorem response_binds_request_witness:
  "normal_request (with_proof sample_unsigned) = normal_request (with_proof (sample_unsigned\<lparr>req_Tags := Some []\<rparr>)) \<and>
   with_proof sample_unsigned \<noteq> with_proof (sample_unsigned\<lparr>req_Tags := Some []\<rparr>)"
proof -
  let ?r = "with_proof sample_unsigned" and ?q = "with_proof (sample_unsigned\<lparr>req_Tags := Some []\<rparr>)"
  have f: "req_Tags ?r \<noteq> req_Tags ?q" "req_JoinToken ?r = req_JoinToken ?q" "req_NodeCredential ?r = req_NodeCredential ?q"
    by (subst (1 2) with_proof_eq(1), simp add: sample_unsigned_def)+
  have "proof_json sample_sha256 ?r = proof_json sample_sha256 ?q"
    by (subst (1 2) with_proof_eq(1)) (simp add: proof_json_def sample_unsigned_def append_to_nil_def)
  then have p: "RegistrationIdentityProofPayload sample_sha256 ?r = RegistrationIdentityProofPayload sample_sha256 ?q"
    by (simp add: payload_text)
  have "normal_request ?r = normal_request ?q \<and> req_IdentityPublicKey ?r = req_IdentityPublicKey ?q"
    by (rule response_binds_request [OF sample_registration sample_registration]) (simp_all add: collision_free_def f(2,3) p)
  then show ?thesis using f(1) by metis
qed

theorem accepted_registration_witness:
  "\<exists>claims. DecodeNodeCredential (rsp_NodeCredential sample_response) = Inr claims \<and> ncc_NodeID claims = TrimSpace (node_ID (rsp_Node sample_response))"
  using accepted_registration [OF sample_registration [of sample_unsigned]] by blast

theorem accepted_request_shape_witness:
  "req_RegistrationBinding (with_proof sample_unsigned) = [] \<and> length (req_IdempotencyID (with_proof sample_unsigned)) \<in> {16..128}"
proof -
  have "req_NodeCredential (with_proof sample_unsigned) = []" by (subst with_proof_eq(1)) (simp add: sample_unsigned_def)
  then show ?thesis
    using accepted_request_shape [OF sample_request_accepted [of sample_unsigned]] by (auto simp: IsCredentialRenewal_def)
qed

theorem identity_proof_verifies_witness:
  "VerifyRegisterNodeIdentityProof sample_sha256 sample_verify (with_proof sample_unsigned) = None"
proof -
  have "length (sample_public sample_priv) = 32" "\<And>m. length (sample_sign sample_priv m) = 64"
    by (simp_all add: sample_public_priv sample_sign_def)
  then show ?thesis
    using identity_proof_verifies [where verify = sample_verify, OF with_proof_eq(2) [of sample_unsigned]] sample_verifies by blast
qed

text \<open>A round trip over the wire.\<close>

definition sample_error :: PublicError where
  "sample_error = \<lparr>pe_SchemaVersion = 2, pe_ErrorCode = ''authorization_denied'', pe_DiagnosticMessage = ''denied'', pe_RequestID = ''req-1''\<rparr>"

lemma sample_signature:
  "req_IdentitySignature (with_proof sample_unsigned) =
     EncodeToString RawURLEncoding (replicate 32 (CHR ''k'') @
       take 32 (json_text (JObject [(''schema_version'', JInt 2), (''proof'', JString registrationProofDomain)])))"
proof -
  let ?k = "sample_unsigned\<lparr>req_IdentityPublicKey := sample_identity\<rparr>"
  have "req_IdentitySignature (with_proof sample_unsigned) =
      EncodeToString RawURLEncoding (sample_sign sample_priv (RegistrationIdentityProofPayload sample_sha256 ?k))"
    using with_proof_eq(2) [of sample_unsigned] sample_identity_eq
    by (auto simp: SetRegisterNodeIdentityProof_def sample_priv_def Let_def dest: sym)
  moreover have "EncodeToString RawURLEncoding (sample_sha256 (RegistrationIdentityProofPayload sample_sha256 ?k)) = sample_binding"
    using sample_payload_digest [of ?k] by (simp add: RegistrationIdentityProofBinding_def sample_unsigned_def)
  then have "sample_sha256 (RegistrationIdentityProofPayload sample_sha256 ?k) =
      take 32 (json_text (JObject [(''schema_version'', JInt 2), (''proof'', JString registrationProofDomain)]))"
    unfolding sample_binding_def by (rule rawurl.lax.enc_inj)
  ultimately show ?thesis by (simp add: sample_sign_def sample_public_priv)
qed

theorem wire_roundtrip_witness:
  "\<exists>raw body. DecodeRegisterNodeRequest sample_sha256 sample_verify (Some (raw, None)) = Inr (with_proof sample_unsigned) \<and>
     DecodePublicError (Some (body, None)) = Inr sample_error"
proof -
  let ?r = "with_proof sample_unsigned"
  have t: "json_times (json_RegisterNodeRequest ?r) = []" "json_times (json_PublicError sample_error) = []" 
    by (simp_all add: json_RegisterNodeRequest_def json_PublicError_def field_defs slice_field_facts)
  have r: "MarshalRegisterNodeRequest sample_sha256 sample_verify ?r = Inr (json_text (json_RegisterNodeRequest ?r))"
    using sample_request_accepted [of sample_unsigned] by (simp add: MarshalRegisterNodeRequest_def marshalValidated_def Marshal_no_times t)
  have "PublicError_Validate sample_error = None" by code_simp
  then have e: "MarshalPublicError sample_error = Inr (json_text (json_PublicError sample_error))"
    by (simp add: MarshalPublicError_def marshalValidated_def Marshal_no_times t)
  have "length (json_text (json_PublicError sample_error)) < 500" by code_simp
  moreover have "length (json_text (json_RegisterNodeRequest ?r)) < 1500"
    by (subst with_proof_eq(1), subst sample_signature) code_simp
  ultimately show ?thesis using wire_roundtrip [OF r _ e] by force
qed

end
