(* ===== verification/Api_Calls.thy ===== *)
theory Api_Calls
  imports Failover Sample_Registration "HOL-Library.Multiset"
begin

text \<open>
  What the calls of the control-plane client (\<open>src/clientapi/v1/api.go\<close>) guarantee to their callers:
  failover against its reference, the requests that leave the client, the origins an API value keeps
  over any sequence of calls, the credentials of enrollment, registration, and the map stream.
\<close>

section \<open>Requests that leave the client\<close>

text \<open>
  C8. Failover does what its reference says. A call asks the configured origins in order and passes over
  those that cannot be reached or answer 408, 429 or 5xx; the first other origin decides the call:
  with a 2xx status it becomes the active origin and its answer is read, with any other status the
  call fails at once; when every origin is passed over the call fails. The reference computes the
  tried origins, the result and the API value left behind from the list of origins without a loop.
  It holds for calls without and with a body, which is sent as JSON, and for the map stream.
\<close>

theorem failover_exact:
  "ReadMapStreamEvent rl client a nodeID cursor timeout =
     failover_spec client a ''GET'' (stream_path nodeID cursor timeout) None
       (\<lambda>req. Header_Set ''X-EndlessNet-Map-Capabilities'' (Join MapStreamSupportedCapabilities '','')
                (Header_Set ''X-EndlessNet-Map-Protocol'' (Itoa MapStreamProtocolVersion) req))
       (stream_accept rl) (controlPlaneURLs a) \<and>
   request client a method path None out zero =
     failover_spec client a method path None (\<lambda>req. req)
       (\<lambda>resp. case out of
                 None \<Rightarrow> Inr zero
               | Some dec \<Rightarrow> if resp_StatusCode resp = 204 then Inr zero else decodeStrictAPIResponse dec zero (resp_Body resp))
       (controlPlaneURLs a) \<and>
   request client a method path (Some j) out zero =
     (case Marshal j of
        Inl e \<Rightarrow> (a, [], Inl e)
      | Inr raw \<Rightarrow>
          failover_spec client a method path (Some raw) (Header_Set ''Content-Type'' ''application/json'')
            (\<lambda>resp. case out of
                      None \<Rightarrow> Inr zero
                    | Some dec \<Rightarrow> if resp_StatusCode resp = 204 then Inr zero else decodeStrictAPIResponse dec zero (resp_Body resp))
            (controlPlaneURLs a))"
  by (cases "Marshal j") (simp_all add: ReadMapStreamEvent_def request_def failover_is_spec)

lemma stream_path_rooted: "\<exists>p. stream_path nodeID cursor timeout = CHR ''/'' # p"
  by (simp add: stream_path_def)

text \<open>
  C6. Requests go to protected origins. A call, the map stream included, asks configured origins in their
  order, each at most once, and only origins whose text, without white space at its ends, is a URL
  with a host over HTTPS, or over plain HTTP to localhost or a loopback address, without user
  information. When the configured text has no white space at its ends after normalisation, the
  URL as it is sent parses to such a host as well; the code sends the text untrimmed, so for other
  texts it may not (\<open>untrimmed_origin_sent\<close> below).
\<close>

theorem requests_confined:
  "(case request client a method (CHR ''/'' # path) body out zero of
      (a', sent, r) \<Rightarrow>
        distinct (map hr_URL sent) \<and> prefix (map hr_URL sent) (map (\<lambda>u. u @ CHR ''/'' # path) (controlPlaneURLs a)) \<and>
        list_all (sent_protected a (CHR ''/'' # path)) sent) \<and>
   (case ReadMapStreamEvent rl client a nodeID cursor timeout of
      (a', sent, r) \<Rightarrow>
        distinct (map hr_URL sent) \<and> prefix (map hr_URL sent) (map (\<lambda>u. u @ stream_path nodeID cursor timeout) (controlPlaneURLs a)) \<and>
        list_all (sent_protected a (stream_path nodeID cursor timeout)) sent)"
proof -
  obtain p where p: "stream_path nodeID cursor timeout = CHR ''/'' # p" using stream_path_rooted by blast
  show ?thesis using req.once req.order req.confined [OF _ refl] stream.once stream.order stream.confined [OF _ p] by (auto split: prod.split)
qed

text \<open>A primary that is overloaded and a secondary that answers.\<close>

definition busy_primary :: http_client where
  "busy_primary req =
     Inr \<lparr>resp_StatusCode = (if prefix ''https://a.example'' (hr_URL req) then 503 else 204), resp_Status = [],
          resp_Header = (\<lambda>_. []), resp_Body = ([], None)\<rparr>"

definition two_origins :: API where
  "two_origins = NewAPIWithNodeCredentialURLs ['' https://a.example/'', ''https://b.example'', ''https://a.example''] ''tok'' '' cred ''"

section \<open>Credentials of enrollment\<close>

lemma request_credentials:
  assumes "req \<in> set (fst (snd (request client a method path body out zero)))"
  shows "sent_with a path req"
proof -
  obtain a' sent r where s: "request client a method path body out zero = (a', sent, r)"
    by (cases "request client a method path body out zero")
  then show ?thesis using req.sent [OF s] assms by (simp add: list_all_iff)
qed

lemma on_copy_parts [simp]: "fst (on_copy a x) = a" "fst (snd (on_copy a x)) = fst (snd x)"
  by (simp_all add: on_copy_def split: prod.splits)

lemma request_headers:
  assumes "req \<in> set (fst (snd (request client a method path None out zero)))"
  shows "hr_Method req = method" "hr_Body req = None"
    "hr_Header req = (if TrimSpace (api_Token a) = [] then [] else [(''Authorization'', ''Bearer '' @ api_Token a)]) @
       (if TrimSpace (api_NodeCredential a) = [] then [] else [(''X-EndlessNet-Node-Credential'', TrimSpace (api_NodeCredential a))])"
proof -
  obtain a' sent r where s: "request client a method path None out zero = (a', sent, r)"
    by (cases "request client a method path None out zero")
  then obtain accept where f: "failover client a method path None (\<lambda>req. req) accept [] (controlPlaneURLs a) = (a', sent, r)"
    by (auto simp: request_def)
  obtain u where n: "newRequest a method u path None = Inr req"
    using failover_sent [OF f, of req] assms s by auto
  then show "hr_Method req = method" "hr_Body req = None" using newRequest_Inr(3,4) by auto
  show "hr_Header req = (if TrimSpace (api_Token a) = [] then [] else [(''Authorization'', ''Bearer '' @ api_Token a)]) @
       (if TrimSpace (api_NodeCredential a) = [] then [] else [(''X-EndlessNet-Node-Credential'', TrimSpace (api_NodeCredential a))])"
    using n by (auto simp: newRequest_def http_NewRequest_def Let_def Header_Set_def split: option.splits)
qed

text \<open>
  C9. Enrollment keeps credentials apart. The requests that poll or complete an enrollment request go to
  the path of that request below a configured origin, without a body, and carry one header at most:
  the trimmed poll token as bearer token, if it is not blank. Neither the bearer token nor the node
  credential of the API value is sent.
\<close>

theorem enrollment_isolated:
  "list_all (\<lambda>req. hr_Method req = ''GET'' \<and> hr_Body req = None \<and>
       (\<exists>base \<in> set (controlPlaneURLs a). hr_URL req = base @ ''/nodes/enrollment-requests/'' @ PathEscape (TrimSpace reqid)) \<and>
       hr_Header req = (if TrimSpace pollToken = [] then [] else [(''Authorization'', ''Bearer '' @ TrimSpace pollToken)]))
     (fst (snd (NodeEnrollmentRequestStatus client a reqid pollToken))) \<and>
   list_all (\<lambda>req. hr_Method req = ''POST'' \<and> hr_Body req = None \<and>
       (\<exists>base \<in> set (controlPlaneURLs a). hr_URL req = base @ ''/nodes/enrollment-requests/'' @ PathEscape (TrimSpace reqid) @ ''/complete'') \<and>
       hr_Header req = (if TrimSpace pollToken = [] then [] else [(''Authorization'', ''Bearer '' @ TrimSpace pollToken)]))
     (fst (snd (CompleteNodeEnrollmentRequest rl client a reqid pollToken)))"
proof -
  have h: "hr_Method req = verb \<and> hr_Body req = None \<and> (\<exists>base \<in> set (controlPlaneURLs a). hr_URL req = base @ path) \<and>
      hr_Header req = (if TrimSpace pollToken = [] then [] else [(''Authorization'', ''Bearer '' @ TrimSpace pollToken)])"
    if "req \<in> set (fst (snd (request client (withBearer a pollToken) verb path None out zero)))" for req verb path and out :: "'z decoder option" and zero
  proof -
    have "controlPlaneURLs (withBearer a pollToken) = controlPlaneURLs a" by (simp add: controlPlaneURLs_def withBearer_def)
    then have "\<exists>base \<in> set (controlPlaneURLs a). hr_URL req = base @ path" using request_credentials [OF that] by (auto simp: sent_with_def)
    then show ?thesis using request_headers [OF that] by (auto simp: withBearer_def)
  qed
  show ?thesis
    unfolding NodeEnrollmentRequestStatus_def CompleteNodeEnrollmentRequest_def on_copy_parts list_all_iff
    by (intro conjI ballI; drule h; simp)
qed

text \<open>
  The calls run on a copy of the API value, so they leave the value itself as it was: a success does not
  move the active origin, unlike that of every other call.
\<close>

lemma enrollment_keeps_api:
  "fst (NodeEnrollmentRequestStatus client a reqid pollToken) = a \<and> fst (CompleteNodeEnrollmentRequest rl client a reqid pollToken) = a"
  by (simp add: NodeEnrollmentRequestStatus_def CompleteNodeEnrollmentRequest_def)

section \<open>Registration\<close>

lemma request_bodies:
  assumes "req \<in> set (fst (snd (request client a method path (Some j) out zero)))"
  shows "\<exists>raw. Marshal j = Inr raw \<and> hr_Body req = Some raw \<and> hr_Method req = method"
proof (cases "Marshal j")
  case (Inr raw)
  obtain a' sent r where s: "request client a method path (Some j) out zero = (a', sent, r)"
    by (cases "request client a method path (Some j) out zero")
  then obtain accept where f: "failover client a method path (Some raw) (Header_Set ''Content-Type'' ''application/json'') accept []
      (controlPlaneURLs a) = (a', sent, r)"
    using Inr by (auto simp: request_def)
  obtain u req0 where "newRequest a method u path (Some raw) = Inr req0" "req = Header_Set ''Content-Type'' ''application/json'' req0"
    using failover_sent [OF f, of req] assms s by auto
  then show ?thesis using Inr newRequest_Inr(3,4) by auto
qed (use assms in \<open>simp add: request_def\<close>)

lemma register_body:
  assumes "RegisterNodeRequest_Validate sha256 verify r = None" "Marshal (json_RegisterNodeRequest r) = Inr raw"
  shows "decode_only (dec_struct RegisterNodeRequest_fields) zero_RegisterNodeRequest raw = Some r"
proof -
  have "marshalValidated (json_RegisterNodeRequest r) (RegisterNodeRequest_Validate sha256 verify r) = Inr raw"
    using assms by (simp add: marshalValidated_def)
  from register_request.roundtrip [OF this order.refl] show ?thesis by (simp add: decode_validated_Inr)
qed

text \<open>
  C10. The registration call checks both sides. Only a request that passes its own validation is sent, to
  \<open>/nodes/register\<close> with a body that decodes to exactly that request; and a result is returned only
  when it passes the validation for that request.
\<close>

theorem register_node_checked:
  "case RegisterNode sha256 verify rl relay_ok client a r of
     (a', sent, result) \<Rightarrow>
       list_all (\<lambda>m. RegisterNodeRequest_Validate sha256 verify r = None \<and> hr_Method m = ''POST'' \<and>
         (\<exists>base \<in> set (controlPlaneURLs a). hr_URL m = base @ ''/nodes/register'') \<and>
         (\<exists>raw. hr_Body m = Some raw \<and> decode_only (dec_struct RegisterNodeRequest_fields) zero_RegisterNodeRequest raw = Some r)) sent \<and>
       (case result of
          Inl _ \<Rightarrow> True
        | Inr out \<Rightarrow> RegisterNodeRequest_Validate sha256 verify r = None \<and> ValidateForRequest sha256 verify relay_ok out r = None)"
proof (cases "RegisterNodeRequest_Validate sha256 verify r")
  case None
  let ?q = "request client a ''POST'' ''/nodes/register'' (Some (json_RegisterNodeRequest r))
      (Some (dec_struct (RegisterNodeResponse_fields rl))) zero_RegisterNodeResponse"
  obtain a' sent x where q: "?q = (a', sent, x)" by (cases ?q)
  have "hr_Method m = ''POST'' \<and> (\<exists>base \<in> set (controlPlaneURLs a). hr_URL m = base @ ''/nodes/register'') \<and>
      (\<exists>raw. hr_Body m = Some raw \<and> decode_only (dec_struct RegisterNodeRequest_fields) zero_RegisterNodeRequest raw = Some r)"
    if m: "m \<in> set sent" for m
  proof -
    have m': "m \<in> set (fst (snd ?q))" using m q by simp
    obtain raw where raw: "Marshal (json_RegisterNodeRequest r) = Inr raw" "hr_Body m = Some raw" "hr_Method m = ''POST''"
      using request_bodies [OF m'] by blast
    have "\<exists>base \<in> set (controlPlaneURLs a). hr_URL m = base @ ''/nodes/register''"
      using request_credentials [OF m'] by (auto simp: sent_with_def)
    then show ?thesis using raw register_body [OF None raw(1)] by blast
  qed
  then have "list_all (\<lambda>m. hr_Method m = ''POST'' \<and> (\<exists>base \<in> set (controlPlaneURLs a). hr_URL m = base @ ''/nodes/register'') \<and>
      (\<exists>raw. hr_Body m = Some raw \<and> decode_only (dec_struct RegisterNodeRequest_fields) zero_RegisterNodeRequest raw = Some r)) sent"
    unfolding list_all_iff by blast
  then show ?thesis using None q by (cases x) (auto simp: RegisterNode_def require_def split: option.splits)
qed (simp add: RegisterNode_def)

section \<open>The map stream\<close>

text \<open>One line of the stream: its line feed is its last byte, and it is within the limit.\<close>

definition framed :: "string \<Rightarrow> bool" where
  "framed line \<longleftrightarrow> line \<noteq> [] \<and> last line = newline \<and> newline \<notin> set (butlast line) \<and> len line \<le> MaxControlMapStreamEventBytes"

lemma next_line_framed:
  assumes "framed line"
  shows "next_line (line @ rest) = line" "newline \<in> set (line @ rest)"
proof -
  obtain t where t: "line = t @ [newline]" "newline \<notin> set t" using assms by (metis framed_def append_butlast_last_id)
  then have "takeWhile (\<lambda>c. c \<noteq> newline) t = t" by (auto simp: takeWhile_eq_all_conv)
  then show "next_line (line @ rest) = line" "newline \<in> set (line @ rest)" using t by (auto simp: next_line_def takeWhile_tail)
qed

lemma read_framed:
  assumes "framed line"
  shows "readBoundedLine (line @ rest, e) MaxControlMapStreamEventBytes label = (line, None, (rest, e))"
  using read_line_loop_spec [of "(line @ rest, e)" MaxControlMapStreamEventBytes "boundedLineLabel label" "[]"] next_line_framed [OF assms, of rest] assms
  by (auto simp: line_spec_def readBoundedLine_def Let_def framed_def len_def MaxControlMapStreamEventBytes_def)

lemma framed_read:
  assumes "readBoundedLine rd MaxControlMapStreamEventBytes label = (line, None, rd')"
  shows "framed line" "fst rd = line @ fst rd'"
proof -
  note l = readBoundedLine_line [OF assms]
  have t: "line = takeWhile (\<lambda>c. c \<noteq> newline) (fst rd) @ [newline]" using l(4,5) by (simp add: next_line_def)
  have "newline \<notin> set (takeWhile (\<lambda>c. c \<noteq> newline) (fst rd))" by (auto dest: set_takeWhileD)
  then show "framed line" using l(6) t by (simp add: framed_def)
  show "fst rd = line @ fst rd'" by (rule l(1))
qed

definition heartbeat :: "relay_wire \<Rightarrow> string \<Rightarrow> bool" where
  "heartbeat rl line \<longleftrightarrow> framed line \<and> (case check_event rl line of Inl _ \<Rightarrow> False | Inr event \<Rightarrow> ev_Type event = ''heartbeat'')"

lemma checked_type:
  assumes "check_event rl line = Inr event"
  shows "ev_Type event \<in> {''heartbeat'', ''snapshot'', ''delta'', ''checkpoint'', ''resync''}"
proof -
  have "validateMapStreamEvent event = None" using assms by (cases "decodeStrictMapStreamEvent rl line") (simp_all add: check_event_def)
  then show ?thesis by (auto simp: validateMapStreamEvent_def split: if_splits)
qed

lemma read_events_line:
  assumes "framed line" "check_event rl line = Inr event"
  shows "read_events rl (line @ rest, e) = (if ev_Type event = ''heartbeat'' then read_events rl (rest, e) else Inr event)"
  using checked_type [OF assms(2)] by (subst read_events.simps) (auto simp: read_framed [OF assms(1)] assms(2))

lemma read_events_skip:
  "list_all (heartbeat rl) hbs \<Longrightarrow> read_events rl (concat hbs @ rest, e) = read_events rl (rest, e)"
  by (induction hbs) (auto simp: heartbeat_def read_events_line split: sum.splits)

lemma read_events_finds:
  assumes "read_events rl rd = Inr event"
  shows "\<exists>hbs line rest. fst rd = concat hbs @ line @ rest \<and> list_all (heartbeat rl) hbs \<and> framed line \<and>
    check_event rl line = Inr event \<and> ev_Type event \<noteq> ''heartbeat''"
  using assms
proof (induction rl rd rule: read_events.induct)
  case (1 rl rd)
  obtain line e rd' where r: "readBoundedLine rd MaxControlMapStreamEventBytes ''control map stream event'' = (line, e, rd')"
    by (metis prod_cases3)
  have "e = None" using "1.prems" r by (cases e) (auto simp: read_events.simps [of rl rd] split: if_splits)
  note r = r [unfolded this]
  obtain ev where ev: "check_event rl line = Inr ev"
    using "1.prems" r by (cases "check_event rl line") (auto simp: read_events.simps [of rl rd])
  show ?case
  proof (cases "ev_Type ev = ''heartbeat''")
    case True
    then have "read_events rl rd' = Inr event" using "1.prems" r ev by (simp add: read_events.simps [of rl rd])
    then obtain hbs l rest where h: "fst rd' = concat hbs @ l @ rest" "list_all (heartbeat rl) hbs" "framed l"
      "check_event rl l = Inr event" "ev_Type event \<noteq> ''heartbeat''"
      using "1.IH" [OF r [symmetric] refl refl ev True] by blast
    have "heartbeat rl line" using framed_read(1) [OF r] ev True by (simp add: heartbeat_def)
    then show ?thesis using h framed_read(2) [OF r] by (intro exI [of _ "line # hbs"] exI [of _ l] exI [of _ rest]) simp
  next
    case False
    then have "ev = event" using "1.prems" r ev by (simp add: read_events.simps [of rl rd] split: if_splits)
    then show ?thesis using False ev framed_read [OF r] by (intro exI [of _ "[]"] exI [of _ line] exI [of _ "fst rd'"]) simp
  qed
qed

text \<open>
  C11. The stream yields its first event. The reader returns an event exactly when the body is a number of
  heartbeat lines followed by the line of that event, each line within 16 MiB and ended by its line
  feed, and each passing the checks on protocol, capabilities and shape; a body of heartbeats alone
  ends in \<open>ErrMapStreamNoEvent\<close>.
\<close>

theorem stream_event_exact:
  "(read_events rl rd = Inr event \<longleftrightarrow>
      (\<exists>hbs line rest. fst rd = concat hbs @ line @ rest \<and> list_all (heartbeat rl) hbs \<and> framed line \<and>
         check_event rl line = Inr event \<and> ev_Type event \<noteq> ''heartbeat'')) \<and>
   list_all (\<lambda>hbs. read_events rl (concat hbs, None) = Inl ErrMapStreamNoEvent) (filter (list_all (heartbeat rl)) bodies)"
proof
  show "read_events rl rd = Inr event \<longleftrightarrow>
      (\<exists>hbs line rest. fst rd = concat hbs @ line @ rest \<and> list_all (heartbeat rl) hbs \<and> framed line \<and>
         check_event rl line = Inr event \<and> ev_Type event \<noteq> ''heartbeat'')" (is "?l \<longleftrightarrow> ?r")
  proof
    assume ?r
    then obtain hbs line rest where h: "fst rd = concat hbs @ line @ rest" "list_all (heartbeat rl) hbs" "framed line"
      "check_event rl line = Inr event" "ev_Type event \<noteq> ''heartbeat''" by blast
    have "read_events rl (concat hbs @ line @ rest, snd rd) = Inr event"
      using read_events_skip [OF h(2)] read_events_line [OF h(3,4)] h(5) by simp
    then show ?l using h(1) by (metis prod.collapse)
  qed (rule read_events_finds)
  have "readBoundedLine ([], None) MaxControlMapStreamEventBytes ''control map stream event'' = ([], Some EOF, ([], None))" by code_simp
  then have "read_events rl ([], None) = Inl ErrMapStreamNoEvent" by (simp add: read_events.simps [of rl "([], None)"] isEOFWithNoData_def)
  then show "list_all (\<lambda>hbs. read_events rl (concat hbs, None) = Inl ErrMapStreamNoEvent) (filter (list_all (heartbeat rl)) bodies)"
    using read_events_skip [of rl _ "[]" None] by (simp add: list_all_iff)
qed

section \<open>The API value over a sequence of calls\<close>

text \<open>
  One step is any call of the client, with any network behaviour, any arguments and any result; the
  API value is changed by nothing else.
\<close>

inductive api_step :: "API \<Rightarrow> API \<Rightarrow> bool" where
  server_key: "fst (ServerKey client a) = a' \<Longrightarrow> api_step a a'"
| create_network: "fst (CreateNetwork random client a new_network) = a' \<Longrightarrow> api_step a a'"
| list_networks: "fst (ListNetworksForAccount client a account) = a' \<Longrightarrow> api_step a a'"
| list_nodes: "fst (ListNodes client a network) = a' \<Longrightarrow> api_step a a'"
| create_join_token: "fst (CreateJoinToken random client a new_token) = a' \<Longrightarrow> api_step a a'"
| register_node: "fst (RegisterNode sha256 verify rl relay_ok client a registration) = a' \<Longrightarrow> api_step a a'"
| create_enrollment: "fst (CreateNodeEnrollmentRequest client a registration) = a' \<Longrightarrow> api_step a a'"
| enrollment_status: "fst (NodeEnrollmentRequestStatus client a reqid poll) = a' \<Longrightarrow> api_step a a'"
| complete_enrollment: "fst (CompleteNodeEnrollmentRequest rl client a reqid poll) = a' \<Longrightarrow> api_step a a'"
| update_endpoint: "fst (UpdateNodeEndpointState rl client a node update) = a' \<Longrightarrow> api_step a a'"
| read_map_stream: "fst (ReadMapStreamEvent rl client a node cursor timeout) = a' \<Longrightarrow> api_step a a'"
| logout: "fst (Logout client a) = a' \<Longrightarrow> api_step a a'"

inductive api_reachable :: "string list \<Rightarrow> string \<Rightarrow> string \<Rightarrow> API \<Rightarrow> bool" for urls token credential where
  new: "api_reachable urls token credential (NewAPIWithNodeCredentialURLs urls token credential)"
| call: "api_reachable urls token credential a \<Longrightarrow> api_step a a' \<Longrightarrow> api_reachable urls token credential a'"

text \<open>A call moves one configured origin to the front, or changes nothing.\<close>

definition moves :: "API \<Rightarrow> API \<Rightarrow> bool" where
  "moves a a' \<longleftrightarrow> a' = a \<or> (\<exists>u \<in> set (controlPlaneURLs a). a' = setActiveBaseURL a u)"

lemma moves_refl [simp]: "moves a a"
  by (simp add: moves_def)

lemma request_moves [simp]: "moves a (fst (request client a verb path body out zero))"
  using req.active [of client a verb path body out zero] by (cases "request client a verb path body out zero") (auto simp: moves_def)

lemma stream_moves [simp]: "moves a (fst (ReadMapStreamEvent rl client a node cursor timeout))"
  using stream.active [of rl client a node cursor timeout] by (cases "ReadMapStreamEvent rl client a node cursor timeout") (auto simp: moves_def)

lemma register_moves [simp]: "moves a (fst (RegisterNode sha256 verify rl relay_ok client a r))"
proof -
  let ?q = "request client a ''POST'' ''/nodes/register'' (Some (json_RegisterNodeRequest r))
      (Some (dec_struct (RegisterNodeResponse_fields rl))) zero_RegisterNodeResponse"
  have "fst (RegisterNode sha256 verify rl relay_ok client a r) \<in> {a, fst ?q}"
    by (auto simp: RegisterNode_def split: option.splits prod.splits sum.splits)
  then show ?thesis by auto
qed

lemma api_step_moves: "api_step a a' \<Longrightarrow> moves a a'"
  by (induction rule: api_step.induct)
    (auto simp: ServerKey_def CreateNetwork_def ListNetworksForAccount_def ListNodes_def CreateJoinToken_def CreateNodeEnrollmentRequest_def
      NodeEnrollmentRequestStatus_def CompleteNodeEnrollmentRequest_def UpdateNodeEndpointState_def Logout_def split: sum.splits)

text \<open>The shape of an API value built from origins on which normalisation is stable.\<close>

definition api_wf :: "API \<Rightarrow> bool" where
  "api_wf a \<longleftrightarrow> distinct (api_BaseURLs a) \<and> list_all (\<lambda>u. u \<noteq> [] \<and> origin u = u) (api_BaseURLs a) \<and>
     api_BaseURL a = (case api_BaseURLs a of u # _ \<Rightarrow> u | [] \<Rightarrow> [])"

lemma normalize_stable:
  "list_all (\<lambda>u. u \<noteq> [] \<and> origin u = u) us \<Longrightarrow> NormalizeControlPlaneURLs us = firsts us"
  by (simp add: NormalizeControlPlaneURLs_eq list_all_iff map_idI filter_True)

lemma wf_urls:
  assumes "api_wf a"
  shows "controlPlaneURLs a = api_BaseURLs a"
proof (cases "api_BaseURLs a")
  case Nil
  then have "api_BaseURL a = []" using assms by (simp add: api_wf_def)
  moreover have "origin [] = []" by code_simp
  ultimately show ?thesis using Nil by (simp add: controlPlaneURLs_def NormalizeControlPlaneURLs_eq)
next
  case (Cons u us)
  then have "NormalizeControlPlaneURLs (u # u # us) = firsts (u # u # us)"
    using assms by (intro normalize_stable) (simp add: api_wf_def)
  then show ?thesis using assms Cons
    by (simp add: api_wf_def controlPlaneURLs_def firsts_id) (auto intro!: filter_True)
qed

lemma wf_move:
  assumes "api_wf a" "u \<in> set (api_BaseURLs a)"
  shows "setActiveBaseURL a u = a\<lparr>api_BaseURL := u, api_BaseURLs := u # filter (\<lambda>v. v \<noteq> u) (api_BaseURLs a)\<rparr>"
proof -
  have s: "u \<noteq> []" "origin u = u" using assms by (auto simp: api_wf_def list_all_iff)
  have "NormalizeControlPlaneURLs (u # api_BaseURLs a) = firsts (u # api_BaseURLs a)"
    using assms by (intro normalize_stable) (auto simp: api_wf_def list_all_iff)
  then show ?thesis using s assms(1) unfolding setActiveBaseURL_def Let_def origin_def [symmetric]
    by (simp add: api_wf_def firsts_id)
qed

lemma wf_moves:
  assumes "api_wf a" "moves a a'"
  shows "api_wf a' \<and> mset (api_BaseURLs a') = mset (api_BaseURLs a) \<and> api_Token a' = api_Token a \<and> api_NodeCredential a' = api_NodeCredential a"
proof -
  have "mset (u # filter (\<lambda>v. v \<noteq> u) xs) = mset xs" if "distinct xs" "u \<in> set xs" for u :: string and xs
    using that by (intro iffD1 [OF set_eq_iff_mset_eq_distinct]) auto
  then show ?thesis
    using assms wf_move [OF assms(1)] by (auto simp: moves_def wf_urls api_wf_def list_all_iff)
qed

lemma wf_new:
  assumes "list_all (\<lambda>u. origin (origin u) = origin u) urls"
  shows "api_wf (NewAPIWithNodeCredentialURLs urls token credential)"
  using assms by (auto simp: api_wf_def NewAPIWithNodeCredentialURLs_def NewAPIWithBaseURLs_def Let_def NormalizeControlPlaneURLs_eq list_all_iff)

text \<open>
  C7. Calls only reorder the origins. Whatever calls are made and however the network behaves, the API value
  keeps exactly the configured origins, each once, with the active origin at the front and the next
  call trying them in that order; token and node credential never change. The configured origins
  are ones that normalising twice does not change further.
\<close>

theorem origins_preserved:
  assumes "api_reachable urls token credential a" and "list_all (\<lambda>u. origin (origin u) = origin u) urls"
  shows "mset (api_BaseURLs a) = mset (NormalizeControlPlaneURLs urls) \<and> distinct (api_BaseURLs a) \<and>
    controlPlaneURLs a = api_BaseURLs a \<and> api_BaseURL a = (case api_BaseURLs a of u # _ \<Rightarrow> u | [] \<Rightarrow> []) \<and>
    api_Token a = token \<and> api_NodeCredential a = TrimSpace credential"
proof -
  have "api_wf a \<and> mset (api_BaseURLs a) = mset (NormalizeControlPlaneURLs urls) \<and> api_Token a = token \<and> api_NodeCredential a = TrimSpace credential"
    using assms(1)
  proof induction
    case new
    show ?case using wf_new [OF assms(2)] by (simp add: NewAPIWithNodeCredentialURLs_def NewAPIWithBaseURLs_def Let_def)
  next
    case (call a a')
    then show ?case using wf_moves [of a a'] api_step_moves [OF call.hyps(2)] by simp
  qed
  then show ?thesis by (simp add: wf_urls) (simp add: api_wf_def)
qed

theorem origins_preserved_witness:
  "\<exists>a :: API. api_BaseURLs a = [''https://b.example'', ''https://a.example''] \<and> api_BaseURL a = ''https://b.example'' \<and>
     mset (api_BaseURLs a) = mset (NormalizeControlPlaneURLs ['' https://a.example/'', ''https://b.example'', ''https://a.example'']) \<and>
     api_NodeCredential a = ''cred''"
proof -
  let ?urls = "['' https://a.example/'', ''https://b.example'', ''https://a.example'']" and ?a = "fst (Logout busy_primary two_origins)"
  have r: "api_reachable ?urls ''tok'' '' cred '' ?a"
    unfolding two_origins_def by (rule api_reachable.call [OF api_reachable.new], rule api_step.logout, rule refl)
  have "origin '' https://a.example/'' = ''https://a.example''" "origin ''https://a.example'' = ''https://a.example''"
    "origin ''https://b.example'' = ''https://b.example''" by code_simp+
  then have o: "list_all (\<lambda>u. origin (origin u) = origin u) ?urls" by simp
  have b: "api_BaseURLs ?a = [''https://b.example'', ''https://a.example'']" by code_simp
  have c: "api_BaseURL ?a = ''https://b.example''" by code_simp
  have d: "TrimSpace '' cred '' = ''cred''" by code_simp
  note w = origins_preserved [OF r o]
  show ?thesis using b c d w by metis
qed

section \<open>Origins with white space before trailing slashes\<close>

text \<open>
  Normalisation trims white space before it drops trailing slashes, and the origin check trims again,
  while the request is built from the untrimmed text. The origin below passes the check as
  \<open>localhost\<close> over plain HTTP, and its request parses to a host with a no-break space at its end.
\<close>

definition nbsp :: string where "nbsp = [CHR 0xC2, CHR 0xA0]"

lemma untrimmed_origin_sent:
  "NormalizeControlPlaneURLs [''http://localhost'' @ nbsp @ ''/''] = [''http://localhost'' @ nbsp] \<and>
   NormalizeControlPlaneURLs [''http://localhost'' @ nbsp] = [''http://localhost''] \<and>
   validateControlPlaneBaseURL (''http://localhost'' @ nbsp) = None \<and>
   map_option url_Host (url_Parse (''http://localhost'' @ nbsp @ ''/auth/logout'')) = Some (''localhost'' @ nbsp)"
  by code_simp

end
