(* ===== verification/Release_Types.thy ===== *)
theory Release_Types
  imports Json_Parse
begin

text \<open>
  The records of the release contract (\<open>src/systemtests/releasecontract/types.go\<close>): the structs,
  their zero values, the table of fields from which \<open>encoding/json\<close> decodes a record that the
  command line tool reads, and the encoders of the records it writes. Slices keep nil apart from
  empty, because \<open>reflect.DeepEqual\<close> does.
\<close>

section \<open>Structs\<close>

record DigestReference =
  dr_URI :: string
  dr_Digest :: string

record Component =
  com_Name :: string
  com_Repository :: string
  com_GitCommit :: string
  com_Image :: "string option"

record Module =
  modl_Path :: string
  modl_Version :: string
  modl_Sum :: string

record Contract =
  con_Name :: string
  con_Version :: int
  con_ArchitectureRepository :: string
  con_ArchitectureCommit :: string

record ResolvedSet =
  rs_Components :: "Component slice"
  rs_Modules :: "Module slice"
  rs_Contracts :: "Contract slice"

record Candidate =
  cand_Schema :: string
  cand_SchemaVersion :: int
  cand_Release :: string
  cand_Status :: string
  cand_Components :: "Component slice"
  cand_Modules :: "Module slice"
  cand_Contracts :: "Contract slice"

record BuildProvenance =
  bp_Repository :: string
  bp_SourceCommit :: string
  bp_Run :: string
  bp_AttestationDigest :: string

record ComponentProvenance =
  cp_Name :: string
  cp_Repository :: string
  cp_GitCommit :: string
  cp_Artifact :: DigestReference
  cp_Build :: BuildProvenance

record ModuleSource =
  ms_Repository :: string
  ms_GitCommit :: string
  ms_Run :: string

record ModuleProvenance =
  mp_Path :: string
  mp_Version :: string
  mp_Sum :: string
  mp_Source :: ModuleSource

record CandidateProvenance =
  cprov_Schema :: string
  cprov_SchemaVersion :: int
  cprov_Release :: string
  cprov_CandidateDigest :: string
  cprov_Components :: "ComponentProvenance slice"
  cprov_Modules :: "ModuleProvenance slice"

record TestSuiteProvenance =
  ts_Repository :: string
  ts_GitCommit :: string
  ts_Run :: string

record SystemTestEvidence =
  ste_Schema :: string
  ste_SchemaVersion :: int
  ste_CandidateDigest :: string
  ste_Result :: string
  ste_Suite :: TestSuiteProvenance

record PromotionProvenance =
  pp_Repository :: string
  pp_Run :: string
  pp_ApprovedBy :: string

record PromotionRequest =
  preq_Schema :: string
  preq_SchemaVersion :: int
  preq_Candidate :: DigestReference
  preq_CandidateProvenance :: DigestReference
  preq_SystemTestEvidence :: DigestReference
  preq_Promotion :: PromotionProvenance

record SystemTestProvenance =
  stp_Evidence :: DigestReference
  stp_Repository :: string
  stp_GitCommit :: string
  stp_Run :: string

record ReleaseProvenance =
  rp_CandidateProvenance :: DigestReference
  rp_SystemTests :: SystemTestProvenance
  rp_Promotion :: PromotionProvenance

record ReleasedEnvelope =
  renv_Schema :: string
  renv_SchemaVersion :: int
  renv_Release :: string
  renv_Status :: string
  renv_Candidate :: DigestReference
  renv_Resolved :: ResolvedSet
  renv_Provenance :: ReleaseProvenance

record ResolutionSource =
  rsrc_Kind :: string
  rsrc_Record :: DigestReference

record ResolutionProvenance =
  rprov_CandidateProvenance :: DigestReference
  rprov_SystemTests :: "SystemTestProvenance option"
  rprov_Promotion :: "PromotionProvenance option"

record Resolution =
  reso_Schema :: string
  reso_SchemaVersion :: int
  reso_EnvironmentClass :: string
  reso_Source :: ResolutionSource
  reso_Release :: string
  reso_CandidateDigest :: string
  reso_Resolved :: ResolvedSet
  reso_Provenance :: ResolutionProvenance

record CompatibilityGate =
  cg_Provider :: string
  cg_Consumer :: string
  cg_Contract :: string
  cg_Version :: int

record ComponentCandidateProvenance =
  ccp_ProducerRelease :: DigestReference
  ccp_Build :: BuildProvenance
  ccp_AttestationDigest :: string

record ComponentCandidate =
  cc_Schema :: string
  cc_SchemaVersion :: int
  cc_Kind :: string
  cc_Component :: string
  cc_Repository :: string
  cc_GitCommit :: string
  cc_Artifact :: string
  cc_Modules :: "Module slice"
  cc_Contracts :: "Contract slice"
  cc_CompatibilityGates :: "CompatibilityGate slice"
  cc_Provenance :: ComponentCandidateProvenance

record CompatibilityEvidence =
  cev_Provider :: string
  cev_Consumer :: string
  cev_Contract :: string
  cev_Version :: int
  cev_Evidence :: DigestReference

record ReleasedComponent =
  rc_Schema :: string
  rc_SchemaVersion :: int
  rc_Kind :: string
  rc_Component :: string
  rc_Repository :: string
  rc_GitCommit :: string
  rc_Artifact :: string
  rc_Candidate :: DigestReference
  rc_CandidateProvenance :: DigestReference
  rc_CompatibilityEvidence :: "CompatibilityEvidence slice"
  rc_Promotion :: PromotionProvenance

record InfrastructureSignal =
  isig_Schema :: string
  isig_SchemaVersion :: int
  isig_Kind :: string
  isig_Environment :: string
  isig_Component :: string
  isig_ReleasedRecord :: DigestReference
  isig_ManifestCommit :: string
  isig_EventID :: string
  isig_ConfigGeneration :: string

definition Resolved :: "Candidate \<Rightarrow> ResolvedSet" where
  "Resolved candidate = \<lparr>rs_Components = cand_Components candidate, rs_Modules = cand_Modules candidate,
     rs_Contracts = cand_Contracts candidate\<rparr>"

section \<open>Zero values\<close>

definition zero_DigestReference :: DigestReference where
  "zero_DigestReference = \<lparr>
     dr_URI = [], dr_Digest = []\<rparr>"

definition zero_Component :: Component where
  "zero_Component = \<lparr>
     com_Name = [], com_Repository = [], com_GitCommit = [], com_Image = None\<rparr>"

definition zero_Module :: Module where
  "zero_Module = \<lparr>
     modl_Path = [], modl_Version = [], modl_Sum = []\<rparr>"

definition zero_Contract :: Contract where
  "zero_Contract = \<lparr>
     con_Name = [], con_Version = 0, con_ArchitectureRepository = [], con_ArchitectureCommit = []\<rparr>"

definition zero_ResolvedSet :: ResolvedSet where
  "zero_ResolvedSet = \<lparr>
     rs_Components = None, rs_Modules = None, rs_Contracts = None\<rparr>"

definition zero_Candidate :: Candidate where
  "zero_Candidate = \<lparr>
     cand_Schema = [], cand_SchemaVersion = 0, cand_Release = [], cand_Status = [], cand_Components = None,
     cand_Modules = None, cand_Contracts = None\<rparr>"

definition zero_BuildProvenance :: BuildProvenance where
  "zero_BuildProvenance = \<lparr>
     bp_Repository = [], bp_SourceCommit = [], bp_Run = [], bp_AttestationDigest = []\<rparr>"

definition zero_ComponentProvenance :: ComponentProvenance where
  "zero_ComponentProvenance = \<lparr>
     cp_Name = [], cp_Repository = [], cp_GitCommit = [], cp_Artifact = zero_DigestReference, cp_Build = zero_BuildProvenance\<rparr>"

definition zero_ModuleSource :: ModuleSource where
  "zero_ModuleSource = \<lparr>
     ms_Repository = [], ms_GitCommit = [], ms_Run = []\<rparr>"

definition zero_ModuleProvenance :: ModuleProvenance where
  "zero_ModuleProvenance = \<lparr>
     mp_Path = [], mp_Version = [], mp_Sum = [], mp_Source = zero_ModuleSource\<rparr>"

definition zero_CandidateProvenance :: CandidateProvenance where
  "zero_CandidateProvenance = \<lparr>
     cprov_Schema = [], cprov_SchemaVersion = 0, cprov_Release = [], cprov_CandidateDigest = [], cprov_Components = None,
     cprov_Modules = None\<rparr>"

definition zero_TestSuiteProvenance :: TestSuiteProvenance where
  "zero_TestSuiteProvenance = \<lparr>
     ts_Repository = [], ts_GitCommit = [], ts_Run = []\<rparr>"

definition zero_SystemTestEvidence :: SystemTestEvidence where
  "zero_SystemTestEvidence = \<lparr>
     ste_Schema = [], ste_SchemaVersion = 0, ste_CandidateDigest = [], ste_Result = [], ste_Suite = zero_TestSuiteProvenance\<rparr>"

definition zero_PromotionProvenance :: PromotionProvenance where
  "zero_PromotionProvenance = \<lparr>
     pp_Repository = [], pp_Run = [], pp_ApprovedBy = []\<rparr>"

definition zero_PromotionRequest :: PromotionRequest where
  "zero_PromotionRequest = \<lparr>
     preq_Schema = [], preq_SchemaVersion = 0, preq_Candidate = zero_DigestReference,
     preq_CandidateProvenance = zero_DigestReference, preq_SystemTestEvidence = zero_DigestReference,
     preq_Promotion = zero_PromotionProvenance\<rparr>"

definition zero_SystemTestProvenance :: SystemTestProvenance where
  "zero_SystemTestProvenance = \<lparr>
     stp_Evidence = zero_DigestReference, stp_Repository = [], stp_GitCommit = [], stp_Run = []\<rparr>"

definition zero_ReleaseProvenance :: ReleaseProvenance where
  "zero_ReleaseProvenance = \<lparr>
     rp_CandidateProvenance = zero_DigestReference, rp_SystemTests = zero_SystemTestProvenance,
     rp_Promotion = zero_PromotionProvenance\<rparr>"

definition zero_ReleasedEnvelope :: ReleasedEnvelope where
  "zero_ReleasedEnvelope = \<lparr>
     renv_Schema = [], renv_SchemaVersion = 0, renv_Release = [], renv_Status = [], renv_Candidate = zero_DigestReference,
     renv_Resolved = zero_ResolvedSet, renv_Provenance = zero_ReleaseProvenance\<rparr>"

definition zero_CompatibilityGate :: CompatibilityGate where
  "zero_CompatibilityGate = \<lparr>
     cg_Provider = [], cg_Consumer = [], cg_Contract = [], cg_Version = 0\<rparr>"

definition zero_ComponentCandidateProvenance :: ComponentCandidateProvenance where
  "zero_ComponentCandidateProvenance = \<lparr>
     ccp_ProducerRelease = zero_DigestReference, ccp_Build = zero_BuildProvenance, ccp_AttestationDigest = []\<rparr>"

definition zero_ComponentCandidate :: ComponentCandidate where
  "zero_ComponentCandidate = \<lparr>
     cc_Schema = [], cc_SchemaVersion = 0, cc_Kind = [], cc_Component = [], cc_Repository = [], cc_GitCommit = [],
     cc_Artifact = [], cc_Modules = None, cc_Contracts = None, cc_CompatibilityGates = None,
     cc_Provenance = zero_ComponentCandidateProvenance\<rparr>"

definition zero_CompatibilityEvidence :: CompatibilityEvidence where
  "zero_CompatibilityEvidence = \<lparr>
     cev_Provider = [], cev_Consumer = [], cev_Contract = [], cev_Version = 0, cev_Evidence = zero_DigestReference\<rparr>"

definition zero_ReleasedComponent :: ReleasedComponent where
  "zero_ReleasedComponent = \<lparr>
     rc_Schema = [], rc_SchemaVersion = 0, rc_Kind = [], rc_Component = [], rc_Repository = [], rc_GitCommit = [],
     rc_Artifact = [], rc_Candidate = zero_DigestReference, rc_CandidateProvenance = zero_DigestReference,
     rc_CompatibilityEvidence = None, rc_Promotion = zero_PromotionProvenance\<rparr>"

definition zero_InfrastructureSignal :: InfrastructureSignal where
  "zero_InfrastructureSignal = \<lparr>
     isig_Schema = [], isig_SchemaVersion = 0, isig_Kind = [], isig_Environment = [], isig_Component = [],
     isig_ReleasedRecord = zero_DigestReference, isig_ManifestCommit = [], isig_EventID = [], isig_ConfigGeneration = []\<rparr>"

section \<open>Fields\<close>

definition DigestReference_fields :: "DigestReference fields" where
  "DigestReference_fields =
     [(''uri'', field dec_str dr_URI (\<lambda>x r. r\<lparr>dr_URI := x\<rparr>)),
      (''digest'', field dec_str dr_Digest (\<lambda>x r. r\<lparr>dr_Digest := x\<rparr>))]"

definition Component_fields :: "Component fields" where
  "Component_fields =
     [(''name'', field dec_str com_Name (\<lambda>x r. r\<lparr>com_Name := x\<rparr>)),
      (''repository'', field dec_str com_Repository (\<lambda>x r. r\<lparr>com_Repository := x\<rparr>)),
      (''git_commit'', field dec_str com_GitCommit (\<lambda>x r. r\<lparr>com_GitCommit := x\<rparr>)),
      (''image'', field (dec_ptr dec_str []) com_Image (\<lambda>x r. r\<lparr>com_Image := x\<rparr>))]"

definition Module_fields :: "Module fields" where
  "Module_fields =
     [(''path'', field dec_str modl_Path (\<lambda>x r. r\<lparr>modl_Path := x\<rparr>)),
      (''version'', field dec_str modl_Version (\<lambda>x r. r\<lparr>modl_Version := x\<rparr>)),
      (''sum'', field dec_str modl_Sum (\<lambda>x r. r\<lparr>modl_Sum := x\<rparr>))]"

definition Contract_fields :: "Contract fields" where
  "Contract_fields =
     [(''name'', field dec_str con_Name (\<lambda>x r. r\<lparr>con_Name := x\<rparr>)),
      (''version'', field dec_int con_Version (\<lambda>x r. r\<lparr>con_Version := x\<rparr>)),
      (''architecture_repository'', field dec_str con_ArchitectureRepository (\<lambda>x r. r\<lparr>con_ArchitectureRepository := x\<rparr>)),
      (''architecture_commit'', field dec_str con_ArchitectureCommit (\<lambda>x r. r\<lparr>con_ArchitectureCommit := x\<rparr>))]"

definition ResolvedSet_fields :: "ResolvedSet fields" where
  "ResolvedSet_fields =
     [(''components'', field (dec_slice (dec_struct Component_fields) zero_Component) rs_Components (\<lambda>x r. r\<lparr>rs_Components := x\<rparr>)),
      (''modules'', field (dec_slice (dec_struct Module_fields) zero_Module) rs_Modules (\<lambda>x r. r\<lparr>rs_Modules := x\<rparr>)),
      (''contracts'', field (dec_slice (dec_struct Contract_fields) zero_Contract) rs_Contracts (\<lambda>x r. r\<lparr>rs_Contracts := x\<rparr>))]"

definition Candidate_fields :: "Candidate fields" where
  "Candidate_fields =
     [(''$schema'', field dec_str cand_Schema (\<lambda>x r. r\<lparr>cand_Schema := x\<rparr>)),
      (''schema_version'', field dec_int cand_SchemaVersion (\<lambda>x r. r\<lparr>cand_SchemaVersion := x\<rparr>)),
      (''release'', field dec_str cand_Release (\<lambda>x r. r\<lparr>cand_Release := x\<rparr>)),
      (''status'', field dec_str cand_Status (\<lambda>x r. r\<lparr>cand_Status := x\<rparr>)),
      (''components'', field (dec_slice (dec_struct Component_fields) zero_Component) cand_Components (\<lambda>x r. r\<lparr>cand_Components := x\<rparr>)),
      (''modules'', field (dec_slice (dec_struct Module_fields) zero_Module) cand_Modules (\<lambda>x r. r\<lparr>cand_Modules := x\<rparr>)),
      (''contracts'', field (dec_slice (dec_struct Contract_fields) zero_Contract) cand_Contracts (\<lambda>x r. r\<lparr>cand_Contracts := x\<rparr>))]"

definition BuildProvenance_fields :: "BuildProvenance fields" where
  "BuildProvenance_fields =
     [(''repository'', field dec_str bp_Repository (\<lambda>x r. r\<lparr>bp_Repository := x\<rparr>)),
      (''source_commit'', field dec_str bp_SourceCommit (\<lambda>x r. r\<lparr>bp_SourceCommit := x\<rparr>)),
      (''run'', field dec_str bp_Run (\<lambda>x r. r\<lparr>bp_Run := x\<rparr>)),
      (''attestation_digest'', field dec_str bp_AttestationDigest (\<lambda>x r. r\<lparr>bp_AttestationDigest := x\<rparr>))]"

definition ComponentProvenance_fields :: "ComponentProvenance fields" where
  "ComponentProvenance_fields =
     [(''name'', field dec_str cp_Name (\<lambda>x r. r\<lparr>cp_Name := x\<rparr>)),
      (''repository'', field dec_str cp_Repository (\<lambda>x r. r\<lparr>cp_Repository := x\<rparr>)),
      (''git_commit'', field dec_str cp_GitCommit (\<lambda>x r. r\<lparr>cp_GitCommit := x\<rparr>)),
      (''artifact'', field (dec_struct DigestReference_fields) cp_Artifact (\<lambda>x r. r\<lparr>cp_Artifact := x\<rparr>)),
      (''build'', field (dec_struct BuildProvenance_fields) cp_Build (\<lambda>x r. r\<lparr>cp_Build := x\<rparr>))]"

definition ModuleSource_fields :: "ModuleSource fields" where
  "ModuleSource_fields =
     [(''repository'', field dec_str ms_Repository (\<lambda>x r. r\<lparr>ms_Repository := x\<rparr>)),
      (''git_commit'', field dec_str ms_GitCommit (\<lambda>x r. r\<lparr>ms_GitCommit := x\<rparr>)),
      (''run'', field dec_str ms_Run (\<lambda>x r. r\<lparr>ms_Run := x\<rparr>))]"

definition ModuleProvenance_fields :: "ModuleProvenance fields" where
  "ModuleProvenance_fields =
     [(''path'', field dec_str mp_Path (\<lambda>x r. r\<lparr>mp_Path := x\<rparr>)),
      (''version'', field dec_str mp_Version (\<lambda>x r. r\<lparr>mp_Version := x\<rparr>)),
      (''sum'', field dec_str mp_Sum (\<lambda>x r. r\<lparr>mp_Sum := x\<rparr>)),
      (''source'', field (dec_struct ModuleSource_fields) mp_Source (\<lambda>x r. r\<lparr>mp_Source := x\<rparr>))]"

definition CandidateProvenance_fields :: "CandidateProvenance fields" where
  "CandidateProvenance_fields =
     [(''$schema'', field dec_str cprov_Schema (\<lambda>x r. r\<lparr>cprov_Schema := x\<rparr>)),
      (''schema_version'', field dec_int cprov_SchemaVersion (\<lambda>x r. r\<lparr>cprov_SchemaVersion := x\<rparr>)),
      (''release'', field dec_str cprov_Release (\<lambda>x r. r\<lparr>cprov_Release := x\<rparr>)),
      (''candidate_digest'', field dec_str cprov_CandidateDigest (\<lambda>x r. r\<lparr>cprov_CandidateDigest := x\<rparr>)),
      (''components'', field (dec_slice (dec_struct ComponentProvenance_fields) zero_ComponentProvenance) cprov_Components (\<lambda>x r. r\<lparr>cprov_Components := x\<rparr>)),
      (''modules'', field (dec_slice (dec_struct ModuleProvenance_fields) zero_ModuleProvenance) cprov_Modules (\<lambda>x r. r\<lparr>cprov_Modules := x\<rparr>))]"

definition TestSuiteProvenance_fields :: "TestSuiteProvenance fields" where
  "TestSuiteProvenance_fields =
     [(''repository'', field dec_str ts_Repository (\<lambda>x r. r\<lparr>ts_Repository := x\<rparr>)),
      (''git_commit'', field dec_str ts_GitCommit (\<lambda>x r. r\<lparr>ts_GitCommit := x\<rparr>)),
      (''run'', field dec_str ts_Run (\<lambda>x r. r\<lparr>ts_Run := x\<rparr>))]"

definition SystemTestEvidence_fields :: "SystemTestEvidence fields" where
  "SystemTestEvidence_fields =
     [(''$schema'', field dec_str ste_Schema (\<lambda>x r. r\<lparr>ste_Schema := x\<rparr>)),
      (''schema_version'', field dec_int ste_SchemaVersion (\<lambda>x r. r\<lparr>ste_SchemaVersion := x\<rparr>)),
      (''candidate_digest'', field dec_str ste_CandidateDigest (\<lambda>x r. r\<lparr>ste_CandidateDigest := x\<rparr>)),
      (''result'', field dec_str ste_Result (\<lambda>x r. r\<lparr>ste_Result := x\<rparr>)),
      (''suite'', field (dec_struct TestSuiteProvenance_fields) ste_Suite (\<lambda>x r. r\<lparr>ste_Suite := x\<rparr>))]"

definition PromotionProvenance_fields :: "PromotionProvenance fields" where
  "PromotionProvenance_fields =
     [(''repository'', field dec_str pp_Repository (\<lambda>x r. r\<lparr>pp_Repository := x\<rparr>)),
      (''run'', field dec_str pp_Run (\<lambda>x r. r\<lparr>pp_Run := x\<rparr>)),
      (''approved_by'', field dec_str pp_ApprovedBy (\<lambda>x r. r\<lparr>pp_ApprovedBy := x\<rparr>))]"

definition PromotionRequest_fields :: "PromotionRequest fields" where
  "PromotionRequest_fields =
     [(''$schema'', field dec_str preq_Schema (\<lambda>x r. r\<lparr>preq_Schema := x\<rparr>)),
      (''schema_version'', field dec_int preq_SchemaVersion (\<lambda>x r. r\<lparr>preq_SchemaVersion := x\<rparr>)),
      (''candidate'', field (dec_struct DigestReference_fields) preq_Candidate (\<lambda>x r. r\<lparr>preq_Candidate := x\<rparr>)),
      (''candidate_provenance'', field (dec_struct DigestReference_fields) preq_CandidateProvenance (\<lambda>x r. r\<lparr>preq_CandidateProvenance := x\<rparr>)),
      (''system_test_evidence'', field (dec_struct DigestReference_fields) preq_SystemTestEvidence (\<lambda>x r. r\<lparr>preq_SystemTestEvidence := x\<rparr>)),
      (''promotion'', field (dec_struct PromotionProvenance_fields) preq_Promotion (\<lambda>x r. r\<lparr>preq_Promotion := x\<rparr>))]"

definition SystemTestProvenance_fields :: "SystemTestProvenance fields" where
  "SystemTestProvenance_fields =
     [(''evidence'', field (dec_struct DigestReference_fields) stp_Evidence (\<lambda>x r. r\<lparr>stp_Evidence := x\<rparr>)),
      (''repository'', field dec_str stp_Repository (\<lambda>x r. r\<lparr>stp_Repository := x\<rparr>)),
      (''git_commit'', field dec_str stp_GitCommit (\<lambda>x r. r\<lparr>stp_GitCommit := x\<rparr>)),
      (''run'', field dec_str stp_Run (\<lambda>x r. r\<lparr>stp_Run := x\<rparr>))]"

definition ReleaseProvenance_fields :: "ReleaseProvenance fields" where
  "ReleaseProvenance_fields =
     [(''candidate_provenance'', field (dec_struct DigestReference_fields) rp_CandidateProvenance (\<lambda>x r. r\<lparr>rp_CandidateProvenance := x\<rparr>)),
      (''system_tests'', field (dec_struct SystemTestProvenance_fields) rp_SystemTests (\<lambda>x r. r\<lparr>rp_SystemTests := x\<rparr>)),
      (''promotion'', field (dec_struct PromotionProvenance_fields) rp_Promotion (\<lambda>x r. r\<lparr>rp_Promotion := x\<rparr>))]"

definition ReleasedEnvelope_fields :: "ReleasedEnvelope fields" where
  "ReleasedEnvelope_fields =
     [(''$schema'', field dec_str renv_Schema (\<lambda>x r. r\<lparr>renv_Schema := x\<rparr>)),
      (''schema_version'', field dec_int renv_SchemaVersion (\<lambda>x r. r\<lparr>renv_SchemaVersion := x\<rparr>)),
      (''release'', field dec_str renv_Release (\<lambda>x r. r\<lparr>renv_Release := x\<rparr>)),
      (''status'', field dec_str renv_Status (\<lambda>x r. r\<lparr>renv_Status := x\<rparr>)),
      (''candidate'', field (dec_struct DigestReference_fields) renv_Candidate (\<lambda>x r. r\<lparr>renv_Candidate := x\<rparr>)),
      (''resolved'', field (dec_struct ResolvedSet_fields) renv_Resolved (\<lambda>x r. r\<lparr>renv_Resolved := x\<rparr>)),
      (''provenance'', field (dec_struct ReleaseProvenance_fields) renv_Provenance (\<lambda>x r. r\<lparr>renv_Provenance := x\<rparr>))]"

definition CompatibilityGate_fields :: "CompatibilityGate fields" where
  "CompatibilityGate_fields =
     [(''provider'', field dec_str cg_Provider (\<lambda>x r. r\<lparr>cg_Provider := x\<rparr>)),
      (''consumer'', field dec_str cg_Consumer (\<lambda>x r. r\<lparr>cg_Consumer := x\<rparr>)),
      (''contract'', field dec_str cg_Contract (\<lambda>x r. r\<lparr>cg_Contract := x\<rparr>)),
      (''version'', field dec_int cg_Version (\<lambda>x r. r\<lparr>cg_Version := x\<rparr>))]"

definition ComponentCandidateProvenance_fields :: "ComponentCandidateProvenance fields" where
  "ComponentCandidateProvenance_fields =
     [(''producer_release'', field (dec_struct DigestReference_fields) ccp_ProducerRelease (\<lambda>x r. r\<lparr>ccp_ProducerRelease := x\<rparr>)),
      (''build'', field (dec_struct BuildProvenance_fields) ccp_Build (\<lambda>x r. r\<lparr>ccp_Build := x\<rparr>)),
      (''attestation_digest'', field dec_str ccp_AttestationDigest (\<lambda>x r. r\<lparr>ccp_AttestationDigest := x\<rparr>))]"

definition ComponentCandidate_fields :: "ComponentCandidate fields" where
  "ComponentCandidate_fields =
     [(''$schema'', field dec_str cc_Schema (\<lambda>x r. r\<lparr>cc_Schema := x\<rparr>)),
      (''schema_version'', field dec_int cc_SchemaVersion (\<lambda>x r. r\<lparr>cc_SchemaVersion := x\<rparr>)),
      (''kind'', field dec_str cc_Kind (\<lambda>x r. r\<lparr>cc_Kind := x\<rparr>)),
      (''component'', field dec_str cc_Component (\<lambda>x r. r\<lparr>cc_Component := x\<rparr>)),
      (''repository'', field dec_str cc_Repository (\<lambda>x r. r\<lparr>cc_Repository := x\<rparr>)),
      (''git_commit'', field dec_str cc_GitCommit (\<lambda>x r. r\<lparr>cc_GitCommit := x\<rparr>)),
      (''artifact'', field dec_str cc_Artifact (\<lambda>x r. r\<lparr>cc_Artifact := x\<rparr>)),
      (''modules'', field (dec_slice (dec_struct Module_fields) zero_Module) cc_Modules (\<lambda>x r. r\<lparr>cc_Modules := x\<rparr>)),
      (''contracts'', field (dec_slice (dec_struct Contract_fields) zero_Contract) cc_Contracts (\<lambda>x r. r\<lparr>cc_Contracts := x\<rparr>)),
      (''compatibility_gates'', field (dec_slice (dec_struct CompatibilityGate_fields) zero_CompatibilityGate) cc_CompatibilityGates (\<lambda>x r. r\<lparr>cc_CompatibilityGates := x\<rparr>)),
      (''provenance'', field (dec_struct ComponentCandidateProvenance_fields) cc_Provenance (\<lambda>x r. r\<lparr>cc_Provenance := x\<rparr>))]"

definition CompatibilityEvidence_fields :: "CompatibilityEvidence fields" where
  "CompatibilityEvidence_fields =
     [(''provider'', field dec_str cev_Provider (\<lambda>x r. r\<lparr>cev_Provider := x\<rparr>)),
      (''consumer'', field dec_str cev_Consumer (\<lambda>x r. r\<lparr>cev_Consumer := x\<rparr>)),
      (''contract'', field dec_str cev_Contract (\<lambda>x r. r\<lparr>cev_Contract := x\<rparr>)),
      (''version'', field dec_int cev_Version (\<lambda>x r. r\<lparr>cev_Version := x\<rparr>)),
      (''evidence'', field (dec_struct DigestReference_fields) cev_Evidence (\<lambda>x r. r\<lparr>cev_Evidence := x\<rparr>))]"

definition ReleasedComponent_fields :: "ReleasedComponent fields" where
  "ReleasedComponent_fields =
     [(''$schema'', field dec_str rc_Schema (\<lambda>x r. r\<lparr>rc_Schema := x\<rparr>)),
      (''schema_version'', field dec_int rc_SchemaVersion (\<lambda>x r. r\<lparr>rc_SchemaVersion := x\<rparr>)),
      (''kind'', field dec_str rc_Kind (\<lambda>x r. r\<lparr>rc_Kind := x\<rparr>)),
      (''component'', field dec_str rc_Component (\<lambda>x r. r\<lparr>rc_Component := x\<rparr>)),
      (''repository'', field dec_str rc_Repository (\<lambda>x r. r\<lparr>rc_Repository := x\<rparr>)),
      (''git_commit'', field dec_str rc_GitCommit (\<lambda>x r. r\<lparr>rc_GitCommit := x\<rparr>)),
      (''artifact'', field dec_str rc_Artifact (\<lambda>x r. r\<lparr>rc_Artifact := x\<rparr>)),
      (''candidate'', field (dec_struct DigestReference_fields) rc_Candidate (\<lambda>x r. r\<lparr>rc_Candidate := x\<rparr>)),
      (''candidate_provenance'', field (dec_struct DigestReference_fields) rc_CandidateProvenance (\<lambda>x r. r\<lparr>rc_CandidateProvenance := x\<rparr>)),
      (''compatibility_evidence'', field (dec_slice (dec_struct CompatibilityEvidence_fields) zero_CompatibilityEvidence) rc_CompatibilityEvidence (\<lambda>x r. r\<lparr>rc_CompatibilityEvidence := x\<rparr>)),
      (''promotion'', field (dec_struct PromotionProvenance_fields) rc_Promotion (\<lambda>x r. r\<lparr>rc_Promotion := x\<rparr>))]"

definition InfrastructureSignal_fields :: "InfrastructureSignal fields" where
  "InfrastructureSignal_fields =
     [(''$schema'', field dec_str isig_Schema (\<lambda>x r. r\<lparr>isig_Schema := x\<rparr>)),
      (''schema_version'', field dec_int isig_SchemaVersion (\<lambda>x r. r\<lparr>isig_SchemaVersion := x\<rparr>)),
      (''kind'', field dec_str isig_Kind (\<lambda>x r. r\<lparr>isig_Kind := x\<rparr>)),
      (''environment'', field dec_str isig_Environment (\<lambda>x r. r\<lparr>isig_Environment := x\<rparr>)),
      (''component'', field dec_str isig_Component (\<lambda>x r. r\<lparr>isig_Component := x\<rparr>)),
      (''released_record'', field (dec_struct DigestReference_fields) isig_ReleasedRecord (\<lambda>x r. r\<lparr>isig_ReleasedRecord := x\<rparr>)),
      (''manifest_commit'', field dec_str isig_ManifestCommit (\<lambda>x r. r\<lparr>isig_ManifestCommit := x\<rparr>)),
      (''event_id'', field dec_str isig_EventID (\<lambda>x r. r\<lparr>isig_EventID := x\<rparr>)),
      (''config_generation'', field dec_str isig_ConfigGeneration (\<lambda>x r. r\<lparr>isig_ConfigGeneration := x\<rparr>))]"

section \<open>Encoders\<close>

text \<open>\<open>omitempty\<close> drops a nil slice and an empty one.\<close>

definition opt_slice_field :: "('a \<Rightarrow> json) \<Rightarrow> string \<Rightarrow> 'a slice \<Rightarrow> (string \<times> json) list" where
  "opt_slice_field f k s = (if elems s = [] then [] else slice_field f k s)"

definition json_DigestReference :: "DigestReference \<Rightarrow> json" where
  "json_DigestReference v = JObject
     (str_field ''uri'' (dr_URI v) @ str_field ''digest'' (dr_Digest v))"

definition json_Component :: "Component \<Rightarrow> json" where
  "json_Component v = JObject
     (str_field ''name'' (com_Name v) @ str_field ''repository'' (com_Repository v) @
      str_field ''git_commit'' (com_GitCommit v) @
      [(''image'', case (com_Image v) of None \<Rightarrow> JNull | Some x \<Rightarrow> JString x)])"

definition json_Module :: "Module \<Rightarrow> json" where
  "json_Module v = JObject
     (str_field ''path'' (modl_Path v) @ str_field ''version'' (modl_Version v) @ str_field ''sum'' (modl_Sum v))"

definition json_Contract :: "Contract \<Rightarrow> json" where
  "json_Contract v = JObject
     (str_field ''name'' (con_Name v) @ [(''version'', JInt (con_Version v))] @
      str_field ''architecture_repository'' (con_ArchitectureRepository v) @
      str_field ''architecture_commit'' (con_ArchitectureCommit v))"

definition json_ResolvedSet :: "ResolvedSet \<Rightarrow> json" where
  "json_ResolvedSet v = JObject
     (slice_field json_Component ''components'' (rs_Components v) @ slice_field json_Module ''modules'' (rs_Modules v) @
      opt_slice_field json_Contract ''contracts'' (rs_Contracts v))"

definition json_PromotionProvenance :: "PromotionProvenance \<Rightarrow> json" where
  "json_PromotionProvenance v = JObject
     (str_field ''repository'' (pp_Repository v) @ str_field ''run'' (pp_Run v) @
      opt_str_field ''approved_by'' (pp_ApprovedBy v))"

definition json_SystemTestProvenance :: "SystemTestProvenance \<Rightarrow> json" where
  "json_SystemTestProvenance v = JObject
     ([(''evidence'', json_DigestReference (stp_Evidence v))] @ str_field ''repository'' (stp_Repository v) @
      str_field ''git_commit'' (stp_GitCommit v) @ str_field ''run'' (stp_Run v))"

definition json_ReleaseProvenance :: "ReleaseProvenance \<Rightarrow> json" where
  "json_ReleaseProvenance v = JObject
     ([(''candidate_provenance'', json_DigestReference (rp_CandidateProvenance v))] @
      [(''system_tests'', json_SystemTestProvenance (rp_SystemTests v))] @
      [(''promotion'', json_PromotionProvenance (rp_Promotion v))])"

definition json_ReleasedEnvelope :: "ReleasedEnvelope \<Rightarrow> json" where
  "json_ReleasedEnvelope v = JObject
     (str_field ''$schema'' (renv_Schema v) @ [(''schema_version'', JInt (renv_SchemaVersion v))] @
      str_field ''release'' (renv_Release v) @ str_field ''status'' (renv_Status v) @
      [(''candidate'', json_DigestReference (renv_Candidate v))] @ [(''resolved'', json_ResolvedSet (renv_Resolved v))] @
      [(''provenance'', json_ReleaseProvenance (renv_Provenance v))])"

definition json_ResolutionSource :: "ResolutionSource \<Rightarrow> json" where
  "json_ResolutionSource v = JObject
     (str_field ''kind'' (rsrc_Kind v) @ [(''record'', json_DigestReference (rsrc_Record v))])"

definition json_ResolutionProvenance :: "ResolutionProvenance \<Rightarrow> json" where
  "json_ResolutionProvenance v = JObject
     ([(''candidate_provenance'', json_DigestReference (rprov_CandidateProvenance v))] @
      ptr_field json_SystemTestProvenance ''system_tests'' (rprov_SystemTests v) @
      ptr_field json_PromotionProvenance ''promotion'' (rprov_Promotion v))"

definition json_Resolution :: "Resolution \<Rightarrow> json" where
  "json_Resolution v = JObject
     (str_field ''$schema'' (reso_Schema v) @ [(''schema_version'', JInt (reso_SchemaVersion v))] @
      str_field ''environment_class'' (reso_EnvironmentClass v) @ [(''source'', json_ResolutionSource (reso_Source v))] @
      str_field ''release'' (reso_Release v) @ str_field ''candidate_digest'' (reso_CandidateDigest v) @
      [(''resolved'', json_ResolvedSet (reso_Resolved v))] @ [(''provenance'', json_ResolutionProvenance (reso_Provenance v))])"

end
