(* ===== verification/Release_Contract.thy ===== *)
theory Release_Contract
  imports Release_Types Encoding
begin

text \<open>
  The semantic checks of the release contract (\<open>src/systemtests/releasecontract/contract.go\<close>).
  SHA-256 is the argument \<open>sha256\<close>. The regular expressions are kept as data, one item per item of
  the source, with the anchored match of \<open>MatchString\<close>.
\<close>

section \<open>Patterns\<close>

datatype item = Lit string | Times nat "char \<Rightarrow> bool" | Plus "char \<Rightarrow> bool" | Star "char \<Rightarrow> bool"

text \<open>The whole text matches the items in sequence; repetitions may stop after any number of characters.\<close>

fun matches :: "item list \<Rightarrow> string \<Rightarrow> bool" where
  "matches [] s = (s = [])"
| "matches (Lit l # r) s = (prefix l s \<and> matches r (drop (length l) s))"
| "matches (Times n p # r) s = (n \<le> length s \<and> list_all p (take n s) \<and> matches r (drop n s))"
| "matches (Plus p # r) s = (case s of [] \<Rightarrow> False | c # cs \<Rightarrow> p c \<and> (matches r cs \<or> matches (Plus p # r) cs))"
| "matches (Star p # r) s = (matches r s \<or> (case s of [] \<Rightarrow> False | c # cs \<Rightarrow> p c \<and> matches (Star p # r) cs))"

definition hex_char :: "char \<Rightarrow> bool" where "hex_char c \<longleftrightarrow> is_digit c \<or> (CHR ''a'' \<le> c \<and> c \<le> CHR ''f'')"
definition name_char :: "char \<Rightarrow> bool" where "name_char c \<longleftrightarrow> is_alnum c \<or> c \<in> set ''._-''"
definition nonspace :: "char \<Rightarrow> bool" where "nonspace c \<longleftrightarrow> c \<notin> {CHR 0x09, CHR 0x0A, CHR 0x0C, CHR 0x0D, CHR '' ''}"

definition digestPattern :: "string \<Rightarrow> bool" where
  "digestPattern = matches [Lit ''sha256:'', Times 64 hex_char]"

definition commitPattern :: "string \<Rightarrow> bool" where
  "commitPattern = matches [Times 40 hex_char]"

definition releasePattern :: "string \<Rightarrow> bool" where
  "releasePattern = matches [Plus name_char]"

definition repositoryPattern :: "string \<Rightarrow> bool" where
  "repositoryPattern = matches [Lit ''endless-net/'', Plus name_char]"

definition artifactReferencePattern :: "string \<Rightarrow> bool" where
  "artifactReferencePattern = matches [Plus nonspace, Lit ''@sha256:'', Times 64 hex_char]"

definition githubBlobPattern :: "string \<Rightarrow> bool" where
  "githubBlobPattern = matches [Lit ''https://github.com/endless-net/'', Plus name_char, Lit ''/blob/'', Times 40 hex_char, Lit ''/'',
     Plus (\<lambda>c. c \<noteq> CHR ''?'' \<and> c \<noteq> CHR ''#'')]"

definition actionsRunPattern :: "string \<Rightarrow> bool" where
  "actionsRunPattern = matches [Lit ''https://github.com/endless-net/'', Plus name_char, Lit ''/actions/runs/'',
     Times 1 (\<lambda>c. is_digit c \<and> c \<noteq> CHR ''0''), Star is_digit]"

definition versionPattern :: "string \<Rightarrow> bool" where
  "versionPattern s \<longleftrightarrow>
     (let number = [Lit ''v'', Plus is_digit, Lit ''.'', Plus is_digit, Lit ''.'', Plus is_digit]
      in matches number s \<or> matches (number @ [Lit ''-'', Plus (\<lambda>c. is_alnum c \<or> c = CHR ''.'' \<or> c = CHR ''-'')]) s)"

definition sumPattern :: "string \<Rightarrow> bool" where
  "sumPattern = matches [Lit ''h1:'', Plus (\<lambda>c. is_alnum c \<or> c \<in> set ''+/='')]"

definition eventIDPattern :: "string \<Rightarrow> bool" where
  "eventIDPattern = matches [Plus (\<lambda>c. is_alnum c \<or> c \<in> set ''._:-'')]"

definition ReleasedEnvelopeSchema :: string where
  "ReleasedEnvelopeSchema = ''https://endlessnet.ru/contracts/release/v1/released-envelope.schema.json''"

definition ResolutionSchema :: string where
  "ResolutionSchema = ''https://endlessnet.ru/contracts/release/v1/resolution.schema.json''"

definition Digest :: "(string \<Rightarrow> string) \<Rightarrow> string \<Rightarrow> string" where
  "Digest sha256 raw = ''sha256:'' @ hex_EncodeToString (sha256 raw)"

definition DecodeStrict :: "'a decoder \<Rightarrow> 'a \<Rightarrow> string \<Rightarrow> 'a result" where
  "DecodeStrict dec zero raw =
     (case decode_only dec zero raw of None \<Rightarrow> Inl (Errorf ''invalid document'') | Some v \<Rightarrow> Inr v)"

section \<open>References\<close>

definition validateDigestReference :: "DigestReference \<Rightarrow> err" where
  "validateDigestReference reference =
     first_err
       [guard (\<not> digestPattern (dr_Digest reference)) ''invalid digest %q'',
        guard (\<not> githubBlobPattern (dr_URI reference) \<and> \<not> artifactReferencePattern (dr_URI reference)) ''mutable or unsupported URI %q'']"

text \<open>\<open>strings.LastIndex\<close>, or -1.\<close>

definition LastIndex :: "string \<Rightarrow> string \<Rightarrow> int" where
  "LastIndex s sub =
     (case rev (filter (\<lambda>i. prefix sub (drop i s)) [0..<Suc (length s)]) of [] \<Rightarrow> -1 | i # _ \<Rightarrow> int i)"

definition artifactDigest :: "string \<Rightarrow> string" where
  "artifactDigest reference =
     (let position = LastIndex reference ''@sha256:''
      in if position < 0 then [] else drop (nat position + 1) reference)"

definition releaseArtifactReferenceForComponent :: "string \<Rightarrow> string \<Rightarrow> string \<Rightarrow> string \<Rightarrow> bool" where
  "releaseArtifactReferenceForComponent component repository commit reference \<longleftrightarrow>
     repository = ''endless-net/'' @ component \<and>
     (let pre = ''https://github.com/'' @ repository @ ''/releases/download/'' @ component @ ''-'' @ commit @ ''-d025/'' @
                component @ ''-'' @ commit @ ''-d025.tar.gz@''
      in prefix pre reference \<and> artifactReferencePattern reference)"

definition actionsRunFor :: "string \<Rightarrow> string \<Rightarrow> bool" where
  "actionsRunFor repository run \<longleftrightarrow>
     actionsRunPattern run \<and> prefix (''https://github.com/'' @ repository @ ''/actions/runs/'') run"

section \<open>Candidates\<close>

text \<open>A component must repeat neither a name nor a repository; the two maps are filled together.\<close>

fun check_components :: "string list \<Rightarrow> string list \<Rightarrow> Component list \<Rightarrow> err" where
  "check_components names repositories [] = None"
| "check_components names repositories (component # components) =
     first_err
       [guard (\<not> releasePattern (com_Name component) \<or> \<not> repositoryPattern (com_Repository component) \<or>
               \<not> commitPattern (com_GitCommit component)) ''component[%d] identity is invalid'',
        guard (com_Name component \<in> set names \<or> com_Repository component \<in> set repositories)
          ''component[%d] duplicates a name or repository'',
        (case com_Image component of
           None \<Rightarrow> None
         | Some img \<Rightarrow> guard (\<not> artifactReferencePattern img) ''component %q has mutable artifact reference %q''),
        check_components (com_Name component # names) (com_Repository component # repositories) components]"

definition check_modules :: "Module list \<Rightarrow> err" where
  "check_modules modules =
     range_seen modl_Path (\<lambda>m. guard (modl_Path m = []) ''module[%d] is invalid or duplicated'') ''module[%d] is invalid or duplicated''
       (\<lambda>m. guard (\<not> versionPattern (modl_Version m) \<or> \<not> sumPattern (modl_Sum m)) ''module[%d] is invalid or duplicated'') [] modules"

definition check_contracts :: "Contract list \<Rightarrow> err" where
  "check_contracts contracts =
     range_seen con_Name (\<lambda>c. guard (con_Name c = []) ''contract[%d] is invalid or duplicated'') ''contract[%d] is invalid or duplicated''
       (\<lambda>c. guard (con_Version c < 1 \<or> con_ArchitectureRepository c \<noteq> ''endless-net/architecture'' \<or>
                   \<not> commitPattern (con_ArchitectureCommit c)) ''contract[%d] is invalid or duplicated'') [] contracts"

definition ValidateCandidate :: "Candidate \<Rightarrow> err" where
  "ValidateCandidate candidate =
     first_err
       [guard (cand_SchemaVersion candidate \<noteq> 1 \<or> \<not> releasePattern (cand_Release candidate) \<or> cand_Status candidate \<noteq> ''candidate'')
          ''candidate header is invalid'',
        guard (elems (cand_Components candidate) = []) ''candidate has no components'',
        check_components [] [] (elems (cand_Components candidate)),
        check_modules (elems (cand_Modules candidate)),
        check_contracts (elems (cand_Contracts candidate))]"

text \<open>\<open>%d\<close>.\<close>

definition format_int :: "int \<Rightarrow> string" where
  "format_int n = (if n < 0 then CHR ''-'' # Itoa (- n) else Itoa n)"

definition compatibilityGateKey :: "string \<Rightarrow> string \<Rightarrow> string \<Rightarrow> int \<Rightarrow> string" where
  "compatibilityGateKey provider consumer contract version =
     provider @ [CHR 0x00] @ consumer @ [CHR 0x00] @ contract @ [CHR 0x00] @ format_int version"

definition gate_key :: "CompatibilityGate \<Rightarrow> string" where
  "gate_key gate = compatibilityGateKey (cg_Provider gate) (cg_Consumer gate) (cg_Contract gate) (cg_Version gate)"

definition evidence_key :: "CompatibilityEvidence \<Rightarrow> string" where
  "evidence_key evidence = compatibilityGateKey (cev_Provider evidence) (cev_Consumer evidence) (cev_Contract evidence) (cev_Version evidence)"

definition validateCompatibilityGates :: "string \<Rightarrow> CompatibilityGate list \<Rightarrow> err" where
  "validateCompatibilityGates component gates =
     range_seen gate_key
       (\<lambda>gate. guard (cg_Provider gate \<noteq> component \<or> \<not> releasePattern (cg_Consumer gate) \<or> cg_Consumer gate = component \<or>
                       cg_Contract gate = [] \<or> cg_Version gate < 1) ''compatibility_gate[%d] is invalid'')
       ''compatibility_gate[%d] is duplicated'' (\<lambda>_. None) [] gates"

definition ValidateComponentCandidate :: "ComponentCandidate \<Rightarrow> err" where
  "ValidateComponentCandidate candidate =
     first_err
       [guard (cc_SchemaVersion candidate \<noteq> 2 \<or> cc_Kind candidate \<noteq> ''candidate'' \<or> \<not> releasePattern (cc_Component candidate) \<or>
               \<not> repositoryPattern (cc_Repository candidate) \<or> \<not> commitPattern (cc_GitCommit candidate) \<or>
               \<not> artifactReferencePattern (cc_Artifact candidate)) ''component candidate identity is invalid'',
        guard (\<not> releaseArtifactReferenceForComponent (cc_Component candidate) (cc_Repository candidate) (cc_GitCommit candidate)
                 (cc_Artifact candidate)) ''component candidate artifact is not its immutable GitHub Release archive'',
        (let build = ccp_Build (cc_Provenance candidate)
         in guard (bp_Repository build \<noteq> cc_Repository candidate \<or> bp_SourceCommit build \<noteq> cc_GitCommit candidate \<or>
                   \<not> actionsRunFor (cc_Repository candidate) (bp_Run build) \<or> \<not> digestPattern (bp_AttestationDigest build) \<or>
                   \<not> digestPattern (ccp_AttestationDigest (cc_Provenance candidate))) ''component candidate provenance is incomplete''),
        wrap ''producer release'' (validateDigestReference (ccp_ProducerRelease (cc_Provenance candidate))),
        check_modules (elems (cc_Modules candidate)),
        check_contracts (elems (cc_Contracts candidate)),
        validateCompatibilityGates (cc_Component candidate) (elems (cc_CompatibilityGates candidate))]"

section \<open>Released components and the signal to the deployer\<close>

text \<open>\<open>want\<close> and \<open>seen\<close> are the keys of the two maps; their sizes are compared at the end.\<close>

fun check_evidence :: "string list \<Rightarrow> string list \<Rightarrow> CompatibilityEvidence list \<Rightarrow> err" where
  "check_evidence want seen [] =
     guard (length seen \<noteq> length (remdups want)) ''released component is missing affected compatibility evidence''"
| "check_evidence want seen (evidence # rest) =
     first_err
       [guard (evidence_key evidence \<notin> set want \<or> evidence_key evidence \<in> set seen)
          ''released component has an unexpected or duplicate compatibility gate'',
        wrap ''compatibility evidence'' (validateDigestReference (cev_Evidence evidence)),
        check_evidence want (evidence_key evidence # seen) rest]"

definition ValidateReleasedComponent :: "(string \<Rightarrow> string) \<Rightarrow> ReleasedComponent \<Rightarrow> ComponentCandidate \<Rightarrow> string \<Rightarrow> err" where
  "ValidateReleasedComponent sha256 released candidate candidateRaw =
     first_err
       [ValidateComponentCandidate candidate,
        guard (rc_SchemaVersion released \<noteq> 2 \<or> rc_Kind released \<noteq> ''released'' \<or> rc_Component released \<noteq> cc_Component candidate \<or>
               rc_Repository released \<noteq> cc_Repository candidate \<or> rc_GitCommit released \<noteq> cc_GitCommit candidate \<or>
               rc_Artifact released \<noteq> cc_Artifact candidate \<or> dr_Digest (rc_Candidate released) \<noteq> Digest sha256 candidateRaw)
          ''released component does not bind its exact candidate'',
        range_err (\<lambda>(name, reference). wrap name (validateDigestReference reference))
          [(''candidate'', rc_Candidate released), (''candidate provenance'', rc_CandidateProvenance released)],
        guard (pp_Repository (rc_Promotion released) \<noteq> ''endless-net/releases'' \<or>
               \<not> actionsRunFor (pp_Repository (rc_Promotion released)) (pp_Run (rc_Promotion released)) \<or>
               pp_ApprovedBy (rc_Promotion released) = []) ''released component promotion provenance is incomplete'',
        check_evidence (map gate_key (elems (cc_CompatibilityGates candidate))) [] (elems (rc_CompatibilityEvidence released))]"

definition ValidateInfrastructureSignal :: "(string \<Rightarrow> string) \<Rightarrow> InfrastructureSignal \<Rightarrow> ReleasedComponent \<Rightarrow> string \<Rightarrow> err" where
  "ValidateInfrastructureSignal sha256 signal released releasedRaw =
     first_err
       [guard (isig_SchemaVersion signal \<noteq> 2 \<or> isig_Kind signal \<noteq> ''released_component'' \<or> isig_Environment signal \<noteq> ''production'' \<or>
               isig_Component signal \<noteq> rc_Component released \<or> \<not> commitPattern (isig_ManifestCommit signal) \<or>
               \<not> eventIDPattern (isig_EventID signal) \<or> isig_ConfigGeneration signal = [] \<or>
               dr_Digest (isig_ReleasedRecord signal) \<noteq> Digest sha256 releasedRaw)
          ''infrastructure signal does not bind a released component'',
        wrap ''released record'' (validateDigestReference (isig_ReleasedRecord signal))]"

section \<open>Provenance of a candidate\<close>

text \<open>The two lookups go through maps from names and from paths; the first loops refuse duplicates.\<close>

definition check_component_provenance :: "ComponentProvenance list \<Rightarrow> Component \<Rightarrow> err" where
  "check_component_provenance items component =
     (case find (\<lambda>item. cp_Name item = com_Name component) items of
        None \<Rightarrow> Some (Errorf ''candidate provenance is missing component %q'')
      | Some item \<Rightarrow>
          (case com_Image component of
             None \<Rightarrow> Some (Errorf ''component %q has no immutable artifact and cannot be promoted'')
           | Some img \<Rightarrow>
               first_err
                 [guard (cp_Repository item \<noteq> com_Repository component \<or> cp_GitCommit item \<noteq> com_GitCommit component \<or>
                         dr_URI (cp_Artifact item) \<noteq> img \<or> dr_Digest (cp_Artifact item) \<noteq> artifactDigest img)
                    ''candidate provenance drifts from component %q'',
                  guard (bp_Repository (cp_Build item) \<noteq> com_Repository component \<or>
                         bp_SourceCommit (cp_Build item) \<noteq> com_GitCommit component \<or>
                         \<not> actionsRunFor (com_Repository component) (bp_Run (cp_Build item)) \<or>
                         \<not> digestPattern (bp_AttestationDigest (cp_Build item)))
                    ''candidate provenance for component %q is incomplete'']))"

definition check_module_provenance :: "ModuleProvenance list \<Rightarrow> Module \<Rightarrow> err" where
  "check_module_provenance items modl =
     (case find (\<lambda>item. mp_Path item = modl_Path modl) items of
        None \<Rightarrow> Some (Errorf ''candidate provenance drifts from or is missing module %q'')
      | Some item \<Rightarrow>
          guard (mp_Version item \<noteq> modl_Version modl \<or> mp_Sum item \<noteq> modl_Sum modl \<or>
                 \<not> repositoryPattern (ms_Repository (mp_Source item)) \<or> \<not> commitPattern (ms_GitCommit (mp_Source item)) \<or>
                 \<not> actionsRunFor (ms_Repository (mp_Source item)) (ms_Run (mp_Source item)))
            ''candidate provenance drifts from or is missing module %q'')"

definition ValidateCandidateProvenance :: "Candidate \<Rightarrow> string \<Rightarrow> CandidateProvenance \<Rightarrow> err" where
  "ValidateCandidateProvenance candidate candidateDigest provenance =
     first_err
       [ValidateCandidate candidate,
        guard (\<not> digestPattern candidateDigest \<or> cprov_SchemaVersion provenance \<noteq> 1 \<or> cprov_Release provenance \<noteq> cand_Release candidate \<or>
               cprov_CandidateDigest provenance \<noteq> candidateDigest) ''candidate provenance header does not bind the candidate'',
        guard (length (elems (cprov_Components provenance)) \<noteq> length (elems (cand_Components candidate)) \<or>
               length (elems (cprov_Modules provenance)) \<noteq> length (elems (cand_Modules candidate)))
          ''candidate provenance does not cover the complete resolved set'',
        range_seen cp_Name (\<lambda>_. None) ''candidate provenance duplicates component %q'' (\<lambda>_. None) [] (elems (cprov_Components provenance)),
        range_err (check_component_provenance (elems (cprov_Components provenance))) (elems (cand_Components candidate)),
        range_seen mp_Path (\<lambda>_. None) ''candidate provenance duplicates module %q'' (\<lambda>_. None) [] (elems (cprov_Modules provenance)),
        range_err (check_module_provenance (elems (cprov_Modules provenance))) (elems (cand_Modules candidate))]"

definition ValidateSystemTestEvidence :: "string \<Rightarrow> SystemTestEvidence \<Rightarrow> err" where
  "ValidateSystemTestEvidence candidateDigest evidence =
     guard (ste_SchemaVersion evidence \<noteq> 1 \<or> ste_CandidateDigest evidence \<noteq> candidateDigest \<or> ste_Result evidence \<noteq> ''passed'' \<or>
            ts_Repository (ste_Suite evidence) \<noteq> ''endless-net/system-tests'' \<or> \<not> commitPattern (ts_GitCommit (ste_Suite evidence)) \<or>
            \<not> actionsRunFor (ts_Repository (ste_Suite evidence)) (ts_Run (ste_Suite evidence)))
       ''system-test evidence is incomplete or does not bind a passing run to the candidate''"

section \<open>Promotion and resolution\<close>

definition BuildReleasedEnvelope ::
  "(string \<Rightarrow> string) \<Rightarrow> Candidate \<Rightarrow> string \<Rightarrow> string \<Rightarrow> string \<Rightarrow> CandidateProvenance \<Rightarrow> SystemTestEvidence \<Rightarrow> PromotionRequest \<Rightarrow>
   ReleasedEnvelope result" where
  "BuildReleasedEnvelope sha256 candidate candidateRaw provenanceRaw systemTestRaw provenance evidence request =
     (let candidateDigest = Digest sha256 candidateRaw
      in require (first_err
           [guard (preq_SchemaVersion request \<noteq> 1 \<or> dr_Digest (preq_Candidate request) \<noteq> candidateDigest \<or>
                   dr_Digest (preq_CandidateProvenance request) \<noteq> Digest sha256 provenanceRaw \<or>
                   dr_Digest (preq_SystemTestEvidence request) \<noteq> Digest sha256 systemTestRaw)
              ''promotion request digest does not match an input record'',
            range_err (\<lambda>(name, reference). wrap name (validateDigestReference reference))
              [(''candidate'', preq_Candidate request), (''candidate provenance'', preq_CandidateProvenance request),
               (''system-test evidence'', preq_SystemTestEvidence request)],
            guard (pp_Repository (preq_Promotion request) \<noteq> ''endless-net/client-api'' \<or>
                   \<not> actionsRunFor (pp_Repository (preq_Promotion request)) (pp_Run (preq_Promotion request)))
              ''promotion provenance is incomplete'',
            ValidateCandidateProvenance candidate candidateDigest provenance,
            ValidateSystemTestEvidence candidateDigest evidence])
         (Inr \<lparr>renv_Schema = ReleasedEnvelopeSchema, renv_SchemaVersion = 1, renv_Release = cand_Release candidate,
               renv_Status = ''released'', renv_Candidate = preq_Candidate request, renv_Resolved = Resolved candidate,
               renv_Provenance = \<lparr>rp_CandidateProvenance = preq_CandidateProvenance request,
                 rp_SystemTests = \<lparr>stp_Evidence = preq_SystemTestEvidence request, stp_Repository = ts_Repository (ste_Suite evidence),
                   stp_GitCommit = ts_GitCommit (ste_Suite evidence), stp_Run = ts_Run (ste_Suite evidence)\<rparr>,
                 rp_Promotion = preq_Promotion request\<rparr>\<rparr>))"

definition ValidateReleasedEnvelope ::
  "(string \<Rightarrow> string) \<Rightarrow> ReleasedEnvelope \<Rightarrow> Candidate \<Rightarrow> string \<Rightarrow> string \<Rightarrow> string \<Rightarrow> CandidateProvenance \<Rightarrow> SystemTestEvidence \<Rightarrow> err" where
  "ValidateReleasedEnvelope sha256 envelope candidate candidateRaw provenanceRaw systemTestRaw provenance evidence =
     (let request = \<lparr>preq_Schema = [], preq_SchemaVersion = 1, preq_Candidate = renv_Candidate envelope,
                     preq_CandidateProvenance = rp_CandidateProvenance (renv_Provenance envelope),
                     preq_SystemTestEvidence = stp_Evidence (rp_SystemTests (renv_Provenance envelope)),
                     preq_Promotion = rp_Promotion (renv_Provenance envelope)\<rparr>
      in after (BuildReleasedEnvelope sha256 candidate candidateRaw provenanceRaw systemTestRaw provenance evidence request)
           (\<lambda>expected. first_err
              [guard (renv_SchemaVersion envelope \<noteq> 1 \<or> renv_Status envelope \<noteq> ''released'' \<or>
                      renv_Release envelope \<noteq> cand_Release candidate) ''released envelope header is invalid'',
               guard (renv_Resolved envelope \<noteq> Resolved candidate) ''released envelope resolved set drifts from the tested candidate'',
               guard (renv_Candidate envelope \<noteq> renv_Candidate expected \<or> renv_Provenance envelope \<noteq> renv_Provenance expected)
                 ''released envelope provenance does not bind the promotion inputs'']))"

definition ResolveCandidate ::
  "(string \<Rightarrow> string) \<Rightarrow> Candidate \<Rightarrow> string \<Rightarrow> string \<Rightarrow> CandidateProvenance \<Rightarrow> DigestReference \<Rightarrow> DigestReference \<Rightarrow> Resolution result" where
  "ResolveCandidate sha256 candidate candidateRaw provenanceRaw provenance candidateReference provenanceReference =
     (let candidateDigest = Digest sha256 candidateRaw
      in require (first_err
           [guard (dr_Digest candidateReference \<noteq> candidateDigest \<or> dr_Digest provenanceReference \<noteq> Digest sha256 provenanceRaw)
              ''validation resolution reference digest does not match its record'',
            validateDigestReference candidateReference,
            validateDigestReference provenanceReference,
            ValidateCandidateProvenance candidate candidateDigest provenance])
         (Inr \<lparr>reso_Schema = ResolutionSchema, reso_SchemaVersion = 1, reso_EnvironmentClass = ''validation'',
               reso_Source = \<lparr>rsrc_Kind = ''candidate'', rsrc_Record = candidateReference\<rparr>, reso_Release = cand_Release candidate,
               reso_CandidateDigest = candidateDigest, reso_Resolved = Resolved candidate,
               reso_Provenance = \<lparr>rprov_CandidateProvenance = provenanceReference, rprov_SystemTests = None, rprov_Promotion = None\<rparr>\<rparr>))"

definition ResolveProduction :: "(string \<Rightarrow> string) \<Rightarrow> ReleasedEnvelope \<Rightarrow> string \<Rightarrow> DigestReference \<Rightarrow> Resolution result" where
  "ResolveProduction sha256 envelope envelopeRaw envelopeReference =
     (let systemTests = rp_SystemTests (renv_Provenance envelope); promotion = rp_Promotion (renv_Provenance envelope)
      in require (first_err
           [guard (renv_SchemaVersion envelope \<noteq> 1 \<or> renv_Status envelope \<noteq> ''released'' \<or> \<not> releasePattern (renv_Release envelope))
              ''production accepts only a released envelope'',
            guard (dr_Digest envelopeReference \<noteq> Digest sha256 envelopeRaw) ''released envelope reference digest does not match its record'',
            validateDigestReference envelopeReference,
            validateDigestReference (renv_Candidate envelope),
            validateDigestReference (rp_CandidateProvenance (renv_Provenance envelope)),
            validateDigestReference (stp_Evidence systemTests),
            guard (stp_Repository systemTests \<noteq> ''endless-net/system-tests'' \<or> \<not> commitPattern (stp_GitCommit systemTests) \<or>
                   \<not> actionsRunFor (stp_Repository systemTests) (stp_Run systemTests) \<or>
                   pp_Repository promotion \<noteq> ''endless-net/client-api'' \<or>
                   \<not> actionsRunFor (pp_Repository promotion) (pp_Run promotion)) ''released envelope provenance is incomplete'',
            wrap ''released resolved set'' (ValidateCandidate
              \<lparr>cand_Schema = [], cand_SchemaVersion = 1, cand_Release = renv_Release envelope, cand_Status = ''candidate'',
               cand_Components = rs_Components (renv_Resolved envelope), cand_Modules = rs_Modules (renv_Resolved envelope),
               cand_Contracts = rs_Contracts (renv_Resolved envelope)\<rparr>),
            range_err (\<lambda>component.
                case com_Image component of
                  None \<Rightarrow> Some (Errorf ''released component %q lacks an immutable artifact'')
                | Some img \<Rightarrow> guard (\<not> artifactReferencePattern img) ''released component %q lacks an immutable artifact'')
              (elems (rs_Components (renv_Resolved envelope)))])
         (Inr \<lparr>reso_Schema = ResolutionSchema, reso_SchemaVersion = 1, reso_EnvironmentClass = ''production'',
               reso_Source = \<lparr>rsrc_Kind = ''released'', rsrc_Record = envelopeReference\<rparr>, reso_Release = renv_Release envelope,
               reso_CandidateDigest = dr_Digest (renv_Candidate envelope), reso_Resolved = renv_Resolved envelope,
               reso_Provenance = \<lparr>rprov_CandidateProvenance = rp_CandidateProvenance (renv_Provenance envelope),
                 rprov_SystemTests = Some systemTests, rprov_Promotion = Some promotion\<rparr>\<rparr>))"

section \<open>History\<close>

definition frozenLegacyReleasePath :: "string \<Rightarrow> bool" where
  "frozenLegacyReleasePath path \<longleftrightarrow>
     path = ''release/manifest.schema.json'' \<or> path = ''release/evidence.schema.json'' \<or>
     list_ex (\<lambda>p. prefix p path)
       [''release/candidates/'', ''release/candidate-provenance/'', ''release/system-test-evidence/'', ''release/releases/'',
        ''release/evidence/'', ''release/schemas/'', ''release/fixtures/'']"

definition slashes :: "string \<Rightarrow> string" where
  "slashes path = map (\<lambda>c. if c = CHR 0x5C then CHR ''/'' else c) path"

definition check_change :: "string \<Rightarrow> err" where
  "check_change line =
     (case Split (TrimSuffix line [CHR 0x0D]) (CHR 0x09) of
        status # paths \<Rightarrow>
          range_err (\<lambda>path. guard (frozenLegacyReleasePath (slashes path))
            ''frozen legacy server-release source %q has forbidden git status %q'') paths
      | [] \<Rightarrow> None)"

definition ValidateImmutableChanges :: "string \<Rightarrow> err" where
  "ValidateImmutableChanges changes = range_err check_change (Split (TrimSpace changes) (CHR 0x0A))"

end
