(* ===== verification/Release_Safety.thy ===== *)
theory Release_Safety
  imports Release_Contract "HOL-Library.Multiset"
begin

text \<open>
  What the checks of the release contract guarantee: patterns as languages, artifacts and their
  digests, complete provenance and evidence, promotion and resolution, the frozen history.
\<close>

section \<open>Patterns as languages\<close>

fun item_text :: "item \<Rightarrow> string \<Rightarrow> bool" where
  "item_text (Lit l) s \<longleftrightarrow> s = l"
| "item_text (Times n p) s \<longleftrightarrow> length s = n \<and> list_all p s"
| "item_text (Plus p) s \<longleftrightarrow> s \<noteq> [] \<and> list_all p s"
| "item_text (Star p) s \<longleftrightarrow> list_all p s"

lemma ex_split_Cons: "(\<exists>u v. c # s = u @ v \<and> P u v) \<longleftrightarrow> P [] (c # s) \<or> (\<exists>u v. s = u @ v \<and> P (c # u) v)"
proof
  assume "\<exists>u v. c # s = u @ v \<and> P u v"
  then obtain u v where "c # s = u @ v" "P u v" by blast
  then show "P [] (c # s) \<or> (\<exists>u v. s = u @ v \<and> P (c # u) v)" by (cases u) auto
next
  assume "P [] (c # s) \<or> (\<exists>u v. s = u @ v \<and> P (c # u) v)"
  then show "\<exists>u v. c # s = u @ v \<and> P u v" by (metis append_Nil append_Cons)
qed

lemma ex_split_Nil: "(\<exists>u v. s = u @ v \<and> P u v) \<longleftrightarrow> P [] s \<or> (\<exists>u v. s = u @ v \<and> u \<noteq> [] \<and> P u v)"
  by (metis append_Nil)

lemma matches_Plus: "matches (Plus p # r) s \<longleftrightarrow> (\<exists>u v. s = u @ v \<and> u \<noteq> [] \<and> list_all p u \<and> matches r v)"
proof (induction s)
  case (Cons c s)
  have "matches (Plus p # r) (c # s) \<longleftrightarrow> p c \<and> (matches r s \<or> (\<exists>u v. s = u @ v \<and> u \<noteq> [] \<and> list_all p u \<and> matches r v))"
    using Cons.IH by (simp del: matches.simps(4) add: matches.simps(4) [of _ _ "c # s"])
  also have "\<dots> \<longleftrightarrow> (\<exists>u v. c # s = u @ v \<and> u \<noteq> [] \<and> list_all p u \<and> matches r v)"
    using ex_split_Nil [of s "\<lambda>u v. list_all p u \<and> matches r v"] by (simp add: ex_split_Cons) blast
  finally show ?case .
qed simp

lemma matches_Star: "matches (Star p # r) s \<longleftrightarrow> (\<exists>u v. s = u @ v \<and> list_all p u \<and> matches r v)"
proof (induction s)
  case (Cons c s)
  have "matches (Star p # r) (c # s) \<longleftrightarrow> matches r (c # s) \<or> p c \<and> (\<exists>u v. s = u @ v \<and> list_all p u \<and> matches r v)"
    using Cons.IH by (simp del: matches.simps(5) add: matches.simps(5) [of _ _ "c # s"])
  also have "\<dots> \<longleftrightarrow> (\<exists>u v. c # s = u @ v \<and> list_all p u \<and> matches r v)"
    by (simp add: ex_split_Cons) auto
  finally show ?case .
qed simp

lemma matches_Cons: "matches (i # r) s \<longleftrightarrow> (\<exists>u v. s = u @ v \<and> item_text i u \<and> matches r v)"
proof (cases i)
  case (Lit l)
  then show ?thesis by (auto simp: prefix_def)
next
  case (Times n p)
  have "n \<le> length s \<and> list_all p (take n s) \<and> matches r (drop n s) \<longleftrightarrow>
      (\<exists>u v. s = u @ v \<and> (length u = n \<and> list_all p u) \<and> matches r v)"
    (is "?l \<longleftrightarrow> ?r")
  proof
    assume ?l
    then show ?r by - (rule exI [of _ "take n s"], rule exI [of _ "drop n s"], simp)
  qed auto
  then show ?thesis using Times by simp
next
  case (Plus p)
  then show ?thesis using matches_Plus by simp
next
  case (Star p)
  then show ?thesis using matches_Star by simp
qed

lemma matches_exact: "matches items s \<longleftrightarrow> (\<exists>parts. s = concat parts \<and> list_all2 item_text items parts)"
proof (induction items arbitrary: s)
  case (Cons i items)
  show ?case unfolding matches_Cons Cons.IH
  proof
    assume "\<exists>u v. s = u @ v \<and> item_text i u \<and> (\<exists>parts. v = concat parts \<and> list_all2 item_text items parts)"
    then obtain u parts where "s = u @ concat parts" "item_text i u" "list_all2 item_text items parts" by blast
    then show "\<exists>parts. s = concat parts \<and> list_all2 item_text (i # items) parts" by (intro exI [of _ "u # parts"]) simp
  qed (auto simp: list_all2_Cons1, blast)
qed simp

lemmas pattern_defs = digestPattern_def commitPattern_def releasePattern_def repositoryPattern_def artifactReferencePattern_def

lemma releasePattern_iff: "releasePattern s \<longleftrightarrow> s \<noteq> [] \<and> list_all name_char s"
  by (simp only: releasePattern_def matches_Cons) simp

lemma digestPattern_iff: "digestPattern s \<longleftrightarrow> (\<exists>h. s = ''sha256:'' @ h \<and> length h = 64 \<and> list_all hex_char h)"
  by (simp only: digestPattern_def matches_Cons) auto

lemma artifactReferencePattern_iff:
  "artifactReferencePattern s \<longleftrightarrow> (\<exists>u d. s = u @ CHR ''@'' # d \<and> u \<noteq> [] \<and> list_all nonspace u \<and> digestPattern d)"
  by (simp only: artifactReferencePattern_def digestPattern_iff matches_Cons) fastforce

text \<open>The digest that \<open>artifactDigest\<close> cuts out of an accepted reference is the digest it ends with.\<close>

lemma LastIndex_last:
  assumes "prefix sub (drop n s)" "\<And>i. n < i \<Longrightarrow> \<not> prefix sub (drop i s)" "n \<le> length s"
  shows "LastIndex s sub = int n"
proof -
  have "[0..<Suc (length s)] = [0..<n] @ n # [Suc n..<Suc (length s)]"
    using assms(3) by (metis le_imp_less_Suc upt_conv_Cons upt_add_eq_append less_or_eq_imp_le le_add_diff_inverse zero_le)
  moreover have "filter (\<lambda>i. prefix sub (drop i s)) [Suc n..<Suc (length s)] = []" using assms(2) unfolding filter_empty_conv by (simp del: upt_Suc)
  ultimately show ?thesis using assms(1) by (simp add: LastIndex_def del: upt_Suc)
qed

lemma artifactDigest_accepted:
  assumes "artifactReferencePattern s"
  shows "digestPattern (artifactDigest s) \<and> (\<exists>u. s = u @ CHR ''@'' # artifactDigest s)"
proof -
  obtain u d where s: "s = u @ CHR ''@'' # d" "digestPattern d" using assms by (auto simp: artifactReferencePattern_iff)
  obtain h where h: "d = ''sha256:'' @ h" "length h = 64" "list_all hex_char h" using s(2) by (auto simp: digestPattern_iff)
  have "\<not> hex_char (CHR ''@'')" by code_simp
  then have at: "CHR ''@'' \<notin> set d" using h by (auto simp: list_all_iff)
  have "\<not> prefix ''@sha256:'' (drop i s)" if i: "length u < i" for i
  proof
    assume "prefix ''@sha256:'' (drop i s)"
    then have "CHR ''@'' \<in> set (drop i s)" by (auto simp: prefix_def)
    moreover obtain k where "i = length u + Suc k" using i less_imp_Suc_add [of "length u" i] by auto
    then have "drop i s = drop k d" using s(1) by simp
    ultimately show False using at by (auto dest: in_set_dropD)
  qed
  then have "LastIndex s ''@sha256:'' = int (length u)" using s(1) h(1) by (intro LastIndex_last) simp_all
  then have "artifactDigest s = d" using s(1) by (simp add: artifactDigest_def)
  then show ?thesis using s by auto
qed

section \<open>Candidates and provenance\<close>

lemma check_components_None:
  "check_components names repos cs = None \<longleftrightarrow>
     distinct (map com_Name cs) \<and> distinct (map com_Repository cs) \<and> com_Name ` set cs \<inter> set names = {} \<and>
     com_Repository ` set cs \<inter> set repos = {} \<and>
     (\<forall>c \<in> set cs. releasePattern (com_Name c) \<and> repositoryPattern (com_Repository c) \<and> commitPattern (com_GitCommit c) \<and>
        (\<forall>img. com_Image c = Some img \<longrightarrow> artifactReferencePattern img))"
  by (induction cs arbitrary: names repos) (auto split: option.splits)

lemma candidate_components:
  assumes "ValidateCandidate candidate = None"
  shows "distinct (map com_Name (elems (cand_Components candidate)))" "distinct (map modl_Path (elems (cand_Modules candidate)))"
    "releasePattern (cand_Release candidate)"
    "\<And>c img. c \<in> set (elems (cand_Components candidate)) \<Longrightarrow> com_Image c = Some img \<Longrightarrow> artifactReferencePattern img"
  using assms by (auto simp: ValidateCandidate_def check_components_None check_modules_def)

lemma covered:
  assumes "distinct (map f xs)" "distinct (map g ys)" "length ys = length xs" "\<And>x. x \<in> set xs \<Longrightarrow> f x \<in> g ` set ys"
  shows "mset (map g ys) = mset (map f xs)"
proof -
  have "set (map f xs) \<subseteq> set (map g ys)" using assms(4) by auto
  moreover have "card (set (map g ys)) = card (set (map f xs))"
    using assms(1-3) by (simp only: distinct_card length_map)
  ultimately have "set (map f xs) = set (map g ys)" by (intro card_subset_eq) simp_all
  then show ?thesis using assms(1,2) by (simp only: set_eq_iff_mset_eq_distinct)
qed

lemma find_SomeD: "find P xs = Some x \<Longrightarrow> x \<in> set xs \<and> P x"
  by (auto simp: find_Some_iff)

lemma check_component_provenance_None:
  assumes "check_component_provenance items c = None"
  obtains item img where "item \<in> set items" "cp_Name item = com_Name c" "com_Image c = Some img" "cp_Repository item = com_Repository c"
    "cp_GitCommit item = com_GitCommit c" "dr_URI (cp_Artifact item) = img" "dr_Digest (cp_Artifact item) = artifactDigest img"
    "bp_Repository (cp_Build item) = com_Repository c" "bp_SourceCommit (cp_Build item) = com_GitCommit c"
    "actionsRunFor (com_Repository c) (bp_Run (cp_Build item))" "digestPattern (bp_AttestationDigest (cp_Build item))"
proof -
  obtain item where f: "find (\<lambda>item. cp_Name item = com_Name c) items = Some item"
    using assms by (auto simp: check_component_provenance_def split: option.splits)
  obtain img where i: "com_Image c = Some img" using assms f by (auto simp: check_component_provenance_def split: option.splits)
  show ?thesis using assms f i find_SomeD [OF f] that [of item img] by (simp add: check_component_provenance_def)
qed

lemma check_module_provenance_None:
  assumes "check_module_provenance items m = None"
  obtains item where "item \<in> set items" "mp_Path item = modl_Path m" "mp_Version item = modl_Version m" "mp_Sum item = modl_Sum m"
proof -
  obtain item where f: "find (\<lambda>item. mp_Path item = modl_Path m) items = Some item"
    using assms by (auto simp: check_module_provenance_def split: option.splits)
  show ?thesis using assms f find_SomeD [OF f] that [of item] by (simp add: check_module_provenance_def)
qed

lemma provenance_checks:
  assumes "ValidateCandidateProvenance candidate digest provenance = None"
  shows "ValidateCandidate candidate = None" "digestPattern digest" "cprov_CandidateDigest provenance = digest"
    "cprov_Release provenance = cand_Release candidate"
    "length (elems (cprov_Components provenance)) = length (elems (cand_Components candidate))"
    "length (elems (cprov_Modules provenance)) = length (elems (cand_Modules candidate))"
    "distinct (map cp_Name (elems (cprov_Components provenance)))" "distinct (map mp_Path (elems (cprov_Modules provenance)))"
    "\<And>c. c \<in> set (elems (cand_Components candidate)) \<Longrightarrow> check_component_provenance (elems (cprov_Components provenance)) c = None"
    "\<And>m. m \<in> set (elems (cand_Modules candidate)) \<Longrightarrow> check_module_provenance (elems (cprov_Modules provenance)) m = None"
  using assms by (simp_all add: ValidateCandidateProvenance_def)

lemma accepted_images:
  assumes "ValidateCandidateProvenance candidate digest provenance = None" "c \<in> set (elems (cand_Components candidate))"
  obtains img where "com_Image c = Some img" "artifactReferencePattern img"
  using check_component_provenance_None [OF provenance_checks(9) [OF assms]] candidate_components(4) [OF provenance_checks(1) [OF assms(1)] assms(2)]
  by metis

text \<open>
  C26. Provenance covers a candidate exactly. When the provenance of a candidate is accepted, its components
  and modules are those of the candidate, one entry each; every component has an immutable artifact,
  and its entry repeats repository, commit and artifact, names the digest the artifact ends with, and
  a build of that commit in that repository.
\<close>

theorem provenance_complete:
  assumes "ValidateCandidateProvenance candidate digest provenance = None"
  shows "mset (map cp_Name (elems (cprov_Components provenance))) = mset (map com_Name (elems (cand_Components candidate))) \<and>
    mset (map mp_Path (elems (cprov_Modules provenance))) = mset (map modl_Path (elems (cand_Modules candidate))) \<and>
    list_all (\<lambda>c. \<exists>item repo. item \<in> set (elems (cprov_Components provenance)) \<and> cp_Name item = com_Name c \<and>
      cp_Repository item = com_Repository c \<and> cp_GitCommit item = com_GitCommit c \<and>
      com_Image c = Some (repo @ CHR ''@'' # dr_Digest (cp_Artifact item)) \<and> digestPattern (dr_Digest (cp_Artifact item)) \<and>
      com_Image c = Some (dr_URI (cp_Artifact item)) \<and>
      bp_Repository (cp_Build item) = com_Repository c \<and> bp_SourceCommit (cp_Build item) = com_GitCommit c)
      (elems (cand_Components candidate))"
proof (intro conjI)
  note v = provenance_checks [OF assms] and c = candidate_components [OF provenance_checks(1) [OF assms]]
  show "mset (map cp_Name (elems (cprov_Components provenance))) = mset (map com_Name (elems (cand_Components candidate)))"
  proof (rule covered [OF c(1) v(7) v(5)])
    fix x assume "x \<in> set (elems (cand_Components candidate))"
    then obtain item where "item \<in> set (elems (cprov_Components provenance))" "cp_Name item = com_Name x"
      using check_component_provenance_None [OF v(9)] by metis
    then show "com_Name x \<in> cp_Name ` set (elems (cprov_Components provenance))" by force
  qed
  show "mset (map mp_Path (elems (cprov_Modules provenance))) = mset (map modl_Path (elems (cand_Modules candidate)))"
  proof (rule covered [OF c(2) v(8) v(6)])
    fix x assume "x \<in> set (elems (cand_Modules candidate))"
    then show "modl_Path x \<in> mp_Path ` set (elems (cprov_Modules provenance))"
      using check_module_provenance_None [OF v(10)] by (metis imageI)
  qed
  show "list_all (\<lambda>c. \<exists>item repo. item \<in> set (elems (cprov_Components provenance)) \<and> cp_Name item = com_Name c \<and>
      cp_Repository item = com_Repository c \<and> cp_GitCommit item = com_GitCommit c \<and>
      com_Image c = Some (repo @ CHR ''@'' # dr_Digest (cp_Artifact item)) \<and> digestPattern (dr_Digest (cp_Artifact item)) \<and>
      com_Image c = Some (dr_URI (cp_Artifact item)) \<and>
      bp_Repository (cp_Build item) = com_Repository c \<and> bp_SourceCommit (cp_Build item) = com_GitCommit c)
      (elems (cand_Components candidate))"
    unfolding list_all_iff
  proof
    fix x assume x: "x \<in> set (elems (cand_Components candidate))"
    obtain item img where i: "item \<in> set (elems (cprov_Components provenance))" "cp_Name item = com_Name x" "com_Image x = Some img"
      "cp_Repository item = com_Repository x" "cp_GitCommit item = com_GitCommit x" "dr_URI (cp_Artifact item) = img"
      "dr_Digest (cp_Artifact item) = artifactDigest img" "bp_Repository (cp_Build item) = com_Repository x"
      "bp_SourceCommit (cp_Build item) = com_GitCommit x"
      by (rule check_component_provenance_None [OF v(9) [OF x]])
    obtain repo where "digestPattern (artifactDigest img)" "img = repo @ CHR ''@'' # artifactDigest img"
      using artifactDigest_accepted [OF c(4) [OF x i(3)]] by blast
    then show "\<exists>item repo. item \<in> set (elems (cprov_Components provenance)) \<and> cp_Name item = com_Name x \<and>
      cp_Repository item = com_Repository x \<and> cp_GitCommit item = com_GitCommit x \<and>
      com_Image x = Some (repo @ CHR ''@'' # dr_Digest (cp_Artifact item)) \<and> digestPattern (dr_Digest (cp_Artifact item)) \<and>
      com_Image x = Some (dr_URI (cp_Artifact item)) \<and>
      bp_Repository (cp_Build item) = com_Repository x \<and> bp_SourceCommit (cp_Build item) = com_GitCommit x"
      using i by (intro exI [of _ item] exI [of _ repo]) simp
  qed
qed

section \<open>Released components\<close>

lemma check_evidence_None:
  "set seen \<subseteq> set want \<Longrightarrow> distinct seen \<Longrightarrow>
   check_evidence want seen es = None \<longleftrightarrow>
     distinct (map evidence_key es) \<and> evidence_key ` set es \<inter> set seen = {} \<and> evidence_key ` set es \<union> set seen = set want \<and>
     (\<forall>e \<in> set es. validateDigestReference (cev_Evidence e) = None)"
proof (induction es arbitrary: seen)
  case Nil
  have "length seen = card (set want) \<longleftrightarrow> set seen = set want"
    using Nil by (metis List.finite_set card_subset_eq distinct_card)
  then show ?case by (simp add: length_remdups_card_conv)
next
  case (Cons e es)
  show ?case
  proof (cases "evidence_key e \<in> set want \<and> evidence_key e \<notin> set seen")
    case True
    then show ?thesis using Cons by auto
  qed auto
qed

text \<open>Keys of gates whose names have no NUL determine the gate.\<close>

lemma count_key:
  "count_list (compatibilityGateKey p c k v) (CHR 0x00) = count_list p (CHR 0x00) + count_list c (CHR 0x00) + count_list k (CHR 0x00) + 3"
proof -
  have "CHR 0x00 \<notin> set (Itoa n)" if "0 \<le> n" for n
    using Itoa_props [OF that] by (auto simp: list_all_iff is_digit_def less_eq_char_def)
  then have "CHR 0x00 \<notin> set (format_int v)" by (simp add: format_int_def)
  then show ?thesis by (simp add: compatibilityGateKey_def count_list_0_iff)
qed

lemma format_int_inj: "format_int v = format_int w \<Longrightarrow> v = w"
proof -
  have m: "hd (Itoa n) \<noteq> CHR ''-'' \<and> Itoa n \<noteq> []" if "0 \<le> n" for n
    using Itoa_props [OF that] by (cases "Itoa n") (auto simp: is_digit_def less_eq_char_def)
  have i: "Itoa a = Itoa b \<Longrightarrow> a = b" if "0 \<le> a" "0 \<le> b" for a b using Itoa_props [OF that(1)] Itoa_props [OF that(2)] by metis
  assume "format_int v = format_int w"
  then show ?thesis using m [of v] m [of w] i [of "- v" "- w"] i [of v w]
    by (cases "v < 0"; cases "w < 0") (auto simp: format_int_def dest: arg_cong [of _ _ hd])
qed

lemma key_inj:
  assumes e: "compatibilityGateKey p c k v = compatibilityGateKey p' c' k' v'" and n: "CHR 0x00 \<notin> set (p @ c @ k)"
  shows "p = p' \<and> c = c' \<and> k = k' \<and> v = v'"
proof -
  have "count_list p' (CHR 0x00) = 0 \<and> count_list c' (CHR 0x00) = 0 \<and> count_list k' (CHR 0x00) = 0"
    using arg_cong [OF e, of "\<lambda>s. count_list s (CHR 0x00)"] n unfolding count_key by (simp add: count_list_0_iff)
  then have n': "CHR 0x00 \<notin> set (p' @ c' @ k')" by (simp add: count_list_0_iff)
  have "Split (compatibilityGateKey p c k v) (CHR 0x00) = p # c # k # Split (format_int v) (CHR 0x00)"
    if "CHR 0x00 \<notin> set (p @ c @ k)" for p c k v using that by (simp add: compatibilityGateKey_def Split_append)
  then have "p # c # k # Split (format_int v) (CHR 0x00) = p' # c' # k' # Split (format_int v') (CHR 0x00)"
    using n n' e by metis
  then show ?thesis using Join_Split format_int_inj by (metis list.inject)
qed

definition gate_of :: "CompatibilityGate \<Rightarrow> string \<times> string \<times> string \<times> int" where
  "gate_of g = (cg_Provider g, cg_Consumer g, cg_Contract g, cg_Version g)"

definition evidence_gate :: "CompatibilityEvidence \<Rightarrow> string \<times> string \<times> string \<times> int" where
  "evidence_gate e = (cev_Provider e, cev_Consumer e, cev_Contract e, cev_Version e)"

lemma name_no_nul: "releasePattern s \<Longrightarrow> CHR 0x00 \<notin> set s"
  by (auto simp: releasePattern_iff list_all_iff name_char_def is_alnum_def is_lower_def is_upper_def is_digit_def less_eq_char_def)

text \<open>Accepted evidence is one piece for each gate.\<close>

lemma evidence_for_gates:
  assumes g: "validateCompatibilityGates component gates = None" and ev: "check_evidence (map gate_key gates) [] es = None"
    and name: "releasePattern component" and nul: "list_all (\<lambda>g. CHR 0x00 \<notin> set (cg_Contract g)) gates"
  shows "mset (map evidence_gate es) = mset (map gate_of gates)"
proof -
  have gates: "cg_Provider x = component \<and> releasePattern (cg_Consumer x)" if "x \<in> set gates" for x
    using g that by (simp add: validateCompatibilityGates_def)
  have e: "distinct (map evidence_key es)" "evidence_key ` set es = gate_key ` set gates"
    using ev check_evidence_None [of "[]" "map gate_key gates" es] by simp_all
  have same: "evidence_gate y = gate_of x" if x: "x \<in> set gates" and k: "gate_key x = evidence_key y" for x y
  proof -
    have "CHR 0x00 \<notin> set (cg_Provider x @ cg_Consumer x @ cg_Contract x)"
      using gates [OF x] name name_no_nul nul x by (auto simp: list_all_iff)
    from key_inj [OF k [unfolded gate_key_def evidence_key_def] this] show ?thesis by (simp add: gate_of_def evidence_gate_def)
  qed
  have "distinct (map gate_key gates)" using g by (simp add: validateCompatibilityGates_def)
  then have dg: "distinct (map gate_of gates)" by (auto simp: distinct_map inj_on_def gate_of_def gate_key_def)
  have de: "distinct (map evidence_gate es)" using e(1) by (auto simp: distinct_map inj_on_def evidence_gate_def evidence_key_def)
  have "evidence_gate ` set es = gate_of ` set gates"
  proof (intro equalityI subsetI)
    fix z assume "z \<in> evidence_gate ` set es"
    then obtain y where y: "y \<in> set es" "z = evidence_gate y" by blast
    then have "evidence_key y \<in> gate_key ` set gates" using e(2) by blast
    then obtain x where "x \<in> set gates" "gate_key x = evidence_key y" by auto
    then show "z \<in> gate_of ` set gates" using same y by auto
  next
    fix z assume "z \<in> gate_of ` set gates"
    then obtain x where x: "x \<in> set gates" "z = gate_of x" by blast
    then have "gate_key x \<in> evidence_key ` set es" using e(2) by blast
    then obtain y where "y \<in> set es" "gate_key x = evidence_key y" by auto
    then show "z \<in> evidence_gate ` set es" using same x by force
  qed
  then show ?thesis using de dg by (intro iffD1 [OF set_eq_iff_mset_eq_distinct]) simp_all
qed

text \<open>
  C25. A released component is its tested candidate. An accepted record has the component, repository, commit
  and artifact of the candidate and names the digest of its text; the artifact starts with the release
  archive of that commit and ends in a SHA-256 digest; the promotion names its approver; and there is exactly one piece of evidence for
  each affected gate and for nothing else. Contract names of gates have no NUL byte, which separates
  the fields of a key.
\<close>

theorem released_component_bound:
  assumes "ValidateReleasedComponent sha256 released candidate raw = None"
    and "list_all (\<lambda>g. CHR 0x00 \<notin> set (cg_Contract g)) (elems (cc_CompatibilityGates candidate))"
  shows "rc_Component released = cc_Component candidate \<and> rc_Repository released = ''endless-net/'' @ cc_Component candidate \<and>
    rc_GitCommit released = cc_GitCommit candidate \<and> rc_Artifact released = cc_Artifact candidate \<and> dr_Digest (rc_Candidate released) = Digest sha256 raw \<and>
    prefix (''https://github.com/endless-net/'' @ cc_Component candidate @ ''/releases/download/'' @ cc_Component candidate @ ''-'' @
       cc_GitCommit candidate @ ''-d025/'' @ cc_Component candidate @ ''-'' @ cc_GitCommit candidate @ ''-d025.tar.gz@'') (rc_Artifact released) \<and>
    digestPattern (artifactDigest (rc_Artifact released)) \<and> suffix (artifactDigest (rc_Artifact released)) (rc_Artifact released) \<and>
    pp_ApprovedBy (rc_Promotion released) \<noteq> [] \<and>
    mset (map evidence_gate (elems (rc_CompatibilityEvidence released))) = mset (map gate_of (elems (cc_CompatibilityGates candidate)))"
proof -
  let ?gates = "elems (cc_CompatibilityGates candidate)" and ?es = "elems (rc_CompatibilityEvidence released)"
  have cc: "ValidateComponentCandidate candidate = None" and ev: "check_evidence (map gate_key ?gates) [] ?es = None"
    and b: "rc_Component released = cc_Component candidate" "rc_Repository released = cc_Repository candidate"
      "rc_GitCommit released = cc_GitCommit candidate" "rc_Artifact released = cc_Artifact candidate"
      "dr_Digest (rc_Candidate released) = Digest sha256 raw" "pp_ApprovedBy (rc_Promotion released) \<noteq> []"
    using assms(1) by (simp_all add: ValidateReleasedComponent_def)
  have art: "releaseArtifactReferenceForComponent (cc_Component candidate) (cc_Repository candidate) (cc_GitCommit candidate) (cc_Artifact candidate)"
    and g: "validateCompatibilityGates (cc_Component candidate) ?gates = None" and name: "releasePattern (cc_Component candidate)"
    using cc by (simp_all add: ValidateComponentCandidate_def)
  have "mset (map evidence_gate ?es) = mset (map gate_of ?gates)" by (rule evidence_for_gates [OF g ev name assms(2)])
  moreover have "suffix (artifactDigest (cc_Artifact candidate)) (cc_Artifact candidate) \<and> digestPattern (artifactDigest (cc_Artifact candidate))"
    using artifactDigest_accepted [of "cc_Artifact candidate"] art
    by (auto simp: releaseArtifactReferenceForComponent_def Let_def suffix_def) (metis append_Cons append_Nil append_assoc)
  moreover have r: "cc_Repository candidate = ''endless-net/'' @ cc_Component candidate"
    using art by (simp only: releaseArtifactReferenceForComponent_def)
  moreover have "prefix (''https://github.com/endless-net/'' @ cc_Component candidate @ ''/releases/download/'' @ cc_Component candidate @ ''-'' @
       cc_GitCommit candidate @ ''-d025/'' @ cc_Component candidate @ ''-'' @ cc_GitCommit candidate @ ''-d025.tar.gz@'') (cc_Artifact candidate)"
    using art unfolding releaseArtifactReferenceForComponent_def Let_def r by simp
  ultimately show ?thesis using b by metis
qed

section \<open>Promotion and production\<close>

text \<open>
  C24. An envelope is accepted exactly when it was promoted. A released envelope passes validation against
  the records of its inputs if and only if some promotion request over the same inputs produces it,
  up to the schema reference that validation does not look at.
\<close>

theorem envelope_is_promotion:
  "ValidateReleasedEnvelope sha256 envelope candidate candidateRaw provenanceRaw systemTestRaw provenance evidence = None \<longleftrightarrow>
   (\<exists>request. BuildReleasedEnvelope sha256 candidate candidateRaw provenanceRaw systemTestRaw provenance evidence request =
      Inr (envelope\<lparr>renv_Schema := ReleasedEnvelopeSchema\<rparr>))" (is "?l \<longleftrightarrow> ?r")
proof
  assume ?l
  then show ?r
    by (intro exI [of _ "\<lparr>preq_Schema = [], preq_SchemaVersion = 1, preq_Candidate = renv_Candidate envelope,
        preq_CandidateProvenance = rp_CandidateProvenance (renv_Provenance envelope),
        preq_SystemTestEvidence = stp_Evidence (rp_SystemTests (renv_Provenance envelope)),
        preq_Promotion = rp_Promotion (renv_Provenance envelope)\<rparr>"], cases envelope)
      (simp add: ValidateReleasedEnvelope_def BuildReleasedEnvelope_def Let_def)
next
  assume ?r
  then show ?l by (cases envelope) (auto simp: ValidateReleasedEnvelope_def BuildReleasedEnvelope_def Let_def)
qed

lemma accepted_envelope:
  assumes "ValidateReleasedEnvelope sha256 envelope candidate candidateRaw provenanceRaw systemTestRaw provenance evidence = None"
  shows "renv_SchemaVersion envelope = 1" "renv_Status envelope = ''released''" "renv_Release envelope = cand_Release candidate"
    "renv_Resolved envelope = Resolved candidate" "dr_Digest (renv_Candidate envelope) = Digest sha256 candidateRaw"
    "dr_Digest (rp_CandidateProvenance (renv_Provenance envelope)) = Digest sha256 provenanceRaw"
    "validateDigestReference (renv_Candidate envelope) = None"
    "validateDigestReference (rp_CandidateProvenance (renv_Provenance envelope)) = None"
    "validateDigestReference (stp_Evidence (rp_SystemTests (renv_Provenance envelope))) = None"
    "pp_Repository (rp_Promotion (renv_Provenance envelope)) = ''endless-net/client-api''"
    "actionsRunFor ''endless-net/client-api'' (pp_Run (rp_Promotion (renv_Provenance envelope)))"
    "ValidateCandidateProvenance candidate (Digest sha256 candidateRaw) provenance = None"
    "ValidateSystemTestEvidence (Digest sha256 candidateRaw) evidence = None"
    "stp_Repository (rp_SystemTests (renv_Provenance envelope)) = ts_Repository (ste_Suite evidence)"
    "stp_GitCommit (rp_SystemTests (renv_Provenance envelope)) = ts_GitCommit (ste_Suite evidence)"
    "stp_Run (rp_SystemTests (renv_Provenance envelope)) = ts_Run (ste_Suite evidence)"
proof -
  obtain expected where e: "renv_Provenance envelope = \<lparr>rp_CandidateProvenance = rp_CandidateProvenance (renv_Provenance envelope),
      rp_SystemTests = \<lparr>stp_Evidence = stp_Evidence (rp_SystemTests (renv_Provenance envelope)), stp_Repository = ts_Repository (ste_Suite evidence),
        stp_GitCommit = ts_GitCommit (ste_Suite evidence), stp_Run = ts_Run (ste_Suite evidence)\<rparr>,
      rp_Promotion = rp_Promotion (renv_Provenance envelope)\<rparr>"
    using assms by (auto simp: ValidateReleasedEnvelope_def BuildReleasedEnvelope_def Let_def)
  have "rp_SystemTests (renv_Provenance envelope) = \<lparr>stp_Evidence = stp_Evidence (rp_SystemTests (renv_Provenance envelope)),
      stp_Repository = ts_Repository (ste_Suite evidence), stp_GitCommit = ts_GitCommit (ste_Suite evidence), stp_Run = ts_Run (ste_Suite evidence)\<rparr>"
    using arg_cong [OF e, of rp_SystemTests] by simp
  from arg_cong [OF this, of stp_Repository] arg_cong [OF this, of stp_GitCommit] arg_cong [OF this, of stp_Run]
  show "stp_Repository (rp_SystemTests (renv_Provenance envelope)) = ts_Repository (ste_Suite evidence)"
    "stp_GitCommit (rp_SystemTests (renv_Provenance envelope)) = ts_GitCommit (ste_Suite evidence)"
    "stp_Run (rp_SystemTests (renv_Provenance envelope)) = ts_Run (ste_Suite evidence)" by simp_all
qed (use assms in \<open>auto simp: ValidateReleasedEnvelope_def BuildReleasedEnvelope_def Let_def\<close>)

lemma ValidateCandidate_header:
  "ValidateCandidate c = None \<Longrightarrow>
   ValidateCandidate \<lparr>cand_Schema = [], cand_SchemaVersion = 1, cand_Release = cand_Release c, cand_Status = ''candidate'',
     cand_Components = cand_Components c, cand_Modules = cand_Modules c, cand_Contracts = cand_Contracts c\<rparr> = None"
  by (simp add: ValidateCandidate_def)

text \<open>
  C23. Production runs what was validated. An envelope that passes validation resolves for production under
  any valid reference to its text; its candidate resolves for validation under the references the
  envelope carries; and both resolutions name the same release, the same candidate digest and the
  same set of components, modules and contracts, each component with an immutable artifact.
\<close>

theorem production_is_validated:
  assumes "ValidateReleasedEnvelope sha256 envelope candidate candidateRaw provenanceRaw systemTestRaw provenance evidence = None"
    and "validateDigestReference reference = None" "dr_Digest reference = Digest sha256 envelopeRaw"
  shows "\<exists>production validation. ResolveProduction sha256 envelope envelopeRaw reference = Inr production \<and>
    ResolveCandidate sha256 candidate candidateRaw provenanceRaw provenance (renv_Candidate envelope)
      (rp_CandidateProvenance (renv_Provenance envelope)) = Inr validation \<and>
    reso_Release production = reso_Release validation \<and> reso_CandidateDigest production = reso_CandidateDigest validation \<and>
    reso_Resolved production = reso_Resolved validation \<and> reso_EnvironmentClass production = ''production'' \<and>
    reso_EnvironmentClass validation = ''validation'' \<and>
    list_all (\<lambda>c. \<exists>img. com_Image c = Some img \<and> artifactReferencePattern img) (elems (rs_Components (reso_Resolved production)))"
proof -
  note v = accepted_envelope [OF assms(1)]
  have img: "\<exists>img. com_Image c = Some img \<and> artifactReferencePattern img" if "c \<in> set (elems (cand_Components candidate))" for c
    using accepted_images [OF v(12) that] by blast
  have c: "ValidateCandidate candidate = None" by (rule provenance_checks(1) [OF v(12)])
  have s: "ts_Repository (ste_Suite evidence) = ''endless-net/system-tests''" "commitPattern (ts_GitCommit (ste_Suite evidence))"
    "actionsRunFor ''endless-net/system-tests'' (ts_Run (ste_Suite evidence))"
    using v(13) by (simp_all add: ValidateSystemTestEvidence_def)
  obtain p where p: "ResolveProduction sha256 envelope envelopeRaw reference = Inr p" "reso_Release p = cand_Release candidate"
    "reso_CandidateDigest p = Digest sha256 candidateRaw" "reso_Resolved p = Resolved candidate" "reso_EnvironmentClass p = ''production''"
    using v assms(2,3) s candidate_components(3) [OF c] ValidateCandidate_header [OF c] img
    by (fastforce simp: ResolveProduction_def Let_def Resolved_def)
  obtain w where "ResolveCandidate sha256 candidate candidateRaw provenanceRaw provenance (renv_Candidate envelope)
      (rp_CandidateProvenance (renv_Provenance envelope)) = Inr w" "reso_Release w = cand_Release candidate"
    "reso_CandidateDigest w = Digest sha256 candidateRaw" "reso_Resolved w = Resolved candidate" "reso_EnvironmentClass w = ''validation''"
    using v(5-8,12) by (simp add: ResolveCandidate_def)
  then show ?thesis using p img by (intro exI [of _ p] exI [of _ w]) (simp add: list_all_iff Resolved_def)
qed

section \<open>Frozen history\<close>

text \<open>
  The log that \<open>git log --name-status\<close> prints: a line per changed file with its status and its path,
  or both paths of a rename, separated by tabs. Paths here are of graphic ASCII characters.
\<close>

definition log_line :: "string \<times> string list \<Rightarrow> string" where
  "log_line e = Join (fst e # snd e) [CHR 0x09]"

definition log_text :: "(string \<times> string list) list \<Rightarrow> string" where
  "log_text entries = concat (map (\<lambda>e. log_line e @ [CHR 0x0A]) entries)"

definition plain :: "string \<Rightarrow> bool" where "plain s \<longleftrightarrow> s \<noteq> [] \<and> list_all graphic s"

definition plain_entry :: "string \<times> string list \<Rightarrow> bool" where
  "plain_entry e \<longleftrightarrow> plain (fst e) \<and> list_all plain (snd e)"

lemma space_ends:
  assumes "e \<in> set space_encodings"
  shows "\<not> graphic (hd e)" "\<not> graphic (last e)" "hd (rev e) = CHR 0x0A \<longrightarrow> e = [CHR 0x0A]"
proof -
  have "list_all (\<lambda>e. \<not> graphic (hd e) \<and> \<not> graphic (last e) \<and> (hd (rev e) \<noteq> CHR 0x0A \<or> e = [CHR 0x0A])) space_encodings"
    by code_simp
  then show "\<not> graphic (hd e)" "\<not> graphic (last e)" "hd (rev e) = CHR 0x0A \<longrightarrow> e = [CHR 0x0A]"
    using assms by (auto simp: list_all_iff)
qed

lemma prefix_hd: "prefix e s \<Longrightarrow> e \<noteq> [] \<Longrightarrow> hd e = hd s"
  by (auto simp: prefix_def)

lemma TrimSpace_line:
  assumes "x \<noteq> []" "graphic (hd x)" "graphic (last x)"
  shows "TrimSpace (x @ [CHR 0x0A]) = x"
proof -
  let ?es = "map rev space_encodings"
  have 1: "strip space_encodings (x @ [CHR 0x0A]) = x @ [CHR 0x0A]"
  proof (rule strip_id)
    fix e assume "e \<in> set space_encodings" "e \<noteq> []"
    then have "\<not> graphic (hd e)" by (simp add: space_ends(1))
    moreover have "graphic (hd (x @ [CHR 0x0A]))" using assms(1,2) by simp
    ultimately show "\<not> prefix e (x @ [CHR 0x0A])" using \<open>e \<noteq> []\<close> prefix_hd by metis
  qed
  have 2: "strip ?es (rev x) = rev x"
  proof (rule strip_id)
    fix e assume "e \<in> set ?es" "e \<noteq> []"
    then have "\<not> graphic (hd e)" using space_ends(2) by (auto simp: hd_rev)
    moreover have "graphic (hd (rev x))" using assms(3) by (simp add: hd_rev)
    ultimately show "\<not> prefix e (rev x)" using \<open>e \<noteq> []\<close> prefix_hd by metis
  qed
  have nl: "[CHR 0x0A] \<in> set ?es" by code_simp
  have 3: "strip ?es (CHR 0x0A # rev x) = strip ?es (rev x)"
  proof -
    have p: "prefix [CHR 0x0A] (CHR 0x0A # rev x)" "[CHR 0x0A] \<noteq> ([] :: string)" by simp_all
    obtain e where e: "e \<in> set ?es" "e \<noteq> []" "prefix e (CHR 0x0A # rev x)" "strip ?es (CHR 0x0A # rev x) = strip ?es (drop (length e) (CHR 0x0A # rev x))"
      using strip_cases [of ?es "CHR 0x0A # rev x"] nl p by blast
    have "hd e = CHR 0x0A" using prefix_hd [OF e(3,2)] by simp
    then have "e = [CHR 0x0A]" using e(1) space_ends(3) by auto
    then show ?thesis using e(4) by simp
  qed
  show ?thesis by (simp add: TrimSpace_def 1 2 3)
qed

lemma Join_ends:
  assumes "fs \<noteq> []" "\<And>f. f \<in> set fs \<Longrightarrow> f \<noteq> []"
  shows "Join fs sep \<noteq> [] \<and> hd (Join fs sep) = hd (hd fs) \<and> last (Join fs sep) = last (last fs)"
  using assms by (induction fs sep rule: Join.induct) (auto simp: hd_append last_append)

lemma log_text_Join: "entries \<noteq> [] \<Longrightarrow> log_text entries = Join (map log_line entries) [CHR 0x0A] @ [CHR 0x0A]"
proof (induction entries)
  case (Cons e entries)
  then show ?case by (cases entries) (simp_all add: log_text_def)
qed simp

lemma no_sep:
  assumes "list_all graphic s"
  shows "CHR 0x09 \<notin> set s" "CHR 0x0A \<notin> set s" "CHR 0x0D \<notin> set s"
  using assms by (auto simp: list_all_iff graphic_def less_eq_char_def)

lemma plain_entry_line:
  assumes "plain_entry e"
  shows "log_line e \<noteq> []" "graphic (hd (log_line e))" "graphic (last (log_line e))" "CHR 0x0A \<notin> set (log_line e)"
    "Split (TrimSuffix (log_line e) [CHR 0x0D]) (CHR 0x09) = fst e # snd e"
proof -
  have f: "f \<noteq> [] \<and> list_all graphic f" if "f \<in> set (fst e # snd e)" for f
    using assms that by (auto simp: plain_entry_def plain_def list_all_iff)
  have j: "log_line e \<noteq> [] \<and> hd (log_line e) = hd (hd (fst e # snd e)) \<and> last (log_line e) = last (last (fst e # snd e))"
    unfolding log_line_def using f by (intro Join_ends) auto
  have "graphic (hd g) \<and> graphic (last g)" if "g \<in> set (fst e # snd e)" for g
    using f [OF that] by (cases g) (auto simp: list_all_iff)
  then show l: "log_line e \<noteq> []" "graphic (hd (log_line e))" "graphic (last (log_line e))" using j by auto
  have "CHR 0x0A \<notin> set (Join fs [CHR 0x09])" if "\<And>f. f \<in> set fs \<Longrightarrow> CHR 0x0A \<notin> set f" for fs
    using that by (induction fs "[CHR 0x09 :: char]" rule: Join.induct) auto
  then show "CHR 0x0A \<notin> set (log_line e)" unfolding log_line_def using f no_sep(2) by blast
  have "last (log_line e) \<noteq> CHR 0x0D" using l(3) by (auto simp: graphic_def less_eq_char_def)
  then have "TrimSuffix (log_line e) [CHR 0x0D] = log_line e" by (auto simp: TrimSuffix_def suffix_def)
  moreover have "Split (Join (fst e # snd e) [CHR 0x09]) (CHR 0x09) = fst e # snd e"
    using f no_sep(1) by (intro Split_Join) auto
  ultimately show "Split (TrimSuffix (log_line e) [CHR 0x0D]) (CHR 0x09) = fst e # snd e" by (simp add: log_line_def)
qed

text \<open>
  C29. Frozen sources stay frozen. For a log of changes with plain paths, the history check fails exactly
  when some change, a rename on either side included, touches a frozen path of the old release tree.
\<close>

theorem frozen_history_exact:
  assumes "list_all plain_entry entries"
  shows "ValidateImmutableChanges (log_text entries) = None \<longleftrightarrow>
    list_all (\<lambda>e. list_all (\<lambda>p. \<not> frozenLegacyReleasePath (slashes p)) (snd e)) entries"
proof (cases "entries = []")
  case True
  have "ValidateImmutableChanges [] = None" by code_simp
  then show ?thesis using True by (simp add: log_text_def)
next
  case False
  note l = plain_entry_line
  let ?t = "Join (map log_line entries) [CHR 0x0A]"
  have "?t \<noteq> [] \<and> hd ?t = hd (hd (map log_line entries)) \<and> last ?t = last (last (map log_line entries))"
    using False assms l(1) by (intro Join_ends) (auto simp: list_all_iff)
  moreover have "plain_entry (hd entries)" "plain_entry (last entries)" using False assms by (simp_all add: list_all_iff)
  ultimately have "TrimSpace (log_text entries) = ?t"
    unfolding log_text_Join [OF False] using False l(2) [of "hd entries"] l(3) [of "last entries"]
    by (intro TrimSpace_line) (simp_all add: hd_map last_map)
  moreover have "Split ?t (CHR 0x0A) = map log_line entries" using False assms l(4) by (intro Split_Join) (auto simp: list_all_iff)
  moreover have "check_change (log_line e) = None \<longleftrightarrow> list_all (\<lambda>p. \<not> frozenLegacyReleasePath (slashes p)) (snd e)"
    if "e \<in> set entries" for e
    using l(5) [of e] that assms by (simp add: check_change_def list_all_iff)
  ultimately show ?thesis by (simp add: ValidateImmutableChanges_def list_all_iff)
qed

text \<open>
  git quotes a path with other characters; the quoted text starts with a quotation mark and passes the
  check although the file is below a frozen directory.
\<close>

lemma quoted_path_passes:
  "ValidateImmutableChanges (''M'' @ [CHR 0x09, CHR 0x22] @ ''release/candidates/'' @ [CHR 0x5C] @ ''321'' @ [CHR 0x5C] @ ''204.json'' @ [CHR 0x22, CHR 0x0A]) = None"
  by code_simp

text \<open>The reference to a release archive may carry further text between the archive and the digest.\<close>

lemma archive_reference_not_exact:
  "releaseArtifactReferenceForComponent ''relay'' ''endless-net/relay'' (replicate 40 (CHR ''a''))
     (''https://github.com/endless-net/relay/releases/download/relay-'' @ replicate 40 (CHR ''a'') @ ''-d025/relay-'' @ replicate 40 (CHR ''a'') @
      ''-d025.tar.gz@/../other@sha256:'' @ replicate 64 (CHR ''0''))"
  by code_simp

end
