(* ===== verification/Sample_Release.thy ===== *)
theory Sample_Release
  imports Release_Safety Sample_Keys
begin

text \<open>A release for the witnesses: one component and one module from candidate to production.\<close>

definition commit_a :: string where "commit_a = replicate 40 (CHR ''a'')"
definition digest_0 :: string where "digest_0 = ''sha256:'' @ replicate 64 (CHR ''0'')"
definition run_of :: "string \<Rightarrow> string" where "run_of repo = ''https://github.com/'' @ repo @ ''/actions/runs/17''"

definition reference :: "string \<Rightarrow> DigestReference" where
  "reference raw = \<lparr>dr_URI = ''https://github.com/endless-net/releases/blob/'' @ commit_a @ ''/release/record.json'', dr_Digest = Digest sample_sha256 raw\<rparr>"

definition sample_component :: Component where
  "sample_component = \<lparr>com_Name = ''relay'', com_Repository = ''endless-net/relay'', com_GitCommit = commit_a,
     com_Image = Some (''ghcr.io/endless-net/relay@'' @ digest_0)\<rparr>"

definition sample_module :: Module where
  "sample_module = \<lparr>modl_Path = ''github.com/endless-net/client-api'', modl_Version = ''v1.4.0-rc.1'', modl_Sum = ''h1:AbC+/=''\<rparr>"

definition sample_candidate :: Candidate where
  "sample_candidate = \<lparr>cand_Schema = [], cand_SchemaVersion = 1, cand_Release = ''2026.1'', cand_Status = ''candidate'',
     cand_Components = Some [sample_component], cand_Modules = Some [sample_module], cand_Contracts = None\<rparr>"

definition sample_build :: BuildProvenance where
  "sample_build = \<lparr>bp_Repository = ''endless-net/relay'', bp_SourceCommit = commit_a, bp_Run = run_of ''endless-net/relay'', bp_AttestationDigest = digest_0\<rparr>"

definition sample_provenance :: CandidateProvenance where
  "sample_provenance = \<lparr>cprov_Schema = [], cprov_SchemaVersion = 1, cprov_Release = ''2026.1'', cprov_CandidateDigest = Digest sample_sha256 ''candidate'',
     cprov_Components = Some [\<lparr>cp_Name = ''relay'', cp_Repository = ''endless-net/relay'', cp_GitCommit = commit_a,
       cp_Artifact = \<lparr>dr_URI = ''ghcr.io/endless-net/relay@'' @ digest_0, dr_Digest = digest_0\<rparr>, cp_Build = sample_build\<rparr>],
     cprov_Modules = Some [\<lparr>mp_Path = ''github.com/endless-net/client-api'', mp_Version = ''v1.4.0-rc.1'', mp_Sum = ''h1:AbC+/='',
       mp_Source = \<lparr>ms_Repository = ''endless-net/client-api'', ms_GitCommit = commit_a, ms_Run = run_of ''endless-net/client-api''\<rparr>\<rparr>]\<rparr>"

definition sample_evidence :: SystemTestEvidence where
  "sample_evidence = \<lparr>ste_Schema = [], ste_SchemaVersion = 1, ste_CandidateDigest = Digest sample_sha256 ''candidate'', ste_Result = ''passed'',
     ste_Suite = \<lparr>ts_Repository = ''endless-net/system-tests'', ts_GitCommit = commit_a, ts_Run = run_of ''endless-net/system-tests''\<rparr>\<rparr>"

definition sample_envelope :: ReleasedEnvelope where
  "sample_envelope = \<lparr>renv_Schema = [], renv_SchemaVersion = 1, renv_Release = ''2026.1'', renv_Status = ''released'',
     renv_Candidate = reference ''candidate'', renv_Resolved = Resolved sample_candidate,
     renv_Provenance = \<lparr>rp_CandidateProvenance = reference ''provenance'',
       rp_SystemTests = \<lparr>stp_Evidence = reference ''evidence'', stp_Repository = ''endless-net/system-tests'', stp_GitCommit = commit_a,
         stp_Run = run_of ''endless-net/system-tests''\<rparr>,
       rp_Promotion = \<lparr>pp_Repository = ''endless-net/client-api'', pp_Run = run_of ''endless-net/client-api'', pp_ApprovedBy = []\<rparr>\<rparr>\<rparr>"

lemma sample_provenance_accepted:
  "ValidateCandidateProvenance sample_candidate (Digest sample_sha256 ''candidate'') sample_provenance = None"
  by code_simp

theorem provenance_complete_witness:
  "mset (map cp_Name (elems (cprov_Components sample_provenance))) = mset [''relay'']"
  using conjunct1 [OF provenance_complete [OF sample_provenance_accepted]] by (simp add: sample_candidate_def sample_component_def)

lemma sample_references:
  "validateDigestReference (reference ''candidate'') = None" "validateDigestReference (reference ''provenance'') = None"
  "validateDigestReference (reference ''evidence'') = None" "validateDigestReference (reference ''envelope'') = None"
  "validateDigestReference (reference ''run'') = None"
  by code_simp+

lemma sample_runs:
  "actionsRunFor ''endless-net/client-api'' (run_of ''endless-net/client-api'')" "actionsRunFor ''endless-net/releases'' (run_of ''endless-net/releases'')"
  by code_simp+

lemma sample_evidence_accepted: "ValidateSystemTestEvidence (Digest sample_sha256 ''candidate'') sample_evidence = None"
  by code_simp

lemma reference_digest [simp]: "dr_Digest (reference raw) = Digest sample_sha256 raw"
  by (simp add: reference_def)

theorem production_is_validated_witness:
  "\<exists>production. ResolveProduction sample_sha256 sample_envelope ''envelope'' (reference ''envelope'') = Inr production \<and>
     reso_EnvironmentClass production = ''production''"
proof -
  have "ValidateReleasedEnvelope sample_sha256 sample_envelope sample_candidate ''candidate'' ''provenance'' ''evidence'' sample_provenance
      sample_evidence = None"
    using sample_provenance_accepted sample_evidence_accepted sample_references(1-3) sample_runs(1)
    by (simp add: ValidateReleasedEnvelope_def BuildReleasedEnvelope_def sample_envelope_def Let_def)
      (simp add: sample_candidate_def sample_evidence_def)
  then show ?thesis using production_is_validated [OF _ sample_references(4) reference_digest] by blast
qed

definition sample_component_candidate :: ComponentCandidate where
  "sample_component_candidate = \<lparr>cc_Schema = [], cc_SchemaVersion = 2, cc_Kind = ''candidate'', cc_Component = ''relay'',
     cc_Repository = ''endless-net/relay'', cc_GitCommit = commit_a,
     cc_Artifact = ''https://github.com/endless-net/relay/releases/download/relay-'' @ commit_a @ ''-d025/relay-'' @ commit_a @ ''-d025.tar.gz@'' @ digest_0,
     cc_Modules = Some [sample_module], cc_Contracts = None,
     cc_CompatibilityGates = Some [\<lparr>cg_Provider = ''relay'', cg_Consumer = ''client'', cg_Contract = ''relay-wire'', cg_Version = 2\<rparr>],
     cc_Provenance = \<lparr>ccp_ProducerRelease = reference ''release'', ccp_Build = sample_build, ccp_AttestationDigest = digest_0\<rparr>\<rparr>"

definition sample_released :: ReleasedComponent where
  "sample_released = \<lparr>rc_Schema = [], rc_SchemaVersion = 2, rc_Kind = ''released'', rc_Component = ''relay'', rc_Repository = ''endless-net/relay'',
     rc_GitCommit = commit_a, rc_Artifact = cc_Artifact sample_component_candidate, rc_Candidate = reference ''candidate'',
     rc_CandidateProvenance = reference ''provenance'',
     rc_CompatibilityEvidence = Some [\<lparr>cev_Provider = ''relay'', cev_Consumer = ''client'', cev_Contract = ''relay-wire'', cev_Version = 2,
       cev_Evidence = reference ''run''\<rparr>],
     rc_Promotion = \<lparr>pp_Repository = ''endless-net/releases'', pp_Run = run_of ''endless-net/releases'', pp_ApprovedBy = ''owner''\<rparr>\<rparr>"

theorem released_component_bound_witness:
  "rc_Artifact sample_released = cc_Artifact sample_component_candidate \<and>
   mset (map evidence_gate (elems (rc_CompatibilityEvidence sample_released))) = mset [(''relay'', ''client'', ''relay-wire'', 2)]"
proof -
  have "ValidateComponentCandidate sample_component_candidate = None" by code_simp
  moreover have "check_evidence (map gate_key (elems (cc_CompatibilityGates sample_component_candidate))) []
      (elems (rc_CompatibilityEvidence sample_released)) = None"
    using sample_references(5)
    by (subst check_evidence_None) (simp_all add: sample_component_candidate_def sample_released_def gate_key_def evidence_key_def)
  moreover note sample_references(1,2) sample_runs(2)
  ultimately have v: "ValidateReleasedComponent sample_sha256 sample_released sample_component_candidate ''candidate'' = None"
    by (simp add: ValidateReleasedComponent_def) (simp add: sample_released_def sample_component_candidate_def reference_def)
  have n: "list_all (\<lambda>g. CHR 0x00 \<notin> set (cg_Contract g)) (elems (cc_CompatibilityGates sample_component_candidate))" by code_simp
  show ?thesis using released_component_bound [OF v n] by (simp add: sample_component_candidate_def gate_of_def)
qed

theorem frozen_history_exact_witness:
  "ValidateImmutableChanges (log_text [(''M'', [''release/README.md'']), (''R100'', [''release/evidence/a.json'', ''docs/a.json''])]) \<noteq> None"
proof -
  let ?log = "[(''M'', [''release/README.md'']), (''R100'', [''release/evidence/a.json'', ''docs/a.json''])]"
  have p: "list_all plain_entry ?log" by code_simp
  have "\<not> list_all (\<lambda>e. list_all (\<lambda>p. \<not> frozenLegacyReleasePath (slashes p)) (snd e)) ?log" by code_simp
  then show ?thesis using frozen_history_exact [OF p] by blast
qed

text \<open>
  A candidate with an empty list of contracts is promoted, but the envelope that is written leaves the
  list out; read back, it has a nil list, and validation finds it different from the candidate.
\<close>

definition empty_contracts :: Candidate where
  "empty_contracts = sample_candidate\<lparr>cand_Contracts := Some []\<rparr>"

definition sample_request :: PromotionRequest where
  "sample_request = \<lparr>preq_Schema = [], preq_SchemaVersion = 1, preq_Candidate = reference ''candidate'', preq_CandidateProvenance = reference ''provenance'',
     preq_SystemTestEvidence = reference ''evidence'',
     preq_Promotion = \<lparr>pp_Repository = ''endless-net/client-api'', pp_Run = run_of ''endless-net/client-api'', pp_ApprovedBy = []\<rparr>\<rparr>"

definition promoted_empty :: ReleasedEnvelope where
  "promoted_empty = (case BuildReleasedEnvelope sample_sha256 empty_contracts ''candidate'' ''provenance'' ''evidence'' sample_provenance sample_evidence
     sample_request of Inl _ \<Rightarrow> zero_ReleasedEnvelope | Inr envelope \<Rightarrow> envelope)"

lemma empty_contracts_accepted:
  "ValidateCandidateProvenance empty_contracts (Digest sample_sha256 ''candidate'') sample_provenance = None"
  using sample_provenance_accepted
  by (simp add: ValidateCandidateProvenance_def ValidateCandidate_def check_contracts_def empty_contracts_def)

lemma empty_contracts_built:
  "BuildReleasedEnvelope sample_sha256 empty_contracts ''candidate'' ''provenance'' ''evidence'' sample_provenance sample_evidence sample_request =
     Inr (sample_envelope\<lparr>renv_Schema := ReleasedEnvelopeSchema, renv_Resolved := Resolved empty_contracts\<rparr>)"
  using empty_contracts_accepted sample_evidence_accepted sample_references(1-3) sample_runs(1)
  by (simp add: BuildReleasedEnvelope_def sample_request_def sample_envelope_def Let_def require_def option.case_eq_if)
    (simp add: empty_contracts_def sample_candidate_def sample_evidence_def)

lemma empty_contracts_refused:
  "promoted_empty = sample_envelope\<lparr>renv_Schema := ReleasedEnvelopeSchema, renv_Resolved := Resolved empty_contracts\<rparr> \<and>
   map fst (case json_ResolvedSet (renv_Resolved promoted_empty) of JObject fs \<Rightarrow> fs | _ \<Rightarrow> []) = [''components'', ''modules''] \<and>
   ValidateReleasedEnvelope sample_sha256 (promoted_empty\<lparr>renv_Resolved := (Resolved empty_contracts)\<lparr>rs_Contracts := None\<rparr>\<rparr>) empty_contracts
     ''candidate'' ''provenance'' ''evidence'' sample_provenance sample_evidence \<noteq> None"
proof (intro conjI)
  show p: "promoted_empty = sample_envelope\<lparr>renv_Schema := ReleasedEnvelopeSchema, renv_Resolved := Resolved empty_contracts\<rparr>"
    by (simp add: promoted_empty_def empty_contracts_built)
  show "map fst (case json_ResolvedSet (renv_Resolved promoted_empty) of JObject fs \<Rightarrow> fs | _ \<Rightarrow> []) = [''components'', ''modules'']"
    unfolding p by (simp add: json_ResolvedSet_def slice_field_def opt_slice_field_def Resolved_def empty_contracts_def)
  show "ValidateReleasedEnvelope sample_sha256 (promoted_empty\<lparr>renv_Resolved := (Resolved empty_contracts)\<lparr>rs_Contracts := None\<rparr>\<rparr>) empty_contracts
     ''candidate'' ''provenance'' ''evidence'' sample_provenance sample_evidence \<noteq> None"
  proof
    assume "ValidateReleasedEnvelope sample_sha256 (promoted_empty\<lparr>renv_Resolved := (Resolved empty_contracts)\<lparr>rs_Contracts := None\<rparr>\<rparr>) empty_contracts
     ''candidate'' ''provenance'' ''evidence'' sample_provenance sample_evidence = None"
    from accepted_envelope(4) [OF this] show False by (simp add: Resolved_def empty_contracts_def)
  qed
qed

end
