(* ===== verification/Release_Cli.thy ===== *)
theory Release_Cli
  imports Release_Safety
begin

text \<open>
  The command line tool of the release contract (\<open>src/systemtests/cmd/releasecontract/main.go\<close>). A run
  maps the files it finds to an exit code, its standard output and the files it leaves; messages on
  standard error are left out. Git is the argument \<open>git\<close>, from its arguments to its output; creating
  a file fails only when the file exists.
\<close>

type_synonym files = "string \<rightharpoonup> string"

record process =
  p_Exit :: int
  p_Stdout :: string
  p_Files :: files

section \<open>JSON output\<close>

text \<open>\<open>json.Encoder\<close> with \<open>SetIndent("", "  ")\<close>: containers that are not empty go over several lines.\<close>

definition indent :: "nat \<Rightarrow> string" where "indent d = CHR 0x0A # replicate (2 * d) (CHR '' '')"

fun json_indent :: "nat \<Rightarrow> json \<Rightarrow> string" where
  "json_indent d (JObject []) = ''{}''"
| "json_indent d (JObject (f # fs)) =
     ''{'' @ Join (map (\<lambda>(k, v). indent (Suc d) @ json_quote k @ '': '' @ json_indent (Suc d) v) (f # fs)) '','' @ indent d @ ''}''"
| "json_indent d (JArray []) = ''[]''"
| "json_indent d (JArray (x # xs)) =
     ''['' @ Join (map (\<lambda>v. indent (Suc d) @ json_indent (Suc d) v) (x # xs)) '','' @ indent d @ '']''"
| "json_indent d j = json_text j"

definition encoded :: "json \<Rightarrow> string" where "encoded j = json_indent 0 j @ [CHR 0x0A]"

section \<open>Flags\<close>

datatype flags = Flags "(string \<times> string) list" | FlagHelp | FlagError

text \<open>\<open>FlagSet.Parse\<close> for string flags: up to the first argument that is not a flag, or \<open>--\<close>.\<close>

fun parse_flags :: "string list \<Rightarrow> (string \<times> string) list \<Rightarrow> string list \<Rightarrow> flags" where
  "parse_flags names vals [] = Flags vals"
| "parse_flags names vals (s # args) =
     (if length s < 2 \<or> hd s \<noteq> CHR ''-'' \<or> s = ''--'' then Flags vals
      else let text = (if s ! 1 = CHR ''-'' then drop 2 s else tl s); (name, val) = Cut text (CHR ''='')
           in if hd text = CHR ''-'' \<or> hd text = CHR ''='' then FlagError
              else if name \<notin> set names then (if name = ''help'' \<or> name = ''h'' then FlagHelp else FlagError)
              else if CHR ''='' \<in> set text then parse_flags names ((name, val) # vals) args
              else (case args of [] \<Rightarrow> FlagError | v # rest \<Rightarrow> parse_flags names ((name, v) # vals) rest))"

definition flag_value :: "(string \<times> string) list \<Rightarrow> string \<Rightarrow> string" where
  "flag_value vals name = (case map_of vals name of None \<Rightarrow> [] | Some v \<Rightarrow> v)"

section \<open>Processes\<close>

definition exit_with :: "files \<Rightarrow> int \<Rightarrow> process" where
  "exit_with fs code = \<lparr>p_Exit = code, p_Stdout = [], p_Files = fs\<rparr>"

abbreviation fatalf :: "files \<Rightarrow> process" where "fatalf fs \<equiv> exit_with fs 1"

definition writeJSON :: "files \<Rightarrow> json \<Rightarrow> process" where
  "writeJSON fs j = \<lparr>p_Exit = 0, p_Stdout = encoded j, p_Files = fs\<rparr>"

definition WriteNewJSON :: "files \<Rightarrow> string \<Rightarrow> json \<Rightarrow> files result" where
  "WriteNewJSON fs path j = (case fs path of Some _ \<Rightarrow> Inl (Errorf ''file exists'') | None \<Rightarrow> Inr (fs(path \<mapsto> encoded j)))"

text \<open>The flags of a command, all of which must have a value.\<close>

definition with_flags :: "files \<Rightarrow> string list \<Rightarrow> string list \<Rightarrow> ((string \<Rightarrow> string) \<Rightarrow> process) \<Rightarrow> process" where
  "with_flags fs names arguments k =
     (case parse_flags names [] arguments of
        FlagHelp \<Rightarrow> exit_with fs 0
      | FlagError \<Rightarrow> exit_with fs 2
      | Flags vals \<Rightarrow> if list_ex (\<lambda>n. flag_value vals n = []) names then exit_with fs 2 else k (flag_value vals))"

definition read :: "'a decoder \<Rightarrow> 'a \<Rightarrow> files \<Rightarrow> string \<Rightarrow> (string \<Rightarrow> 'a \<Rightarrow> process) \<Rightarrow> process" where
  "read dec zero fs path k =
     (case fs path of
        None \<Rightarrow> fatalf fs
      | Some raw \<Rightarrow> (case DecodeStrict dec zero raw of Inl _ \<Rightarrow> fatalf fs | Inr v \<Rightarrow> k raw v))"

abbreviation "read_Candidate \<equiv> read (dec_struct Candidate_fields) zero_Candidate"
abbreviation "read_CandidateProvenance \<equiv> read (dec_struct CandidateProvenance_fields) zero_CandidateProvenance"
abbreviation "read_SystemTestEvidence \<equiv> read (dec_struct SystemTestEvidence_fields) zero_SystemTestEvidence"
abbreviation "read_PromotionRequest \<equiv> read (dec_struct PromotionRequest_fields) zero_PromotionRequest"
abbreviation "read_ReleasedEnvelope \<equiv> read (dec_struct ReleasedEnvelope_fields) zero_ReleasedEnvelope"
abbreviation "read_ComponentCandidate \<equiv> read (dec_struct ComponentCandidate_fields) zero_ComponentCandidate"
abbreviation "read_ReleasedComponent \<equiv> read (dec_struct ReleasedComponent_fields) zero_ReleasedComponent"
abbreviation "read_InfrastructureSignal \<equiv> read (dec_struct InfrastructureSignal_fields) zero_InfrastructureSignal"

definition report :: "files \<Rightarrow> err \<Rightarrow> process" where
  "report fs e = (case e of Some _ \<Rightarrow> fatalf fs | None \<Rightarrow> exit_with fs 0)"

section \<open>Commands\<close>

definition validateComponentCandidate :: "files \<Rightarrow> string list \<Rightarrow> process" where
  "validateComponentCandidate fs arguments =
     with_flags fs [''candidate''] arguments (\<lambda>flag.
     read_ComponentCandidate fs (flag ''candidate'') (\<lambda>_ candidate.
     report fs (ValidateComponentCandidate candidate)))"

definition validateReleasedComponent :: "(string \<Rightarrow> string) \<Rightarrow> files \<Rightarrow> string list \<Rightarrow> process" where
  "validateReleasedComponent sha256 fs arguments =
     with_flags fs [''candidate'', ''released''] arguments (\<lambda>flag.
     read_ComponentCandidate fs (flag ''candidate'') (\<lambda>candidateRaw candidate.
     read_ReleasedComponent fs (flag ''released'') (\<lambda>_ released.
     report fs (ValidateReleasedComponent sha256 released candidate candidateRaw))))"

definition validateInfrastructureSignal :: "(string \<Rightarrow> string) \<Rightarrow> files \<Rightarrow> string list \<Rightarrow> process" where
  "validateInfrastructureSignal sha256 fs arguments =
     with_flags fs [''released'', ''signal''] arguments (\<lambda>flag.
     read_ReleasedComponent fs (flag ''released'') (\<lambda>releasedRaw released.
     read_InfrastructureSignal fs (flag ''signal'') (\<lambda>_ signal.
     report fs (ValidateInfrastructureSignal sha256 signal released releasedRaw))))"

definition resolveCandidate :: "(string \<Rightarrow> string) \<Rightarrow> files \<Rightarrow> string list \<Rightarrow> process" where
  "resolveCandidate sha256 fs arguments =
     with_flags fs [''candidate'', ''candidate-provenance'', ''candidate-uri'', ''candidate-provenance-uri''] arguments (\<lambda>flag.
     read_Candidate fs (flag ''candidate'') (\<lambda>candidateRaw candidate.
     read_CandidateProvenance fs (flag ''candidate-provenance'') (\<lambda>provenanceRaw provenance.
     case ResolveCandidate sha256 candidate candidateRaw provenanceRaw provenance
            \<lparr>dr_URI = flag ''candidate-uri'', dr_Digest = Digest sha256 candidateRaw\<rparr>
            \<lparr>dr_URI = flag ''candidate-provenance-uri'', dr_Digest = Digest sha256 provenanceRaw\<rparr> of
       Inl _ \<Rightarrow> fatalf fs
     | Inr resolution \<Rightarrow> writeJSON fs (json_Resolution resolution))))"

definition resolveRelease :: "(string \<Rightarrow> string) \<Rightarrow> files \<Rightarrow> string list \<Rightarrow> process" where
  "resolveRelease sha256 fs arguments =
     with_flags fs [''envelope'', ''candidate'', ''candidate-provenance'', ''system-test-evidence'', ''envelope-uri''] arguments (\<lambda>flag.
     read_ReleasedEnvelope fs (flag ''envelope'') (\<lambda>envelopeRaw envelope.
     read_Candidate fs (flag ''candidate'') (\<lambda>candidateRaw candidate.
     read_CandidateProvenance fs (flag ''candidate-provenance'') (\<lambda>provenanceRaw provenance.
     read_SystemTestEvidence fs (flag ''system-test-evidence'') (\<lambda>systemTestRaw evidence.
     case ValidateReleasedEnvelope sha256 envelope candidate candidateRaw provenanceRaw systemTestRaw provenance evidence of
       Some _ \<Rightarrow> fatalf fs
     | None \<Rightarrow>
         (case ResolveProduction sha256 envelope envelopeRaw \<lparr>dr_URI = flag ''envelope-uri'', dr_Digest = Digest sha256 envelopeRaw\<rparr> of
            Inl _ \<Rightarrow> fatalf fs
          | Inr resolution \<Rightarrow> writeJSON fs (json_Resolution resolution)))))))"

definition promote :: "(string \<Rightarrow> string) \<Rightarrow> files \<Rightarrow> string list \<Rightarrow> process" where
  "promote sha256 fs arguments =
     with_flags fs [''candidate'', ''candidate-provenance'', ''system-test-evidence'', ''request'', ''output''] arguments (\<lambda>flag.
     read_Candidate fs (flag ''candidate'') (\<lambda>candidateRaw candidate.
     read_CandidateProvenance fs (flag ''candidate-provenance'') (\<lambda>provenanceRaw provenance.
     read_SystemTestEvidence fs (flag ''system-test-evidence'') (\<lambda>systemTestRaw evidence.
     read_PromotionRequest fs (flag ''request'') (\<lambda>_ request.
     case BuildReleasedEnvelope sha256 candidate candidateRaw provenanceRaw systemTestRaw provenance evidence request of
       Inl _ \<Rightarrow> fatalf fs
     | Inr envelope \<Rightarrow>
         (case WriteNewJSON fs (flag ''output'') (json_ReleasedEnvelope envelope) of
            Inl _ \<Rightarrow> fatalf fs
          | Inr fs' \<Rightarrow> exit_with fs' 0))))))"

text \<open>\<open>head\<close> defaults to \<open>HEAD\<close> and may be empty; only \<open>base\<close> is required.\<close>

definition verifyHistory :: "(string list \<Rightarrow> string result) \<Rightarrow> files \<Rightarrow> string list \<Rightarrow> process" where
  "verifyHistory git fs arguments =
     (case parse_flags [''base'', ''head''] [(''head'', ''HEAD'')] arguments of
        FlagHelp \<Rightarrow> exit_with fs 0
      | FlagError \<Rightarrow> exit_with fs 2
      | Flags vals \<Rightarrow>
          if flag_value vals ''base'' = [] then exit_with fs 2
          else (case git [''log'', ''--format='', ''--name-status'', ''--find-renames'', ''--reverse'',
                          flag_value vals ''base'' @ ''..'' @ flag_value vals ''head'', ''--'', '':(top)release''] of
                  Inl _ \<Rightarrow> fatalf fs
                | Inr output \<Rightarrow> report fs (ValidateImmutableChanges output)))"

definition releasecontract_main :: "(string \<Rightarrow> string) \<Rightarrow> (string list \<Rightarrow> string result) \<Rightarrow> files \<Rightarrow> string list \<Rightarrow> process" where
  "releasecontract_main sha256 git fs args =
     (case args of
        [] \<Rightarrow> fatalf fs
      | command # arguments \<Rightarrow>
          if command = ''promote'' then promote sha256 fs arguments
          else if command = ''resolve-candidate'' then resolveCandidate sha256 fs arguments
          else if command = ''resolve-release'' then resolveRelease sha256 fs arguments
          else if command = ''validate-component-candidate'' then validateComponentCandidate fs arguments
          else if command = ''validate-released-component'' then validateReleasedComponent sha256 fs arguments
          else if command = ''validate-infrastructure-signal'' then validateInfrastructureSignal sha256 fs arguments
          else if command = ''verify-history'' then verifyHistory git fs arguments
          else fatalf fs)"

section \<open>What a run changes and prints\<close>

lemma with_flags_split:
  "P (with_flags fs names arguments k) \<longleftrightarrow>
     (parse_flags names [] arguments = FlagHelp \<longrightarrow> P (exit_with fs 0)) \<and>
     (parse_flags names [] arguments = FlagError \<longrightarrow> P (exit_with fs 2)) \<and>
     (\<forall>vals. parse_flags names [] arguments = Flags vals \<longrightarrow>
        (if list_ex (\<lambda>n. flag_value vals n = []) names then P (exit_with fs 2) else P (k (flag_value vals))))"
  by (cases "parse_flags names [] arguments") (auto simp: with_flags_def)

lemma read_split:
  "P (read dec zero fs path k) \<longleftrightarrow>
     ((fs path = None \<or> (\<exists>raw e. fs path = Some raw \<and> DecodeStrict dec zero raw = Inl e)) \<longrightarrow> P (fatalf fs)) \<and>
     (\<forall>raw v. fs path = Some raw \<and> DecodeStrict dec zero raw = Inr v \<longrightarrow> P (k raw v))"
proof (cases "fs path")
  case (Some raw)
  then show ?thesis by (cases "DecodeStrict dec zero raw") (auto simp: read_def)
qed (auto simp: read_def)

lemma process_parts [simp]:
  "p_Files (exit_with fs code) = fs" "p_Stdout (exit_with fs code) = []" "p_Exit (exit_with fs code) = code"
  "p_Files (writeJSON fs j) = fs" "p_Stdout (writeJSON fs j) = encoded j" "p_Exit (writeJSON fs j) = 0"
  "p_Files (report fs e) = fs" "p_Stdout (report fs e) = []"
  by (simp_all add: exit_with_def writeJSON_def report_def split: option.splits)

text \<open>Every command but \<open>promote\<close> leaves the files alone.\<close>

lemma readers_keep_files:
  "p_Files (validateComponentCandidate fs args) = fs" "p_Files (validateReleasedComponent sha256 fs args) = fs"
  "p_Files (validateInfrastructureSignal sha256 fs args) = fs" "p_Files (resolveCandidate sha256 fs args) = fs"
  "p_Files (resolveRelease sha256 fs args) = fs" "p_Files (verifyHistory git fs args) = fs"
  by (simp_all add: validateComponentCandidate_def validateReleasedComponent_def validateInfrastructureSignal_def resolveCandidate_def
      resolveRelease_def verifyHistory_def split: with_flags_split read_split sum.split option.split flags.split)

text \<open>A record that a promotion over files of \<open>fs\<close> produces.\<close>

definition promoted_from :: "(string \<Rightarrow> string) \<Rightarrow> files \<Rightarrow> ReleasedEnvelope \<Rightarrow> bool" where
  "promoted_from sha256 fs envelope \<longleftrightarrow>
     (\<exists>candidateRaw provenanceRaw systemTestRaw candidate provenance evidence request.
        {candidateRaw, provenanceRaw, systemTestRaw} \<subseteq> ran fs \<and>
        DecodeStrict (dec_struct Candidate_fields) zero_Candidate candidateRaw = Inr candidate \<and>
        DecodeStrict (dec_struct CandidateProvenance_fields) zero_CandidateProvenance provenanceRaw = Inr provenance \<and>
        DecodeStrict (dec_struct SystemTestEvidence_fields) zero_SystemTestEvidence systemTestRaw = Inr evidence \<and>
        BuildReleasedEnvelope sha256 candidate candidateRaw provenanceRaw systemTestRaw provenance evidence request = Inr envelope)"

definition writes_ok :: "(string \<Rightarrow> string) \<Rightarrow> files \<Rightarrow> process \<Rightarrow> bool" where
  "writes_ok sha256 fs p \<longleftrightarrow> p_Files p = fs \<or>
     (\<exists>path envelope. p_Exit p = 0 \<and> fs path = None \<and> p_Files p = fs(path \<mapsto> encoded (json_ReleasedEnvelope envelope)) \<and>
        promoted_from sha256 fs envelope)"

lemma promote_writes: "writes_ok sha256 fs (promote sha256 fs args)"
proof -
  have keep: "writes_ok sha256 fs (exit_with fs code)" for code by (simp add: writes_ok_def)
  have "writes_ok sha256 fs
      (case BuildReleasedEnvelope sha256 candidate candidateRaw provenanceRaw systemTestRaw provenance evidence request of
         Inl _ \<Rightarrow> fatalf fs
       | Inr envelope \<Rightarrow>
           (case WriteNewJSON fs path (json_ReleasedEnvelope envelope) of Inl _ \<Rightarrow> fatalf fs | Inr fs' \<Rightarrow> exit_with fs' 0))"
    if "fs p1 = Some candidateRaw" "fs p2 = Some provenanceRaw" "fs p3 = Some systemTestRaw"
      "DecodeStrict (dec_struct Candidate_fields) zero_Candidate candidateRaw = Inr candidate"
      "DecodeStrict (dec_struct CandidateProvenance_fields) zero_CandidateProvenance provenanceRaw = Inr provenance"
      "DecodeStrict (dec_struct SystemTestEvidence_fields) zero_SystemTestEvidence systemTestRaw = Inr evidence"
    for p1 p2 p3 path candidateRaw provenanceRaw systemTestRaw candidate provenance evidence request
  proof (cases "BuildReleasedEnvelope sha256 candidate candidateRaw provenanceRaw systemTestRaw provenance evidence request")
    case (Inr envelope)
    have "{candidateRaw, provenanceRaw, systemTestRaw} \<subseteq> ran fs" using that by (auto intro: ranI)
    then have "promoted_from sha256 fs envelope" unfolding promoted_from_def using that(4-6) Inr by blast
    then show ?thesis using Inr by (auto simp: writes_ok_def WriteNewJSON_def split: option.splits)
  qed (simp add: keep)
  then show ?thesis unfolding promote_def by (simp add: keep split: with_flags_split read_split) blast
qed

lemma run_writes: "writes_ok sha256 fs (releasecontract_main sha256 git fs args)"
proof -
  have "writes_ok sha256 fs p" if "p_Files p = fs" for p using that by (simp add: writes_ok_def)
  then show ?thesis unfolding releasecontract_main_def
    by (auto intro: promote_writes simp: readers_keep_files split: list.split)
qed

text \<open>
  C27. Records are written once. Over any sequence of runs of the tool, with any arguments, every file that
  exists keeps its content; a run adds at most one file, only when it succeeds, and what it adds is
  an envelope that promotion produced from records among the files it found.
\<close>

theorem records_append_only:
  "fs \<subseteq>\<^sub>m foldl (\<lambda>fs args. p_Files (releasecontract_main sha256 git fs args)) fs runs \<and>
   (let p = releasecontract_main sha256 git fs args
    in p_Files p = fs \<or>
       (\<exists>path envelope. p_Exit p = 0 \<and> path \<notin> dom fs \<and> p_Files p = fs(path \<mapsto> encoded (json_ReleasedEnvelope envelope)) \<and>
          promoted_from sha256 fs envelope))"
proof
  have step: "fs \<subseteq>\<^sub>m p_Files (releasecontract_main sha256 git fs args)" for fs args
    using run_writes [of sha256 fs git args] by (auto simp: writes_ok_def map_le_def)
  show "fs \<subseteq>\<^sub>m foldl (\<lambda>fs args. p_Files (releasecontract_main sha256 git fs args)) fs runs"
  proof (induction runs arbitrary: fs)
    case (Cons args runs)
    show ?case using map_le_trans [OF step Cons.IH] by simp
  qed simp
  show "let p = releasecontract_main sha256 git fs args
    in p_Files p = fs \<or>
       (\<exists>path envelope. p_Exit p = 0 \<and> path \<notin> dom fs \<and> p_Files p = fs(path \<mapsto> encoded (json_ReleasedEnvelope envelope)) \<and>
          promoted_from sha256 fs envelope)"
    using run_writes [of sha256 fs git args] by (auto simp: writes_ok_def Let_def dom_def)
qed

text \<open>A resolution of records among the files: of a candidate, or of an envelope that was validated.\<close>

definition resolved_from :: "(string \<Rightarrow> string) \<Rightarrow> files \<Rightarrow> Resolution \<Rightarrow> bool" where
  "resolved_from sha256 fs resolution \<longleftrightarrow>
     (\<exists>candidateRaw provenanceRaw candidate provenance.
        {candidateRaw, provenanceRaw} \<subseteq> ran fs \<and>
        DecodeStrict (dec_struct Candidate_fields) zero_Candidate candidateRaw = Inr candidate \<and>
        DecodeStrict (dec_struct CandidateProvenance_fields) zero_CandidateProvenance provenanceRaw = Inr provenance \<and>
        reso_Resolved resolution = Resolved candidate \<and> reso_CandidateDigest resolution = Digest sha256 candidateRaw \<and>
        ValidateCandidateProvenance candidate (Digest sha256 candidateRaw) provenance = None \<and>
        (reso_EnvironmentClass resolution = ''validation'' \<or>
         (\<exists>systemTestRaw evidence. systemTestRaw \<in> ran fs \<and>
            DecodeStrict (dec_struct SystemTestEvidence_fields) zero_SystemTestEvidence systemTestRaw = Inr evidence \<and>
            ValidateSystemTestEvidence (Digest sha256 candidateRaw) evidence = None)))"

definition prints_ok :: "(string \<Rightarrow> string) \<Rightarrow> files \<Rightarrow> process \<Rightarrow> bool" where
  "prints_ok sha256 fs p \<longleftrightarrow> p_Stdout p = [] \<or>
     (\<exists>resolution. p_Exit p = 0 \<and> p_Stdout p = encoded (json_Resolution resolution) \<and> resolved_from sha256 fs resolution)"

lemma prints_nothing: "p_Stdout p = [] \<Longrightarrow> prints_ok sha256 fs p"
  by (simp add: prints_ok_def)

lemma resolveCandidate_prints: "prints_ok sha256 fs (resolveCandidate sha256 fs args)"
proof -
  have "prints_ok sha256 fs
      (case ResolveCandidate sha256 candidate candidateRaw provenanceRaw provenance r1 r2 of
         Inl _ \<Rightarrow> fatalf fs | Inr resolution \<Rightarrow> writeJSON fs (json_Resolution resolution))"
    if f: "fs p1 = Some candidateRaw" "fs p2 = Some provenanceRaw"
      and d: "DecodeStrict (dec_struct Candidate_fields) zero_Candidate candidateRaw = Inr candidate"
        "DecodeStrict (dec_struct CandidateProvenance_fields) zero_CandidateProvenance provenanceRaw = Inr provenance"
    for p1 p2 candidateRaw provenanceRaw candidate provenance r1 r2
  proof (cases "ResolveCandidate sha256 candidate candidateRaw provenanceRaw provenance r1 r2")
    case (Inr res)
    then have "ValidateCandidateProvenance candidate (Digest sha256 candidateRaw) provenance = None" "reso_EnvironmentClass res = ''validation''"
      "reso_Resolved res = Resolved candidate" "reso_CandidateDigest res = Digest sha256 candidateRaw"
      by (auto simp: ResolveCandidate_def Let_def)
    moreover have "{candidateRaw, provenanceRaw} \<subseteq> ran fs" using f by (auto intro: ranI)
    ultimately have "resolved_from sha256 fs res" unfolding resolved_from_def using d by blast
    then show ?thesis using Inr by (auto simp: prints_ok_def)
  qed (simp add: prints_nothing)
  then show ?thesis unfolding resolveCandidate_def by (simp add: prints_nothing split: with_flags_split read_split) blast
qed

lemma resolveRelease_prints: "prints_ok sha256 fs (resolveRelease sha256 fs args)"
proof -
  have "prints_ok sha256 fs
      (case ValidateReleasedEnvelope sha256 envelope candidate candidateRaw provenanceRaw systemTestRaw provenance evidence of
         Some _ \<Rightarrow> fatalf fs
       | None \<Rightarrow> (case ResolveProduction sha256 envelope envelopeRaw r of
                     Inl _ \<Rightarrow> fatalf fs | Inr resolution \<Rightarrow> writeJSON fs (json_Resolution resolution)))"
    if f: "fs p1 = Some candidateRaw" "fs p2 = Some provenanceRaw" "fs p3 = Some systemTestRaw"
      and d: "DecodeStrict (dec_struct Candidate_fields) zero_Candidate candidateRaw = Inr candidate"
        "DecodeStrict (dec_struct CandidateProvenance_fields) zero_CandidateProvenance provenanceRaw = Inr provenance"
        "DecodeStrict (dec_struct SystemTestEvidence_fields) zero_SystemTestEvidence systemTestRaw = Inr evidence"
    for p1 p2 p3 candidateRaw provenanceRaw systemTestRaw candidate provenance evidence envelope envelopeRaw r
  proof (cases "ValidateReleasedEnvelope sha256 envelope candidate candidateRaw provenanceRaw systemTestRaw provenance evidence")
    case None
    note v = accepted_envelope [OF None]
    show ?thesis
    proof (cases "ResolveProduction sha256 envelope envelopeRaw r")
      case (Inr res)
      then have "reso_Resolved res = renv_Resolved envelope" "reso_CandidateDigest res = dr_Digest (renv_Candidate envelope)"
        by (auto simp: ResolveProduction_def Let_def)
      then have "reso_Resolved res = Resolved candidate" "reso_CandidateDigest res = Digest sha256 candidateRaw" using v(4,5) by simp_all
      moreover have "{candidateRaw, provenanceRaw} \<subseteq> ran fs" "systemTestRaw \<in> ran fs" using f by (auto intro: ranI)
      ultimately have "resolved_from sha256 fs res" unfolding resolved_from_def using d v(12,13) by blast
      then show ?thesis using None Inr by (auto simp: prints_ok_def)
    qed (simp add: prints_nothing None)
  qed (simp add: prints_nothing)
  then show ?thesis unfolding resolveRelease_def by (simp add: prints_nothing split: with_flags_split read_split) blast
qed

lemma readers_print_nothing:
  "p_Stdout (validateComponentCandidate fs args) = []" "p_Stdout (validateReleasedComponent sha256 fs args) = []"
  "p_Stdout (validateInfrastructureSignal sha256 fs args) = []" "p_Stdout (verifyHistory git fs args) = []"
  by (simp_all add: validateComponentCandidate_def validateReleasedComponent_def validateInfrastructureSignal_def verifyHistory_def
      split: with_flags_split read_split sum.split option.split flags.split)

lemma promote_prints_nothing: "p_Stdout (promote sha256 fs args) = []"
  by (simp add: promote_def split: with_flags_split read_split sum.split)

text \<open>
  C28. The tool resolves only covered sets. Whatever it prints is a resolution, from a run that succeeded,
  of a candidate among the files whose provenance among the files covers it; a resolution for
  production is printed only when passing system-test evidence for that candidate was among the files.
\<close>

theorem resolutions_covered: 
  "let p = releasecontract_main sha256 git fs args
   in p_Stdout p = [] \<or>
      (\<exists>resolution. p_Exit p = 0 \<and> p_Stdout p = encoded (json_Resolution resolution) \<and> resolved_from sha256 fs resolution)"
proof -
  have "prints_ok sha256 fs (releasecontract_main sha256 git fs args)"
    unfolding releasecontract_main_def
    by (cases args) (simp_all only: list.case resolveCandidate_prints resolveRelease_prints readers_print_nothing promote_prints_nothing
        process_parts prints_nothing if_splits simp_thms split: if_split)
  then show ?thesis by (simp only: prints_ok_def Let_def)
qed

end
