(* ===== verification/Json_Fuel.thy ===== *)
theory Json_Fuel
  imports Json_Parse
begin

text \<open>
  The JSON reader has a bound on its recursion that the source does not have. Every scanner consumes
  input, so the bound of \<open>read_value\<close> is never reached: reading terminates with the result of any
  larger bound.
\<close>

section \<open>Scanners consume their input\<close>

lemma skip_space_le: "length (skip_space s) \<le> length s"
  by (simp add: skip_space_def length_dropWhile_le)

lemma skip_space_Cons: "skip_space s = c # r \<Longrightarrow> length r < length s"
  using skip_space_le [of s] by simp

lemma scan_string_less: "scan_string s = Some (k, r) \<Longrightarrow> length r < length s"
proof (induction s arbitrary: k r rule: scan_string.induct)
  case (2 c s)
  show ?case
  proof (cases "c = CHR 0x22 \<or> c \<noteq> CHR 0x5C")
    case True
    then show ?thesis using 2 by (fastforce split: if_splits)
  next
    case False
    then obtain e s1 where s: "s = e # s1" using "2.prems" by (auto split: list.splits)
    show ?thesis
    proof (cases "e \<in> {CHR ''b'', CHR ''f'', CHR ''n'', CHR ''r'', CHR ''t'', CHR 0x5C, CHR ''/'', CHR 0x22}")
      case True
      then obtain k' where "scan_string s1 = Some (k', r)" using "2.prems" False s by auto
      then show ?thesis using "2.IH"(1) [of e s1 k' r] False True s by auto
    next
      case other: False
      then obtain h1 h2 h3 h4 s2 k' where h: "e = CHR ''u''" "s1 = h1 # h2 # h3 # h4 # s2" "scan_string s2 = Some (k', r)"
        "is_hex h1 \<and> is_hex h2 \<and> is_hex h3 \<and> is_hex h4"
        using "2.prems" False s by (auto split: if_splits list.splits)
      then show ?thesis using "2.IH"(2) [OF _ _ s other h(1,2) refl refl refl h(4,3)] s False by auto
    qed
  qed
qed simp

lemma scan_digits_less: "scan_digits s = Some (k, r) \<Longrightarrow> length r < length s"
  by (cases s) (auto simp: scan_digits_def length_dropWhile_le less_Suc_eq_le split: if_splits)

lemma scan_fraction_le: "scan_fraction s = Some (k, r) \<Longrightarrow> length r \<le> length s"
  by (cases s) (auto simp: scan_fraction_def split: if_splits dest: scan_digits_less)

lemma scan_exponent_le: "scan_exponent s = Some (k, r) \<Longrightarrow> length r \<le> length s"
  by (auto simp: scan_exponent_def split: if_splits list.splits dest: scan_digits_less)

lemma scan_number_less:
  assumes "scan_number s = Some (k, r)"
  shows "length r < length s"
proof -
  obtain sign s1 where s1: "(case s of c # r \<Rightarrow> if c = CHR ''-'' then ([c], r) else ([], s) | [] \<Rightarrow> ([], s)) = (sign, s1)"
    by fastforce
  then have "length s1 \<le> length s" by (auto split: list.splits if_splits)
  moreover have "length r < length s1"
  proof (cases s1)
    case (Cons c q)
    obtain whole s2 where w: "(if c = CHR ''0'' then Some ([c], q) else scan_digits s1) = Some (whole, s2)"
      using assms s1 Cons by (auto simp: scan_number_def split: option.splits)
    obtain frac s3 where f: "scan_fraction s2 = Some (frac, s3)"
      using assms s1 Cons w by (auto simp: scan_number_def split: option.splits)
    obtain e where "scan_exponent s3 = Some (e, r)"
      using assms s1 Cons w f by (auto simp: scan_number_def split: option.splits)
    then have "length r \<le> length s2" using scan_fraction_le [OF f] scan_exponent_le by fastforce
    moreover have "length s2 < length s1" using w Cons scan_digits_less [of s1] by (auto split: if_splits)
    ultimately show ?thesis by simp
  qed (use assms s1 in \<open>simp add: scan_number_def\<close>)
  ultimately show ?thesis by simp
qed

section \<open>Values\<close>

definition value_less :: "nat \<Rightarrow> int \<Rightarrow> string \<Rightarrow> bool" where
  "value_less n d s \<longleftrightarrow> (\<forall>v r. parse_value n d s = Some (v, r) \<longrightarrow> length r < length s)"

definition items_less :: "nat \<Rightarrow> int \<Rightarrow> string \<Rightarrow> bool" where
  "items_less n d s \<longleftrightarrow> (\<forall>v r. parse_items n d s = Some (v, r) \<longrightarrow> length r < length s)"

definition members_less :: "nat \<Rightarrow> int \<Rightarrow> string \<Rightarrow> bool" where
  "members_less n d s \<longleftrightarrow> (\<forall>v r. parse_members n d s = Some (v, r) \<longrightarrow> length r < length s)"

lemma value_less_Suc:
  assumes "\<And>r. items_less n (d + 1) r" "\<And>r. members_less n (d + 1) r"
  shows "value_less (Suc n) d s"
  unfolding value_less_def
proof (intro allI impI)
  fix v r assume p: "parse_value (Suc n) d s = Some (v, r)"
  then obtain c q where c: "skip_space s = c # q" by (auto split: list.splits)
  have le: "length (c # q) \<le> length s" using skip_space_le [of s] c by simp
  have "length r < length (c # q)"
  proof (cases "c = CHR ''{'' \<or> c = CHR ''['' \<or> c = CHR 0x22")
    case True
    have open_less: "length r < length (c # q)" if "length r < length q \<or> (\<exists>e. skip_space q = e # r)"
      using that skip_space_Cons [of q] by auto
    show ?thesis
      using p c True assms [unfolded items_less_def members_less_def] scan_string_less [of q]
      by (intro open_less) (auto split: if_splits list.splits)
  next
    case False
    have "map_option snd (parse_value (Suc n) d s) =
        (if HasPrefix (c # q) ''null'' \<or> HasPrefix (c # q) ''true'' then Some (drop 4 (c # q))
         else if HasPrefix (c # q) ''false'' then Some (drop 5 (c # q)) else map_option snd (scan_number (c # q)))"
      using c False by (simp add: option.map_comp comp_def)
    then consider "r = drop 4 (c # q)" | "r = drop 5 (c # q)" | k where "scan_number (c # q) = Some (k, r)"
      unfolding p by (cases "scan_number (c # q)") (auto split: if_splits)
    then show ?thesis
    proof cases
      case 3
      then show ?thesis by (rule scan_number_less)
    qed simp_all
  qed
  then show "length r < length s" using le by simp
qed

lemma items_less_Suc:
  assumes "value_less n d s" "\<And>r. items_less n d r"
  shows "items_less (Suc n) d s"
  using assms skip_space_Cons unfolding items_less_def value_less_def
  by (fastforce split: option.splits list.splits if_splits)

lemma member_prefix:
  assumes p: "parse_members (Suc n) d s = Some (ms, r)"
  obtains q k r1 r2 where "skip_space s = CHR 0x22 # q" "scan_string q = Some (k, r1)" "skip_space r1 = CHR '':'' # r2"
proof -
  obtain q where q: "skip_space s = CHR 0x22 # q" using p by (auto split: list.splits if_splits)
  obtain k r1 where k: "scan_string q = Some (k, r1)" using p q by (auto split: option.splits)
  obtain r2 where "skip_space r1 = CHR '':'' # r2" using p q k by (auto split: list.splits if_splits)
  then show ?thesis using that q k by blast
qed

lemma members_less_Suc:
  assumes "\<And>r. value_less n d r" "\<And>r. members_less n d r"
  shows "members_less (Suc n) d s"
  unfolding members_less_def
proof (intro allI impI)
  fix ms r assume p: "parse_members (Suc n) d s = Some (ms, r)"
  obtain q k r1 r2 where q: "skip_space s = CHR 0x22 # q" and k: "scan_string q = Some (k, r1)" and r2: "skip_space r1 = CHR '':'' # r2"
    by (rule member_prefix [OF p])
  obtain v r3 where v: "parse_value n d r2 = Some (v, r3)" using p q k r2 by (auto split: option.splits)
  obtain e r4 where e: "skip_space r3 = e # r4" using p q k r2 v by (auto split: list.splits)
  have "length r \<le> length r4" using p q k r2 v e assms(2) [unfolded members_less_def] by (fastforce split: if_splits)
  then show "length r < length s"
    using skip_space_Cons [OF q] scan_string_less [OF k] skip_space_Cons [OF r2] skip_space_Cons [OF e] assms(1) [unfolded value_less_def] v
    by fastforce
qed

lemma parse_less: "value_less n d s \<and> items_less n d s \<and> members_less n d s"
proof (induction n arbitrary: d s)
  case 0
  show ?case by (simp add: value_less_def items_less_def members_less_def)
next
  case (Suc n)
  then show ?case using value_less_Suc items_less_Suc members_less_Suc by blast
qed

section \<open>The bound is enough\<close>

text \<open>One more unit of the bound changes nothing when the text is short for the bound.\<close>

definition enough :: "nat \<Rightarrow> bool" where
  "enough n \<longleftrightarrow>
     (\<forall>d s. (2 * length s + 1 \<le> n \<longrightarrow> parse_value (Suc n) d s = parse_value n d s) \<and>
            (2 * length s + 2 \<le> n \<longrightarrow> parse_items (Suc n) d s = parse_items n d s) \<and>
            (2 * length s + 1 \<le> n \<longrightarrow> parse_members (Suc n) d s = parse_members n d s))"

lemma enough_Suc:
  assumes "enough n"
  shows "enough (Suc n)"
proof -
  have v: "parse_value (Suc n) d s = parse_value n d s" if "2 * length s + 1 \<le> n" for d s using assms that unfolding enough_def by blast
  have i: "parse_items (Suc n) d s = parse_items n d s" if "2 * length s + 2 \<le> n" for d s using assms that unfolding enough_def by blast
  have m: "parse_members (Suc n) d s = parse_members n d s" if "2 * length s + 1 \<le> n" for d s using assms that unfolding enough_def by blast
  have less: "length r < length s" if "parse_value n d s = Some (x, r)" for d s x r
    using parse_less [of n d s] that by (simp add: value_less_def)
  have V: "parse_value (Suc (Suc n)) d s = parse_value (Suc n) d s" if "2 * length s + 1 \<le> Suc n" for d s
  proof (cases "skip_space s")
    case (Cons c q)
    have "length q < length s" by (rule skip_space_Cons [OF Cons])
    then have "parse_items (Suc n) (d + 1) q = parse_items n (d + 1) q" "parse_members (Suc n) (d + 1) q = parse_members n (d + 1) q"
      using that by (simp_all add: i m del: parse_items.simps parse_members.simps)
    then show ?thesis unfolding parse_value.simps(2) Cons by (simp only: list.case)
  qed simp
  have I: "parse_items (Suc (Suc n)) d s = parse_items (Suc n) d s" if "2 * length s + 2 \<le> Suc n" for d s
  proof (cases "parse_value n d s")
    case None
    then have "parse_value (Suc n) d s = None" using that by (simp add: v del: parse_value.simps)
    then show ?thesis unfolding parse_items.simps(2) None by simp
  next
    case (Some x)
    obtain y r where x: "x = (y, r)" by (cases x)
    have V2: "parse_value (Suc n) d s = Some (y, r)" using Some x that by (simp add: v del: parse_value.simps)
    have "parse_items (Suc n) d r1 = parse_items n d r1" if "skip_space r = c # r1" for c r1
      using less [OF Some [unfolded x]] skip_space_Cons [OF that] \<open>2 * length s + 2 \<le> Suc n\<close> by (intro i) simp
    then show ?thesis unfolding parse_items.simps(2) Some V2 x by (cases "skip_space r") simp_all
  qed
  have M: "parse_members (Suc (Suc n)) d s = parse_members (Suc n) d s" if "2 * length s + 1 \<le> Suc n" for d s
  proof (cases "\<exists>q k r1 r2. skip_space s = CHR 0x22 # q \<and> scan_string q = Some (k, r1) \<and> skip_space r1 = CHR '':'' # r2")
    case True
    then obtain q k r1 r2 where q: "skip_space s = CHR 0x22 # q" "scan_string q = Some (k, r1)" "skip_space r1 = CHR '':'' # r2" by blast
    have l: "length r2 + 2 < length s + 0" using skip_space_Cons [OF q(1)] scan_string_less [OF q(2)] skip_space_Cons [OF q(3)] by simp
    then have V2: "parse_value (Suc n) d r2 = parse_value n d r2" using that by (intro v) simp
    have "parse_members (Suc n) d r4 = parse_members n d r4" if "parse_value n d r2 = Some (x, r3)" "skip_space r3 = e # r4" for x r3 e r4
      using less [OF that(1)] skip_space_Cons [OF that(2)] l \<open>2 * length s + 1 \<le> Suc n\<close> by (intro m) simp
    then show ?thesis unfolding parse_members.simps(2) q list.case option.case prod.case V2
      by (auto simp del: parse_members.simps split: option.split list.split)
  next
    case False
    have "parse_members (Suc j) d s = None" for j
    proof (rule ccontr)
      assume "parse_members (Suc j) d s \<noteq> None"
      then obtain ms r where p: "parse_members (Suc j) d s = Some (ms, r)" by auto
      show False using member_prefix [OF p] False by metis
    qed
    then show ?thesis by (simp del: parse_members.simps)
  qed
  show ?thesis unfolding enough_def using V I M by blast
qed

lemma enough_all: "enough n"
proof (induction n)
  case 0
  show ?case by (simp add: enough_def)
qed (rule enough_Suc)

text \<open>
  Reading JSON terminates within its bound. \<open>read_value\<close> bounds its recursion by twice the length of the
  text; every larger bound gives the same result, so the bound never cuts a text short.
\<close>

lemma read_value_terminates: "parse_value (2 * length s + 2 + k) 0 s = read_value s"
proof (induction k)
  case (Suc k)
  have "parse_value (Suc (2 * length s + 2 + k)) 0 s = parse_value (2 * length s + 2 + k) 0 s"
    using enough_all [of "2 * length s + 2 + k"] by (simp add: enough_def del: parse_value.simps)
  then show ?case using Suc.IH by (simp del: parse_value.simps)
qed (simp add: read_value_def del: parse_value.simps)

text \<open>Strict decoding of one value with a bound of its own.\<close>

definition decode_bound :: "nat \<Rightarrow> 'a decoder \<Rightarrow> 'a \<Rightarrow> string \<Rightarrow> 'a option" where
  "decode_bound n dec zero s =
     (case parse_value n 0 s of
        None \<Rightarrow> None
      | Some (v, rest) \<Rightarrow> (case dec v zero of None \<Rightarrow> None | Some x \<Rightarrow> if skip_space rest = [] then Some x else None))"

lemma decode_bound_enough: "decode_bound (2 * length s + 2 + k) dec zero s = decode_only dec zero s"
  unfolding decode_bound_def decode_only_def read_value_terminates ..

end
