(* ===== verification/Spec2Isabelle.thy ===== *)
theory Spec2Isabelle
  imports Wireguard Public_Errors Publication Api_Calls Sample_Release Release_Cli Json_Fuel
begin

text \<open>
  A verification library for \<^verbatim>\<open>endless-net/client-api\<close>: the Go client of the endless-net control plane
  (\<open>src/clientapi\<close>) and the release contract with its command line tool (\<open>src/systemtests\<close>).

  \<^bold>\<open>The program.\<close> A control plane hands every node of an overlay network a signed map: the network, the
  node, its peers, its access rules, applications, services and resolvers. The client registers a node
  (\<open>registration.go\<close>, with a proof of identity from \<open>identityproof.go\<close> and an idempotency id from
  \<open>idempotency.go\<close>), receives a node credential (\<open>nodecredential.go\<close>) and a first map, and then follows
  a stream of events (\<open>mapstream.go\<close>) that replace or patch the cached map. A map is used only after it
  passed every check (\<open>networkmap_validate.go\<close>, \<open>acl_grants.go\<close>, \<open>sharing.go\<close>, \<open>application.go\<close>, and the
  validators of \<open>wireguard/\<close>) and its signature verified (\<open>mapsign.go\<close>) under a key of a trust bundle
  (\<open>signing_trust.go\<close>). Messages are strict bounded JSON (\<open>codec.go\<close>, \<open>lineio.go\<close>, \<open>errors.go\<close>) carried by
  calls with failover between origins (\<open>api.go\<close>). Apart from that, \<open>releasecontract\<close> decides which
  candidate may be promoted, resolved and deployed.

  \<^bold>\<open>How code is modelled.\<close> Structs are records, strings are byte strings, unsigned fields are words, a
  slice whose nil differs from empty is an option of a list, and a function that returns an error
  returns \<open>err\<close> or a sum with the error on the left, so every early return is a branch. Definitions
  keep the names of the source; a helper that has no name there maps to the lines it stands for.
  Libraries that are not under \<open>src/\<close> are arguments: SHA-256, Ed25519, Curve25519, the random source,
  the HTTP client, git, and the relay module, whose types stay abstract. What the source uses of the
  Go library is defined.

  \<^bold>\<open>Theories.\<close>
  \<^item> \<open>Prelude\<close>: errors, results, loops with early return and with a \<open>seen\<close> map, slices, times; the
    lemma collections the other theories use.
  \<^item> \<open>Go_Text\<close>, \<open>Encoding\<close>, \<open>Netip\<close>, \<open>Go_Net\<close>, \<open>Go_Url\<close>, \<open>Go_Time\<close>, \<open>Go_Duration\<close>: UTF-8 and \<open>strings\<close>,
    base64 and hex, \<open>netip\<close>, \<open>net\<close>, \<open>url\<close>, RFC 3339, durations. The encodings are interpretations of
    one locale of round trips.
  \<^item> \<open>Json\<close>, \<open>Json_Parse\<close>, \<open>Json_Roundtrip\<close>, \<open>Json_Fuel\<close>: what \<open>encoding/json\<close> writes and reads, that it reads back
    what it writes, and that the bound on the recursion of the reader is never reached.
  \<^item> \<open>Wireguard\<close>: \<open>wireguard/validate.go\<close> and \<open>keys.go\<close>; accepted keys are the canonical encodings.
  \<^item> \<open>Api_Types\<close>, \<open>Field_Checks\<close>, \<open>Public_Errors\<close>: \<open>types.go\<close>, shared field checks, \<open>errors.go\<close>.
  \<^item> \<open>Map_Fields\<close>, \<open>Sharing\<close>, \<open>Application\<close>, \<open>Map_Validate\<close>: the checks on a map. What an accepted map cannot
    contain: a foreign peer without a grant, a route or rule outside its scope, an unknown identity, a
    control byte in a rendered field (the zone of a resolver address apart).
  \<^item> \<open>Signing_Trust\<close>, \<open>Map_Sign\<close>: trust bundles and signatures; the signed payload is canonical.
  \<^item> \<open>Map_Stream\<close>, \<open>Stream_Trace\<close>, \<open>Publication\<close>: one event; any run of events, as a step relation with its
    invariant; a published map reaches the client. A delta refines an update of finite maps.
  \<^item> \<open>Node_Credential\<close>, \<open>Registration\<close>: issuing and validating credentials; requests, results and the
    binding between them.
  \<^item> \<open>Wire_Codec\<close>, \<open>Codec\<close>: the JSON of the calls and strict decoding; the locale \<open>wire_codec\<close> gives the round
    trip for every message it is interpreted for.
  \<^item> \<open>Line_IO\<close>, \<open>Control_Plane\<close>, \<open>Failover\<close>, \<open>Api_Calls\<close>: bounded lines, the calls of \<open>api.go\<close>, and what they
    guarantee: failover against its reference, the locale \<open>origin_call\<close> for what every call promises, and
    the API value over any sequence of calls.
  \<^item> \<open>Release_Types\<close>, \<open>Release_Contract\<close>, \<open>Release_Safety\<close>, \<open>Release_Cli\<close>: \<open>types.go\<close> and \<open>contract.go\<close> of
    \<open>releasecontract\<close>, what its checks guarantee, and the tool of \<open>main.go\<close> as a function on files.
  \<^item> \<open>Sample_Keys\<close>, \<open>Sample_Map\<close>, \<open>Sample_Registration\<close>, \<open>Sample_Release\<close>: concrete values for the witnesses.

  \<^bold>\<open>Bounds.\<close> The JSON reader recurses with the bound \<open>2 * length s + 2\<close>; \<open>decoding_terminates\<close> below shows
  that any larger bound decodes the same. All other loops are total functions: over lists, or with a
  measure on the input that is left (\<open>read_line_loop\<close>, \<open>read_events\<close>, \<open>runes_of\<close>, \<open>strip\<close>). The limits of the
  source (64 KiB requests, 4 MiB responses, 16 MiB stream lines, 10000 levels of nesting) are those of
  the source.

  \<^bold>\<open>Hypotheses.\<close> Theorems about signatures use that SHA-256 gives 32 bytes, that Ed25519 keys and signatures
  have their sizes and that a signature verifies; theorems about digests that stand for texts name the
  texts on which no collision occurs. Each is satisfied by the functions of \<open>Sample_Keys\<close>.

  \<^bold>\<open>Not modelled.\<close> Generated code (\<open>clientrpc/client.pb.go\<close>, \<open>client.connect.go\<close>) and the protocol buffer
  definition; the transport below a request, timeouts and cancellation; texts of formatted error
  messages beyond what the code inspects, and standard error of the tool; concurrent use of one API
  value, which the source excludes; failures to create a file other than that it exists, and to encode,
  write or close it; JSON schemas,
  fixtures, workflows, scripts and tests.
\<close>

section \<open>Decoding\<close>

text \<open>
  Strict decoding terminates within its bound, in the three places that decode: the control-plane
  responses, the events of the map stream and the records of the release contract. The result is that
  of a reader with any larger bound on its recursion, so no text is refused for its size alone.
\<close>

theorem decoding_terminates:
  "decodeStrictAPIResponse dec zero (raw, None) =
     (case decode_bound (2 * length raw + 2 + k) dec zero raw of
        None \<Rightarrow> Inl (Errorf ''invalid control-plane response'') | Some v \<Rightarrow> Inr v) \<and>
   decodeStrictMapStreamEvent rl raw =
     (case decode_bound (2 * length raw + 2 + k) (dec_struct (MapStreamEvent_fields rl)) zero_MapStreamEvent raw of
        None \<Rightarrow> Inl (Errorf ''invalid map stream event'') | Some v \<Rightarrow> Inr v) \<and>
   DecodeStrict dec zero raw =
     (case decode_bound (2 * length raw + 2 + k) dec zero raw of None \<Rightarrow> Inl (Errorf ''invalid document'') | Some v \<Rightarrow> Inr v)"
  unfolding decode_bound_enough
  by (simp add: decodeStrictAPIResponse_def decodeStrictMapStreamEvent_def DecodeStrict_def split: option.split)

end
